(* ===== verification/Prelude.thy ===== *)
theory Prelude
  imports Main "HOL-Library.Sublist"
begin

text \<open>
  What every other theory of the development shares.

  \<^item> Go strings.  A Go string is a byte sequence, so it is modelled by HOL's \<open>string\<close> (a list of
    8-bit characters) and \<open>len\<close> is \<open>length\<close>.  The functions of package \<open>strings\<close> that the source
    calls (\<open>TrimSpace\<close>, \<open>HasPrefix\<close>, \<open>HasSuffix\<close>, \<open>Contains\<close>, \<open>TrimPrefix\<close>, \<open>ToLower\<close>) are defined
    on bytes, Unicode white space included in its UTF-8 encoding.
  \<^item> Lists used as tables and as Go maps: update in place, first match, distinct keys.
  \<^item> The collections of rewrite rules that carry the component proofs.
\<close>

named_theorems frame_simps \<open>what an operation leaves unchanged\<close>
named_theorems store_simps \<open>the result of a store operation by cases\<close>

section \<open>Go strings\<close>

text \<open>The UTF-8 encodings of the code points for which \<open>unicode.IsSpace\<close> holds.\<close>

definition white_space :: "string list" where
  "white_space =
     [[CHR 0x20], [CHR 0x09], [CHR 0x0A], [CHR 0x0B], [CHR 0x0C], [CHR 0x0D],
      [CHR 0xC2, CHR 0x85], [CHR 0xC2, CHR 0xA0], [CHR 0xE1, CHR 0x9A, CHR 0x80],
      [CHR 0xE2, CHR 0x80, CHR 0x80], [CHR 0xE2, CHR 0x80, CHR 0x81],
      [CHR 0xE2, CHR 0x80, CHR 0x82], [CHR 0xE2, CHR 0x80, CHR 0x83],
      [CHR 0xE2, CHR 0x80, CHR 0x84], [CHR 0xE2, CHR 0x80, CHR 0x85],
      [CHR 0xE2, CHR 0x80, CHR 0x86], [CHR 0xE2, CHR 0x80, CHR 0x87],
      [CHR 0xE2, CHR 0x80, CHR 0x88], [CHR 0xE2, CHR 0x80, CHR 0x89],
      [CHR 0xE2, CHR 0x80, CHR 0x8A], [CHR 0xE2, CHR 0x80, CHR 0xA8],
      [CHR 0xE2, CHR 0x80, CHR 0xA9], [CHR 0xE2, CHR 0x80, CHR 0xAF],
      [CHR 0xE2, CHR 0x81, CHR 0x9F], [CHR 0xE3, CHR 0x80, CHR 0x80]]"

definition starts_with :: "string \<Rightarrow> string \<Rightarrow> bool" where
  "starts_with s p \<longleftrightarrow> take (length p) s = p"

text \<open>The first of the given non-empty words that \<open>s\<close> starts with.\<close>

fun leading_word :: "string list \<Rightarrow> string \<Rightarrow> string option" where
  "leading_word [] s = None"
| "leading_word (w # ws) s =
     (if w \<noteq> [] \<and> starts_with s w then Some w else leading_word ws s)"

lemma leading_word_Some:
  "leading_word ws s = Some w \<Longrightarrow> w \<in> set ws \<and> w \<noteq> [] \<and> starts_with s w"
  by (induction ws) (auto split: if_splits)

lemma leading_word_None:
  "leading_word ws s = None \<longleftrightarrow> (\<forall>w\<in>set ws. w \<noteq> [] \<longrightarrow> \<not> starts_with s w)"
  by (induction ws) auto

lemma starts_with_prefix: "starts_with s p \<longleftrightarrow> prefix p s"
  by (auto simp: starts_with_def prefix_def intro: append_take_drop_id [symmetric])
     (metis append_take_drop_id)

lemma starts_with_length: "starts_with s p \<Longrightarrow> length p \<le> length s"
  by (simp add: starts_with_prefix prefix_length_le)

function strip_words :: "string list \<Rightarrow> string \<Rightarrow> string" where
  "strip_words ws s =
     (case leading_word ws s of None \<Rightarrow> s | Some w \<Rightarrow> strip_words ws (drop (length w) s))"
  by pat_completeness auto
termination
proof (relation "measure (\<lambda>(ws, s). length s)")
  fix ws s w
  assume "leading_word ws s = Some w"
  then have "w \<noteq> []" and "starts_with s w"
    by (auto dest: leading_word_Some)
  then have "0 < length w" and "length w \<le> length s"
    by (auto dest: starts_with_length simp: length_greater_0_conv)
  then have "length (drop (length w) s) < length s"
    by (simp only: length_drop)
  then show "((ws, drop (length w) s), ws, s) \<in> measure (\<lambda>(ws, s). length s)"
    by simp
qed simp

declare strip_words.simps [simp del]

text \<open>\<open>strings.TrimSpace\<close>: white space removed at the left, then at the right.\<close>

definition trim_left :: "string \<Rightarrow> string" where
  "trim_left s = strip_words white_space s"

definition trim_right :: "string \<Rightarrow> string" where
  "trim_right s = rev (strip_words (map rev white_space) (rev s))"

definition trim_space :: "string \<Rightarrow> string" where
  "trim_space s = trim_right (trim_left s)"

definition has_prefix :: "string \<Rightarrow> string \<Rightarrow> bool" where
  "has_prefix s p = starts_with s p"

definition has_suffix :: "string \<Rightarrow> string \<Rightarrow> bool" where
  "has_suffix s p = starts_with (rev s) (rev p)"

fun contains :: "string \<Rightarrow> string \<Rightarrow> bool" where
  "contains [] p = (p = [])"
| "contains (c # s) p = (starts_with (c # s) p \<or> contains s p)"

definition trim_prefix :: "string \<Rightarrow> string \<Rightarrow> string" where
  "trim_prefix s p = (if has_prefix s p then drop (length p) s else s)"

lemma has_prefix_iff: "has_prefix s p \<longleftrightarrow> prefix p s"
  by (simp add: has_prefix_def starts_with_prefix)

lemma has_suffix_iff: "has_suffix s p \<longleftrightarrow> suffix p s"
  by (simp add: has_suffix_def starts_with_prefix suffix_to_prefix)

lemma contains_iff: "contains s p \<longleftrightarrow> sublist p s"
proof (induction s)
  case Nil
  then show ?case by simp
next
  case (Cons c s)
  then show ?case by (auto simp: starts_with_prefix sublist_Cons_right)
qed

text \<open>
  \<open>strings.ToLower\<close>, exact wherever the result is compared with an ASCII string, as every caller
  does: ASCII capitals, and the two other code points whose lower case is an ASCII letter (U+0130
  and the Kelvin sign U+212A).  The lower case of any other code point stays outside ASCII.
\<close>

definition lower_char :: "char \<Rightarrow> char" where
  "lower_char c =
     (let n = of_char c :: nat in if 65 \<le> n \<and> n \<le> 90 then char_of (n + 32) else c)"

fun to_lower :: "string \<Rightarrow> string" where
  "to_lower [] = []"
| "to_lower (a # s) =
     (case s of
        b # s' \<Rightarrow>
          if a = CHR 0xC4 \<and> b = CHR 0xB0 then CHR ''i'' # to_lower s'
          else (case s' of
                  c # s'' \<Rightarrow>
                    if a = CHR 0xE2 \<and> b = CHR 0x84 \<and> c = CHR 0xAA then CHR ''k'' # to_lower s''
                    else lower_char a # to_lower s
                | [] \<Rightarrow> lower_char a # to_lower s)
      | [] \<Rightarrow> [lower_char a])"

subsection \<open>Trimming is idempotent\<close>

lemma strip_words_fixed:
  "leading_word ws s = None \<Longrightarrow> strip_words ws s = s"
  by (simp add: strip_words.simps)

lemma leading_word_strip: "leading_word ws (strip_words ws s) = None"
proof (induction ws s rule: strip_words.induct)
  case (1 ws s)
  show ?case
  proof (cases "leading_word ws s")
    case None
    then show ?thesis by (simp add: strip_words_fixed)
  next
    case (Some w)
    with "1.IH" [OF Some] show ?thesis
      by (simp add: strip_words.simps [of ws s])
  qed
qed

lemma strip_words_suffix: "suffix (strip_words ws s) s"
proof (induction ws s rule: strip_words.induct)
  case (1 ws s)
  show ?case
  proof (cases "leading_word ws s")
    case None
    then show ?thesis by (simp add: strip_words_fixed)
  next
    case (Some w)
    with "1.IH" [OF Some] have "suffix (strip_words ws s) (drop (length w) s)"
      by (simp add: strip_words.simps [of ws s])
    then show ?thesis
      using suffix_drop suffix_order.trans by blast
  qed
qed

lemma leading_word_prefix:
  assumes "leading_word ws s = None" and "prefix t s"
  shows "leading_word ws t = None"
  using assms by (auto simp: leading_word_None starts_with_prefix dest: prefix_order.trans)

lemma trim_right_prefix: "prefix (trim_right s) s"
  using strip_words_suffix [of "map rev white_space" "rev s"]
  by (simp add: trim_right_def suffix_to_prefix)

lemma trim_left_trim_space: "trim_left (trim_space s) = trim_space s"
proof -
  have "leading_word white_space (trim_left s) = None"
    by (simp add: trim_left_def leading_word_strip)
  then have "leading_word white_space (trim_space s) = None"
    unfolding trim_space_def by (rule leading_word_prefix) (rule trim_right_prefix)
  then show ?thesis
    by (simp add: trim_left_def strip_words_fixed)
qed

lemma trim_right_idem: "trim_right (trim_right s) = trim_right s"
  by (simp add: trim_right_def strip_words_fixed leading_word_strip)

lemma trim_space_idem [simp]: "trim_space (trim_space s) = trim_space s"
proof -
  have "trim_space (trim_space s) = trim_right (trim_left (trim_space s))"
    by (simp add: trim_space_def)
  also have "\<dots> = trim_right (trim_space s)"
    by (simp add: trim_left_trim_space)
  also have "\<dots> = trim_space s"
    by (simp add: trim_space_def trim_right_idem)
  finally show ?thesis .
qed

lemma trim_space_length: "length (trim_space s) \<le> length s"
proof -
  have "length (trim_space s) \<le> length (trim_left s)"
    unfolding trim_space_def using trim_right_prefix by (rule prefix_length_le)
  also have "\<dots> \<le> length s"
    unfolding trim_left_def using strip_words_suffix by (rule suffix_length_le)
  finally show ?thesis .
qed

section \<open>Lists as tables\<close>

text \<open>
  A table is the list of its rows in insertion order.  \<open>update_where\<close> is SQL's \<open>UPDATE \<dots> WHERE\<close>,
  \<open>find\<close> the row a query on a unique key returns.
\<close>

definition update_where :: "('a \<Rightarrow> bool) \<Rightarrow> ('a \<Rightarrow> 'a) \<Rightarrow> 'a list \<Rightarrow> 'a list" where
  "update_where p f xs = map (\<lambda>x. if p x then f x else x) xs"

lemma length_update_where [simp]: "length (update_where p f xs) = length xs"
  by (simp add: update_where_def)

lemma set_update_where:
  "y \<in> set (update_where p f xs) \<longleftrightarrow> (\<exists>x\<in>set xs. y = (if p x then f x else x))"
  by (auto simp: update_where_def)

lemma update_where_none: "(\<forall>x\<in>set xs. \<not> p x) \<Longrightarrow> update_where p f xs = xs"
  by (induction xs) (auto simp: update_where_def)

lemma map_update_where:
  "(\<And>x. p x \<Longrightarrow> g (f x) = g x) \<Longrightarrow> map g (update_where p f xs) = map g xs"
  by (auto simp: update_where_def)

lemma filter_update_where:
  assumes "\<And>x. p x \<Longrightarrow> \<not> q x" and "\<And>x. p x \<Longrightarrow> \<not> q (f x)"
  shows "filter q (update_where p f xs) = filter q xs"
  using assms by (induction xs) (auto simp: update_where_def)

lemma find_Some_in: "find p xs = Some x \<Longrightarrow> x \<in> set xs \<and> p x"
  by (induction xs) (auto split: if_splits)

lemma find_None: "find p xs = None \<longleftrightarrow> (\<forall>x\<in>set xs. \<not> p x)"
  by (auto simp: find_None_iff)

lemma find_unique:
  assumes "x \<in> set xs" and "p x" and unique: "\<And>y. y \<in> set xs \<Longrightarrow> p y \<Longrightarrow> y = x"
  shows "find p xs = Some x"
proof (cases "find p xs")
  case None
  with assms(1,2) show ?thesis by (auto simp: find_None)
next
  case (Some y)
  then have "y \<in> set xs" and "p y" by (auto dest: find_Some_in)
  then have "y = x" by (rule unique)
  with Some show ?thesis by simp
qed

lemma distinct_map_inj:
  "distinct (map f xs) \<Longrightarrow> x \<in> set xs \<Longrightarrow> y \<in> set xs \<Longrightarrow> f x = f y \<Longrightarrow> x = y"
  by (auto simp: distinct_map inj_on_def)

text \<open>A Go map written as an association list: \<open>put\<close> overwrites in place or appends.\<close>

fun put :: "'k \<Rightarrow> 'v \<Rightarrow> ('k \<times> 'v) list \<Rightarrow> ('k \<times> 'v) list" where
  "put k v [] = [(k, v)]"
| "put k v ((k', v') # m) = (if k = k' then (k, v) # m else (k', v') # put k v m)"

lemma map_of_put [simp]: "map_of (put k v m) = (map_of m)(k \<mapsto> v)"
  by (induction k v m rule: put.induct) (auto simp: fun_eq_iff)

lemma set_keys_put: "fst ` set (put k v m) = insert k (fst ` set m)"
  by (induction k v m rule: put.induct) auto

lemma distinct_put: "distinct (map fst m) \<Longrightarrow> distinct (map fst (put k v m))"
proof (induction k v m rule: put.induct)
  case (1 k v)
  then show ?case by simp
next
  case (2 k v k' v' m)
  then show ?case by (auto simp: set_keys_put)
qed

section \<open>Failure\<close>

text \<open>The value of an \<open>error + 'a\<close> result, and whether there is one.\<close>

fun is_ok :: "'e + 'a \<Rightarrow> bool" where
  "is_ok (Inl e) = False"
| "is_ok (Inr x) = True"

lemma is_ok_iff: "is_ok r \<longleftrightarrow> (\<exists>x. r = Inr x)"
  by (cases r) auto

text \<open>The first error of a list of checks, in order.\<close>

fun all_ok :: "('e + unit) list \<Rightarrow> 'e + unit" where
  "all_ok [] = Inr ()"
| "all_ok (Inl e # rs) = Inl e"
| "all_ok (Inr u # rs) = all_ok rs"

lemma all_ok_iff: "is_ok (all_ok rs) \<longleftrightarrow> (\<forall>r\<in>set rs. is_ok r)"
  by (induction rs rule: all_ok.induct) auto

end
