(* ===== verification/Values.thy ===== *)
theory Values
  imports Prelude Complex_Main
begin

text \<open>
  The dynamically typed values of the evaluator (Go's \<open>any\<close>): what a flag's value, a condition's
  operand or a context attribute can be, and the three functions of \<open>pkg/engine/operators.go\<close> that
  look inside them: \<open>asFloat64\<close>, \<open>equalStrict\<close> and \<open>compareNumber\<close>.

  A \<open>float64\<close> is a rational, an infinity or NaN; the two zeros are one value, since no operation of
  the program tells them apart.  Converting a Go integer to \<open>float64\<close> rounds to 53 significant bits,
  to even on ties, and is written out: the precision lost there is observable in \<open>equalStrict\<close>.
\<close>

section \<open>Floating point numbers\<close>

datatype f64 = Fin rat | PInf | NInf | NaN

fun f64_eq :: "f64 \<Rightarrow> f64 \<Rightarrow> bool" where
  "f64_eq (Fin a) (Fin b) = (a = b)"
| "f64_eq PInf PInf = True"
| "f64_eq NInf NInf = True"
| "f64_eq _ _ = False"

fun f64_less :: "f64 \<Rightarrow> f64 \<Rightarrow> bool" where
  "f64_less (Fin a) (Fin b) = (a < b)"
| "f64_less NInf (Fin _) = True"
| "f64_less NInf PInf = True"
| "f64_less (Fin _) PInf = True"
| "f64_less _ _ = False"

definition f64_le :: "f64 \<Rightarrow> f64 \<Rightarrow> bool" where
  "f64_le a b \<longleftrightarrow> f64_less a b \<or> f64_eq a b"

text \<open>The number of binary digits, and rounding to a multiple of \<open>2 ^ k\<close>, ties to even.\<close>

fun num_bits :: "nat \<Rightarrow> nat" where
  "num_bits n = (if n = 0 then 0 else Suc (num_bits (n div 2)))"

declare num_bits.simps [simp del]

definition round_even :: "nat \<Rightarrow> nat \<Rightarrow> nat" where
  "round_even k n =
     (let q = n div 2 ^ k; r = n mod 2 ^ k in
      if 2 * r < 2 ^ k \<or> (2 * r = 2 ^ k \<and> even q) then q * 2 ^ k else Suc q * 2 ^ k)"

definition round53 :: "nat \<Rightarrow> nat" where
  "round53 n = (if num_bits n \<le> 53 then n else round_even (num_bits n - 53) n)"

definition f64_of_int :: "int \<Rightarrow> f64" where
  "f64_of_int i =
     Fin (rat_of_int (if 0 \<le> i then int (round53 (nat i)) else - int (round53 (nat (- i)))))"

lemma num_bits_le: "n < 2 ^ k \<Longrightarrow> num_bits n \<le> k"
proof (induction n arbitrary: k rule: num_bits.induct)
  case (1 n)
  show ?case
  proof (cases "n = 0")
    case True
    then show ?thesis by (simp add: num_bits.simps)
  next
    case False
    with "1.prems" obtain j where k: "k = Suc j"
      by (cases k) auto
    with "1.prems" have "n div 2 < 2 ^ j"
      by (simp add: less_mult_imp_div_less mult.commute)
    with "1.IH" False have "num_bits (n div 2) \<le> j" by blast
    with False k show ?thesis by (simp add: num_bits.simps [of n])
  qed
qed

lemma num_bits_two_power: "num_bits (2 ^ k) = Suc k"
proof (induction k)
  case 0
  then show ?case by (simp add: num_bits.simps)
next
  case (Suc k)
  then show ?case by (subst num_bits.simps) simp
qed

text \<open>Integers of at most 53 bits convert exactly.\<close>

lemma round53_exact: "n \<le> 2 ^ 53 \<Longrightarrow> round53 n = n"
proof -
  assume "n \<le> 2 ^ 53"
  then consider "n < 2 ^ 53" | "n = 2 ^ 53" by fastforce
  then show ?thesis
  proof cases
    case 1
    then have "num_bits n \<le> 53" by (rule num_bits_le)
    then show ?thesis by (simp add: round53_def)
  next
    case 2
    have "num_bits n = 54" unfolding 2 by (simp only: num_bits_two_power)
    then have "round53 n = round_even 1 n" by (simp add: round53_def)
    then show ?thesis by (simp add: 2 round_even_def)
  qed
qed

lemma f64_of_int_exact: "\<bar>i\<bar> \<le> 2 ^ 53 \<Longrightarrow> f64_of_int i = Fin (rat_of_int i)"
  by (auto simp: f64_of_int_def round53_exact nat_le_iff)

section \<open>Values\<close>

text \<open>Go's integer types, the ones \<open>asFloat64\<close> and \<open>equalStrict\<close> list.\<close>

datatype int_kind =
  KInt | KInt8 | KInt16 | KInt32 | KInt64 | KUint | KUint8 | KUint16 | KUint32 | KUint64

text \<open>
  \<open>GOther\<close> is any other dynamic type (a struct, a typed slice, \<dots>) a caller of the SDK can put into
  a context; the evaluator's type switches send it to their default branch.
\<close>

datatype gval =
    GNil
  | GBool bool
  | GStr string
  | GF64 f64
  | GF32 f64
  | GInt int_kind int
  | GArr "gval list"
  | GObj "(string \<times> gval) list"
  | GOther nat

fun asFloat64 :: "gval \<Rightarrow> f64 option" where
  "asFloat64 (GF64 n) = Some n"
| "asFloat64 (GF32 n) = Some n"
| "asFloat64 (GInt _ n) = Some (f64_of_int n)"
| "asFloat64 _ = None"

fun equalStrict :: "gval \<Rightarrow> gval \<Rightarrow> bool" where
  "equalStrict (GStr l) right = (case right of GStr r \<Rightarrow> l = r | _ \<Rightarrow> False)"
| "equalStrict (GBool l) right = (case right of GBool r \<Rightarrow> l = r | _ \<Rightarrow> False)"
| "equalStrict (GF64 l) right =
     (case asFloat64 right of Some r \<Rightarrow> f64_eq l r | None \<Rightarrow> False)"
| "equalStrict (GF32 l) right =
     (case asFloat64 right of Some r \<Rightarrow> f64_eq l r | None \<Rightarrow> False)"
| "equalStrict (GInt _ l) right =
     (case asFloat64 right of Some r \<Rightarrow> f64_eq (f64_of_int l) r | None \<Rightarrow> False)"
| "equalStrict _ right = False"

definition compareNumber :: "gval \<Rightarrow> gval \<Rightarrow> bool \<Rightarrow> (f64 \<Rightarrow> f64 \<Rightarrow> bool) \<Rightarrow> bool" where
  "compareNumber val ruleVal present cmp =
     (if \<not> present then False
      else (case (asFloat64 val, asFloat64 ruleVal) of
              (Some left, Some right) \<Rightarrow> cmp left right
            | _ \<Rightarrow> False))"

lemma f64_eq_sym: "f64_eq a b = f64_eq b a"
  by (cases "(a, b)" rule: f64_eq.cases) auto

lemma f64_eq_trans: "f64_eq a b \<Longrightarrow> f64_eq b c \<Longrightarrow> f64_eq a c"
  by (cases a; cases b; cases c) auto

lemma f64_less_not_eq: "f64_less a b \<Longrightarrow> \<not> f64_eq a b \<and> \<not> f64_less b a"
  by (cases a; cases b) auto

text \<open>
  A value is numeric iff \<open>asFloat64\<close> converts it, and on numeric values \<open>equalStrict\<close> is the
  comparison of the conversions, whatever the two Go types are.
\<close>

lemma equalStrict_numeric:
  "asFloat64 a = Some x \<Longrightarrow>
   equalStrict a b = (case asFloat64 b of Some y \<Rightarrow> f64_eq x y | None \<Rightarrow> False)"
  by (cases a) auto

lemma equalStrict_nonnumeric:
  "asFloat64 a = None \<Longrightarrow>
   equalStrict a b \<longleftrightarrow> (\<exists>s. a = GStr s \<and> b = GStr s) \<or> (\<exists>t. a = GBool t \<and> b = GBool t)"
  by (cases a) (auto split: gval.splits)

lemma equalStrict_asFloat64:
  "equalStrict a b \<Longrightarrow> (asFloat64 a = None) = (asFloat64 b = None)"
  by (cases "asFloat64 a")
     (auto simp: equalStrict_numeric equalStrict_nonnumeric split: option.splits)

text \<open>Equality of values (the \<open>eq\<close>, \<open>neq\<close>, \<open>in\<close> and \<open>not_in\<close> operators) does not depend on which
  side the context attribute stands.\<close>

theorem equalStrict_symmetric: "equalStrict a b = equalStrict b a"
proof (cases "asFloat64 a")
  case None
  show ?thesis
  proof (cases "asFloat64 b")
    case None
    with \<open>asFloat64 a = None\<close> show ?thesis by (auto simp: equalStrict_nonnumeric)
  next
    case (Some y)
    with None show ?thesis by (cases b) (auto simp: equalStrict_nonnumeric)
  qed
next
  case (Some x)
  show ?thesis
  proof (cases "asFloat64 b")
    case None
    with Some show ?thesis by (cases a) (auto simp: equalStrict_numeric equalStrict_nonnumeric)
  next
    case (Some y)
    with \<open>asFloat64 a = Some x\<close> show ?thesis by (simp add: equalStrict_numeric f64_eq_sym)
  qed
qed

end
