(* ===== verification/Engine.thy ===== *)
theory Engine
  imports Values "HOL-Library.Word"
begin

text \<open>
  The rule engine, \<open>pkg/engine\<close>: its data (\<open>types.go\<close>), condition trees (\<open>conditions.go\<close>), leaf
  operators (\<open>operators.go\<close>), segments (\<open>segments.go\<close>), the rollout hash (\<open>rollout.go\<close>) and the
  evaluation of a flag (\<open>engine.go\<close>).

  \<^item> \<open>map[string]any\<close> and \<open>map[string]Segment\<close> are association lists, read with \<open>map_of\<close>.
  \<^item> Go's \<open>regexp.MatchString\<close> is a parameter \<open>rx pattern text\<close>: \<open>None\<close> for a pattern it rejects.
  \<^item> \<open>OnError\<close> and \<open>OnWarn\<close> are the notices an evaluation emits, in order, together with a
    parameter \<open>hook\<close> that says of each notice whether its callback returns (\<open>True\<close>, also when the
    callback is nil) or panics.  An evaluation is therefore a pair: \<open>Some b\<close>, or \<open>None\<close> for a
    panic, and the notices emitted.
  \<^item> The \<open>visited\<close> set is a list of the segment keys on the current path.
\<close>

unbundle bit_operations_syntax

section \<open>Data\<close>

datatype error_kind = ErrorKindPanic | ErrorKindInvalidRegex

datatype warning_kind = WarnKindUnknownOp | WarnKindMaxConditionDepth

datatype notice = OnError error_kind | OnWarn warning_kind

datatype reason =
    RuleMatch | Default | Disabled | FlagNotFound | FlagArchived | InternalErr

fun reason_string :: "reason \<Rightarrow> string" where
  "reason_string RuleMatch = ''RULE_MATCH''"
| "reason_string Default = ''DEFAULT''"
| "reason_string Disabled = ''DISABLED''"
| "reason_string FlagNotFound = ''FLAG_NOT_FOUND''"
| "reason_string FlagArchived = ''FLAG_ARCHIVED''"
| "reason_string InternalErr = ''INTERNAL_ERROR''"

record evaluate_result =
  er_value :: gval
  er_reason :: reason
  er_rule_index :: int

datatype condition_node =
  Node (n_attribute: "string option") (n_op: "string option") (n_value: gval)
    (n_all: "condition_node list") (n_any: "condition_node list")
    (n_not: "condition_node option")

record rollout_config =
  percentage :: int
  seed :: string

record rule =
  r_conditions :: condition_node
  r_rollout :: "rollout_config option"
  r_value :: gval

record segment =
  sg_key :: string
  sg_conditions :: condition_node

record flag_config =
  fc_key :: string
  fc_enabled :: bool
  fc_type :: string
  fc_default :: gval
  fc_env_default :: gval
  fc_has_env_default :: bool
  fc_version :: int
  fc_rules :: "rule list"

type_synonym ctx = "(string \<times> gval) list"
type_synonym segments = "(string \<times> segment) list"
type_synonym regex = "string \<Rightarrow> string \<Rightarrow> bool option"
type_synonym hook = "notice \<Rightarrow> bool"
type_synonym evaluation = "bool option \<times> notice list"

record evaluate_request =
  rq_flag :: flag_config
  rq_segments :: segments
  rq_context :: ctx

text \<open>A leaf and the three groups, as the tests of the package build them.\<close>

definition leaf :: "string \<Rightarrow> string \<Rightarrow> gval \<Rightarrow> condition_node" where
  "leaf a p v = Node (Some a) (Some p) v [] [] None"

definition all_of :: "condition_node list \<Rightarrow> condition_node" where
  "all_of ns = Node None None GNil ns [] None"

definition any_of :: "condition_node list \<Rightarrow> condition_node" where
  "any_of ns = Node None None GNil [] ns None"

definition not_of :: "condition_node \<Rightarrow> condition_node" where
  "not_of n = Node None None GNil [] [] (Some n)"

section \<open>Rollout\<close>

text \<open>32-bit FNV-1a, as \<open>hash/fnv\<close> computes it, over the bytes of \<open>seed + ":" + userID\<close>.\<close>

definition fnv_step :: "32 word \<Rightarrow> char \<Rightarrow> 32 word" where
  "fnv_step h c = (h XOR of_nat (of_char c)) * 16777619"

definition fnv32a :: "string \<Rightarrow> 32 word" where
  "fnv32a s = foldl fnv_step 2166136261 s"

definition bucket :: "string \<Rightarrow> string \<Rightarrow> nat" where
  "bucket sd userID = unat (fnv32a (sd @ '':'' @ userID) mod 100)"

definition inRollout :: "string \<Rightarrow> string \<Rightarrow> int \<Rightarrow> bool" where
  "inRollout sd userID pct =
     (if pct \<le> 0 then False
      else if 100 \<le> pct then True
      else int (bucket sd userID) < pct)"

section \<open>Condition trees, leaves and segments\<close>

definition maxConditionDepth :: nat where
  "maxConditionDepth = 10"

text \<open>A callback is run: the notice is emitted, and the evaluation goes on with \<open>b\<close> unless it panics.\<close>

definition emit :: "hook \<Rightarrow> notice \<Rightarrow> bool \<Rightarrow> evaluation" where
  "emit hook n b = (if hook n then Some b else None, [n])"

text \<open>
  The operators of \<open>evaluateLeaf\<close> that look at the context only; \<open>present\<close> is Go's second result
  of the map lookup.  \<open>segment\<close> is resolved by \<open>evaluateLeaf\<close> itself.
\<close>

definition text_operands :: "gval \<Rightarrow> gval \<Rightarrow> bool \<Rightarrow> (string \<Rightarrow> string \<Rightarrow> bool) \<Rightarrow> bool" where
  "text_operands val ruleVal present f =
     (if \<not> present then False
      else (case (val, ruleVal) of (GStr l, GStr r) \<Rightarrow> f l r | _ \<Rightarrow> False))"

fun matches_op :: "regex \<Rightarrow> hook \<Rightarrow> gval \<Rightarrow> gval \<Rightarrow> bool \<Rightarrow> evaluation" where
  "matches_op rx hook (GStr l) (GStr pat) True =
     (case rx pat l of
        None \<Rightarrow> emit hook (OnError ErrorKindInvalidRegex) False
      | Some m \<Rightarrow> (Some m, []))"
| "matches_op rx hook _ _ _ = (Some False, [])"

definition plain_op :: "regex \<Rightarrow> hook \<Rightarrow> string \<Rightarrow> gval \<Rightarrow> bool \<Rightarrow> gval \<Rightarrow> evaluation" where
  "plain_op rx hook opr val present ruleVal =
     (if opr = ''exists'' then (Some present, [])
      else if opr = ''not_exists'' then (Some (\<not> present), [])
      else if opr = ''eq'' then (Some (present \<and> equalStrict val ruleVal), [])
      else if opr = ''neq'' then (Some (present \<and> \<not> equalStrict val ruleVal), [])
      else if opr = ''gt'' then (Some (compareNumber val ruleVal present (\<lambda>l r. f64_less r l)), [])
      else if opr = ''gte'' then (Some (compareNumber val ruleVal present (\<lambda>l r. f64_le r l)), [])
      else if opr = ''lt'' then (Some (compareNumber val ruleVal present f64_less), [])
      else if opr = ''lte'' then (Some (compareNumber val ruleVal present f64_le), [])
      else if opr = ''in'' then
        (Some (present \<and> (case ruleVal of
                 GArr items \<Rightarrow> list_ex (equalStrict val) items | _ \<Rightarrow> False)), [])
      else if opr = ''not_in'' then
        (Some (present \<and> (case ruleVal of
                 GArr items \<Rightarrow> \<not> list_ex (equalStrict val) items | _ \<Rightarrow> False)), [])
      else if opr = ''contains'' then (Some (text_operands val ruleVal present contains), [])
      else if opr = ''starts_with'' then (Some (text_operands val ruleVal present has_prefix), [])
      else if opr = ''ends_with'' then (Some (text_operands val ruleVal present has_suffix), [])
      else if opr = ''matches'' then matches_op rx hook val ruleVal present
      else emit hook (OnWarn WarnKindUnknownOp) False)"

definition leaf_attr :: "condition_node \<Rightarrow> string" where
  "leaf_attr node = (case n_attribute node of None \<Rightarrow> '''' | Some a \<Rightarrow> trim_space a)"

text \<open>
  The segments of \<open>segs\<close> not yet on the path: what shrinks when a segment is entered, and with
  the size of the node the reason the mutual recursion below ends.
\<close>

definition unvisited :: "segments \<Rightarrow> string list \<Rightarrow> nat" where
  "unvisited segs visited = card (set (map fst segs) - set visited)"

lemma unvisited_decreases:
  assumes "k \<notin> set visited" and "map_of segs k = Some s"
  shows "unvisited segs (k # visited) < unvisited segs visited"
proof -
  from assms(2) have "k \<in> set (map fst segs)"
    by (force dest: map_of_SomeD)
  with assms(1) have "set (map fst segs) - set (k # visited) \<subset> set (map fst segs) - set visited"
    by auto
  then show ?thesis
    unfolding unvisited_def by (intro psubset_card_mono) auto
qed

lemma size_n_all: "size_list size (n_all n) < size n"
  by (cases n) (auto split: option.splits)

lemma size_n_any: "size_list size (n_any n) < size n"
  by (cases n) (auto split: option.splits)

lemma size_n_not: "n_not n = Some m \<Longrightarrow> size m < size n"
  by (cases n) auto

lemma size_node_pos: "0 < size (n :: condition_node)"
  by (cases n) simp

function (sequential)
  evaluateNodeDepth ::
    "regex \<Rightarrow> hook \<Rightarrow> ctx \<Rightarrow> segments \<Rightarrow> string list \<Rightarrow> nat \<Rightarrow> condition_node \<Rightarrow> evaluation" and
  evaluateAllOf ::
    "regex \<Rightarrow> hook \<Rightarrow> ctx \<Rightarrow> segments \<Rightarrow> string list \<Rightarrow> nat \<Rightarrow> condition_node list \<Rightarrow> evaluation" and
  evaluateAnyOf ::
    "regex \<Rightarrow> hook \<Rightarrow> ctx \<Rightarrow> segments \<Rightarrow> string list \<Rightarrow> nat \<Rightarrow> condition_node list \<Rightarrow> evaluation" and
  evaluateLeaf ::
    "regex \<Rightarrow> hook \<Rightarrow> ctx \<Rightarrow> segments \<Rightarrow> string list \<Rightarrow> condition_node \<Rightarrow> evaluation" and
  resolveSegment ::
    "regex \<Rightarrow> hook \<Rightarrow> ctx \<Rightarrow> segments \<Rightarrow> string list \<Rightarrow> string \<Rightarrow> evaluation"
where
  "evaluateNodeDepth rx hook ctx segs visited depth node =
     (if maxConditionDepth < depth then emit hook (OnWarn WarnKindMaxConditionDepth) False
      else if n_all node \<noteq> [] then evaluateAllOf rx hook ctx segs visited (Suc depth) (n_all node)
      else if n_any node \<noteq> [] then evaluateAnyOf rx hook ctx segs visited (Suc depth) (n_any node)
      else (case n_not node of
              Some child \<Rightarrow>
                (case evaluateNodeDepth rx hook ctx segs visited (Suc depth) child of
                   (r, ns) \<Rightarrow> (map_option Not r, ns))
            | None \<Rightarrow> evaluateLeaf rx hook ctx segs visited node))"
| "evaluateAllOf rx hook ctx segs visited depth [] = (Some True, [])"
| "evaluateAllOf rx hook ctx segs visited depth (child # children) =
     (case evaluateNodeDepth rx hook ctx segs visited depth child of
        (Some True, ns) \<Rightarrow>
          (case evaluateAllOf rx hook ctx segs visited depth children of (r, ns') \<Rightarrow> (r, ns @ ns'))
      | (r, ns) \<Rightarrow> (r, ns))"
| "evaluateAnyOf rx hook ctx segs visited depth [] = (Some False, [])"
| "evaluateAnyOf rx hook ctx segs visited depth (child # children) =
     (case evaluateNodeDepth rx hook ctx segs visited depth child of
        (Some False, ns) \<Rightarrow>
          (case evaluateAnyOf rx hook ctx segs visited depth children of (r, ns') \<Rightarrow> (r, ns @ ns'))
      | (r, ns) \<Rightarrow> (r, ns))"
| "evaluateLeaf rx hook ctx segs visited node =
     (case n_op node of
        None \<Rightarrow> (Some False, [])
      | Some p \<Rightarrow>
          (if trim_space p = ''segment'' then
             (case n_value node of
                GStr segmentKey \<Rightarrow> resolveSegment rx hook ctx segs visited segmentKey
              | _ \<Rightarrow> (Some False, []))
           else
             (case map_of ctx (leaf_attr node) of
                None \<Rightarrow> plain_op rx hook (trim_space p) GNil False (n_value node)
              | Some val \<Rightarrow> plain_op rx hook (trim_space p) val True (n_value node))))"
| "resolveSegment rx hook ctx segs visited segmentKey =
     (if segmentKey \<in> set visited then (Some False, [])
      else (case map_of segs segmentKey of
              None \<Rightarrow> (Some False, [])
            | Some sg \<Rightarrow>
                evaluateNodeDepth rx hook ctx segs (segmentKey # visited) 0 (sg_conditions sg)))"
  by pat_completeness auto

termination
proof (relation
    "measures
       [\<lambda>x. case x of
              Inl (Inl (rx, hook, ctx, segs, visited, depth, node)) \<Rightarrow> unvisited segs visited
            | Inl (Inr (rx, hook, ctx, segs, visited, depth, nodes)) \<Rightarrow> unvisited segs visited
            | Inr (Inl (rx, hook, ctx, segs, visited, depth, nodes)) \<Rightarrow> unvisited segs visited
            | Inr (Inr (Inl (rx, hook, ctx, segs, visited, node))) \<Rightarrow> unvisited segs visited
            | Inr (Inr (Inr (rx, hook, ctx, segs, visited, key))) \<Rightarrow> unvisited segs visited,
        \<lambda>x. case x of
              Inl (Inl (rx, hook, ctx, segs, visited, depth, node)) \<Rightarrow> Suc (2 * size node)
            | Inl (Inr (rx, hook, ctx, segs, visited, depth, nodes)) \<Rightarrow> Suc (2 * size_list size nodes)
            | Inr (Inl (rx, hook, ctx, segs, visited, depth, nodes)) \<Rightarrow> Suc (2 * size_list size nodes)
            | Inr (Inr (Inl (rx, hook, ctx, segs, visited, node))) \<Rightarrow> 2 * size node
            | Inr (Inr (Inr (rx, hook, ctx, segs, visited, key))) \<Rightarrow> 0]")
qed (auto simp: unvisited_decreases size_n_all size_n_any size_n_not size_node_pos)

declare evaluateNodeDepth.simps [simp del] evaluateLeaf.simps [simp del]
  resolveSegment.simps [simp del]

definition evaluateNode ::
  "regex \<Rightarrow> hook \<Rightarrow> ctx \<Rightarrow> segments \<Rightarrow> string list \<Rightarrow> condition_node \<Rightarrow> evaluation" where
  "evaluateNode rx hook ctx segs visited node = evaluateNodeDepth rx hook ctx segs visited 0 node"

section \<open>Flags\<close>

definition ruleValueOrDefault :: "rule \<Rightarrow> gval" where
  "ruleValueOrDefault r = (if r_value r = GNil then GBool True else r_value r)"

definition rollout_seed :: "flag_config \<Rightarrow> rollout_config \<Rightarrow> string" where
  "rollout_seed fc ro = (if seed ro = '''' then fc_key fc else seed ro)"

text \<open>
  What remains of an iteration once the conditions hold: \<open>True\<close> when the rule is served, \<open>False\<close>
  for the two \<open>continue\<close>s of a rule with a rollout.
\<close>

definition rollout_admits :: "flag_config \<Rightarrow> string \<Rightarrow> rule \<Rightarrow> bool" where
  "rollout_admits fc userID r =
     (case r_rollout r of
        None \<Rightarrow> True
      | Some ro \<Rightarrow>
          (if userID = '''' then False
           else inRollout (rollout_seed fc ro) userID (percentage ro)))"

definition context_user :: "ctx \<Rightarrow> string" where
  "context_user ctx = (case map_of ctx ''user_id'' of Some (GStr u) \<Rightarrow> u | _ \<Rightarrow> '''')"

definition default_result :: "flag_config \<Rightarrow> evaluate_result" where
  "default_result fc =
     (if fc_has_env_default fc
      then \<lparr>er_value = fc_env_default fc, er_reason = Default, er_rule_index = -1\<rparr>
      else \<lparr>er_value = fc_default fc, er_reason = Default, er_rule_index = -1\<rparr>)"

text \<open>The loop over the rules from index \<open>i\<close> on; \<open>None\<close> is a panic on the way.\<close>

fun rule_loop ::
  "regex \<Rightarrow> hook \<Rightarrow> ctx \<Rightarrow> segments \<Rightarrow> flag_config \<Rightarrow> nat \<Rightarrow> rule list
   \<Rightarrow> evaluate_result option \<times> notice list"
where
  "rule_loop rx hook ctx segs fc i [] = (Some (default_result fc), [])"
| "rule_loop rx hook ctx segs fc i (r # rs) =
     (case evaluateNode rx hook ctx segs [] (r_conditions r) of
        (None, ns) \<Rightarrow> (None, ns)
      | (Some b, ns) \<Rightarrow>
          (if b \<and> rollout_admits fc (context_user ctx) r
           then (Some \<lparr>er_value = ruleValueOrDefault r, er_reason = RuleMatch,
                       er_rule_index = int i\<rparr>, ns)
           else (case rule_loop rx hook ctx segs fc (Suc i) rs of (res, ns') \<Rightarrow> (res, ns @ ns'))))"

definition disabled_result :: evaluate_result where
  "disabled_result = \<lparr>er_value = GBool False, er_reason = Disabled, er_rule_index = -1\<rparr>"

definition internal_error_result :: evaluate_result where
  "internal_error_result =
     \<lparr>er_value = GBool False, er_reason = InternalErr, er_rule_index = -1\<rparr>"

text \<open>
  \<open>Evaluate\<close> with its deferred \<open>recover\<close>: a panic of the loop is reported through \<open>OnError\<close> and
  becomes the \<open>INTERNAL_ERROR\<close> result.  Only a panic of that last callback leaves the function
  (\<open>None\<close>).
\<close>

definition Evaluate ::
  "regex \<Rightarrow> hook \<Rightarrow> evaluate_request \<Rightarrow> evaluate_result option \<times> notice list" where
  "Evaluate rx hook req =
     (let fc = rq_flag req in
      if \<not> fc_enabled fc then (Some disabled_result, [])
      else (case rule_loop rx hook (rq_context req) (rq_segments req) fc 0 (fc_rules fc) of
              (Some res, ns) \<Rightarrow> (Some res, ns)
            | (None, ns) \<Rightarrow>
                (if hook (OnError ErrorKindPanic) then Some internal_error_result else None,
                 ns @ [OnError ErrorKindPanic])))"

text \<open>\<open>EvaluateAll\<close>: the results in the order of the flags, a later flag of the same key winning.\<close>

fun evaluate_flags ::
  "regex \<Rightarrow> hook \<Rightarrow> segments \<Rightarrow> ctx \<Rightarrow> flag_config list \<Rightarrow> (string \<times> evaluate_result) list
   \<Rightarrow> (string \<times> evaluate_result) list option"
where
  "evaluate_flags rx hook segs ctx [] results = Some results"
| "evaluate_flags rx hook segs ctx (fc # fcs) results =
     (case Evaluate rx hook \<lparr>rq_flag = fc, rq_segments = segs, rq_context = ctx\<rparr> of
        (None, _) \<Rightarrow> None
      | (Some res, _) \<Rightarrow> evaluate_flags rx hook segs ctx fcs (put (fc_key fc) res results))"

definition EvaluateAll ::
  "regex \<Rightarrow> hook \<Rightarrow> flag_config list \<Rightarrow> segments \<Rightarrow> ctx \<Rightarrow> (string \<times> evaluate_result) list option"
where
  "EvaluateAll rx hook flags segs ctx = evaluate_flags rx hook segs ctx flags []"

end
