(* ===== verification/Json.thy ===== *)
theory Json
  imports Engine
begin

text \<open>
  JSON documents and the way \<open>encoding/json\<close> reads them into the program's data.

  A document is what the parser of \<open>encoding/json\<close> accepts; the text itself is not modelled, only
  its length where the program looks at it.  \<open>JInt\<close> is a number written as an integer, \<open>JDec\<close> one
  with a fraction or an exponent: Go reads both into a \<open>float64\<close>, but only the first into an \<open>int\<close>.  Go refuses a
  number beyond the range of \<open>float64\<close>; a \<open>JInt\<close> has no bound here, so documents with
  integers of more than 308 digits are outside the model.

  \<^item> \<open>to_any\<close>: decoding into \<open>any\<close>.
  \<^item> \<open>field_is\<close>: the name of a struct field is matched exactly or, failing that, up to case; as no
    two fields of a struct of the program have names equal up to case, this is one comparison of
    the folded names.
  \<^item> \<open>decode_node\<close>, \<open>decode_rule\<close>, \<open>decode_rules\<close>: decoding into \<open>engine.ConditionNode\<close>, \<open>engine.Rule\<close>
    and \<open>[]engine.Rule\<close>; \<open>None\<close> is an \<open>UnmarshalTypeError\<close>.  Members are taken in order, unknown
    members are ignored, and \<open>null\<close> leaves a field that is no pointer, slice or \<open>any\<close> unchanged.
    When a member of array type is repeated, the last one counts (Go would decode its elements over
    those of the first).
\<close>

section \<open>Documents\<close>

datatype json =
    JNull
  | JBool bool
  | JInt int
  | JDec f64
  | JStr string
  | JArr "json list"
  | JObj "(string \<times> json) list"

text \<open>A \<open>json.RawMessage\<close>; \<open>None\<close> is one of length 0 (absent, or SQL's \<open>NULL\<close>).\<close>

type_synonym raw_message = "json option"

fun to_any :: "json \<Rightarrow> gval" where
  "to_any JNull = GNil"
| "to_any (JBool b) = GBool b"
| "to_any (JInt i) = GF64 (f64_of_int i)"
| "to_any (JDec x) = GF64 x"
| "to_any (JStr s) = GStr s"
| "to_any (JArr vs) = GArr (map to_any vs)"
| "to_any (JObj ms) = GObj (foldl (\<lambda>m (k, v). put k v m) [] (map (\<lambda>(k, v). (k, to_any v)) ms))"

text \<open>A member of a \<open>map[string]any\<close>: the last one of that name.\<close>

definition member :: "string \<Rightarrow> (string \<times> json) list \<Rightarrow> json option" where
  "member k ms = map_of (rev ms) k"

text \<open>
  Case folding of member names: ASCII letters, and the two code points beyond ASCII that fold to an
  ASCII letter (U+017F to \<open>s\<close>, U+212A to \<open>k\<close>).
\<close>

fun fold_name :: "string \<Rightarrow> string" where
  "fold_name [] = []"
| "fold_name (a # s) =
     (case s of
        b # s' \<Rightarrow>
          if a = CHR 0xC5 \<and> b = CHR 0xBF then CHR ''s'' # fold_name s'
          else (case s' of
                  c # s'' \<Rightarrow>
                    if a = CHR 0xE2 \<and> b = CHR 0x84 \<and> c = CHR 0xAA then CHR ''k'' # fold_name s''
                    else lower_char a # fold_name s
                | [] \<Rightarrow> lower_char a # fold_name s)
      | [] \<Rightarrow> [lower_char a])"

definition field_is :: "string \<Rightarrow> string \<Rightarrow> bool" where
  "field_is name key \<longleftrightarrow> fold_name key = name"

section \<open>Decoding rules and segments\<close>

definition decode_string :: "json \<Rightarrow> string \<Rightarrow> string option" where
  "decode_string v old = (case v of JStr s \<Rightarrow> Some s | JNull \<Rightarrow> Some old | _ \<Rightarrow> None)"

definition decode_bool :: "json \<Rightarrow> bool \<Rightarrow> bool option" where
  "decode_bool v old = (case v of JBool b \<Rightarrow> Some b | JNull \<Rightarrow> Some old | _ \<Rightarrow> None)"

definition decode_int :: "json \<Rightarrow> int \<Rightarrow> int option" where
  "decode_int v old =
     (case v of
        JInt i \<Rightarrow> if - (2 ^ 63) \<le> i \<and> i < 2 ^ 63 then Some i else None
      | JNull \<Rightarrow> Some old
      | _ \<Rightarrow> None)"

definition decode_string_ptr :: "json \<Rightarrow> string option option" where
  "decode_string_ptr v = (case v of JStr s \<Rightarrow> Some (Some s) | JNull \<Rightarrow> Some None | _ \<Rightarrow> None)"

definition empty_node :: condition_node where
  "empty_node = Node None None GNil [] [] None"

fun decode_node :: "json \<Rightarrow> condition_node option"
  and decode_members :: "(string \<times> json) list \<Rightarrow> condition_node \<Rightarrow> condition_node option"
  and decode_nodes :: "json list \<Rightarrow> condition_node list option"
where
  "decode_node JNull = Some empty_node"
| "decode_node (JObj ms) = decode_members ms empty_node"
| "decode_node _ = None"
| "decode_members [] n = Some n"
| "decode_members ((k, v) # ms) (Node a p x alls anys nt) =
     (if field_is ''attribute'' k then
        (case decode_string_ptr v of
           Some a' \<Rightarrow> decode_members ms (Node a' p x alls anys nt) | None \<Rightarrow> None)
      else if field_is ''op'' k then
        (case decode_string_ptr v of
           Some p' \<Rightarrow> decode_members ms (Node a p' x alls anys nt) | None \<Rightarrow> None)
      else if field_is ''value'' k then decode_members ms (Node a p (to_any v) alls anys nt)
      else if field_is ''all'' k then
        (case v of
           JNull \<Rightarrow> decode_members ms (Node a p x [] anys nt)
         | JArr vs \<Rightarrow>
             (case decode_nodes vs of
                Some ns \<Rightarrow> decode_members ms (Node a p x ns anys nt) | None \<Rightarrow> None)
         | _ \<Rightarrow> None)
      else if field_is ''any'' k then
        (case v of
           JNull \<Rightarrow> decode_members ms (Node a p x alls [] nt)
         | JArr vs \<Rightarrow>
             (case decode_nodes vs of
                Some ns \<Rightarrow> decode_members ms (Node a p x alls ns nt) | None \<Rightarrow> None)
         | _ \<Rightarrow> None)
      else if field_is ''not'' k then
        (case v of
           JNull \<Rightarrow> decode_members ms (Node a p x alls anys None)
         | JObj ms' \<Rightarrow>
             (case decode_members ms' (case nt of None \<Rightarrow> empty_node | Some n \<Rightarrow> n) of
                Some n \<Rightarrow> decode_members ms (Node a p x alls anys (Some n)) | None \<Rightarrow> None)
         | _ \<Rightarrow> None)
      else decode_members ms (Node a p x alls anys nt))"
| "decode_nodes [] = Some []"
| "decode_nodes (v # vs) =
     (case decode_node v of
        None \<Rightarrow> None
      | Some n \<Rightarrow> (case decode_nodes vs of None \<Rightarrow> None | Some ns \<Rightarrow> Some (n # ns)))"

fun decode_rollout_members :: "(string \<times> json) list \<Rightarrow> rollout_config \<Rightarrow> rollout_config option" where
  "decode_rollout_members [] ro = Some ro"
| "decode_rollout_members ((k, v) # ms) ro =
     (if field_is ''percentage'' k then
        (case decode_int v (percentage ro) of
           Some i \<Rightarrow> decode_rollout_members ms (ro\<lparr>percentage := i\<rparr>) | None \<Rightarrow> None)
      else if field_is ''seed'' k then
        (case decode_string v (seed ro) of
           Some s \<Rightarrow> decode_rollout_members ms (ro\<lparr>seed := s\<rparr>) | None \<Rightarrow> None)
      else decode_rollout_members ms ro)"

definition decode_rollout :: "json \<Rightarrow> rollout_config option \<Rightarrow> rollout_config option option" where
  "decode_rollout v old =
     (case v of
        JNull \<Rightarrow> Some None
      | JObj ms \<Rightarrow>
          (case decode_rollout_members ms
                  (case old of None \<Rightarrow> \<lparr>percentage = 0, seed = ''''\<rparr> | Some ro \<Rightarrow> ro) of
             Some ro \<Rightarrow> Some (Some ro) | None \<Rightarrow> None)
      | _ \<Rightarrow> None)"

definition empty_rule :: rule where
  "empty_rule = \<lparr>r_conditions = empty_node, r_rollout = None, r_value = GNil\<rparr>"

fun decode_rule_members :: "(string \<times> json) list \<Rightarrow> rule \<Rightarrow> rule option" where
  "decode_rule_members [] r = Some r"
| "decode_rule_members ((k, v) # ms) r =
     (if field_is ''conditions'' k then
        (case v of
           JNull \<Rightarrow> decode_rule_members ms r
         | JObj ms' \<Rightarrow>
             (case decode_members ms' (r_conditions r) of
                Some n \<Rightarrow> decode_rule_members ms (r\<lparr>r_conditions := n\<rparr>) | None \<Rightarrow> None)
         | _ \<Rightarrow> None)
      else if field_is ''rollout'' k then
        (case decode_rollout v (r_rollout r) of
           Some ro \<Rightarrow> decode_rule_members ms (r\<lparr>r_rollout := ro\<rparr>) | None \<Rightarrow> None)
      else if field_is ''value'' k then decode_rule_members ms (r\<lparr>r_value := to_any v\<rparr>)
      else decode_rule_members ms r)"

definition decode_rule :: "json \<Rightarrow> rule option" where
  "decode_rule v =
     (case v of
        JNull \<Rightarrow> Some empty_rule
      | JObj ms \<Rightarrow> decode_rule_members ms empty_rule
      | _ \<Rightarrow> None)"

fun decode_list :: "('a \<Rightarrow> 'b option) \<Rightarrow> 'a list \<Rightarrow> 'b list option" where
  "decode_list f [] = Some []"
| "decode_list f (v # vs) =
     (case f v of
        None \<Rightarrow> None
      | Some x \<Rightarrow> (case decode_list f vs of None \<Rightarrow> None | Some xs \<Rightarrow> Some (x # xs)))"

lemma decode_list_iff: "decode_list f vs = Some xs \<longleftrightarrow> list_all2 (\<lambda>v x. f v = Some x) vs xs"
proof (induction vs arbitrary: xs)
  case (Cons v vs)
  show ?case
    by (cases xs) (auto simp: Cons.IH [symmetric] split: option.splits)
qed auto

definition decode_rules :: "json \<Rightarrow> rule list option" where
  "decode_rules v =
     (case v of JNull \<Rightarrow> Some [] | JArr vs \<Rightarrow> decode_list decode_rule vs | _ \<Rightarrow> None)"

text \<open>The bytes of a stored document as rules: none when the column is empty.\<close>

definition unmarshal_rules :: "raw_message \<Rightarrow> rule list option" where
  "unmarshal_rules raw = (case raw of None \<Rightarrow> Some [] | Some v \<Rightarrow> decode_rules v)"

definition unmarshal_segment :: "raw_message \<Rightarrow> condition_node option" where
  "unmarshal_segment raw = (case raw of None \<Rightarrow> Some empty_node | Some v \<Rightarrow> decode_node v)"

text \<open>\<open>parseDefaultValue\<close>: the value of a flag read at its type; \<open>None\<close> is the error.\<close>

definition parseDefaultValue :: "string \<Rightarrow> raw_message \<Rightarrow> gval option" where
  "parseDefaultValue flagType raw =
     (case raw of
        None \<Rightarrow> Some GNil
      | Some v \<Rightarrow>
          (if flagType = ''boolean'' then map_option GBool (decode_bool v False)
           else if flagType = ''number'' then
             (case to_any v of GF64 x \<Rightarrow> Some (GF64 x) | GNil \<Rightarrow> Some (GF64 (Fin 0)) | _ \<Rightarrow> None)
           else if flagType = ''string'' then map_option GStr (decode_string v '''')
           else Some (to_any v)))"

end
