(* ===== verification/Engine_Correct.thy ===== *)
theory Engine_Correct
  imports Engine
begin

text \<open>
  What makes the engine correct: it always returns, a panic of one flag stays with that flag, the
  first rule that applies is the one served, condition trees mean what they say (against a
  reference semantics without depth counter, visited set or order of evaluation), the rollout is
  monotone and exact at its ends, and a result depends only on the attributes the rules mention.
\<close>

lemmas engine_induct =
  evaluateNodeDepth_evaluateAllOf_evaluateAnyOf_evaluateLeaf_resolveSegment.induct

lemmas engine_simps =
  evaluateNodeDepth.simps evaluateLeaf.simps resolveSegment.simps

section \<open>Callbacks that return\<close>

definition calm :: "hook \<Rightarrow> bool" where
  "calm hook \<longleftrightarrow> (\<forall>n. hook n)"

lemma emit_calm [simp]: "calm hook \<Longrightarrow> emit hook n b = (Some b, [n])"
  by (simp add: emit_def calm_def)

lemma matches_op_returns: "calm hook \<Longrightarrow> fst (matches_op rx hook v r p) \<noteq> None"
  by (cases "(rx, hook, v, r, p)" rule: matches_op.cases) (auto split: option.splits)

lemma plain_op_returns: "calm hook \<Longrightarrow> fst (plain_op rx hook opr v p r) \<noteq> None"
  using matches_op_returns [of hook rx v r p] by (auto simp: plain_op_def)

lemma engine_returns:
  "calm hook \<Longrightarrow> fst (evaluateNodeDepth rx hook ctx segs visited depth node) \<noteq> None"
  "calm hook \<Longrightarrow> fst (evaluateAllOf rx hook ctx segs visited depth nodes) \<noteq> None"
  "calm hook \<Longrightarrow> fst (evaluateAnyOf rx hook ctx segs visited depth nodes) \<noteq> None"
  "calm hook \<Longrightarrow> fst (evaluateLeaf rx hook ctx segs visited node) \<noteq> None"
  "calm hook \<Longrightarrow> fst (resolveSegment rx hook ctx segs visited key) \<noteq> None"
proof (induction rx hook ctx segs visited depth node and rx hook ctx segs visited depth nodes and
    rx hook ctx segs visited depth nodes and rx hook ctx segs visited node and
    rx hook ctx segs visited key rule: engine_induct)
  case (1 rx hook ctx segs visited depth node)
  then show ?case
    by (subst evaluateNodeDepth.simps) (auto split: option.splits prod.splits)
next
  case (3 rx hook ctx segs visited depth child children)
  then show ?case by (auto split: option.splits prod.splits bool.splits)
next
  case (5 rx hook ctx segs visited depth child children)
  then show ?case by (auto split: option.splits prod.splits bool.splits)
next
  case (6 rx hook ctx segs visited node)
  then show ?case
    by (subst evaluateLeaf.simps) (auto simp: plain_op_returns [simplified] split: option.splits gval.splits)
next
  case (7 rx hook ctx segs visited segmentKey)
  then show ?case
    by (subst resolveSegment.simps) (auto split: option.splits)
qed auto

text \<open>With returning callbacks an evaluation is a truth value; these are its equations.\<close>

definition truth :: "evaluation \<Rightarrow> bool" where
  "truth ev \<longleftrightarrow> fst ev = Some True"

lemma truth_pair [simp]: "truth (Some b, ns) = b"
  by (simp add: truth_def)

lemma truth_emit [simp]: "calm hook \<Longrightarrow> truth (emit hook n b) = b"
  by (simp add: truth_def)

lemma fst_truth: "fst ev \<noteq> None \<Longrightarrow> fst ev = Some (truth ev)"
  by (auto simp: truth_def)

lemma truth_all:
  "calm hook \<Longrightarrow> truth (evaluateAllOf rx hook ctx segs visited depth nodes) \<longleftrightarrow>
   (\<forall>n\<in>set nodes. truth (evaluateNodeDepth rx hook ctx segs visited depth n))"
proof (induction nodes)
  case (Cons n nodes)
  obtain b ns where "evaluateNodeDepth rx hook ctx segs visited depth n = (Some b, ns)"
    using engine_returns(1) [OF Cons.prems] by (metis eq_fst_iff not_Some_eq)
  with Cons show ?case
    by (cases b) (auto simp: truth_def split: prod.splits)
qed simp

lemma truth_any:
  "calm hook \<Longrightarrow> truth (evaluateAnyOf rx hook ctx segs visited depth nodes) \<longleftrightarrow>
   (\<exists>n\<in>set nodes. truth (evaluateNodeDepth rx hook ctx segs visited depth n))"
proof (induction nodes)
  case (Cons n nodes)
  obtain b ns where "evaluateNodeDepth rx hook ctx segs visited depth n = (Some b, ns)"
    using engine_returns(1) [OF Cons.prems] by (metis eq_fst_iff not_Some_eq)
  with Cons show ?case
    by (cases b) (auto simp: truth_def split: prod.splits)
qed simp

lemma truth_not:
  assumes "calm hook"
  shows "truth (case evaluateNodeDepth rx hook ctx segs visited depth n of
                  (r, ns) \<Rightarrow> (map_option Not r, ns)) \<longleftrightarrow>
         \<not> truth (evaluateNodeDepth rx hook ctx segs visited depth n)"
proof -
  obtain b ns where "evaluateNodeDepth rx hook ctx segs visited depth n = (Some b, ns)"
    using engine_returns(1) [OF assms] by (metis eq_fst_iff not_Some_eq)
  then show ?thesis by simp
qed

lemma truth_node:
  "calm hook \<Longrightarrow> truth (evaluateNodeDepth rx hook ctx segs visited depth node) \<longleftrightarrow>
     depth \<le> maxConditionDepth \<and>
     (if n_all node \<noteq> [] then
        \<forall>n\<in>set (n_all node). truth (evaluateNodeDepth rx hook ctx segs visited (Suc depth) n)
      else if n_any node \<noteq> [] then
        \<exists>n\<in>set (n_any node). truth (evaluateNodeDepth rx hook ctx segs visited (Suc depth) n)
      else (case n_not node of
              Some n \<Rightarrow> \<not> truth (evaluateNodeDepth rx hook ctx segs visited (Suc depth) n)
            | None \<Rightarrow> truth (evaluateLeaf rx hook ctx segs visited node)))"
  by (subst evaluateNodeDepth.simps) (simp add: truth_all truth_any truth_not split: option.splits)

lemma truth_leaf_op:
  "n_op node = Some p \<Longrightarrow> trim_space p \<noteq> ''segment'' \<Longrightarrow>
   evaluateLeaf rx hook ctx segs visited node =
     plain_op rx hook (trim_space p) (case map_of ctx (leaf_attr node) of None \<Rightarrow> GNil | Some v \<Rightarrow> v)
       (map_of ctx (leaf_attr node) \<noteq> None) (n_value node)"
  by (subst evaluateLeaf.simps) (auto split: option.splits)

section \<open>A reference semantics of conditions\<close>

text \<open>
  What each operator promises of the attribute's value (\<open>None\<close> when the context has no such
  attribute) and the operand of the condition.
\<close>

definition op_spec :: "regex \<Rightarrow> string \<Rightarrow> gval option \<Rightarrow> gval \<Rightarrow> bool" where
  "op_spec rx opr v r \<longleftrightarrow>
     (opr = ''exists'' \<and> v \<noteq> None) \<or>
     (opr = ''not_exists'' \<and> v = None) \<or>
     (opr = ''eq'' \<and> (\<exists>x. v = Some x \<and> equalStrict x r)) \<or>
     (opr = ''neq'' \<and> (\<exists>x. v = Some x \<and> \<not> equalStrict x r)) \<or>
     (opr \<in> {''gt'', ''gte'', ''lt'', ''lte''} \<and>
        (\<exists>x a b. v = Some x \<and> asFloat64 x = Some a \<and> asFloat64 r = Some b \<and>
           (opr = ''gt'' \<and> f64_less b a \<or> opr = ''gte'' \<and> f64_le b a \<or>
            opr = ''lt'' \<and> f64_less a b \<or> opr = ''lte'' \<and> f64_le a b))) \<or>
     (opr = ''in'' \<and> (\<exists>x rs. v = Some x \<and> r = GArr rs \<and> (\<exists>y\<in>set rs. equalStrict x y))) \<or>
     (opr = ''not_in'' \<and> (\<exists>x rs. v = Some x \<and> r = GArr rs \<and> (\<forall>y\<in>set rs. \<not> equalStrict x y))) \<or>
     (\<exists>s t. v = Some (GStr s) \<and> r = GStr t \<and>
        (opr = ''contains'' \<and> sublist t s \<or> opr = ''starts_with'' \<and> prefix t s \<or>
         opr = ''ends_with'' \<and> suffix t s \<or> opr = ''matches'' \<and> rx t s = Some True))"

lemma text_operands_spec:
  "text_operands v r p f \<longleftrightarrow> p \<and> (\<exists>s t. v = GStr s \<and> r = GStr t \<and> f s t)"
  by (auto simp: text_operands_def split: gval.splits)

lemma compareNumber_spec:
  "compareNumber v r p f \<longleftrightarrow>
   p \<and> (\<exists>a b. asFloat64 v = Some a \<and> asFloat64 r = Some b \<and> f a b)"
  by (auto simp: compareNumber_def split: option.splits)

lemma matches_op_spec:
  "calm hook \<Longrightarrow> truth (matches_op rx hook v r p) \<longleftrightarrow>
   p \<and> (\<exists>s t. v = GStr s \<and> r = GStr t \<and> rx t s = Some True)"
  by (cases "(rx, hook, v, r, p)" rule: matches_op.cases) (auto split: option.splits)

lemma plain_op_spec:
  assumes "calm hook"
  shows "truth (plain_op rx hook opr (case v of None \<Rightarrow> GNil | Some x \<Rightarrow> x) (v \<noteq> None) r) \<longleftrightarrow>
         op_spec rx opr v r"
proof (cases v)
  case None
  with assms show ?thesis
    by (simp add: plain_op_def op_spec_def text_operands_def compareNumber_def)
next
  case (Some x)
  show ?thesis
    unfolding plain_op_def op_spec_def
    using assms Some
    by (auto simp: text_operands_spec compareNumber_spec matches_op_spec contains_iff
        has_prefix_iff has_suffix_iff list_ex_iff split: gval.splits)
qed

text \<open>
  The reference semantics: which truth value a condition tree has, with no depth counter, no set
  of visited segments and no order of evaluation.  A cyclic reference has no derivation.
\<close>

inductive means :: "regex \<Rightarrow> ctx \<Rightarrow> segments \<Rightarrow> condition_node \<Rightarrow> bool \<Rightarrow> bool"
  for rx ctx segs
where
  all_true: "n_all n \<noteq> [] \<Longrightarrow> (\<And>c. c \<in> set (n_all n) \<Longrightarrow> means rx ctx segs c True)
    \<Longrightarrow> means rx ctx segs n True"
| all_false: "c \<in> set (n_all n) \<Longrightarrow> means rx ctx segs c False \<Longrightarrow> means rx ctx segs n False"
| any_true: "n_all n = [] \<Longrightarrow> c \<in> set (n_any n) \<Longrightarrow> means rx ctx segs c True
    \<Longrightarrow> means rx ctx segs n True"
| any_false: "n_all n = [] \<Longrightarrow> n_any n \<noteq> [] \<Longrightarrow>
    (\<And>c. c \<in> set (n_any n) \<Longrightarrow> means rx ctx segs c False) \<Longrightarrow> means rx ctx segs n False"
| negated: "n_all n = [] \<Longrightarrow> n_any n = [] \<Longrightarrow> n_not n = Some c \<Longrightarrow> means rx ctx segs c b
    \<Longrightarrow> means rx ctx segs n (\<not> b)"
| no_operator: "n_all n = [] \<Longrightarrow> n_any n = [] \<Longrightarrow> n_not n = None \<Longrightarrow> n_op n = None
    \<Longrightarrow> means rx ctx segs n False"
| attribute: "n_all n = [] \<Longrightarrow> n_any n = [] \<Longrightarrow> n_not n = None \<Longrightarrow> n_op n = Some p \<Longrightarrow>
    trim_space p \<noteq> ''segment'' \<Longrightarrow> b = op_spec rx (trim_space p) (map_of ctx (leaf_attr n)) (n_value n)
    \<Longrightarrow> means rx ctx segs n b"
| segment: "n_all n = [] \<Longrightarrow> n_any n = [] \<Longrightarrow> n_not n = None \<Longrightarrow> n_op n = Some p \<Longrightarrow>
    trim_space p = ''segment'' \<Longrightarrow> n_value n = GStr k \<Longrightarrow> map_of segs k = Some sg \<Longrightarrow>
    means rx ctx segs (sg_conditions sg) b \<Longrightarrow> means rx ctx segs n b"
| no_segment: "n_all n = [] \<Longrightarrow> n_any n = [] \<Longrightarrow> n_not n = None \<Longrightarrow> n_op n = Some p \<Longrightarrow>
    trim_space p = ''segment'' \<Longrightarrow> n_value n = GStr k \<Longrightarrow> map_of segs k = None
    \<Longrightarrow> means rx ctx segs n False"
| no_segment_key: "n_all n = [] \<Longrightarrow> n_any n = [] \<Longrightarrow> n_not n = None \<Longrightarrow> n_op n = Some p \<Longrightarrow>
    trim_space p = ''segment'' \<Longrightarrow> (\<And>k. n_value n \<noteq> GStr k) \<Longrightarrow> means rx ctx segs n False"

lemma means_deterministic: "means rx ctx segs n b \<Longrightarrow> means rx ctx segs n b' \<Longrightarrow> b = b'"
proof (induction n b arbitrary: b' rule: means.induct)
  case (all_true n)
  from all_true.prems all_true.hyps show ?case
    by (cases rule: means.cases) (auto dest: all_true.IH)
next
  case (all_false c n)
  from all_false.prems all_false.hyps show ?case
    by (cases rule: means.cases) (auto dest: all_false.IH)
next
  case (any_true n c)
  from any_true.prems any_true.hyps show ?case
    by (cases rule: means.cases) (auto dest: any_true.IH)
next
  case (any_false n)
  from any_false.prems any_false.hyps show ?case
    by (cases rule: means.cases) (auto dest: any_false.IH)
next
  case (negated n c b)
  from negated.prems negated.hyps show ?case
    by (cases rule: means.cases) (auto dest: negated.IH)
next
  case (segment n p k sg b)
  from segment.prems segment.hyps show ?case
    by (cases rule: means.cases) (auto dest: segment.IH)
qed (erule means.cases; auto)+

section \<open>The engine computes the reference semantics\<close>

text \<open>
  The segments a tree refers to, the trees of at most \<open>k\<close> levels of groups, and the graph of
  references between the segments of an environment.
\<close>

definition leaf_refs :: "string option \<Rightarrow> gval \<Rightarrow> string list" where
  "leaf_refs p v =
     (case (p, v) of
        (Some q, GStr k) \<Rightarrow> if trim_space q = ''segment'' then [k] else []
      | _ \<Rightarrow> [])"

fun segment_refs :: "condition_node \<Rightarrow> string list" where
  "segment_refs (Node a p v alls anys nt) =
     leaf_refs p v @ concat (map segment_refs alls) @ concat (map segment_refs anys) @
     (case nt of None \<Rightarrow> [] | Some n \<Rightarrow> segment_refs n)"

primrec fits :: "nat \<Rightarrow> condition_node \<Rightarrow> bool" where
  "fits 0 n = (n_all n = [] \<and> n_any n = [] \<and> n_not n = None)"
| "fits (Suc k) n =
     (if n_all n \<noteq> [] then list_all (fits k) (n_all n)
      else if n_any n \<noteq> [] then list_all (fits k) (n_any n)
      else (case n_not n of None \<Rightarrow> True | Some c \<Rightarrow> fits k c))"

definition segment_graph :: "segments \<Rightarrow> (string \<times> string) set" where
  "segment_graph segs =
     {(k, k'). \<exists>sg. map_of segs k = Some sg \<and> k' \<in> set (segment_refs (sg_conditions sg))}"

definition all_fit :: "segments \<Rightarrow> bool" where
  "all_fit segs \<longleftrightarrow> (\<forall>sg\<in>snd ` set segs. fits maxConditionDepth (sg_conditions sg))"

lemma segment_refs_children:
  "c \<in> set (n_all n) \<Longrightarrow> set (segment_refs c) \<subseteq> set (segment_refs n)"
  "c \<in> set (n_any n) \<Longrightarrow> set (segment_refs c) \<subseteq> set (segment_refs n)"
  "n_not n = Some c \<Longrightarrow> set (segment_refs c) \<subseteq> set (segment_refs n)"
  "n_op n = Some p \<Longrightarrow> trim_space p = ''segment'' \<Longrightarrow> n_value n = GStr k \<Longrightarrow>
     k \<in> set (segment_refs n)"
  by (cases n; auto simp: leaf_refs_def)+

text \<open>The segments on the path lead to every segment the current tree refers to.\<close>

definition on_path :: "segments \<Rightarrow> string list \<Rightarrow> string list \<Rightarrow> bool" where
  "on_path segs visited ks \<longleftrightarrow>
     (\<forall>v\<in>set visited. \<forall>k\<in>set ks. (v, k) \<in> (segment_graph segs)\<^sup>+)"

lemma on_path_subset: "on_path segs visited ks \<Longrightarrow> set ks' \<subseteq> set ks \<Longrightarrow> on_path segs visited ks'"
  by (auto simp: on_path_def)

lemma on_path_enter:
  assumes "on_path segs visited ks" and "k \<in> set ks" and "map_of segs k = Some sg"
  shows "on_path segs (k # visited) (segment_refs (sg_conditions sg))"
  using assms unfolding on_path_def
  by (auto simp: segment_graph_def intro: trancl_into_trancl)

lemma all_fit_lookup: "all_fit segs \<Longrightarrow> map_of segs k = Some sg \<Longrightarrow> fits maxConditionDepth (sg_conditions sg)"
  by (force simp: all_fit_def dest: map_of_SomeD)

lemma leaf_means:
  assumes "calm hook" and "acyclic (segment_graph segs)"
    and groups: "n_all node = []" "n_any node = []" "n_not node = None"
    and path: "on_path segs visited (segment_refs node)"
    and enter: "\<And>k sg. k \<notin> set visited \<Longrightarrow> map_of segs k = Some sg \<Longrightarrow>
      on_path segs (k # visited) (segment_refs (sg_conditions sg)) \<Longrightarrow>
      means rx ctx segs (sg_conditions sg)
        (truth (evaluateNodeDepth rx hook ctx segs (k # visited) 0 (sg_conditions sg)))"
  shows "means rx ctx segs node (truth (evaluateLeaf rx hook ctx segs visited node))"
proof (cases "n_op node")
  case None
  with means.no_operator [OF groups] show ?thesis by (simp add: evaluateLeaf.simps)
next
  case (Some p)
  show ?thesis
  proof (cases "trim_space p = ''segment''")
    case False
    with Some show ?thesis
      using means.attribute [OF groups Some False refl] plain_op_spec [OF assms(1)]
      by (simp add: truth_leaf_op)
  next
    case seg: True
    show ?thesis
    proof (cases "\<exists>k. n_value node = GStr k")
      case False
      then have "evaluateLeaf rx hook ctx segs visited node = (Some False, [])"
        using Some seg by (subst evaluateLeaf.simps) (auto split: gval.splits)
      with False means.no_segment_key [OF groups Some seg] show ?thesis by auto
    next
      case True
      then obtain k where k: "n_value node = GStr k" by blast
      then have leaf: "evaluateLeaf rx hook ctx segs visited node =
          resolveSegment rx hook ctx segs visited k"
        using Some seg by (simp add: evaluateLeaf.simps)
      have ref: "k \<in> set (segment_refs node)"
        using segment_refs_children(4) Some seg k by blast
      have fresh: "k \<notin> set visited"
        using path ref assms(2) by (auto simp: on_path_def acyclic_def)
      show ?thesis
      proof (cases "map_of segs k")
        case None
        with fresh leaf means.no_segment [OF groups Some seg k None] show ?thesis
          by (simp add: resolveSegment.simps)
      next
        case sg: (Some sg)
        from fresh sg leaf have "evaluateLeaf rx hook ctx segs visited node =
            evaluateNodeDepth rx hook ctx segs (k # visited) 0 (sg_conditions sg)"
          by (simp add: resolveSegment.simps)
        with enter [OF fresh sg on_path_enter [OF path ref sg]]
          means.segment [OF groups Some seg k sg] show ?thesis by simp
      qed
    qed
  qed
qed

text \<open>A group, given its children.\<close>

lemma group_means:
  assumes "calm hook" and "depth \<le> maxConditionDepth"
    and children: "\<And>c. c \<in> set (n_all node) \<or> c \<in> set (n_any node) \<and> n_all node = [] \<or>
        n_not node = Some c \<and> n_all node = [] \<and> n_any node = [] \<Longrightarrow>
      means rx ctx segs c (truth (evaluateNodeDepth rx hook ctx segs visited (Suc depth) c))"
    and leaf: "n_all node = [] \<Longrightarrow> n_any node = [] \<Longrightarrow> n_not node = None \<Longrightarrow>
      means rx ctx segs node (truth (evaluateLeaf rx hook ctx segs visited node))"
  shows "means rx ctx segs node (truth (evaluateNodeDepth rx hook ctx segs visited depth node))"
proof -
  let ?t = "\<lambda>c. truth (evaluateNodeDepth rx hook ctx segs visited (Suc depth) c)"
  note unfold = truth_node [OF assms(1), of rx ctx segs visited depth node]
  consider (all) "n_all node \<noteq> []" | (any) "n_all node = []" "n_any node \<noteq> []"
    | (neg) c where "n_all node = []" "n_any node = []" "n_not node = Some c"
    | (leaf) "n_all node = []" "n_any node = []" "n_not node = None"
    by (cases "n_not node") auto
  then show ?thesis
  proof cases
    case all
    show ?thesis
    proof (cases "\<forall>c\<in>set (n_all node). ?t c")
      case True
      have "means rx ctx segs node True"
      proof (rule means.all_true [OF all])
        fix c
        assume c: "c \<in> set (n_all node)"
        then show "means rx ctx segs c True" using children [of c] True by simp
      qed
      with all True assms(2) show ?thesis unfolding unfold by simp
    next
      case False
      then obtain c where "c \<in> set (n_all node)" and "\<not> ?t c" by blast
      then have "means rx ctx segs c False" using children [of c] by simp
      then have "means rx ctx segs node False" by (rule means.all_false [OF \<open>c \<in> _\<close>])
      with False all assms(2) show ?thesis by (auto simp only: unfold if_True simp_thms)
    qed
  next
    case any
    show ?thesis
    proof (cases "\<exists>c\<in>set (n_any node). ?t c")
      case True
      then obtain c where "c \<in> set (n_any node)" and "?t c" by blast
      then have "means rx ctx segs c True" using children [of c] any by simp
      then have "means rx ctx segs node True" by (rule means.any_true [OF any(1) \<open>c \<in> _\<close>])
      with any True assms(2) show ?thesis unfolding unfold by simp
    next
      case False
      have "means rx ctx segs node False"
      proof (rule means.any_false [OF any])
        fix c
        assume c: "c \<in> set (n_any node)"
        then show "means rx ctx segs c False" using children [of c] False any by simp
      qed
      with any False assms(2) show ?thesis unfolding unfold by simp
    qed
  next
    case (neg c)
    with children [of c] means.negated [of node c rx ctx segs "?t c"] assms(2)
    show ?thesis unfolding unfold by simp
  next
    case leaf
    with assms(4) assms(2) show ?thesis unfolding unfold by simp
  qed
qed

lemma engine_means:
  assumes "calm hook" and "acyclic (segment_graph segs)" and "all_fit segs"
    and "fits k node" and "depth + k \<le> maxConditionDepth"
    and "on_path segs visited (segment_refs node)"
  shows "means rx ctx segs node (truth (evaluateNodeDepth rx hook ctx segs visited depth node))"
  using assms(4-6)
proof (induction "unvisited segs visited" arbitrary: visited node depth k rule: less_induct)
  case (less visited)
  have enter: "means rx ctx segs (sg_conditions sg)
      (truth (evaluateNodeDepth rx hook ctx segs (k # visited) 0 (sg_conditions sg)))"
    if "k \<notin> set visited" and "map_of segs k = Some sg"
      and "on_path segs (k # visited) (segment_refs (sg_conditions sg))" for k sg
    using less.hyps [OF unvisited_decreases [OF that(1,2)] all_fit_lookup [OF assms(3) that(2)] _ that(3)]
    by simp
  show ?case
    using less.prems
  proof (induction k arbitrary: node depth)
    case 0
    then have groups: "n_all node = []" "n_any node = []" "n_not node = None" by auto
    show ?case
    proof (rule group_means [OF assms(1)])
      show "depth \<le> maxConditionDepth" using 0 by simp
    next
      show "means rx ctx segs node (truth (evaluateLeaf rx hook ctx segs visited node))"
        by (rule leaf_means [OF assms(1,2) groups 0(3) enter])
    qed (simp add: groups)
  next
    case (Suc k)
    show ?case
    proof (rule group_means [OF assms(1)])
      show "depth \<le> maxConditionDepth" using Suc.prems by simp
    next
      fix c
      assume c: "c \<in> set (n_all node) \<or> c \<in> set (n_any node) \<and> n_all node = [] \<or>
        n_not node = Some c \<and> n_all node = [] \<and> n_any node = []"
      then have "fits k c"
        using Suc.prems(1) by (auto simp: list_all_iff split: if_splits)
      moreover have "on_path segs visited (segment_refs c)"
        using c by (elim disjE conjE)
          (blast intro: on_path_subset [OF Suc.prems(3)] dest: segment_refs_children(1-3))+
      ultimately show "means rx ctx segs c (truth (evaluateNodeDepth rx hook ctx segs visited (Suc depth) c))"
        using Suc.IH [of c "Suc depth"] Suc.prems(2) by simp
    next
      assume groups: "n_all node = []" "n_any node = []" "n_not node = None"
      show "means rx ctx segs node (truth (evaluateLeaf rx hook ctx segs visited node))"
        by (rule leaf_means [OF assms(1,2) groups Suc.prems(3) enter])
    qed
  qed
qed

text \<open>C11. Condition trees mean what they say: on trees of at most ten levels and segments that do
  not refer to each other in a cycle, the truth value the engine computes is the one of the
  reference semantics, and the engine computes one exactly when the semantics has one.\<close>

theorem evaluateNode_reference:
  assumes "calm hook" and "acyclic (segment_graph segs)" and "all_fit segs"
    and "fits maxConditionDepth node"
  shows "fst (evaluateNode rx hook ctx segs [] node) = Some b \<longleftrightarrow> means rx ctx segs node b"
proof -
  have eval: "fst (evaluateNode rx hook ctx segs [] node) =
      Some (truth (evaluateNode rx hook ctx segs [] node))"
    using engine_returns(1) [OF assms(1)] unfolding evaluateNode_def by (rule fst_truth)
  have "means rx ctx segs node (truth (evaluateNode rx hook ctx segs [] node))"
    unfolding evaluateNode_def
    by (rule engine_means [OF assms]) (simp_all add: on_path_def)
  then show ?thesis
    unfolding eval using means_deterministic by blast
qed

definition beta_segment :: segments where
  "beta_segment = [(''beta'', \<lparr>sg_key = ''beta'',
     sg_conditions = any_of [leaf ''plan'' ''eq'' (GStr ''pro''), leaf ''age'' ''gte'' (GInt KInt 18)]\<rparr>)]"

definition beta_rule :: condition_node where
  "beta_rule = all_of [leaf '''' ''segment'' (GStr ''beta''),
     not_of (leaf ''country'' ''in'' (GArr [GStr ''US'']))]"

definition beta_user :: ctx where
  "beta_user = [(''age'', GInt KInt 30), (''country'', GStr ''BR'')]"

lemma beta_graph: "acyclic (segment_graph beta_segment)"
proof -
  have "segment_refs (sg_conditions (snd (hd beta_segment))) = []" by code_simp
  then have "segment_graph beta_segment = {}"
    by (auto simp: segment_graph_def beta_segment_def)
  then show ?thesis by (simp add: acyclic_def)
qed

lemma evaluateNode_reference_witness: "means (\<lambda>_ _. None) beta_user beta_segment beta_rule True"
proof -
  have "fits maxConditionDepth beta_rule" and "all_fit beta_segment"
    by code_simp+
  then have "fst (evaluateNode (\<lambda>_ _. None) (\<lambda>_. True) beta_user beta_segment [] beta_rule) = Some True
      \<longleftrightarrow> means (\<lambda>_ _. None) beta_user beta_segment beta_rule True"
    by (intro evaluateNode_reference beta_graph) (simp_all add: calm_def)
  moreover have "fst (evaluateNode (\<lambda>_ _. None) (\<lambda>_. True) beta_user beta_segment [] beta_rule) = Some True"
    by code_simp
  ultimately show ?thesis by blast
qed

section \<open>Callbacks that panic\<close>

text \<open>How an evaluation goes with callbacks that may panic, compared with the one whose callbacks all return: up to
  the first notice whose callback panics it is the same, and there it ends without a value.\<close>

definition follows :: "hook \<Rightarrow> 'a option \<times> notice list \<Rightarrow> 'a option \<times> notice list \<Rightarrow> bool" where
  "follows hook e0 e \<longleftrightarrow> (if list_all hook (snd e0) then e = e0 else fst e = None)"

abbreviation (input) returning :: hook where "returning \<equiv> \<lambda>_. True"

lemma follows_value [simp]: "follows hook (r, []) (r', ns) \<longleftrightarrow> r' = r \<and> ns = []"
  by (auto simp: follows_def)

lemma follows_emit: "follows hook (Some b, [n]) (emit hook n b)"
  by (simp add: follows_def emit_def)

lemma follows_map: "follows hook (r0, ns0) (r, ns) \<Longrightarrow> follows hook (map_option g r0, ns0) (map_option g r, ns)"
  by (auto simp: follows_def split: if_splits)

lemma calm_returning [simp]: "calm returning"
  by (simp add: calm_def)

lemma matches_op_follows: "follows hook (matches_op rx returning v r p) (matches_op rx hook v r p)"
  by (cases "(rx, hook, v, r, p)" rule: matches_op.cases) (auto simp: follows_emit split: option.split)

lemma plain_op_follows: "follows hook (plain_op rx returning opr v p r) (plain_op rx hook opr v p r)"
  by (simp add: plain_op_def matches_op_follows follows_emit)

lemma engine_follows:
  "follows hook (evaluateNodeDepth rx returning ctx segs visited depth node)
     (evaluateNodeDepth rx hook ctx segs visited depth node)"
  "follows hook (evaluateAllOf rx returning ctx segs visited depth nodes) (evaluateAllOf rx hook ctx segs visited depth nodes)"
  "follows hook (evaluateAnyOf rx returning ctx segs visited depth nodes) (evaluateAnyOf rx hook ctx segs visited depth nodes)"
  "follows hook (evaluateLeaf rx returning ctx segs visited node) (evaluateLeaf rx hook ctx segs visited node)"
  "follows hook (resolveSegment rx returning ctx segs visited key) (resolveSegment rx hook ctx segs visited key)"
proof (induction rx hook ctx segs visited depth node and rx hook ctx segs visited depth nodes and
    rx hook ctx segs visited depth nodes and rx hook ctx segs visited node and
    rx hook ctx segs visited key rule: engine_induct)
  case (1 rx hook ctx segs visited depth node)
  note unfold = evaluateNodeDepth.simps [of rx _ ctx segs visited depth node]
  show ?case
  proof (cases "maxConditionDepth < depth \<or> n_all node \<noteq> [] \<or> n_any node \<noteq> [] \<or> n_not node = None")
    case True
    with 1 show ?thesis unfolding unfold by (auto simp: follows_emit)
  next
    case False
    then obtain child where child: "n_not node = Some child" by blast
    with False 1 have "follows hook (evaluateNodeDepth rx returning ctx segs visited (Suc depth) child)
        (evaluateNodeDepth rx hook ctx segs visited (Suc depth) child)" by blast
    with False child show ?thesis
      unfolding unfold by (cases "evaluateNodeDepth rx returning ctx segs visited (Suc depth) child";
        cases "evaluateNodeDepth rx hook ctx segs visited (Suc depth) child") (simp add: follows_map)
  qed
next
  case (3 rx hook ctx segs visited depth child children)
  obtain b ns0 where e0: "evaluateNodeDepth rx returning ctx segs visited depth child = (Some b, ns0)"
    using engine_returns(1) [OF calm_returning] by (metis eq_fst_iff not_Some_eq)
  with 3 show ?case
    by (auto simp: follows_def split: prod.splits option.splits bool.splits if_splits)
next
  case (5 rx hook ctx segs visited depth child children)
  obtain b ns0 where e0: "evaluateNodeDepth rx returning ctx segs visited depth child = (Some b, ns0)"
    using engine_returns(1) [OF calm_returning] by (metis eq_fst_iff not_Some_eq)
  with 5 show ?case
    by (auto simp: follows_def split: prod.splits option.splits bool.splits if_splits)
next
  case (6 rx hook ctx segs visited node)
  then show ?case
    unfolding evaluateLeaf.simps [of rx _ ctx segs visited node] by (auto simp: plain_op_follows split: option.splits gval.splits)
next
  case (7 rx hook ctx segs visited segmentKey)
  then show ?case
    unfolding resolveSegment.simps [of rx _ ctx segs visited segmentKey] by (auto split: option.splits)
qed auto

lemma rule_loop_follows:
  "follows hook (rule_loop rx returning ctx segs fc i rs) (rule_loop rx hook ctx segs fc i rs)"
proof (induction rs arbitrary: i)
  case (Cons r rs)
  obtain b ns0 where e0: "evaluateNode rx returning ctx segs [] (r_conditions r) = (Some b, ns0)"
    using engine_returns(1) [OF calm_returning] unfolding evaluateNode_def by (metis eq_fst_iff not_Some_eq)
  moreover have "follows hook (evaluateNode rx returning ctx segs [] (r_conditions r))
      (evaluateNode rx hook ctx segs [] (r_conditions r))"
    unfolding evaluateNode_def by (rule engine_follows)
  ultimately have e: "if list_all hook ns0 then evaluateNode rx hook ctx segs [] (r_conditions r) = (Some b, ns0)
      else fst (evaluateNode rx hook ctx segs [] (r_conditions r)) = None"
    by (simp add: follows_def)
  show ?case
  proof (cases "list_all hook ns0")
    case True
    with e e0 Cons [of "Suc i"] show ?thesis by (auto simp: follows_def split: prod.splits)
  next
    case False
    then obtain ns where "evaluateNode rx hook ctx segs [] (r_conditions r) = (None, ns)"
      using e by (metis (full_types) prod.collapse)
    with False e0 show ?thesis by (simp add: follows_def split: prod.splits)
  qed
qed simp

lemma rule_loop_returning: "fst (rule_loop rx returning ctx segs fc i rs) \<noteq> None"
proof (induction rs arbitrary: i)
  case (Cons r rs)
  obtain b ns where "evaluateNode rx returning ctx segs [] (r_conditions r) = (Some b, ns)"
    using engine_returns(1) [OF calm_returning] unfolding evaluateNode_def by (metis eq_fst_iff not_Some_eq)
  with Cons [of "Suc i"] show ?case by (auto split: prod.splits)
qed simp

section \<open>The result of a flag\<close>

lemma Evaluate_total: "hook (OnError ErrorKindPanic) \<Longrightarrow> fst (Evaluate rx hook req) \<noteq> None"
  by (simp add: Evaluate_def Let_def split_def split: option.splits)

text \<open>C13. When an evaluation returns, and with what.  With callbacks that return it always does.  In general
  it gives the same result when none of the callbacks it then calls panics; when one of them panics it gives the
  internal-error result, provided that the callback for the panic returns; and it does not return at all exactly
  when that callback panics too.\<close>

theorem Evaluate_returns:
  "fst (Evaluate rx (\<lambda>_. True) req) \<noteq> None \<and>
   fst (Evaluate rx hook req) =
     (if list_all hook (snd (Evaluate rx (\<lambda>_. True) req)) then fst (Evaluate rx (\<lambda>_. True) req)
      else if hook (OnError ErrorKindPanic) then Some internal_error_result else None)"
proof -
  let ?loop = "\<lambda>hook. rule_loop rx hook (rq_context req) (rq_segments req) (rq_flag req) 0 (fc_rules (rq_flag req))"
  obtain res ns0 where loop: "?loop returning = (Some res, ns0)"
    using rule_loop_returning by (metis eq_fst_iff not_Some_eq)
  then have "follows hook (Some res, ns0) (?loop hook)" using rule_loop_follows by metis
  with loop show ?thesis
    by (auto simp: Evaluate_def Let_def follows_def split: prod.splits option.splits if_splits)
qed

definition odd_flag :: flag_config where
  "odd_flag = \<lparr>fc_key = ''f'', fc_enabled = True, fc_type = ''boolean'', fc_default = GBool False,
     fc_env_default = GNil, fc_has_env_default = False, fc_version = 1,
     fc_rules = [\<lparr>r_conditions = leaf ''a'' ''~'' GNil, r_rollout = None, r_value = GNil\<rparr>]\<rparr>"

text \<open>A flag with an unknown operator: a panic of the warning's callback gives the internal error, and nothing comes
  back when the panic cannot be reported either.\<close>

lemma Evaluate_returns_witness:
  "fst (Evaluate (\<lambda>_ _. None) (\<lambda>n. n \<noteq> OnWarn WarnKindUnknownOp)
     \<lparr>rq_flag = odd_flag, rq_segments = [], rq_context = []\<rparr>) = Some internal_error_result \<and>
   fst (Evaluate (\<lambda>_ _. None) (\<lambda>_. False) \<lparr>rq_flag = odd_flag, rq_segments = [], rq_context = []\<rparr>) = None"
proof -
  let ?req = "\<lparr>rq_flag = odd_flag, rq_segments = [], rq_context = []\<rparr>"
  have "snd (Evaluate (\<lambda>_ _. None) (\<lambda>_. True) ?req) = [OnWarn WarnKindUnknownOp]" by code_simp
  with Evaluate_returns [of "\<lambda>_ _. None" ?req "\<lambda>n. n \<noteq> OnWarn WarnKindUnknownOp"]
    Evaluate_returns [of "\<lambda>_ _. None" ?req "\<lambda>_. False"] show ?thesis by simp
qed

text \<open>A rule applies when its conditions hold and its rollout admits the user.\<close>

definition applies :: "regex \<Rightarrow> hook \<Rightarrow> evaluate_request \<Rightarrow> rule \<Rightarrow> bool" where
  "applies rx hook req r \<longleftrightarrow>
     truth (evaluateNode rx hook (rq_context req) (rq_segments req) [] (r_conditions r)) \<and>
     rollout_admits (rq_flag req) (context_user (rq_context req)) r"

definition served :: "nat \<Rightarrow> rule \<Rightarrow> evaluate_result" where
  "served i r = \<lparr>er_value = ruleValueOrDefault r, er_reason = RuleMatch, er_rule_index = int i\<rparr>"

lemma evaluateNode_returns: "calm hook \<Longrightarrow>
  \<exists>b ns. evaluateNode rx hook ctx segs visited n = (Some b, ns)"
  using engine_returns(1) unfolding evaluateNode_def by (metis not_Some_eq prod.collapse)

lemma rule_loop_hit:
  assumes "calm hook" and "j < length rs"
    and "applies rx hook req (rs ! j)" and "\<forall>k<j. \<not> applies rx hook req (rs ! k)"
  shows "fst (rule_loop rx hook (rq_context req) (rq_segments req) (rq_flag req) i rs) =
    Some (served (i + j) (rs ! j))"
  using assms(2-4)
proof (induction rs arbitrary: i j)
  case (Cons r rs)
  obtain b ns where ev: "evaluateNode rx hook (rq_context req) (rq_segments req) [] (r_conditions r) = (Some b, ns)"
    using evaluateNode_returns [OF assms(1)] by blast
  show ?case
  proof (cases j)
    case 0
    with Cons.prems ev show ?thesis by (simp add: applies_def served_def)
  next
    case (Suc j')
    with Cons.prems(3) have skip: "\<not> applies rx hook req r" by force
    have "\<forall>k<j'. \<not> applies rx hook req (rs ! k)"
      using Cons.prems(3) Suc by (metis Suc_mono nth_Cons_Suc)
    with Cons.IH [of j' "Suc i"] Cons.prems Suc have
      "fst (rule_loop rx hook (rq_context req) (rq_segments req) (rq_flag req) (Suc i) rs) =
        Some (served (Suc i + j') (rs ! j'))" by simp
    with ev skip Suc show ?thesis by (auto simp: applies_def split_def)
  qed
qed simp

lemma rule_loop_miss:
  assumes "calm hook" and "\<forall>r\<in>set rs. \<not> applies rx hook req r"
  shows "fst (rule_loop rx hook (rq_context req) (rq_segments req) (rq_flag req) i rs) =
    Some (default_result (rq_flag req))"
  using assms(2)
proof (induction rs arbitrary: i)
  case (Cons r rs)
  obtain b ns where ev: "evaluateNode rx hook (rq_context req) (rq_segments req) [] (r_conditions r) = (Some b, ns)"
    using evaluateNode_returns [OF assms(1)] by blast
  with Cons show ?case by (auto simp: applies_def split_def)
qed simp

lemma first_rule_served:
  assumes "calm hook" and "fc_enabled (rq_flag req)"
  shows "fst (Evaluate rx hook req) = Some res \<longleftrightarrow>
    (\<exists>i<length (fc_rules (rq_flag req)).
       applies rx hook req (fc_rules (rq_flag req) ! i) \<and>
       (\<forall>j<i. \<not> applies rx hook req (fc_rules (rq_flag req) ! j)) \<and>
       res = served i (fc_rules (rq_flag req) ! i)) \<or>
    ((\<forall>r\<in>set (fc_rules (rq_flag req)). \<not> applies rx hook req r) \<and>
       res = default_result (rq_flag req))"
    (is "?lhs \<longleftrightarrow> (\<exists>i<?n. ?A i \<and> ?B i \<and> res = ?s i) \<or> (?none \<and> res = ?d)")
proof -
  let ?loop = "rule_loop rx hook (rq_context req) (rq_segments req) (rq_flag req) 0 (fc_rules (rq_flag req))"
  have fold: "fst (Evaluate rx hook req) = Some r \<longleftrightarrow> fst ?loop = Some r"
    if "fst ?loop = Some x" for r x
    using that assms(2) by (auto simp: Evaluate_def Let_def split_def split: option.splits)
  show ?thesis
  proof (cases ?none)
    case True
    note miss = rule_loop_miss [OF assms(1) True, of 0]
    show ?thesis
      unfolding fold [OF miss] miss using True nth_mem by auto
  next
    case False
    then obtain k where k: "k < ?n \<and> ?A k" by (auto simp: in_set_conv_nth)
    define i where "i = (LEAST i. i < ?n \<and> ?A i)"
    have i: "i < ?n" "?A i" unfolding i_def using LeastI [of "\<lambda>i. i < ?n \<and> ?A i", OF k] by blast+
    have before: "?B i"
      using i not_less_Least [of _ "\<lambda>i. i < ?n \<and> ?A i"] unfolding i_def by (meson less_trans)
    have loop: "fst ?loop = Some (?s i)"
      using rule_loop_hit [OF assms(1) i(1) i(2) before, of 0] by simp
    have unique: "i' = i" if "i' < ?n" and "?A i'" and "?B i'" for i'
      using that i before by (meson linorder_neqE_nat)
    show ?thesis
      unfolding fold [OF loop] loop using False i before unique by blast
  qed
qed

text \<open>C12. The first rule that applies is the one served: an enabled flag gives the value of rule
  \<open>i\<close>, with reason \<open>RULE_MATCH\<close> and index \<open>i\<close>, exactly when rule \<open>i\<close> applies and no earlier rule
  does; it gives its default (the environment's when it has one) exactly when no rule applies.\<close>

theorem Evaluate_first_match:
  assumes "calm hook" and "fc_enabled (rq_flag req)"
  shows "fst (Evaluate rx hook req) = Some res \<longleftrightarrow>
    (\<exists>i<length (fc_rules (rq_flag req)).
       applies rx hook req (fc_rules (rq_flag req) ! i) \<and>
       (\<forall>j<i. \<not> applies rx hook req (fc_rules (rq_flag req) ! j)) \<and>
       res = served i (fc_rules (rq_flag req) ! i)) \<or>
    ((\<forall>r\<in>set (fc_rules (rq_flag req)). \<not> applies rx hook req r) \<and>
       res = default_result (rq_flag req))"
  by (rule first_rule_served [OF assms])

lemma Evaluate_first_match_witness:
  "fst (Evaluate (\<lambda>_ _. None) (\<lambda>_. True)
     \<lparr>rq_flag = odd_flag, rq_segments = [], rq_context = []\<rparr>) = Some (default_result odd_flag)"
proof -
  have miss: "\<not> applies (\<lambda>_ _. None) (\<lambda>_. True)
      \<lparr>rq_flag = odd_flag, rq_segments = [], rq_context = []\<rparr>
      \<lparr>r_conditions = leaf ''a'' ''~'' GNil, r_rollout = None, r_value = GNil\<rparr>"
    by code_simp
  have "calm (\<lambda>_. True)" and "fc_enabled (rq_flag \<lparr>rq_flag = odd_flag, rq_segments = [], rq_context = []\<rparr>)"
    by (simp_all add: calm_def odd_flag_def)
  from Evaluate_first_match [OF this] show ?thesis
    using miss by (simp add: odd_flag_def)
qed

lemma rule_loop_result:
  "rule_loop rx hook ctx segs fc i rs = (Some res, ns) \<Longrightarrow>
   res = default_result fc \<or> (\<exists>j<length rs. res = served (i + j) (rs ! j))"
proof (induction rs arbitrary: i res ns)
  case (Cons r rs)
  show ?case
  proof (cases "rule_loop rx hook ctx segs fc (Suc i) rs")
    case (Pair res' ns')
    with Cons.prems consider "res = served i r" | "res' = Some res"
      by (auto simp: served_def split: prod.splits option.splits if_splits)
    then show ?thesis
    proof cases
      case 1
      then show ?thesis by (auto intro: exI [of _ 0])
    next
      case 2
      with Pair Cons.IH [of "Suc i" res ns'] show ?thesis
        by (auto intro: exI [of _ "Suc _"])
    qed
  qed
qed simp

text \<open>C17. What each reason says of the result, for every engine and callback: only a disabled flag
  is \<open>DISABLED\<close>, a rule match carries the value of the rule of that index, a default is the flag's
  own, an internal error was reported as a panic, and every result but the two served by the flag's
  own data is the value \<open>false\<close> with index -1.\<close>

theorem Evaluate_reasons:
  assumes "Evaluate rx hook req = (Some res, ns)"
  shows "case er_reason res of
      Disabled \<Rightarrow> \<not> fc_enabled (rq_flag req) \<and> res = disabled_result
    | RuleMatch \<Rightarrow> fc_enabled (rq_flag req) \<and> (\<exists>i<length (fc_rules (rq_flag req)).
        res = served i (fc_rules (rq_flag req) ! i))
    | Default \<Rightarrow> fc_enabled (rq_flag req) \<and> res = default_result (rq_flag req)
    | InternalErr \<Rightarrow> fc_enabled (rq_flag req) \<and> res = internal_error_result \<and>
        (\<exists>ns'. ns = ns' @ [OnError ErrorKindPanic])
    | _ \<Rightarrow> False"
proof -
  obtain out ns' where run: "rule_loop rx hook (rq_context req) (rq_segments req) (rq_flag req) 0
      (fc_rules (rq_flag req)) = (out, ns')" by fastforce
  show ?thesis
  proof (cases "fc_enabled (rq_flag req)")
    case False
    with assms show ?thesis by (auto simp: Evaluate_def Let_def disabled_result_def)
  next
    case enabled: True
    show ?thesis
    proof (cases out)
      case None
      with assms run enabled show ?thesis
        by (auto simp: Evaluate_def Let_def internal_error_result_def split: if_splits)
    next
      case (Some x)
      with assms run enabled have run': "rule_loop rx hook (rq_context req) (rq_segments req)
          (rq_flag req) 0 (fc_rules (rq_flag req)) = (Some res, ns)"
        by (simp add: Evaluate_def Let_def)
      from rule_loop_result [OF this] show ?thesis
      proof
        assume "res = default_result (rq_flag req)"
        with enabled show ?thesis by (simp add: default_result_def)
      next
        assume "\<exists>j<length (fc_rules (rq_flag req)). res = served (0 + j) (fc_rules (rq_flag req) ! j)"
        then have "er_reason res = RuleMatch" by (auto simp: served_def)
        with \<open>\<exists>j<_. _\<close> enabled show ?thesis by simp
      qed
    qed
  qed
qed

lemma Evaluate_reasons_witness:
  "fc_enabled odd_flag \<and> er_rule_index (default_result odd_flag) = -1"
proof -
  have "Evaluate (\<lambda>_ _. None) (\<lambda>_. True) \<lparr>rq_flag = odd_flag, rq_segments = [], rq_context = []\<rparr>
      = (Some (default_result odd_flag), [OnWarn WarnKindUnknownOp])"
    by code_simp
  from Evaluate_reasons [OF this] show ?thesis
    by (simp add: default_result_def odd_flag_def)
qed

section \<open>Rollout\<close>

lemma bucket_less: "bucket sd userID < 100"
  by (simp add: bucket_def unat_mod)

lemma inRollout_iff: "inRollout sd userID pct \<longleftrightarrow> int (bucket sd userID) < pct"
  using bucket_less [of sd userID] by (auto simp: inRollout_def)

text \<open>The request with the percentage of rule \<open>i\<close> changed to \<open>q\<close>.\<close>

definition set_percentage :: "nat \<Rightarrow> int \<Rightarrow> evaluate_request \<Rightarrow> evaluate_request" where
  "set_percentage i q req =
     req\<lparr>rq_flag := (rq_flag req)\<lparr>fc_rules :=
       (fc_rules (rq_flag req))[i := (fc_rules (rq_flag req) ! i)
         \<lparr>r_rollout := map_option (percentage_update (\<lambda>_. q)) (r_rollout (fc_rules (rq_flag req) ! i))\<rparr>]\<rparr>\<rparr>"

lemma set_percentage_simps [simp]:
  "rq_context (set_percentage i q req) = rq_context req"
  "rq_segments (set_percentage i q req) = rq_segments req"
  "fc_key (rq_flag (set_percentage i q req)) = fc_key (rq_flag req)"
  "fc_enabled (rq_flag (set_percentage i q req)) = fc_enabled (rq_flag req)"
  "length (fc_rules (rq_flag (set_percentage i q req))) = length (fc_rules (rq_flag req))"
  "j \<noteq> i \<Longrightarrow> fc_rules (rq_flag (set_percentage i q req)) ! j = fc_rules (rq_flag req) ! j"
  by (simp_all add: set_percentage_def)

lemma set_percentage_rule:
  "i < length (fc_rules (rq_flag req)) \<Longrightarrow>
   fc_rules (rq_flag (set_percentage i q req)) ! i = (fc_rules (rq_flag req) ! i)
     \<lparr>r_rollout := map_option (percentage_update (\<lambda>_. q)) (r_rollout (fc_rules (rq_flag req) ! i))\<rparr>"
  by (simp add: set_percentage_def)

lemma applies_cong:
  assumes "rq_context req = rq_context req'" and "rq_segments req = rq_segments req'"
    and "fc_key (rq_flag req) = fc_key (rq_flag req')"
  shows "applies rx hook req r = applies rx hook req' r"
  using assms by (simp add: applies_def rollout_admits_def rollout_seed_def split: option.splits)

lemma rollout_admits_mono:
  assumes "\<And>ro. r_rollout r = Some ro \<Longrightarrow> percentage ro \<le> q"
  shows "rollout_admits fc u r \<Longrightarrow>
    rollout_admits fc u (r\<lparr>r_rollout := map_option (percentage_update (\<lambda>_. q)) (r_rollout r)\<rparr>)"
  using assms
  by (auto simp: rollout_admits_def rollout_seed_def inRollout_iff split: option.splits if_splits)

lemma served_index: "served i r = served j r' \<Longrightarrow> i = j"
  by (simp add: served_def)

text \<open>C15. A rollout is sticky: raising the percentage of a rule never takes its value from a user
  who already has it, whatever the other rules of the flag are.\<close>

theorem raising_rollout_keeps_users:
  assumes "calm hook" and "fc_enabled (rq_flag req)" and "i < length (fc_rules (rq_flag req))"
    and "\<And>ro. r_rollout (fc_rules (rq_flag req) ! i) = Some ro \<Longrightarrow> percentage ro \<le> q"
    and "fst (Evaluate rx hook req) = Some (served i (fc_rules (rq_flag req) ! i))"
  shows "fst (Evaluate rx hook (set_percentage i q req)) =
    Some (served i (fc_rules (rq_flag req) ! i))"
proof -
  let ?rs = "fc_rules (rq_flag req)" and ?req = "set_percentage i q req"
  have "served i (?rs ! i) \<noteq> default_result (rq_flag req)"
    by (simp add: served_def default_result_def)
  then obtain k where k: "applies rx hook req (?rs ! k)" "\<forall>j<k. \<not> applies rx hook req (?rs ! j)"
      "served i (?rs ! i) = served k (?rs ! k)"
    using assms(5) unfolding first_rule_served [OF assms(1,2)] by blast
  then have "k = i" by (metis served_index)
  have same: "applies rx hook ?req r = applies rx hook req r" for r
    by (rule applies_cong) simp_all
  have "applies rx hook ?req (fc_rules (rq_flag ?req) ! i)"
    using k(1) rollout_admits_mono [OF assms(4)] unfolding \<open>k = i\<close> same
    by (simp add: set_percentage_rule [OF assms(3)] applies_def)
  moreover have "\<forall>j<i. \<not> applies rx hook ?req (fc_rules (rq_flag ?req) ! j)"
    using k(2) \<open>k = i\<close> by (simp add: same)
  moreover have "served i (?rs ! i) = served i (fc_rules (rq_flag ?req) ! i)"
    by (simp add: set_percentage_rule [OF assms(3)] served_def ruleValueOrDefault_def)
  ultimately show ?thesis
    using assms(2,3) by (subst first_rule_served [OF assms(1)]) auto
qed

definition half_flag :: flag_config where
  "half_flag = \<lparr>fc_key = ''f'', fc_enabled = True, fc_type = ''boolean'', fc_default = GBool False,
     fc_env_default = GNil, fc_has_env_default = False, fc_version = 1,
     fc_rules = [\<lparr>r_conditions = leaf ''user_id'' ''exists'' GNil,
       r_rollout = Some \<lparr>percentage = 50, seed = ''s''\<rparr>, r_value = GNil\<rparr>]\<rparr>"

lemma raising_rollout_keeps_users_witness:
  "fst (Evaluate (\<lambda>_ _. None) (\<lambda>_. True) (set_percentage 0 60
      \<lparr>rq_flag = half_flag, rq_segments = [], rq_context = [(''user_id'', GStr ''u1'')]\<rparr>)) =
    Some (served 0 (hd (fc_rules half_flag)))"
proof -
  let ?req = "\<lparr>rq_flag = half_flag, rq_segments = [], rq_context = [(''user_id'', GStr ''u1'')]\<rparr>"
  have "fst (Evaluate (\<lambda>_ _. None) (\<lambda>_. True) ?req) = Some (served 0 (hd (fc_rules half_flag)))"
    by code_simp
  then have "fst (Evaluate (\<lambda>_ _. None) (\<lambda>_. True) (set_percentage 0 60 ?req)) =
      Some (served 0 (fc_rules (rq_flag ?req) ! 0))"
    by (intro raising_rollout_keeps_users) (auto simp: calm_def half_flag_def)
  then show ?thesis by (simp add: half_flag_def)
qed

text \<open>FNV-1a on natural numbers: the same hash, with the wrap-around of the 32 bits written out.\<close>

definition fnv_nat :: "string \<Rightarrow> nat" where
  "fnv_nat s = foldl (\<lambda>h c. (h XOR of_char c) * 16777619 mod 2 ^ 32) 2166136261 s"

lemma unat_fnv: "unat (foldl fnv_step h s) = foldl (\<lambda>h c. (h XOR of_char c) * 16777619 mod 2 ^ 32) (unat h) s"
proof (induction s arbitrary: h)
  case (Cons c s)
  have "(of_char c :: nat) < 256" by (rule nat_of_char_less_256)
  then have "(of_char c :: nat) < 2 ^ LENGTH(32)" by (rule less_le_trans) simp
  then have "unat (of_nat (of_char c) :: 32 word) = of_char c" by (simp add: unat_of_nat)
  then have "unat (fnv_step h c) = (unat h XOR of_char c) * 16777619 mod 2 ^ 32"
    by (simp add: fnv_step_def unat_word_ariths unsigned_xor_eq)
  then show ?case by (simp add: Cons.IH)
qed simp

text \<open>C16. The percentage is exact: a user's bucket is the FNV-1a hash of seed, colon and user modulo 100, and a
  user is in a rollout of \<open>p\<close> percent iff the bucket is below \<open>p\<close>; so 0 admits nobody, 100 everybody, and
  every user enters at exactly one percentage, the one after the bucket.\<close>

theorem inRollout_exact:
  "bucket sd userID = fnv_nat (sd @ '':'' @ userID) mod 100 \<and>
   (\<forall>pct. inRollout sd userID pct \<longleftrightarrow> int (fnv_nat (sd @ '':'' @ userID) mod 100) < pct) \<and>
   \<not> inRollout sd userID 0 \<and> inRollout sd userID 100 \<and>
   (\<exists>!p. \<not> inRollout sd userID p \<and> inRollout sd userID (p + 1))"
proof -
  have b: "bucket sd userID = fnv_nat (sd @ '':'' @ userID) mod 100"
    unfolding bucket_def fnv32a_def fnv_nat_def unat_mod unat_fnv by simp
  have "p = int (bucket sd userID)" if "\<not> inRollout sd userID p \<and> inRollout sd userID (p + 1)" for p
    using that unfolding inRollout_iff by linarith
  moreover have "\<not> inRollout sd userID (int (bucket sd userID)) \<and>
      inRollout sd userID (int (bucket sd userID) + 1)"
    unfolding inRollout_iff by simp
  ultimately have "\<exists>!p. \<not> inRollout sd userID p \<and> inRollout sd userID (p + 1)" by blast
  then show ?thesis
    using b bucket_less [of sd userID] unfolding inRollout_iff by simp
qed

section \<open>What a result depends on\<close>

text \<open>The attributes a tree reads, and the ones a flag and its segments can read.\<close>

fun attributes :: "condition_node \<Rightarrow> string list" where
  "attributes (Node a p v alls anys nt) =
     leaf_attr (Node a p v alls anys nt) # concat (map attributes alls) @ concat (map attributes anys) @
     (case nt of None \<Rightarrow> [] | Some n \<Rightarrow> attributes n)"

definition read_attributes :: "flag_config \<Rightarrow> segments \<Rightarrow> string set" where
  "read_attributes fc segs =
     {''user_id''} \<union> (\<Union>r\<in>set (fc_rules fc). set (attributes (r_conditions r))) \<union>
     (\<Union>sg\<in>snd ` set segs. set (attributes (sg_conditions sg)))"

lemma attributes_children:
  "c \<in> set (n_all n) \<Longrightarrow> set (attributes c) \<subseteq> set (attributes n)"
  "c \<in> set (n_any n) \<Longrightarrow> set (attributes c) \<subseteq> set (attributes n)"
  "n_not n = Some c \<Longrightarrow> set (attributes c) \<subseteq> set (attributes n)"
  "leaf_attr n \<in> set (attributes n)"
  by (cases n; auto)+

definition agree :: "string set \<Rightarrow> ctx \<Rightarrow> ctx \<Rightarrow> bool" where
  "agree as ctx ctx' \<longleftrightarrow> (\<forall>a\<in>as. map_of ctx a = map_of ctx' a)"

lemma agree_subset: "agree as ctx ctx' \<Longrightarrow> bs \<subseteq> as \<Longrightarrow> agree bs ctx ctx'"
  by (auto simp: agree_def)

lemma agree_segment:
  assumes "\<forall>sg\<in>snd ` set segs. agree (set (attributes (sg_conditions sg))) ctx ctx'"
    and "map_of segs k = Some sg"
  shows "agree (set (attributes (sg_conditions sg))) ctx ctx'"
  using assms by (force dest: map_of_SomeD)

lemma engine_frame:
  "agree (set (attributes node)) ctx ctx' \<Longrightarrow>
     \<forall>sg\<in>snd ` set segs. agree (set (attributes (sg_conditions sg))) ctx ctx' \<Longrightarrow>
     evaluateNodeDepth rx hook ctx segs visited depth node =
     evaluateNodeDepth rx hook ctx' segs visited depth node"
  "\<forall>n\<in>set nodes. agree (set (attributes n)) ctx ctx' \<Longrightarrow>
     \<forall>sg\<in>snd ` set segs. agree (set (attributes (sg_conditions sg))) ctx ctx' \<Longrightarrow>
     evaluateAllOf rx hook ctx segs visited depth nodes =
     evaluateAllOf rx hook ctx' segs visited depth nodes"
  "\<forall>n\<in>set nodes. agree (set (attributes n)) ctx ctx' \<Longrightarrow>
     \<forall>sg\<in>snd ` set segs. agree (set (attributes (sg_conditions sg))) ctx ctx' \<Longrightarrow>
     evaluateAnyOf rx hook ctx segs visited depth nodes =
     evaluateAnyOf rx hook ctx' segs visited depth nodes"
  "agree (set (attributes node)) ctx ctx' \<Longrightarrow>
     \<forall>sg\<in>snd ` set segs. agree (set (attributes (sg_conditions sg))) ctx ctx' \<Longrightarrow>
     evaluateLeaf rx hook ctx segs visited node = evaluateLeaf rx hook ctx' segs visited node"
  "\<forall>sg\<in>snd ` set segs. agree (set (attributes (sg_conditions sg))) ctx ctx' \<Longrightarrow>
     resolveSegment rx hook ctx segs visited key = resolveSegment rx hook ctx' segs visited key"
proof (induction rx hook ctx segs visited depth node and rx hook ctx segs visited depth nodes and
    rx hook ctx segs visited depth nodes and rx hook ctx segs visited node and
    rx hook ctx segs visited key rule: engine_induct)
  case (1 rx hook ctx segs visited depth node)
  have "\<forall>n\<in>set (n_all node). agree (set (attributes n)) ctx ctx'"
    "\<forall>n\<in>set (n_any node). agree (set (attributes n)) ctx ctx'"
    "\<And>c. n_not node = Some c \<Longrightarrow> agree (set (attributes c)) ctx ctx'"
    by (simp_all add: agree_subset [OF 1(5)] attributes_children)
  with 1 show ?case
    by (simp add: evaluateNodeDepth.simps [of _ _ _ _ _ _ node] split: option.splits)
next
  case (3 rx hook ctx segs visited depth child children)
  then show ?case by (auto split: option.splits prod.splits bool.splits)
next
  case (5 rx hook ctx segs visited depth child children)
  then show ?case by (auto split: option.splits prod.splits bool.splits)
next
  case (6 rx hook ctx segs visited node)
  have "map_of ctx (leaf_attr node) = map_of ctx' (leaf_attr node)"
    using 6(2) attributes_children(4) by (auto simp: agree_def)
  then show ?case
    using 6 by (simp add: evaluateLeaf.simps [of _ _ _ _ _ node] split: option.splits gval.splits)
next
  case (7 rx hook ctx segs visited key)
  show ?case
  proof (cases "key \<in> set visited \<or> map_of segs key = None")
    case True
    then show ?thesis by (auto simp: resolveSegment.simps)
  next
    case False
    then obtain sg where sg: "key \<notin> set visited" "map_of segs key = Some sg" by auto
    with 7(1) [OF sg agree_segment [OF 7(2) sg(2)] 7(2)] show ?thesis
      by (simp add: resolveSegment.simps)
  qed
qed simp_all

lemma rule_loop_frame:
  assumes "\<forall>r\<in>set rs. agree (set (attributes (r_conditions r))) ctx ctx'"
    and "\<forall>sg\<in>snd ` set segs. agree (set (attributes (sg_conditions sg))) ctx ctx'"
    and "context_user ctx = context_user ctx'"
  shows "rule_loop rx hook ctx segs fc i rs = rule_loop rx hook ctx' segs fc i rs"
  using assms(1)
proof (induction rs arbitrary: i)
  case (Cons r rs)
  then have "evaluateNode rx hook ctx segs [] (r_conditions r) =
      evaluateNode rx hook ctx' segs [] (r_conditions r)"
    unfolding evaluateNode_def by (intro engine_frame(1) assms(2)) simp
  moreover have "rule_loop rx hook ctx segs fc (Suc i) rs = rule_loop rx hook ctx' segs fc (Suc i) rs"
    using Cons by simp
  ultimately show ?case by (simp only: rule_loop.simps assms(3))
qed simp

text \<open>An evaluation, its result and its notices, depends on the context only through
  \<open>user_id\<close> and the attributes named in the flag's rules and in the segments of the environment:
  other attributes of the user cannot change which variant is served.\<close>

theorem Evaluate_frame:
  assumes "agree (read_attributes (rq_flag req) (rq_segments req)) (rq_context req) ctx'"
  shows "Evaluate rx hook (req\<lparr>rq_context := ctx'\<rparr>) = Evaluate rx hook req"
proof -
  let ?ctx = "rq_context req"
  have "\<forall>r\<in>set (fc_rules (rq_flag req)). agree (set (attributes (r_conditions r))) ?ctx ctx'"
    and "\<forall>sg\<in>snd ` set (rq_segments req). agree (set (attributes (sg_conditions sg))) ?ctx ctx'"
    using agree_subset [OF assms] unfolding read_attributes_def by blast+
  moreover have "context_user ?ctx = context_user ctx'"
    using assms by (simp add: agree_def read_attributes_def context_user_def)
  ultimately have "rule_loop rx hook ?ctx (rq_segments req) (rq_flag req) 0 (fc_rules (rq_flag req)) =
      rule_loop rx hook ctx' (rq_segments req) (rq_flag req) 0 (fc_rules (rq_flag req))"
    by (rule rule_loop_frame)
  then show ?thesis by (simp add: Evaluate_def Let_def)
qed

lemma Evaluate_frame_witness:
  "Evaluate (\<lambda>_ _. None) (\<lambda>_. True) \<lparr>rq_flag = half_flag, rq_segments = beta_segment,
      rq_context = [(''user_id'', GStr ''u1''), (''email'', GStr ''x'')]\<rparr> =
   Evaluate (\<lambda>_ _. None) (\<lambda>_. True) \<lparr>rq_flag = half_flag, rq_segments = beta_segment,
      rq_context = [(''user_id'', GStr ''u1'')]\<rparr>"
proof -
  let ?req = "\<lparr>rq_flag = half_flag, rq_segments = beta_segment, rq_context = [(''user_id'', GStr ''u1'')]\<rparr>"
  have "concat (map (attributes \<circ> r_conditions) (fc_rules half_flag)) = [''user_id'']"
    and "concat (map (attributes \<circ> sg_conditions \<circ> snd) beta_segment) = ['''', ''plan'', ''age'']"
    by code_simp+
  then have "agree (read_attributes half_flag beta_segment) [(''user_id'', GStr ''u1'')]
      [(''user_id'', GStr ''u1''), (''email'', GStr ''x'')]"
    by (simp add: agree_def read_attributes_def half_flag_def beta_segment_def)
  with Evaluate_frame [of ?req] show ?thesis by simp
qed

section \<open>All flags at once\<close>

lemma evaluate_flags_spec:
  assumes "hook (OnError ErrorKindPanic)" and "distinct (map fst results)"
  shows "\<exists>m. evaluate_flags rx hook segs ctx fcs results = Some m \<and> distinct (map fst m) \<and>
    (\<forall>k. map_of m k = (case find (\<lambda>fc. fc_key fc = k) (rev fcs) of
       Some fc \<Rightarrow> fst (Evaluate rx hook \<lparr>rq_flag = fc, rq_segments = segs, rq_context = ctx\<rparr>)
     | None \<Rightarrow> map_of results k))"
  using assms(2)
proof (induction fcs arbitrary: results)
  case (Cons fc fcs)
  obtain res ns where ev: "Evaluate rx hook \<lparr>rq_flag = fc, rq_segments = segs, rq_context = ctx\<rparr> = (Some res, ns)"
    using Evaluate_total [of hook, OF assms(1)] by (metis not_Some_eq prod.collapse)
  have find: "find P (xs @ [x]) = (case find P xs of Some y \<Rightarrow> Some y | None \<Rightarrow> if P x then Some x else None)"
    for P and xs :: "flag_config list" and x by (induction xs) auto
  from Cons.IH [OF distinct_put [OF Cons.prems, of "fc_key fc" res]] ev show ?case
    by (force simp: find split: option.splits)
qed simp

text \<open>Evaluating all flags gives, for each key, what evaluating the flag of that key alone gives
  (the last one, should two flags have the key): a panic in one flag changes no other result.\<close>

theorem EvaluateAll_pointwise:
  assumes "hook (OnError ErrorKindPanic)"
  shows "\<exists>m. EvaluateAll rx hook fcs segs ctx = Some m \<and> distinct (map fst m) \<and>
    (\<forall>k. map_of m k = (case find (\<lambda>fc. fc_key fc = k) (rev fcs) of
       Some fc \<Rightarrow> fst (Evaluate rx hook \<lparr>rq_flag = fc, rq_segments = segs, rq_context = ctx\<rparr>)
     | None \<Rightarrow> None))"
  using evaluate_flags_spec [of hook "[]" rx segs ctx fcs, OF assms] unfolding EvaluateAll_def
  by (simp only: map_of.simps list.map distinct.simps simp_thms)

lemma EvaluateAll_pointwise_witness:
  "\<exists>m. EvaluateAll (\<lambda>_ _. None) (\<lambda>n. n \<noteq> OnWarn WarnKindUnknownOp) [odd_flag, half_flag] [] [] = Some m"
  using EvaluateAll_pointwise [of "\<lambda>n. n \<noteq> OnWarn WarnKindUnknownOp" "\<lambda>_ _. None" "[odd_flag, half_flag]" "[]" "[]"]
  by auto

end
