(* ===== verification/Rules_Validator.thy ===== *)
theory Rules_Validator
  imports Json Engine_Correct
begin

text \<open>
  \<open>internal/api/rules_validator.go\<close>: what the API checks of a flag's rules and of a segment before it
  stores them.  A document comes with the length of its text.  The messages of the errors are the
  constructors of \<open>rules_error\<close>, wrapped the way the code wraps them; the counter the Go code
  increments through a pointer is threaded through.
\<close>

definition maxRulesPerFlag :: nat where "maxRulesPerFlag = 100"
definition maxRuleJSONBytes :: nat where "maxRuleJSONBytes = 64 * 1024"
definition maxConditionsPerRule :: nat where "maxConditionsPerRule = 50"

definition validOperators :: "string list" where
  "validOperators =
     [''eq'', ''neq'', ''gt'', ''gte'', ''lt'', ''lte'', ''contains'', ''starts_with'', ''ends_with'',
      ''in'', ''not_in'', ''matches'', ''exists'', ''not_exists'', ''segment'']"

definition is_alpha :: "char \<Rightarrow> bool" where
  "is_alpha c \<longleftrightarrow> (let n = of_char c :: nat in 97 \<le> n \<and> n \<le> 122 \<or> 65 \<le> n \<and> n \<le> 90)"

definition is_digit :: "char \<Rightarrow> bool" where
  "is_digit c \<longleftrightarrow> (let n = of_char c :: nat in 48 \<le> n \<and> n \<le> 57)"

text \<open>The pattern of attribute names: a letter or \<open>_\<close>, then at most 63 of letters, digits, \<open>_\<close>, \<open>.\<close>.\<close>

fun attributeNameRe :: "string \<Rightarrow> bool" where
  "attributeNameRe [] = False"
| "attributeNameRe (c # cs) \<longleftrightarrow>
     (is_alpha c \<or> c = CHR ''_'') \<and> length cs \<le> 63 \<and>
     list_all (\<lambda>d. is_alpha d \<or> is_digit d \<or> d = CHR ''_'' \<or> d = CHR ''.'') cs"

datatype rules_error =
    RulesTooLarge
  | RulesNotAnArray
  | RulesNotAnObject
  | TooManyRules
  | MissingConditions
  | ConditionsNotAnObject
  | TooManyConditions nat
  | DepthExceeded
  | NotASlice string
  | ChildNotAnObject
  | NotNotAnObject
  | LeafFieldsMissing
  | AttributeEmpty
  | AttributeMalformed string
  | OpEmpty
  | OpNotAllowed string
  | InRule nat rules_error
  | InChild string nat rules_error

definition asSlice :: "json \<Rightarrow> string \<Rightarrow> rules_error + json list" where
  "asSlice v field = (case v of JArr vs \<Rightarrow> Inr vs | _ \<Rightarrow> Inl (NotASlice field))"

definition validate_leaf :: "(string \<times> json) list \<Rightarrow> rules_error + unit" where
  "validate_leaf node =
     (case (member ''attribute'' node, member ''op'' node) of
        (Some a, Some p) \<Rightarrow>
          (case a of
             JStr attr \<Rightarrow>
               (if attr = '''' then Inl AttributeEmpty
                else if \<not> attributeNameRe attr then Inl (AttributeMalformed attr)
                else (case p of
                        JStr opr \<Rightarrow>
                          (if opr = '''' then Inl OpEmpty
                           else if opr \<notin> set validOperators then Inl (OpNotAllowed opr)
                           else Inr ())
                      | _ \<Rightarrow> Inl OpEmpty))
           | _ \<Rightarrow> Inl AttributeEmpty)
      | _ \<Rightarrow> Inl LeafFieldsMissing)"

abbreviation members_size :: "(string \<times> json) list \<Rightarrow> nat" where
  "members_size ms \<equiv> size_list (size_prod (\<lambda>x. 0) size) ms"

lemma member_in: "member k ms = Some v \<Longrightarrow> (k, v) \<in> set ms"
  by (auto simp: member_def dest: map_of_SomeD)

lemma member_size: "member k ms = Some v \<Longrightarrow> size v < members_size ms"
  using size_list_estimation' [OF member_in, of k ms v "Suc (size v)" "size_prod (\<lambda>x. 0) size"]
  by simp

function (sequential)
  validateConditionNode ::
    "(string \<times> json) list \<Rightarrow> nat \<Rightarrow> nat \<Rightarrow> rules_error + nat" and
  validateChildren ::
    "string \<Rightarrow> nat \<Rightarrow> json list \<Rightarrow> nat \<Rightarrow> nat \<Rightarrow> rules_error + nat"
where
  "validateConditionNode node depth count =
     (if maxConditionDepth < depth then Inl DepthExceeded
      else (case member ''all'' node of
        Some (JArr vs) \<Rightarrow> validateChildren ''all'' 0 vs (Suc depth) (Suc count)
      | Some v \<Rightarrow> Inl (NotASlice ''all'')
      | None \<Rightarrow>
      (case member ''any'' node of
        Some (JArr vs) \<Rightarrow> validateChildren ''any'' 0 vs (Suc depth) (Suc count)
      | Some v \<Rightarrow> Inl (NotASlice ''any'')
      | None \<Rightarrow>
      (case member ''not'' node of
        Some (JObj child) \<Rightarrow> validateConditionNode child (Suc depth) (Suc count)
      | Some v \<Rightarrow> Inl NotNotAnObject
      | None \<Rightarrow>
          (case validate_leaf node of Inl e \<Rightarrow> Inl e | Inr _ \<Rightarrow> Inr (Suc count))))))"
| "validateChildren field j [] depth count = Inr count"
| "validateChildren field j (JObj child # vs) depth count =
     (case validateConditionNode child depth count of
        Inl e \<Rightarrow> Inl (InChild field j e)
      | Inr count' \<Rightarrow> validateChildren field (Suc j) vs depth count')"
| "validateChildren field j (v # vs) depth count = Inl (InChild field j ChildNotAnObject)"
  by pat_completeness auto

termination
  by (relation "measure (\<lambda>x. case x of
       Inl (node, depth, count) \<Rightarrow> Suc (2 * members_size node)
     | Inr (field, j, vs, depth, count) \<Rightarrow> Suc (Suc (2 * size_list size vs)))")
     (auto dest!: member_size)

declare validateConditionNode.simps [simp del]

text \<open>\<open>json.Unmarshal\<close> into \<open>[]map[string]any\<close>: \<open>null\<close> is a nil slice, a \<open>null\<close> element a nil map.\<close>

definition as_object :: "json \<Rightarrow> (string \<times> json) list option" where
  "as_object v = (case v of JObj ms \<Rightarrow> Some ms | JNull \<Rightarrow> Some [] | _ \<Rightarrow> None)"

definition as_objects :: "json \<Rightarrow> (string \<times> json) list list option" where
  "as_objects v =
     (case v of JNull \<Rightarrow> Some [] | JArr vs \<Rightarrow> decode_list as_object vs | _ \<Rightarrow> None)"

definition validate_rule :: "nat \<Rightarrow> (string \<times> json) list \<Rightarrow> rules_error + unit" where
  "validate_rule i rule =
     (case member ''conditions'' rule of
        None \<Rightarrow> Inl (InRule i MissingConditions)
      | Some (JObj cond) \<Rightarrow>
          (case validateConditionNode cond 0 0 of
             Inl e \<Rightarrow> Inl (InRule i e)
           | Inr nodeCount \<Rightarrow>
               (if maxConditionsPerRule < nodeCount then Inl (InRule i (TooManyConditions nodeCount))
                else Inr ()))
      | Some v \<Rightarrow> Inl (InRule i ConditionsNotAnObject))"

text \<open>\<open>len\<close> is the length of the text of the document.\<close>

definition ValidateFlagRules :: "nat \<Rightarrow> raw_message \<Rightarrow> rules_error + unit" where
  "ValidateFlagRules len raw =
     (case raw of
        None \<Rightarrow> Inr ()
      | Some doc \<Rightarrow>
          (if maxRuleJSONBytes < len then Inl RulesTooLarge
           else (case as_objects doc of
                   None \<Rightarrow> Inl RulesNotAnArray
                 | Some rules \<Rightarrow>
                     (if maxRulesPerFlag < length rules then Inl TooManyRules
                      else all_ok (map (\<lambda>(i, rule). validate_rule i rule) (enumerate 0 rules))))))"

definition ValidateSegmentRules :: "nat \<Rightarrow> raw_message \<Rightarrow> rules_error + unit" where
  "ValidateSegmentRules len raw =
     (case raw of
        None \<Rightarrow> Inr ()
      | Some doc \<Rightarrow>
          (if maxRuleJSONBytes < len then Inl RulesTooLarge
           else (case as_object doc of
                   None \<Rightarrow> Inl RulesNotAnObject
                 | Some node \<Rightarrow>
                     (case validateConditionNode node 0 0 of Inl e \<Rightarrow> Inl e | Inr _ \<Rightarrow> Inr ()))))"

section \<open>What validation guarantees to the engine\<close>

text \<open>A tree on which the engine gives no warning: few enough levels, known operators.\<close>

definition leaf_known :: "condition_node \<Rightarrow> bool" where
  "leaf_known n = (case n_op n of None \<Rightarrow> True | Some p \<Rightarrow> trim_space p \<in> set validOperators)"

primrec quiet :: "nat \<Rightarrow> condition_node \<Rightarrow> bool" where
  "quiet 0 n = (n_all n = [] \<and> n_any n = [] \<and> n_not n = None \<and> leaf_known n)"
| "quiet (Suc k) n =
     (if n_all n \<noteq> [] then list_all (quiet k) (n_all n)
      else if n_any n \<noteq> [] then list_all (quiet k) (n_any n)
      else (case n_not n of None \<Rightarrow> leaf_known n | Some c \<Rightarrow> quiet k c))"

definition no_warning :: "evaluation \<Rightarrow> bool" where
  "no_warning ev \<longleftrightarrow> (\<forall>w. OnWarn w \<notin> set (snd ev))"

lemma no_warning_pair [simp]: "no_warning (r, ns) \<longleftrightarrow> (\<forall>w. OnWarn w \<notin> set ns)"
  by (simp add: no_warning_def)

lemma matches_op_no_warning: "no_warning (matches_op rx hook v r p)"
  by (cases "(rx, hook, v, r, p)" rule: matches_op.cases) (auto simp: emit_def split: option.splits)

lemma plain_op_no_warning:
  assumes "opr \<in> set validOperators" and "opr \<noteq> ''segment''"
  shows "no_warning (plain_op rx hook opr v p r)"
  using assms matches_op_no_warning by (auto simp: plain_op_def validOperators_def)

text \<open>One step down a quiet tree, at a depth that leaves room for it.\<close>

definition quiet_at :: "nat \<Rightarrow> condition_node \<Rightarrow> bool" where
  "quiet_at depth n \<longleftrightarrow> (\<exists>k. quiet k n \<and> depth + k \<le> maxConditionDepth)"

lemma quiet_at_step:
  assumes "quiet_at depth n"
  shows "depth \<le> maxConditionDepth"
    and "n_all n \<noteq> [] \<Longrightarrow> \<forall>c\<in>set (n_all n). quiet_at (Suc depth) c"
    and "n_all n = [] \<Longrightarrow> n_any n \<noteq> [] \<Longrightarrow> \<forall>c\<in>set (n_any n). quiet_at (Suc depth) c"
    and "n_all n = [] \<Longrightarrow> n_any n = [] \<Longrightarrow> n_not n = Some c \<Longrightarrow> quiet_at (Suc depth) c"
    and "n_all n = [] \<Longrightarrow> n_any n = [] \<Longrightarrow> n_not n = None \<Longrightarrow> leaf_known n"
proof -
  obtain k where k: "quiet k n" "depth + k \<le> maxConditionDepth"
    using assms by (auto simp: quiet_at_def)
  show "depth \<le> maxConditionDepth" using k by simp
  show "n_all n \<noteq> [] \<Longrightarrow> \<forall>c\<in>set (n_all n). quiet_at (Suc depth) c"
    "n_all n = [] \<Longrightarrow> n_any n \<noteq> [] \<Longrightarrow> \<forall>c\<in>set (n_any n). quiet_at (Suc depth) c"
    "n_all n = [] \<Longrightarrow> n_any n = [] \<Longrightarrow> n_not n = Some c \<Longrightarrow> quiet_at (Suc depth) c"
    "n_all n = [] \<Longrightarrow> n_any n = [] \<Longrightarrow> n_not n = None \<Longrightarrow> leaf_known n"
    using k by (cases k; auto simp: quiet_at_def list_all_iff intro: exI [of _ "k - 1"])+
qed

lemma engine_quiet:
  "quiet_at depth node \<Longrightarrow> \<forall>sg\<in>snd ` set segs. quiet_at 0 (sg_conditions sg) \<Longrightarrow>
     no_warning (evaluateNodeDepth rx hook ctx segs visited depth node)"
  "\<forall>n\<in>set nodes. quiet_at depth n \<Longrightarrow> \<forall>sg\<in>snd ` set segs. quiet_at 0 (sg_conditions sg) \<Longrightarrow>
     no_warning (evaluateAllOf rx hook ctx segs visited depth nodes)"
  "\<forall>n\<in>set nodes. quiet_at depth n \<Longrightarrow> \<forall>sg\<in>snd ` set segs. quiet_at 0 (sg_conditions sg) \<Longrightarrow>
     no_warning (evaluateAnyOf rx hook ctx segs visited depth nodes)"
  "leaf_known node \<Longrightarrow> \<forall>sg\<in>snd ` set segs. quiet_at 0 (sg_conditions sg) \<Longrightarrow>
     no_warning (evaluateLeaf rx hook ctx segs visited node)"
  "\<forall>sg\<in>snd ` set segs. quiet_at 0 (sg_conditions sg) \<Longrightarrow>
     no_warning (resolveSegment rx hook ctx segs visited key)"
proof (induction rx hook ctx segs visited depth node and rx hook ctx segs visited depth nodes and
    rx hook ctx segs visited depth nodes and rx hook ctx segs visited node and
    rx hook ctx segs visited key rule: engine_induct)
  case (1 rx hook ctx segs visited depth node)
  note step = quiet_at_step [OF 1(5)]
  from 1 step show ?case
    by (subst evaluateNodeDepth.simps) (auto split: option.splits prod.splits)
next
  case (3 rx hook ctx segs visited depth child children)
  then show ?case by (auto split: option.splits prod.splits bool.splits)
next
  case (5 rx hook ctx segs visited depth child children)
  then show ?case by (auto split: option.splits prod.splits bool.splits)
next
  case (6 rx hook ctx segs visited node)
  show ?case
  proof (cases "n_op node")
    case None
    then show ?thesis by (simp add: evaluateLeaf.simps)
  next
    case (Some p)
    then have "trim_space p \<in> set validOperators" using 6(2) by (simp add: leaf_known_def)
    with Some 6 show ?thesis
      by (auto simp: evaluateLeaf.simps [of _ _ _ _ _ node] plain_op_no_warning
          split: gval.splits option.splits)
  qed
next
  case (7 rx hook ctx segs visited key)
  show ?case
  proof (cases "key \<in> set visited \<or> map_of segs key = None")
    case True
    then show ?thesis by (auto simp: resolveSegment.simps)
  next
    case False
    then obtain sg where sg: "key \<notin> set visited" "map_of segs key = Some sg" by auto
    then have "quiet_at 0 (sg_conditions sg)" using 7(2) by (force dest: map_of_SomeD)
    with 7(1) [OF sg _ 7(2)] sg show ?thesis by (simp add: resolveSegment.simps)
  qed
qed simp_all

text \<open>
  Documents in which the validator and the decoder see the same members: no two names of an object
  are equal up to case, the names of the fields are written in lower case, and a node has one of
  \<open>all\<close>, \<open>any\<close>, \<open>not\<close> and \<open>op\<close> only.
\<close>

definition node_fields :: "string list" where
  "node_fields = [''attribute'', ''op'', ''value'', ''all'', ''any'', ''not'']"

definition exact_names :: "(string \<times> json) list \<Rightarrow> bool" where
  "exact_names ms \<longleftrightarrow> distinct (map fst ms) \<and>
     (\<forall>k\<in>set (map fst ms). fold_name k \<in> set node_fields \<longrightarrow> fold_name k = k)"

definition one_kind :: "(string \<times> json) list \<Rightarrow> bool" where
  "one_kind ms \<longleftrightarrow> length (filter (\<lambda>k. k \<in> {''all'', ''any'', ''not'', ''op''}) (map fst ms)) \<le> 1"

fun plain :: "json \<Rightarrow> bool" where
  "plain (JObj ms) \<longleftrightarrow> exact_names ms \<and> one_kind ms \<and>
     list_all (\<lambda>(k, v). k \<in> {''all'', ''any'', ''not''} \<longrightarrow> plain v) ms"
| "plain (JArr vs) \<longleftrightarrow> list_all plain vs"
| "plain _ \<longleftrightarrow> True"

lemma exact_names_Cons:
  assumes "exact_names ((k, v) # ms)"
  shows "exact_names ms" and "k \<notin> set (map fst ms)"
    and "f \<in> set node_fields \<Longrightarrow> field_is f k \<longleftrightarrow> k = f"
proof -
  show "exact_names ms" and "k \<notin> set (map fst ms)"
    using assms by (auto simp: exact_names_def)
  have fixed: "\<forall>g\<in>set node_fields. fold_name g = g" by code_simp
  show "field_is f k \<longleftrightarrow> k = f" if "f \<in> set node_fields"
    using that assms fixed by (auto simp: exact_names_def field_is_def)
qed

lemma member_map_of: "distinct (map fst ms) \<Longrightarrow> member k ms = map_of ms k"
  by (induction ms) (auto simp: member_def map_add_def map_of_eq_None_iff [THEN iffD2] split: option.splits)

text \<open>What the decoded node holds, field by field.\<close>

definition holds_member :: "condition_node \<Rightarrow> condition_node \<Rightarrow> string \<Rightarrow> json option \<Rightarrow> bool" where
  "holds_member n0 n f v \<longleftrightarrow>
     (f = ''op'' \<longrightarrow> (case v of None \<Rightarrow> n_op n = n_op n0 | Some x \<Rightarrow> decode_string_ptr x = Some (n_op n))) \<and>
     (f = ''all'' \<longrightarrow> (case v of None \<Rightarrow> n_all n = n_all n0
        | Some x \<Rightarrow> \<forall>vs. x = JArr vs \<longrightarrow> decode_nodes vs = Some (n_all n))) \<and>
     (f = ''any'' \<longrightarrow> (case v of None \<Rightarrow> n_any n = n_any n0
        | Some x \<Rightarrow> \<forall>vs. x = JArr vs \<longrightarrow> decode_nodes vs = Some (n_any n))) \<and>
     (f = ''not'' \<longrightarrow> (case v of None \<Rightarrow> n_not n = n_not n0
        | Some x \<Rightarrow> \<forall>ms. x = JObj ms \<longrightarrow> n_not n0 = None \<longrightarrow>
            (\<exists>c. decode_members ms empty_node = Some c \<and> n_not n = Some c)))"

lemma decode_member_step:
  assumes "decode_members ((k, v) # ms) n0 = Some n" and "exact_names ((k, v) # ms)"
  shows "\<exists>n1. decode_members ms n1 = Some n \<and> holds_member n0 n1 k (Some v) \<and>
    (\<forall>g. g \<noteq> k \<longrightarrow> holds_member n0 n1 g None)"
proof -
  obtain a p x alls anys nt where n0: "n0 = Node a p x alls anys nt" by (cases n0)
  have names: "field_is ''attribute'' k \<longleftrightarrow> k = ''attribute''" "field_is ''op'' k \<longleftrightarrow> k = ''op''"
    "field_is ''value'' k \<longleftrightarrow> k = ''value''" "field_is ''all'' k \<longleftrightarrow> k = ''all''"
    "field_is ''any'' k \<longleftrightarrow> k = ''any''" "field_is ''not'' k \<longleftrightarrow> k = ''not''"
    by (simp_all add: exact_names_Cons(3) [OF assms(2)] node_fields_def)
  note step = assms(1) [unfolded n0 decode_members.simps names]
  consider (attribute) "k = ''attribute''" | (op) "k = ''op''" | (v) "k = ''value''"
    | (all) "k = ''all''" | (any) "k = ''any''" | (neg) "k = ''not''"
    | (other) "k \<noteq> ''attribute'' \<and> k \<noteq> ''op'' \<and> k \<noteq> ''value'' \<and> k \<noteq> ''all'' \<and>
        k \<noteq> ''any'' \<and> k \<noteq> ''not''" by satx
  then show ?thesis
  proof cases
    case attribute
    with step show ?thesis
      by (cases "decode_string_ptr v") (auto simp: holds_member_def n0 intro!: exI)
  next
    case op
    with step show ?thesis
      by (cases "decode_string_ptr v") (auto simp: holds_member_def n0 intro!: exI)
  next
    case v
    with step show ?thesis by (auto simp: holds_member_def n0 intro!: exI)
  next
    case all
    with step show ?thesis
      by (cases v) (auto simp: holds_member_def n0 split: option.splits intro!: exI)
  next
    case any
    with step show ?thesis
      by (cases v) (auto simp: holds_member_def n0 split: option.splits intro!: exI)
  next
    case neg
    with step show ?thesis
      by (cases v) (auto simp: holds_member_def n0 split: option.splits intro!: exI)
  next
    case other
    with step show ?thesis by (auto simp: holds_member_def n0 intro!: exI)
  qed
qed

lemma holds_member_first:
  "holds_member n0 n1 f (Some v) \<Longrightarrow> holds_member n1 n f None \<Longrightarrow> holds_member n0 n f (Some v)"
  unfolding holds_member_def by (intro conjI impI) simp_all

lemma holds_member_rest:
  "holds_member n0 n1 f None \<Longrightarrow> holds_member n1 n f v \<Longrightarrow> holds_member n0 n f v"
  unfolding holds_member_def by (cases v; intro conjI impI) simp_all

lemma decode_members_holds:
  assumes "decode_members ms n0 = Some n" and "exact_names ms"
  shows "holds_member n0 n f (map_of ms f)"
  using assms
proof (induction ms arbitrary: n0)
  case Nil
  then show ?case by (simp add: holds_member_def)
next
  case (Cons kv ms n0)
  obtain k v where kv: "kv = (k, v)" by fastforce
  note ex = exact_names_Cons [OF Cons.prems(2) [unfolded kv]]
  obtain n1 where n1: "decode_members ms n1 = Some n"
    and first: "holds_member n0 n1 k (Some v)" and rest: "\<And>g. g \<noteq> k \<Longrightarrow> holds_member n0 n1 g None"
    using decode_member_step [OF Cons.prems [unfolded kv]] by blast
  have IH: "holds_member n1 n f (map_of ms f)" using Cons.IH [OF n1 ex(1)] .
  show ?case
  proof (cases "f = k")
    case True
    then have none: "map_of ms f = None" using ex(2) by (simp add: map_of_eq_None_iff)
    have "map_of (kv # ms) f = Some v" using True kv by simp
    with holds_member_first [OF first [folded True] IH [unfolded none]] show ?thesis by simp
  next
    case False
    then have "map_of (kv # ms) f = map_of ms f" using kv by simp
    with holds_member_rest [OF rest [OF False] IH] show ?thesis by simp
  qed
qed

lemma quiet_mono: "quiet k n \<Longrightarrow> k \<le> k' \<Longrightarrow> quiet k' n"
proof (induction k arbitrary: n k')
  case 0
  then show ?case by (cases k') auto
next
  case (Suc k)
  then obtain j where "k' = Suc j" and "k \<le> j" by (cases k') auto
  with Suc show ?case by (auto simp: list_all_iff split: option.splits if_splits)
qed

lemma quiet_at_iff: "quiet_at d n \<longleftrightarrow> d \<le> maxConditionDepth \<and> quiet (maxConditionDepth - d) n"
  by (auto simp: quiet_at_def intro: quiet_mono exI [of _ "maxConditionDepth - d"])

lemma quiet_at_leaf:
  "d \<le> maxConditionDepth \<Longrightarrow> n_all n = [] \<Longrightarrow> n_any n = [] \<Longrightarrow> n_not n = None \<Longrightarrow> leaf_known n
    \<Longrightarrow> quiet_at d n"
  unfolding quiet_at_def by (intro exI [of _ 0]) simp

lemma quiet_at_Suc:
  assumes "d \<le> maxConditionDepth" and "\<exists>c. quiet_at (Suc d) c"
    and "\<And>k. (\<And>c. quiet_at (Suc d) c \<Longrightarrow> quiet k c) \<Longrightarrow> quiet (Suc k) n"
  shows "quiet_at d n"
proof -
  have "Suc d \<le> maxConditionDepth" using assms(2) by (auto simp: quiet_at_iff)
  moreover have "quiet (Suc (maxConditionDepth - Suc d)) n"
    by (rule assms(3)) (simp add: quiet_at_iff)
  ultimately show ?thesis unfolding quiet_at_def
    by (intro exI [of _ "Suc (maxConditionDepth - Suc d)"]) simp
qed

text \<open>A node of one kind decodes to a node with that kind of content only.\<close>

lemma one_kind_only:
  assumes "one_kind ms" and "map_of ms f = Some v" and "f \<in> {''all'', ''any'', ''not'', ''op''}"
    and "g \<in> {''all'', ''any'', ''not'', ''op''}" and "g \<noteq> f"
  shows "map_of ms g = None"
proof (rule ccontr)
  assume "map_of ms g \<noteq> None"
  then have "g \<in> set (map fst ms)" and "f \<in> set (map fst ms)"
    using assms(2) by (force dest: map_of_SomeD)+
  then have "{f, g} \<subseteq> set (filter (\<lambda>k. k \<in> {''all'', ''any'', ''not'', ''op''}) (map fst ms))"
    using assms(3,4) by auto
  then have "card {f, g} \<le> length (filter (\<lambda>k. k \<in> {''all'', ''any'', ''not'', ''op''}) (map fst ms))"
    by (meson card_length card_mono finite_set le_trans)
  with assms(1,5) show False by (simp add: one_kind_def)
qed

lemma decoded_op: "decode_members ms empty_node = Some n \<Longrightarrow> exact_names ms \<Longrightarrow>
    n_op n = (case map_of ms ''op'' of None \<Rightarrow> None | Some v \<Rightarrow> the (decode_string_ptr v))"
  using decode_members_holds [of ms empty_node n "''op''"]
  by (auto simp: holds_member_def empty_node_def split: option.splits)

lemma decoded_all: "decode_members ms empty_node = Some n \<Longrightarrow> exact_names ms \<Longrightarrow>
    (map_of ms ''all'' = None \<longrightarrow> n_all n = []) \<and>
    (\<forall>vs. map_of ms ''all'' = Some (JArr vs) \<longrightarrow> decode_nodes vs = Some (n_all n))"
  using decode_members_holds [of ms empty_node n "''all''"]
  by (auto simp: holds_member_def empty_node_def split: option.splits)

lemma decoded_any: "decode_members ms empty_node = Some n \<Longrightarrow> exact_names ms \<Longrightarrow>
    (map_of ms ''any'' = None \<longrightarrow> n_any n = []) \<and>
    (\<forall>vs. map_of ms ''any'' = Some (JArr vs) \<longrightarrow> decode_nodes vs = Some (n_any n))"
  using decode_members_holds [of ms empty_node n "''any''"]
  by (auto simp: holds_member_def empty_node_def split: option.splits)

lemma decoded_not: "decode_members ms empty_node = Some n \<Longrightarrow> exact_names ms \<Longrightarrow>
    (map_of ms ''not'' = None \<longrightarrow> n_not n = None) \<and>
    (\<forall>c. map_of ms ''not'' = Some (JObj c) \<longrightarrow>
      (\<exists>m. decode_members c empty_node = Some m \<and> n_not n = Some m))"
  using decode_members_holds [of ms empty_node n "''not''"]
  by (auto simp: holds_member_def empty_node_def split: option.splits)

lemma plain_member:
  "plain (JObj ms) \<Longrightarrow> map_of ms k = Some v \<Longrightarrow> k \<in> {''all'', ''any'', ''not''} \<Longrightarrow> plain v"
  by (auto simp: list_all_iff dest!: map_of_SomeD)

lemma validate_leaf_op:
  "validate_leaf ms = Inr u \<Longrightarrow> \<exists>opr. member ''op'' ms = Some (JStr opr) \<and> opr \<in> set validOperators"
  by (auto simp: validate_leaf_def split: option.splits json.splits if_splits)

lemma validOperators_trimmed: "p \<in> set validOperators \<Longrightarrow> trim_space p = p"
proof -
  have "\<forall>p\<in>set validOperators. trim_space p = p" by code_simp
  then show "p \<in> set validOperators \<Longrightarrow> trim_space p = p" by blast
qed

lemma validated_quiet:
  "validateConditionNode node depth count = Inr c \<Longrightarrow> plain (JObj node) \<Longrightarrow>
     decode_members node empty_node = Some n \<Longrightarrow> quiet_at depth n"
  "validateChildren field j vs depth count = Inr c \<Longrightarrow> list_all plain vs \<Longrightarrow>
     decode_nodes vs = Some ns \<Longrightarrow> \<forall>n\<in>set ns. quiet_at depth n"
proof (induction node depth count and field j vs depth count arbitrary: c n and c ns
    rule: validateConditionNode_validateChildren.induct)
  case (1 node depth count)
  from "1.prems"(2) have ex: "exact_names node" and one: "one_kind node" by simp_all
  then have mem: "member k node = map_of node k" for k
    by (simp add: exact_names_def member_map_of)
  note dec = decoded_op [OF "1.prems"(3) ex] decoded_all [OF "1.prems"(3) ex]
    decoded_any [OF "1.prems"(3) ex] decoded_not [OF "1.prems"(3) ex]
  from "1.prems"(1) have depth: "\<not> maxConditionDepth < depth"
    by (auto simp: validateConditionNode.simps [of node])
  note run = "1.prems"(1) [unfolded validateConditionNode.simps [of node] mem]
  consider (all) vs where "map_of node ''all'' = Some (JArr vs)"
    | (any) vs where "map_of node ''all'' = None" "map_of node ''any'' = Some (JArr vs)"
    | (neg) m where "map_of node ''all'' = None" "map_of node ''any'' = None"
        "map_of node ''not'' = Some (JObj m)"
    | (leaf) "map_of node ''all'' = None" "map_of node ''any'' = None" "map_of node ''not'' = None"
        "\<exists>u. validate_leaf node = Inr u"
    using run depth by (auto split: option.splits json.splits sum.splits)
  then show ?case
  proof cases
    case all
    have rest: "map_of node ''any'' = None" "map_of node ''not'' = None" "map_of node ''op'' = None"
      using one_kind_only [OF one all] by simp_all
    have children: "\<forall>n\<in>set (n_all n). quiet_at (Suc depth) n"
      using "1.IH"(3) [OF depth all [folded mem] refl] run depth all dec
        plain_member [OF "1.prems"(2) all] by simp
    show ?thesis
    proof (cases "n_all n = []")
      case True
      then show ?thesis
        using depth dec rest by (intro quiet_at_leaf) (simp_all add: leaf_known_def)
    next
      case False
      then have "\<exists>c. quiet_at (Suc depth) c" using children by (meson hd_in_set)
      then show ?thesis
        using depth dec rest False children
        by (intro quiet_at_Suc) (simp_all add: list_all_iff)
    qed
  next
    case any
    have rest: "map_of node ''not'' = None" "map_of node ''op'' = None"
      using one_kind_only [OF one any(2)] by simp_all
    have children: "\<forall>n\<in>set (n_any n). quiet_at (Suc depth) n"
      using "1.IH"(2) [OF depth any [folded mem] refl] run depth any dec
        plain_member [OF "1.prems"(2) any(2)] by simp
    show ?thesis
    proof (cases "n_any n = []")
      case True
      then show ?thesis
        using depth dec rest any by (intro quiet_at_leaf) (simp_all add: leaf_known_def)
    next
      case False
      then have "\<exists>c. quiet_at (Suc depth) c" using children by (meson hd_in_set)
      then show ?thesis
        using depth dec rest any False children
        by (intro quiet_at_Suc) (simp_all add: list_all_iff)
    qed
  next
    case (neg m)
    obtain c' where c': "decode_members m empty_node = Some c'" "n_not n = Some c'"
      using dec neg by auto
    have "quiet_at (Suc depth) c'"
      using "1.IH"(1) [OF depth neg [folded mem] refl] run depth neg c'(1)
        plain_member [OF "1.prems"(2) neg(3)] by simp
    then show ?thesis
      using depth dec neg c' by (intro quiet_at_Suc) auto
  next
    case leaf
    then obtain opr where "map_of node ''op'' = Some (JStr opr)" and known: "opr \<in> set validOperators"
      using validate_leaf_op [of node] unfolding mem by blast
    then have "n_op n = Some opr" using dec(1) by (simp add: decode_string_ptr_def)
    then show ?thesis
      using depth dec leaf known validOperators_trimmed [OF known]
      by (intro quiet_at_leaf) (auto simp: leaf_known_def)
  qed
next
  case (3 field j child vs depth count)
  then show ?case by (auto split: sum.splits option.splits)
qed auto

lemma validated_conditions_quiet:
  assumes "validateConditionNode node 0 0 = Inr c" and "plain (JObj node)"
    and "decode_members node empty_node = Some n"
  shows "quiet_at 0 n"
  using validated_quiet(1) [OF assms] .

text \<open>Rules and segments whose documents are plain.\<close>

definition plain_rule :: "json \<Rightarrow> bool" where
  "plain_rule v =
     (case v of
        JObj ms \<Rightarrow>
          distinct (map fst ms) \<and>
          list_all (\<lambda>(k, x). field_is ''conditions'' k \<longrightarrow> k = ''conditions'' \<and> plain x) ms
      | _ \<Rightarrow> True)"

definition plain_rules :: "json \<Rightarrow> bool" where
  "plain_rules v = (case v of JArr vs \<Rightarrow> list_all plain_rule vs | _ \<Rightarrow> True)"

lemma decode_rule_no_conditions:
  "decode_rule_members ms r = Some r' \<Longrightarrow> list_all (\<lambda>(k, x). \<not> field_is ''conditions'' k) ms \<Longrightarrow>
   r_conditions r' = r_conditions r"
  by (induction ms r rule: decode_rule_members.induct) (auto split: if_splits option.splits)

lemma decode_rule_conditions:
  assumes "decode_rule_members ms r = Some r'" and "member ''conditions'' ms = Some (JObj cond)"
    and "plain_rule (JObj ms)"
  shows "decode_members cond (r_conditions r) = Some (r_conditions r')"
  using assms
proof (induction ms r rule: decode_rule_members.induct)
  case (2 k v ms r)
  then have dist: "distinct (map fst ((k, v) # ms))" by (simp add: plain_rule_def)
  show ?case
  proof (cases "k = ''conditions''")
    case True
    have named: "field_is ''conditions'' k" using True by (simp add: field_is_def lower_char_def)
    have v: "v = JObj cond" using "2.prems"(2) True unfolding member_map_of [OF dist] by simp
    have rest: "list_all (\<lambda>(k, x). \<not> field_is ''conditions'' k) ms"
      using "2.prems"(3) dist True by (force simp: plain_rule_def list_all_iff)
    obtain n where n: "decode_members cond (r_conditions r) = Some n"
        and "decode_rule_members ms (r\<lparr>r_conditions := n\<rparr>) = Some r'"
      using "2.prems"(1) named v by (auto split: option.splits)
    with decode_rule_no_conditions [OF this(2) rest] show ?thesis by simp
  next
    case False
    then have not_is: "\<not> field_is ''conditions'' k"
      using "2.prems"(3) by (auto simp: plain_rule_def)
    have "member ''conditions'' ms = Some (JObj cond)"
      using "2.prems"(2) False dist by (simp add: member_map_of)
    moreover have "plain_rule (JObj ms)" using "2.prems"(3) by (simp add: plain_rule_def)
    ultimately show ?thesis
      using "2.IH" "2.prems"(1) not_is by (auto split: if_splits option.splits)
  qed
qed (simp add: member_def)

lemma validate_rule_quiet:
  assumes "validate_rule i ms = Inr ()" and "decode_rule (JObj ms) = Some r" and "plain_rule (JObj ms)"
  shows "quiet_at 0 (r_conditions r)"
proof -
  obtain cond c where cond: "member ''conditions'' ms = Some (JObj cond)"
    and ok: "validateConditionNode cond 0 0 = Inr c"
    using assms(1) by (auto simp: validate_rule_def split: option.splits json.splits sum.splits)
  have "decode_members cond empty_node = Some (r_conditions r)"
    using decode_rule_conditions [OF _ cond assms(3), of empty_rule r] assms(2)
    by (simp add: decode_rule_def empty_rule_def)
  moreover have "plain (JObj cond)"
    using member_in [OF cond] assms(3)
    by (fastforce simp: plain_rule_def list_all_iff field_is_def lower_char_def simp del: plain.simps)
  ultimately show ?thesis using validated_conditions_quiet [OF ok] by blast
qed

lemma validated_rules_quiet:
  assumes "ValidateFlagRules len (Some doc) = Inr ()" and "plain_rules doc"
    and "decode_rules doc = Some rules"
  shows "\<forall>r\<in>set rules. quiet_at 0 (r_conditions r)"
proof (cases "doc = JNull")
  case True
  with assms(3) show ?thesis by (simp add: decode_rules_def)
next
  case False
  with assms(3) obtain vs where doc: "doc = JArr vs" and rules: "list_all2 (\<lambda>v r. decode_rule v = Some r) vs rules"
    by (auto simp: decode_rules_def decode_list_iff split: json.splits)
  obtain objs where objs: "list_all2 (\<lambda>v ms. as_object v = Some ms) vs objs"
    and ok: "is_ok (all_ok (map (\<lambda>(i, rule). validate_rule i rule) (enumerate 0 objs)))"
    using assms(1) doc by (auto simp: ValidateFlagRules_def as_objects_def decode_list_iff is_ok_iff
        split: option.splits if_splits)
  have "quiet_at 0 (r_conditions (rules ! i))" if i: "i < length rules" for i
  proof -
    have len: "length vs = length rules" "length objs = length rules"
      using list_all2_lengthD [OF rules] list_all2_lengthD [OF objs] by simp_all
    have obj: "as_object (vs ! i) = Some (objs ! i)" and dec: "decode_rule (vs ! i) = Some (rules ! i)"
      using list_all2_nthD [OF objs, of i] list_all2_nthD [OF rules, of i] len i by simp_all
    have "(i, objs ! i) \<in> set (enumerate 0 objs)"
      using len i by (auto simp: in_set_enumerate_eq)
    then have "(\<lambda>(i, rule). validate_rule i rule) (i, objs ! i) \<in>
        set (map (\<lambda>(i, rule). validate_rule i rule) (enumerate 0 objs))"
      unfolding set_map by (rule imageI)
    then have "is_ok (validate_rule i (objs ! i))"
      using ok unfolding all_ok_iff by auto
    then have valid: "validate_rule i (objs ! i) = Inr ()" by (auto simp: is_ok_iff)
    have "objs ! i \<noteq> []" using valid by (auto simp: validate_rule_def member_def)
    with obj have v: "vs ! i = JObj (objs ! i)"
      by (auto simp: as_object_def split: json.splits)
    have "plain_rule (JObj (objs ! i))"
      using assms(2) doc len i unfolding v [symmetric]
      by (simp add: plain_rules_def list_all_length)
    then show ?thesis using validate_rule_quiet [OF valid] dec v by simp
  qed
  then show ?thesis by (auto simp: in_set_conv_nth)
qed

lemma validated_segment_quiet:
  assumes "ValidateSegmentRules len (Some doc) = Inr ()" and "plain doc" and "decode_node doc = Some n"
  shows "quiet_at 0 n"
proof (cases doc)
  case JNull
  with assms(3) show ?thesis
    by (intro quiet_at_leaf) (auto simp: empty_node_def leaf_known_def)
next
  case (JObj ms)
  with assms show ?thesis
    by (auto simp: ValidateSegmentRules_def as_object_def intro: validated_conditions_quiet
        split: if_splits sum.splits)
qed (use assms in auto)

section \<open>Properties\<close>

lemma rule_loop_quiet:
  assumes "\<forall>r\<in>set rs. quiet_at 0 (r_conditions r)"
    and "\<forall>sg\<in>snd ` set segs. quiet_at 0 (sg_conditions sg)"
  shows "OnWarn w \<notin> set (snd (rule_loop rx hook ctx segs fc i rs))"
  using assms(1)
proof (induction rs arbitrary: i)
  case (Cons r rs)
  obtain res ns where ev: "evaluateNode rx hook ctx segs [] (r_conditions r) = (res, ns)" by fastforce
  moreover have "no_warning (evaluateNode rx hook ctx segs [] (r_conditions r))"
    unfolding evaluateNode_def using Cons.prems by (intro engine_quiet(1) assms(2)) simp
  ultimately have "OnWarn w \<notin> set ns" by simp
  moreover have "OnWarn w \<notin> set (snd (rule_loop rx hook ctx segs fc (Suc i) rs))"
    using Cons by simp
  ultimately show ?case
    using ev by (cases res) (simp_all add: split_def)
qed simp

text \<open>C14. Validation protects the engine: for rules and segments that passed the validator and are
  written with one kind of member per node and exact member names, evaluating the flag never meets
  an unknown operator or a tree deeper than the engine supports.\<close>

theorem validated_rules_no_warning:
  assumes "ValidateFlagRules len (Some doc) = Inr ()" and "plain_rules doc"
    and "decode_rules doc = Some (fc_rules (rq_flag req))"
    and "\<forall>sg\<in>snd ` set (rq_segments req). \<exists>len' doc'. plain doc' \<and>
      ValidateSegmentRules len' (Some doc') = Inr () \<and> decode_node doc' = Some (sg_conditions sg)"
  shows "OnWarn w \<notin> set (snd (Evaluate rx hook req))"
proof -
  have "\<forall>sg\<in>snd ` set (rq_segments req). quiet_at 0 (sg_conditions sg)"
    using assms(4) validated_segment_quiet by blast
  moreover have "\<forall>r\<in>set (fc_rules (rq_flag req)). quiet_at 0 (r_conditions r)"
    by (rule validated_rules_quiet [OF assms(1-3)])
  ultimately have "OnWarn w \<notin> set (snd (rule_loop rx hook (rq_context req) (rq_segments req)
      (rq_flag req) 0 (fc_rules (rq_flag req))))"
    by (intro rule_loop_quiet)
  then show ?thesis by (auto simp: Evaluate_def Let_def split_def split: option.splits)
qed

lemma ValidateFlagRules_short:
  "len \<le> maxRuleJSONBytes \<Longrightarrow> as_objects doc = Some rules \<Longrightarrow> length rules \<le> maxRulesPerFlag \<Longrightarrow>
   all_ok (map (\<lambda>(i, rule). validate_rule i rule) (enumerate 0 rules)) = Inr () \<Longrightarrow>
   ValidateFlagRules len (Some doc) = Inr ()"
  by (simp add: ValidateFlagRules_def)

definition good_doc :: json where
  "good_doc = JArr [JObj [(''conditions'', JObj [(''all'', JArr
     [JObj [(''attribute'', JStr ''age''), (''op'', JStr ''gte''), (''value'', JInt 18)]])])]]"

definition good_flag :: flag_config where
  "good_flag = \<lparr>fc_key = ''f'', fc_enabled = True, fc_type = ''boolean'', fc_default = GBool False,
     fc_env_default = GNil, fc_has_env_default = False, fc_version = 1,
     fc_rules = [\<lparr>r_conditions = all_of [leaf ''age'' ''gte'' (GF64 (Fin 18))], r_rollout = None,
       r_value = GNil\<rparr>]\<rparr>"

lemma validated_rules_no_warning_witness:
  "OnWarn WarnKindUnknownOp \<notin> set (snd (Evaluate (\<lambda>_ _. None) (\<lambda>_. True)
     \<lparr>rq_flag = good_flag, rq_segments = [], rq_context = []\<rparr>))"
proof (rule validated_rules_no_warning)
  show "ValidateFlagRules 90 (Some good_doc) = Inr ()"
  proof (rule ValidateFlagRules_short)
    show "as_objects good_doc = Some (the (as_objects good_doc))" by code_simp
    show "length (the (as_objects good_doc)) \<le> maxRulesPerFlag" by code_simp
    show "all_ok (map (\<lambda>(i, rule). validate_rule i rule) (enumerate 0 (the (as_objects good_doc)))) = Inr ()"
      by code_simp
  qed (simp add: maxRuleJSONBytes_def)
  show "plain_rules good_doc" by code_simp
  have "decode_rules good_doc = Some (fc_rules good_flag)" by code_simp
  then show "decode_rules good_doc = Some (fc_rules (rq_flag
      \<lparr>rq_flag = good_flag, rq_segments = [], rq_context = []\<rparr>))" by simp
qed simp

definition bypass_doc :: json where
  "bypass_doc = JArr [JObj [(''conditions'', JObj [(''all'', JArr []), (''any'', JArr
     [JObj [(''attribute'', JStr ''age''), (''op'', JStr ''older'')]])])]]"

text \<open>The hypothesis on the members of a node is needed: the validator accepts a rule whose
  empty \<open>all\<close> hides an \<open>any\<close> with an operator that does not exist, and the engine, which skips the
  empty \<open>all\<close>, runs into that operator.\<close>

theorem validator_bypass:
  "ValidateFlagRules 80 (Some bypass_doc) = Inr () \<and>
   (\<exists>rules. decode_rules bypass_doc = Some rules \<and>
     OnWarn WarnKindUnknownOp \<in> set (snd (Evaluate (\<lambda>_ _. None) (\<lambda>_. True)
       \<lparr>rq_flag = good_flag\<lparr>fc_rules := rules\<rparr>, rq_segments = [], rq_context = []\<rparr>)))"
proof -
  let ?rules = "[\<lparr>r_conditions = any_of [Node (Some ''age'') (Some ''older'') GNil [] [] None],
    r_rollout = None, r_value = GNil\<rparr>]"
  have "ValidateFlagRules 80 (Some bypass_doc) = Inr ()"
  proof (rule ValidateFlagRules_short)
    show "as_objects bypass_doc = Some (the (as_objects bypass_doc))" by code_simp
    show "length (the (as_objects bypass_doc)) \<le> maxRulesPerFlag" by code_simp
    show "all_ok (map (\<lambda>(i, rule). validate_rule i rule) (enumerate 0 (the (as_objects bypass_doc)))) = Inr ()"
      by code_simp
  qed (simp add: maxRuleJSONBytes_def)
  moreover have "decode_rules bypass_doc = Some ?rules" by code_simp
  moreover have "Evaluate (\<lambda>_ _. None) (\<lambda>_. True)
      \<lparr>rq_flag = good_flag\<lparr>fc_rules := ?rules\<rparr>, rq_segments = [], rq_context = []\<rparr> =
      (Some (default_result good_flag), [OnWarn WarnKindUnknownOp])" by code_simp
  ultimately show ?thesis by simp
qed

end
