(* ===== verification/Database.thy ===== *)
theory Database
  imports Json
begin

text \<open>
  The database of \<open>internal/storage\<close>: the rows of \<open>models.go\<close>, the tables and constraints of
  \<open>migrations/*.up.sql\<close>, the errors of \<open>errors.go\<close>, and the running of a statement.

  \<^item> A table is the list of its rows, oldest first.
  \<^item> A UUID is a number and \<open>uuid.Nil\<close> is 0; a time is a number of microseconds and Go's zero time
    is 0; a JSON column is a document.
  \<^item> A statement is a function of the tables and of \<open>NOW()\<close>.  It returns its rows and the new
    tables, or the error of PostgreSQL, and then the tables are unchanged.
  \<^item> The \<open>world\<close> is the database and what the program cannot determine, one value per step: the time,
    a fresh UUID, random bytes, whether the statement fails on its way (\<open>fault\<close>), and whether
    a commit that fails was the loser of a conflict (\<open>serialization\<close>, SQLSTATE 40001).  A
    statement that fails this way leaves the tables as they were.
\<close>

section \<open>Rows\<close>

type_synonym uuid = nat
type_synonym time = int

abbreviation (input) uuid_nil :: uuid where "uuid_nil \<equiv> 0"
abbreviation (input) zero_time :: time where "zero_time \<equiv> 0"

record tenant =
  t_id :: uuid
  t_slug :: string
  t_name :: string
  t_plan :: string
  t_created :: time
  t_updated :: time

record user =
  u_id :: uuid
  u_email :: string
  u_password_hash :: "string option"
  u_email_verified :: "time option"
  u_last_login :: "time option"
  u_created :: time
  u_updated :: time

record tenant_member =
  m_tenant :: uuid
  m_user :: uuid
  m_role :: string
  m_created :: time

record session =
  s_id :: uuid
  s_user :: uuid
  s_tenant :: uuid
  s_refresh_hash :: string
  s_user_agent :: "string option"
  s_ip :: "string option"
  s_expires :: time
  s_created :: time

record project =
  p_id :: uuid
  p_tenant :: uuid
  p_slug :: string
  p_name :: string
  p_created :: time
  p_updated :: time

record environment =
  e_id :: uuid
  e_project :: uuid
  e_slug :: string
  e_name :: string
  e_created :: time
  e_updated :: time

record api_key =
  k_id :: uuid
  k_env :: uuid
  k_name :: string
  k_hash :: string
  k_prefix :: string
  k_last_used :: "time option"
  k_expires :: "time option"
  k_revoked :: "time option"
  k_created :: time
  k_created_by :: "uuid option"

record flag =
  f_id :: uuid
  f_project :: uuid
  f_key :: string
  f_name :: string
  f_description :: "string option"
  f_type :: string
  f_default :: raw_message
  f_archived :: "time option"
  f_created :: time
  f_updated :: time
  f_created_by :: "uuid option"

record flag_environment =
  fe_flag :: uuid
  fe_env :: uuid
  fe_enabled :: bool
  fe_rules :: raw_message
  fe_default :: raw_message
  fe_version :: int
  fe_created :: time
  fe_updated :: time
  fe_updated_by :: "uuid option"

record db_segment =
  g_id :: uuid
  g_project :: uuid
  g_key :: string
  g_name :: string
  g_description :: "string option"
  g_rules :: raw_message
  g_archived :: "time option"
  g_created :: time
  g_updated :: time
  g_created_by :: "uuid option"

record login_attempt =
  la_id :: uuid
  la_user :: uuid
  la_ip :: "string option"
  la_user_agent :: "string option"
  la_at :: time

record revoked_token =
  rt_id :: uuid
  rt_hash :: string
  rt_user :: uuid
  rt_tenant :: uuid
  rt_revoked :: time
  rt_expires :: time

record audit_entry =
  a_id :: uuid
  a_tenant :: uuid
  a_actor :: "uuid option"
  a_actor_type :: string
  a_action :: string
  a_resource_type :: string
  a_resource :: "uuid option"
  a_changes :: raw_message
  a_ip :: "string option"
  a_user_agent :: "string option"
  a_created :: time

record database =
  tenants :: "tenant list"
  users :: "user list"
  members :: "tenant_member list"
  sessions :: "session list"
  projects :: "project list"
  environments :: "environment list"
  api_keys :: "api_key list"
  flags :: "flag list"
  flag_envs :: "flag_environment list"
  segment_rows :: "db_segment list"
  login_attempts :: "login_attempt list"
  revoked_tokens :: "revoked_token list"
  audit_log :: "audit_entry list"

text \<open>The flattened view of \<open>query_models.go\<close>, the filter and the page of audit queries.\<close>

record flag_env_config =
  fc_flag_id :: uuid
  fc_env_id :: uuid
  fc_flag_key :: string
  fc_flag_name :: string
  fc_flag_type :: string
  fc_flag_default :: raw_message
  fc_is_enabled :: bool
  fc_raw_rules :: raw_message
  fc_env_default_raw :: raw_message
  fc_row_version :: int
  fc_row_updated :: time
  fc_row_updated_by :: "uuid option"

record audit_filter =
  af_tenant :: uuid
  af_actor :: "uuid option"
  af_actor_type :: "string option"
  af_action :: "string option"
  af_resource_type :: "string option"
  af_resource :: "uuid option"
  af_since :: "time option"
  af_until :: "time option"
  af_limit :: int
  af_offset :: int

record audit_page =
  ap_entries :: "audit_entry list"
  ap_total :: nat
  ap_limit :: int
  ap_offset :: int

section \<open>Errors\<close>

text \<open>
  The sentinel errors, and \<open>ErrDatabase\<close> for every other error a store returns (the wrapped error of
  the driver or of PostgreSQL).
\<close>

datatype store_error =
    ErrNotFound
  | ErrAlreadyInitialized
  | ErrVersionConflict
  | ErrDuplicateKey
  | ErrTenantNotFound
  | ErrUserNotFound
  | ErrProjectNotFound
  | ErrEnvironmentNotFound
  | ErrFlagNotFound
  | ErrFlagArchived
  | ErrSegmentNotFound
  | ErrAccountLocked
  | ErrDatabase

datatype pg_error = UniqueViolation | OtherViolation

section \<open>The world\<close>

text \<open>
  Events, as \<open>internal/streaming/event.go\<close> has them with the payload of the two kinds the handlers
  publish, and the windows of \<open>middleware/rate_limit.go\<close>: the state the process keeps beside the
  database.
\<close>

record event =
  ev_env :: uuid
  ev_type :: string
  ev_key :: string
  ev_action :: string

record window_entry =
  we_count :: nat
  we_reset :: time

record world =
  db :: database
  published :: "event list"
  login_windows :: "(string \<times> window_entry) list"
  refresh_windows :: "(string \<times> window_entry) list"
  tick :: nat
  tx_now :: "time option"
  clock :: "nat \<Rightarrow> time"
  new_uuid :: "nat \<Rightarrow> uuid"
  random_bytes :: "nat \<Rightarrow> nat \<Rightarrow> nat list option"
  fault :: "nat \<Rightarrow> bool"
  serialization :: "nat \<Rightarrow> bool"

type_synonym 'a stmt = "database \<Rightarrow> time \<Rightarrow> pg_error + 'a \<times> database"
type_synonym 'a op = "world \<Rightarrow> (store_error + 'a) \<times> world"

text \<open>\<open>NOW()\<close>: the time, or the time the current transaction began.\<close>

definition sql_now :: "world \<Rightarrow> time" where
  "sql_now w = (case tx_now w of None \<Rightarrow> clock w (tick w) | Some t \<Rightarrow> t)"

definition run_sql :: "'a stmt \<Rightarrow> world \<Rightarrow> (pg_error option + 'a) \<times> world" where
  "run_sql st w =
     (let w' = w\<lparr>tick := Suc (tick w)\<rparr> in
      if fault w (tick w) then (Inl None, w')
      else (case st (db w) (sql_now w) of
              Inl e \<Rightarrow> (Inl (Some e), w')
            | Inr (x, d) \<Rightarrow> (Inr x, w'\<lparr>db := d\<rparr>)))"

text \<open>
  The two shapes of a store method's error handling: every error is wrapped, or a unique violation
  becomes \<open>ErrDuplicateKey\<close> (\<open>isUniqueViolation\<close>).
\<close>

definition isUniqueViolation :: "pg_error option \<Rightarrow> bool" where
  "isUniqueViolation e \<longleftrightarrow> e = Some UniqueViolation"

definition wrapped :: "(pg_error option + 'a) \<times> world \<Rightarrow> (store_error + 'a) \<times> world" where
  "wrapped r = (case r of (Inl _, w) \<Rightarrow> (Inl ErrDatabase, w) | (Inr x, w) \<Rightarrow> (Inr x, w))"

definition wrapped_unique :: "(pg_error option + 'a) \<times> world \<Rightarrow> (store_error + 'a) \<times> world" where
  "wrapped_unique r =
     (case r of
        (Inl e, w) \<Rightarrow> (if isUniqueViolation e then Inl ErrDuplicateKey else Inl ErrDatabase, w)
      | (Inr x, w) \<Rightarrow> (Inr x, w))"

text \<open>A query for one row, with \<open>pgx.ErrNoRows\<close> translated; a command whose row count is tested.\<close>

definition found :: "store_error \<Rightarrow> (store_error + 'a option) \<times> world \<Rightarrow> (store_error + 'a) \<times> world" where
  "found e r =
     (case r of
        (Inl e', w) \<Rightarrow> (Inl e', w)
      | (Inr None, w) \<Rightarrow> (Inl e, w)
      | (Inr (Some x), w) \<Rightarrow> (Inr x, w))"

definition affected :: "store_error \<Rightarrow> (store_error + nat) \<times> world \<Rightarrow> (store_error + unit) \<times> world" where
  "affected e r =
     (case r of
        (Inl e', w) \<Rightarrow> (Inl e', w)
      | (Inr n, w) \<Rightarrow> (if n = 0 then Inl e else Inr (), w))"

section \<open>Column types and constraints\<close>

definition cont :: "char \<Rightarrow> bool" where
  "cont c \<longleftrightarrow> (let n = of_char c :: nat in 128 \<le> n \<and> n < 192)"

definition between :: "nat \<Rightarrow> nat \<Rightarrow> char \<Rightarrow> bool" where
  "between a b c \<longleftrightarrow> (let n = of_char c :: nat in a \<le> n \<and> n \<le> b)"

text \<open>The characters of a UTF-8 text that PostgreSQL can store (no NUL); \<open>None\<close> if it rejects it.\<close>

fun utf8_length :: "string \<Rightarrow> nat option" where
  "utf8_length [] = Some 0"
| "utf8_length (a # s) =
     (if between 1 127 a then map_option Suc (utf8_length s)
      else (case s of
        b # s1 \<Rightarrow>
          if between 194 223 a \<and> cont b then map_option Suc (utf8_length s1)
          else (case s1 of
            c # s2 \<Rightarrow>
              if (a = CHR 0xE0 \<and> between 160 191 b \<or> between 225 236 a \<and> cont b \<or>
                  a = CHR 0xED \<and> between 128 159 b \<or> between 238 239 a \<and> cont b) \<and> cont c
              then map_option Suc (utf8_length s2)
              else (case s2 of
                d # s3 \<Rightarrow>
                  if (a = CHR 0xF0 \<and> between 144 191 b \<or> between 241 243 a \<and> cont b \<or>
                      a = CHR 0xF4 \<and> between 128 143 b) \<and> cont c \<and> cont d
                  then map_option Suc (utf8_length s3)
                  else None
              | [] \<Rightarrow> None)
          | [] \<Rightarrow> None)
      | [] \<Rightarrow> None))"

definition varchar :: "nat \<Rightarrow> string \<Rightarrow> bool" where
  "varchar n s \<longleftrightarrow> (case utf8_length s of None \<Rightarrow> False | Some k \<Rightarrow> k \<le> n)"

definition text_opt :: "string option \<Rightarrow> bool" where
  "text_opt s \<longleftrightarrow> (case s of None \<Rightarrow> True | Some x \<Rightarrow> utf8_length x \<noteq> None)"

definition lower_alnum :: "char \<Rightarrow> bool" where
  "lower_alnum c \<longleftrightarrow> (let n = of_char c :: nat in 97 \<le> n \<and> n \<le> 122 \<or> 48 \<le> n \<and> n \<le> 57)"

text \<open>The formats \<open>^[a-z0-9]([a-z0-9-]*[a-z0-9])?$\<close> and \<open>^[a-z0-9][a-z0-9_-]*[a-z0-9]$\<close>, which the
  API checks with \<open>slugRegex\<close> and \<open>flagKeyRegex\<close> and the tables with their \<open>CHECK\<close> constraints.\<close>

definition slugRegex :: "string \<Rightarrow> bool" where
  "slugRegex s \<longleftrightarrow> s \<noteq> [] \<and> lower_alnum (hd s) \<and> lower_alnum (last s) \<and>
     list_all (\<lambda>c. lower_alnum c \<or> c = CHR ''-'') s"

definition flagKeyRegex :: "string \<Rightarrow> bool" where
  "flagKeyRegex s \<longleftrightarrow> 2 \<le> length s \<and> lower_alnum (hd s) \<and> lower_alnum (last s) \<and>
     list_all (\<lambda>c. lower_alnum c \<or> c = CHR ''-'' \<or> c = CHR ''_'') s"

text \<open>\<open>CITEXT\<close> compares emails up to case; here that of the letters of ASCII, where the locale of the database may
  fold more.\<close>

definition citext_eq :: "string \<Rightarrow> string \<Rightarrow> bool" where
  "citext_eq a b \<longleftrightarrow> map lower_char a = map lower_char b"

text \<open>\<open>ORDER BY created_at\<close>, rows of one instant in the order of their insertion.\<close>

definition order_by :: "('a \<Rightarrow> time) \<Rightarrow> 'a list \<Rightarrow> 'a list" where
  "order_by f xs = sort_key f xs"

definition order_by_desc :: "('a \<Rightarrow> time) \<Rightarrow> 'a list \<Rightarrow> 'a list" where
  "order_by_desc f xs = sort_key (\<lambda>x. - f x) xs"

text \<open>
  A document as a \<open>JSONB\<close> column keeps it: of the members of one name the last.  \<open>JSONB\<close> rejects the
  character U+0000.  The order in which it sorts the members is not modelled, nor the way it
  writes a number: one with an exponent, which it writes out, stays a \<open>JDec\<close> here.
\<close>

fun jsonb :: "json \<Rightarrow> json" where
  "jsonb (JArr vs) = JArr (map jsonb vs)"
| "jsonb (JObj ms) = JObj (foldl (\<lambda>m (k, v). put k v m) [] (map (\<lambda>(k, v). (k, jsonb v)) ms))"
| "jsonb v = v"

fun jsonb_ok :: "json \<Rightarrow> bool" where
  "jsonb_ok (JStr s) \<longleftrightarrow> utf8_length s \<noteq> None"
| "jsonb_ok (JArr vs) \<longleftrightarrow> list_all jsonb_ok vs"
| "jsonb_ok (JObj ms) \<longleftrightarrow> list_all (\<lambda>(k, v). utf8_length k \<noteq> None \<and> jsonb_ok v) ms"
| "jsonb_ok _ \<longleftrightarrow> True"

definition jsonb_opt_ok :: "raw_message \<Rightarrow> bool" where
  "jsonb_opt_ok raw \<longleftrightarrow> (case raw of None \<Rightarrow> True | Some v \<Rightarrow> jsonb_ok v)"

section \<open>Statements\<close>

definition query :: "(database \<Rightarrow> 'a) \<Rightarrow> 'a stmt" where
  "query f d now = Inr (f d, d)"

text \<open>A text parameter PostgreSQL cannot read makes a lookup fail.\<close>

definition text_query :: "string \<Rightarrow> (database \<Rightarrow> 'a) \<Rightarrow> 'a stmt" where
  "text_query s f d now = (if utf8_length s = None then Inl OtherViolation else Inr (f d, d))"

text \<open>
  An insertion of one row: the column types and \<open>CHECK\<close> constraints first, then the unique indexes,
  then the foreign keys.
\<close>

definition insertion :: "bool \<Rightarrow> bool \<Rightarrow> bool \<Rightarrow> 'a \<Rightarrow> database \<Rightarrow> pg_error + 'a \<times> database" where
  "insertion checks clash refs row d' =
     (if \<not> checks then Inl OtherViolation
      else if clash then Inl UniqueViolation
      else if \<not> refs then Inl OtherViolation
      else Inr (row, d'))"

definition id_or_new :: "world \<Rightarrow> uuid \<Rightarrow> uuid" where
  "id_or_new w i = (if i = uuid_nil then new_uuid w (tick w) else i)"

definition user_exists :: "database \<Rightarrow> uuid \<Rightarrow> bool" where
  "user_exists d i \<longleftrightarrow> i \<in> u_id ` set (users d)"

definition user_ref :: "database \<Rightarrow> uuid option \<Rightarrow> bool" where
  "user_ref d i \<longleftrightarrow> (case i of None \<Rightarrow> True | Some u \<Rightarrow> user_exists d u)"

definition tenant_exists :: "database \<Rightarrow> uuid \<Rightarrow> bool" where
  "tenant_exists d i \<longleftrightarrow> i \<in> t_id ` set (tenants d)"

definition project_exists :: "database \<Rightarrow> uuid \<Rightarrow> bool" where
  "project_exists d i \<longleftrightarrow> i \<in> p_id ` set (projects d)"

definition environment_exists :: "database \<Rightarrow> uuid \<Rightarrow> bool" where
  "environment_exists d i \<longleftrightarrow> i \<in> e_id ` set (environments d)"

definition flag_exists :: "database \<Rightarrow> uuid \<Rightarrow> bool" where
  "flag_exists d i \<longleftrightarrow> i \<in> f_id ` set (flags d)"

section \<open>Frames\<close>

text \<open>What running a statement leaves as it is.\<close>

definition same_oracle :: "world \<Rightarrow> world \<Rightarrow> bool" where
  "same_oracle w w' \<longleftrightarrow>
     tx_now w' = tx_now w \<and> clock w' = clock w \<and> new_uuid w' = new_uuid w \<and>
     random_bytes w' = random_bytes w \<and> fault w' = fault w \<and> serialization w' = serialization w"

lemma same_oracle_refl [simp]: "same_oracle w w"
  by (simp add: same_oracle_def)

lemma same_oracle_trans: "same_oracle a b \<Longrightarrow> same_oracle b c \<Longrightarrow> same_oracle a c"
  by (simp add: same_oracle_def)

lemma run_sql_cases:
  obtains (lost) "fault w (tick w)" "run_sql st w = (Inl None, w\<lparr>tick := Suc (tick w)\<rparr>)"
  | (rejected) e where "\<not> fault w (tick w)" "st (db w) (sql_now w) = Inl e"
      "run_sql st w = (Inl (Some e), w\<lparr>tick := Suc (tick w)\<rparr>)"
  | (done_) x d where "\<not> fault w (tick w)" "st (db w) (sql_now w) = Inr (x, d)"
      "run_sql st w = (Inr x, w\<lparr>tick := Suc (tick w), db := d\<rparr>)"
  by (cases "fault w (tick w)"; cases "st (db w) (sql_now w)") (auto simp: run_sql_def Let_def)

end
