(* ===== verification/Auth.thy ===== *)
theory Auth
  imports Database
begin

text \<open>
  \<open>internal/auth\<close>: roles, base62, opaque tokens and API keys, claims and access tokens, passwords.

  What the package takes from elsewhere is the record \<open>crypto\<close>: SHA-256 (in hex), bcrypt, the
  signing and parsing of a JWT (\<open>golang-jwt\<close>), and the text form of a UUID (\<open>google/uuid\<close>).  The
  functions that draw random bytes take them from the world.
\<close>

section \<open>Roles\<close>

datatype role = RoleOwner | RoleAdmin | RoleMember | RoleViewer | RoleOther string

fun role_string :: "role \<Rightarrow> string" where
  "role_string RoleOwner = ''owner''"
| "role_string RoleAdmin = ''admin''"
| "role_string RoleMember = ''member''"
| "role_string RoleViewer = ''viewer''"
| "role_string (RoleOther s) = s"

definition ParseRole :: "string \<Rightarrow> role" where
  "ParseRole raw =
     (let r = to_lower (trim_space raw) in
      if r = ''owner'' then RoleOwner
      else if r = ''admin'' then RoleAdmin
      else if r = ''member'' then RoleMember
      else if r = ''viewer'' then RoleViewer
      else RoleOther r)"

fun Valid :: "role \<Rightarrow> bool" where
  "Valid (RoleOther _) = False"
| "Valid _ = True"

fun Level :: "role \<Rightarrow> nat" where
  "Level RoleOwner = 4"
| "Level RoleAdmin = 3"
| "Level RoleMember = 2"
| "Level RoleViewer = 1"
| "Level (RoleOther _) = 0"

definition AtLeast :: "role \<Rightarrow> role \<Rightarrow> bool" where
  "AtLeast r minimum \<longleftrightarrow> Level minimum \<le> Level r"

instantiation role :: preorder
begin

definition less_eq_role :: "role \<Rightarrow> role \<Rightarrow> bool" where
  "less_eq_role r s \<longleftrightarrow> AtLeast s r"

definition less_role :: "role \<Rightarrow> role \<Rightarrow> bool" where
  "less_role r s \<longleftrightarrow> AtLeast s r \<and> \<not> AtLeast r s"

instance
  by standard (auto simp: less_eq_role_def less_role_def AtLeast_def)

end

section \<open>Base62\<close>

definition base62Alphabet :: string where
  "base62Alphabet = ''0123456789ABCDEFGHIJKLMNOPQRSTUVWXYZabcdefghijklmnopqrstuvwxyz''"

text \<open>\<open>base62Indexes\<close>: the position of a character, \<open>None\<close> for -1.\<close>

fun index_in :: "char \<Rightarrow> string \<Rightarrow> nat option" where
  "index_in c [] = None"
| "index_in c (d # ds) = (if c = d then Some 0 else map_option Suc (index_in c ds))"

definition base62Index :: "char \<Rightarrow> nat option" where
  "base62Index c = index_in c base62Alphabet"

text \<open>\<open>SetBytes\<close> and \<open>Bytes\<close> of \<open>math/big\<close>: big-endian, without leading zeros.\<close>

definition set_bytes :: "nat list \<Rightarrow> nat" where
  "set_bytes bs = foldl (\<lambda>x b. 256 * x + b) 0 bs"

fun digits_rev :: "nat \<Rightarrow> nat \<Rightarrow> nat list" where
  "digits_rev b n = (if n = 0 \<or> b < 2 then [] else n mod b # digits_rev b (n div b))"

declare digits_rev.simps [simp del]

definition big_bytes :: "nat \<Rightarrow> nat list" where
  "big_bytes n = rev (digits_rev 256 n)"

definition leading :: "'a \<Rightarrow> 'a list \<Rightarrow> nat" where
  "leading z xs = length (takeWhile (\<lambda>x. x = z) xs)"

definition Base62Encode :: "nat list \<Rightarrow> string" where
  "Base62Encode src =
     (if src = [] then ''''
      else (let leadingZeroes = leading 0 src; x = set_bytes src in
            if x = 0 then replicate leadingZeroes (base62Alphabet ! 0)
            else rev (map (\<lambda>d. base62Alphabet ! d) (digits_rev 62 x) @
                      replicate leadingZeroes (base62Alphabet ! 0))))"

fun decode_digits :: "nat \<Rightarrow> string \<Rightarrow> nat option" where
  "decode_digits x [] = Some x"
| "decode_digits x (c # cs) =
     (case base62Index c of None \<Rightarrow> None | Some i \<Rightarrow> decode_digits (x * 62 + i) cs)"

definition Base62Decode :: "string \<Rightarrow> nat list option" where
  "Base62Decode s =
     (if s = '''' then Some []
      else (let leadingZeroes = leading (base62Alphabet ! 0) s in
            map_option (\<lambda>x. replicate leadingZeroes 0 @ big_bytes x) (decode_digits 0 s)))"

section \<open>Tokens and API keys\<close>

record claims =
  c_tenant_id :: string
  c_role :: string
  c_sid :: string
  c_subject :: string
  c_issuer :: string
  c_issued :: time
  c_not_before :: time
  c_expires :: time

record crypto =
  sha256_hex :: "string \<Rightarrow> string"
  bcrypt_hash :: "string \<Rightarrow> nat \<Rightarrow> string option"
  bcrypt_ok :: "string \<Rightarrow> string \<Rightarrow> bool"
  jwt_date :: "time \<Rightarrow> time"
  jwt_sign :: "claims \<Rightarrow> string \<Rightarrow> string option"
  jwt_parse :: "string \<Rightarrow> string \<Rightarrow> string \<Rightarrow> time \<Rightarrow> claims option"
  uuid_string :: "uuid \<Rightarrow> string"
  uuid_parse :: "string \<Rightarrow> uuid option"

definition defaultRandomBytes :: nat where "defaultRandomBytes = 32"

text \<open>\<open>None\<close> is the error; a draw of random bytes is a step of the world.\<close>

definition generateOpaqueToken :: "nat \<Rightarrow> world \<Rightarrow> string option \<times> world" where
  "generateOpaqueToken randomBytes w =
     (let n = (if randomBytes = 0 then defaultRandomBytes else randomBytes) in
      if n < 16 then (None, w)
      else (map_option Base62Encode (random_bytes w (tick w) n), w\<lparr>tick := Suc (tick w)\<rparr>))"

definition HashRefreshToken :: "crypto \<Rightarrow> string \<Rightarrow> string" where
  "HashRefreshToken cr rawToken = sha256_hex cr rawToken"

definition GenerateRefreshToken :: "crypto \<Rightarrow> nat \<Rightarrow> world \<Rightarrow> (string \<times> string) option \<times> world" where
  "GenerateRefreshToken cr randomBytes w =
     (case generateOpaqueToken randomBytes w of
        (None, w') \<Rightarrow> (None, w')
      | (Some rawToken, w') \<Rightarrow> (Some (rawToken, HashRefreshToken cr rawToken), w'))"

definition apiKeyPrefixLength :: nat where "apiKeyPrefixLength = 12"

definition normalizeEnvHint :: "string \<Rightarrow> string option" where
  "normalizeEnvHint envHint =
     (let hint = to_lower (trim_space envHint) in
      if hint = ''live'' \<or> hint = ''test'' then Some hint else None)"

definition HashAPIKey :: "crypto \<Rightarrow> string \<Rightarrow> string" where
  "HashAPIKey cr rawKey = sha256_hex cr rawKey"

definition GenerateAPIKey ::
  "crypto \<Rightarrow> string \<Rightarrow> nat \<Rightarrow> world \<Rightarrow> (string \<times> string \<times> string) option \<times> world" where
  "GenerateAPIKey cr envHint randomBytes w =
     (case normalizeEnvHint envHint of
        None \<Rightarrow> (None, w)
      | Some hint \<Rightarrow>
          (case generateOpaqueToken randomBytes w of
             (None, w') \<Rightarrow> (None, w')
           | (Some token, w') \<Rightarrow>
               (let rawKey = ''fs_'' @ hint @ ''_'' @ token in
                (Some (rawKey, HashAPIKey cr rawKey, take apiKeyPrefixLength rawKey), w'))))"

section \<open>Claims and access tokens\<close>

definition issuer :: string where "issuer = ''flagstone''"

text \<open>The dates of a claim are what \<open>jwt.NewNumericDate\<close> makes of a time.\<close>

definition NewClaims ::
  "crypto \<Rightarrow> uuid \<Rightarrow> uuid \<Rightarrow> string \<Rightarrow> time \<Rightarrow> int \<Rightarrow> uuid \<Rightarrow> claims option" where
  "NewClaims cr userID tenantID role now ttl sessionID =
     (if userID = uuid_nil \<or> tenantID = uuid_nil \<or> role = '''' \<or> ttl \<le> 0 then None
      else Some \<lparr>c_tenant_id = uuid_string cr tenantID, c_role = role,
                 c_sid = (if sessionID = uuid_nil then '''' else uuid_string cr sessionID),
                 c_subject = uuid_string cr userID, c_issuer = issuer, c_issued = jwt_date cr now,
                 c_not_before = jwt_date cr now, c_expires = jwt_date cr (now + ttl)\<rparr>)"

definition UserID :: "crypto \<Rightarrow> claims option \<Rightarrow> uuid option" where
  "UserID cr c = (case c of None \<Rightarrow> None | Some c \<Rightarrow> uuid_parse cr (c_subject c))"

text \<open>\<open>SessionID\<close>: \<open>Some uuid_nil\<close> when there is none, \<open>None\<close> for the error.\<close>

definition SessionID :: "crypto \<Rightarrow> claims option \<Rightarrow> uuid option" where
  "SessionID cr c =
     (case c of
        None \<Rightarrow> Some uuid_nil
      | Some c \<Rightarrow> (if c_sid c = '''' then Some uuid_nil else uuid_parse cr (c_sid c)))"

definition TenantUUID :: "crypto \<Rightarrow> claims option \<Rightarrow> uuid option" where
  "TenantUUID cr c = (case c of None \<Rightarrow> None | Some c \<Rightarrow> uuid_parse cr (c_tenant_id c))"

definition GenerateAccessToken ::
  "crypto \<Rightarrow> uuid \<Rightarrow> uuid \<Rightarrow> string \<Rightarrow> string \<Rightarrow> int \<Rightarrow> uuid \<Rightarrow> time \<Rightarrow> string option" where
  "GenerateAccessToken cr userID tenantID role secret ttl sessionID now =
     (if length secret < 32 then None
      else if \<not> Valid (ParseRole role) then None
      else (case NewClaims cr userID tenantID role now ttl sessionID of
              None \<Rightarrow> None
            | Some c \<Rightarrow> jwt_sign cr c secret))"

text \<open>
  The parser is made for HS256 and the issuer; \<open>jwt_parse\<close> checks with the key, the expected issuer and the
  current time.
\<close>

definition ValidateAccessToken :: "crypto \<Rightarrow> string \<Rightarrow> string \<Rightarrow> time \<Rightarrow> claims option" where
  "ValidateAccessToken cr tokenStr secret now =
     (if tokenStr = '''' then None
      else if length secret < 32 then None
      else (case jwt_parse cr tokenStr secret issuer now of
              None \<Rightarrow> None
            | Some c \<Rightarrow>
                (if UserID cr (Some c) = None then None
                 else if TenantUUID cr (Some c) = None then None
                 else if \<not> Valid (ParseRole (c_role c)) then None
                 else Some c)))"

section \<open>Passwords\<close>

definition DefaultBcryptCost :: nat where "DefaultBcryptCost = 12"

text \<open>\<open>bcrypt.MinCost\<close> and \<open>MaxCost\<close> are 4 and 31.\<close>

definition HashPassword :: "crypto \<Rightarrow> string \<Rightarrow> nat \<Rightarrow> string option" where
  "HashPassword cr plain cost =
     (if plain = '''' then None
      else (let cost' = (if cost = 0 then DefaultBcryptCost else cost) in
            if cost' < 4 \<or> 31 < cost' then None else bcrypt_hash cr plain cost'))"

definition VerifyPassword :: "crypto \<Rightarrow> string \<Rightarrow> string \<Rightarrow> bool" where
  "VerifyPassword cr hash plain \<longleftrightarrow> hash \<noteq> '''' \<and> plain \<noteq> '''' \<and> bcrypt_ok cr hash plain"

end
