(* ===== verification/Stores_Identity.thy ===== *)
theory Stores_Identity
  imports Database
begin

text \<open>
  The stores of identities: \<open>tenant_store.go\<close>, \<open>user_store.go\<close>, \<open>member_store.go\<close>, \<open>session_store.go\<close>,
  \<open>login_attempt_store.go\<close> and \<open>revoked_token_store.go\<close>.  A method that fills in fields of the struct
  it is given returns the completed row.
\<close>

section \<open>Tenants\<close>

definition ExistsAny :: "bool op" where
  "ExistsAny w = wrapped (run_sql (query (\<lambda>d. tenants d \<noteq> [])) w)"

definition insert_tenant :: "tenant \<Rightarrow> tenant stmt" where
  "insert_tenant t d now =
     (let row = t\<lparr>t_created := now, t_updated := now\<rparr> in
      insertion
        (varchar 64 (t_slug t) \<and> varchar 255 (t_name t) \<and>
         t_plan t \<in> {''free'', ''team'', ''enterprise''} \<and> slugRegex (t_slug t))
        (\<exists>x\<in>set (tenants d). t_id x = t_id t \<or> t_slug x = t_slug t)
        True row (d\<lparr>tenants := tenants d @ [row]\<rparr>))"

definition TenantStore_Create :: "tenant \<Rightarrow> tenant op" where
  "TenantStore_Create t w =
     (let t1 = t\<lparr>t_id := id_or_new w (t_id t), t_slug := trim_space (t_slug t),
                 t_name := trim_space (t_name t)\<rparr> in
      wrapped_unique (run_sql (insert_tenant t1) w))"

definition TenantStore_GetByID :: "uuid \<Rightarrow> tenant op" where
  "TenantStore_GetByID i w =
     found ErrTenantNotFound (wrapped (run_sql (query (\<lambda>d. find (\<lambda>t. t_id t = i) (tenants d))) w))"

definition TenantStore_GetBySlug :: "string \<Rightarrow> tenant op" where
  "TenantStore_GetBySlug slug w =
     found ErrTenantNotFound
       (wrapped (run_sql (text_query (trim_space slug)
         (\<lambda>d. find (\<lambda>t. t_slug t = trim_space slug) (tenants d))) w))"

section \<open>Users\<close>

definition insert_user :: "user \<Rightarrow> user stmt" where
  "insert_user u d now =
     (let row = u\<lparr>u_created := now, u_updated := now\<rparr> in
      insertion
        (utf8_length (u_email u) \<noteq> None \<and>
         (case u_password_hash u of None \<Rightarrow> True | Some h \<Rightarrow> varchar 255 h))
        (\<exists>x\<in>set (users d). u_id x = u_id u \<or> citext_eq (u_email x) (u_email u))
        True row (d\<lparr>users := users d @ [row]\<rparr>))"

definition UserStore_Create :: "user \<Rightarrow> user op" where
  "UserStore_Create u w =
     (let u1 = u\<lparr>u_id := id_or_new w (u_id u), u_email := trim_space (u_email u)\<rparr> in
      wrapped_unique (run_sql (insert_user u1) w))"

definition UserStore_GetByID :: "uuid \<Rightarrow> user op" where
  "UserStore_GetByID i w =
     found ErrUserNotFound (wrapped (run_sql (query (\<lambda>d. find (\<lambda>u. u_id u = i) (users d))) w))"

definition UserStore_GetByEmail :: "string \<Rightarrow> user op" where
  "UserStore_GetByEmail email w =
     (let e = trim_space email in
      found ErrUserNotFound (wrapped (run_sql (text_query e
        (\<lambda>d. find (\<lambda>u. citext_eq (u_email u) e) (users d))) w)))"

text \<open>An \<open>UPDATE\<close> of the user \<open>i\<close>; the trigger \<open>users_set_updated_at\<close> stamps the row.\<close>

definition update_user :: "uuid \<Rightarrow> (user \<Rightarrow> user) \<Rightarrow> nat stmt" where
  "update_user i f d now =
     Inr (length (filter (\<lambda>u. u_id u = i) (users d)),
          d\<lparr>users := update_where (\<lambda>u. u_id u = i) (\<lambda>u. (f u)\<lparr>u_updated := now\<rparr>) (users d)\<rparr>)"

definition UpdateLastLogin :: "uuid \<Rightarrow> time \<Rightarrow> unit op" where
  "UpdateLastLogin i t w =
     affected ErrUserNotFound (wrapped (run_sql (update_user i (\<lambda>u. u\<lparr>u_last_login := Some t\<rparr>)) w))"

definition update_password :: "uuid \<Rightarrow> string \<Rightarrow> nat stmt" where
  "update_password i h d now =
     (if varchar 255 h \<or> \<not> user_exists d i
      then update_user i (\<lambda>u. u\<lparr>u_password_hash := Some h\<rparr>) d now
      else Inl OtherViolation)"

definition UpdatePasswordHash :: "uuid \<Rightarrow> string \<Rightarrow> unit op" where
  "UpdatePasswordHash i h w =
     affected ErrUserNotFound (wrapped (run_sql (update_password i h) w))"

definition VerifyEmail :: "uuid \<Rightarrow> time \<Rightarrow> unit op" where
  "VerifyEmail i t w =
     affected ErrUserNotFound (wrapped (run_sql (update_user i (\<lambda>u. u\<lparr>u_email_verified := Some t\<rparr>)) w))"

section \<open>Members\<close>

definition insert_member :: "tenant_member \<Rightarrow> tenant_member stmt" where
  "insert_member m d now =
     (let row = m\<lparr>m_created := now\<rparr> in
      insertion
        (m_role m \<in> {''owner'', ''admin'', ''member'', ''viewer''})
        (\<exists>x\<in>set (members d). m_tenant x = m_tenant m \<and> m_user x = m_user m)
        (tenant_exists d (m_tenant m) \<and> user_exists d (m_user m))
        row (d\<lparr>members := members d @ [row]\<rparr>))"

definition MemberStore_Add :: "tenant_member \<Rightarrow> tenant_member op" where
  "MemberStore_Add m w = wrapped_unique (run_sql (insert_member m) w)"

definition GetRole :: "uuid \<Rightarrow> uuid \<Rightarrow> string op" where
  "GetRole tenant user w =
     found ErrNotFound (wrapped (run_sql (query (\<lambda>d.
       map_option m_role (find (\<lambda>m. m_tenant m = tenant \<and> m_user m = user) (members d)))) w))"

definition MemberStore_ListByTenant :: "uuid \<Rightarrow> tenant_member list op" where
  "MemberStore_ListByTenant tenant w =
     wrapped (run_sql (query (\<lambda>d. order_by m_created (filter (\<lambda>m. m_tenant m = tenant) (members d)))) w)"

definition update_role :: "uuid \<Rightarrow> uuid \<Rightarrow> string \<Rightarrow> nat stmt" where
  "update_role tenant user role d now =
     (let hit = (\<lambda>m. m_tenant m = tenant \<and> m_user m = user);
          n = length (filter hit (members d)) in
      if n \<noteq> 0 \<and> role \<notin> {''owner'', ''admin'', ''member'', ''viewer''} then Inl OtherViolation
      else Inr (n, d\<lparr>members := update_where hit (\<lambda>m. m\<lparr>m_role := role\<rparr>) (members d)\<rparr>))"

definition UpdateRole :: "uuid \<Rightarrow> uuid \<Rightarrow> string \<Rightarrow> unit op" where
  "UpdateRole tenant user role w =
     affected ErrNotFound (wrapped (run_sql (update_role tenant user role) w))"

definition delete_member :: "uuid \<Rightarrow> uuid \<Rightarrow> nat stmt" where
  "delete_member tenant user d now =
     (let hit = (\<lambda>m. m_tenant m = tenant \<and> m_user m = user) in
      Inr (length (filter hit (members d)), d\<lparr>members := filter (\<lambda>m. \<not> hit m) (members d)\<rparr>))"

definition MemberStore_Remove :: "uuid \<Rightarrow> uuid \<Rightarrow> unit op" where
  "MemberStore_Remove tenant user w =
     affected ErrNotFound (wrapped (run_sql (delete_member tenant user) w))"

definition MemberStore_ListByUser :: "uuid \<Rightarrow> tenant_member list op" where
  "MemberStore_ListByUser user w =
     wrapped (run_sql (query (\<lambda>d. order_by m_created (filter (\<lambda>m. m_user m = user) (members d)))) w)"

section \<open>Sessions\<close>

definition insert_session :: "session \<Rightarrow> session stmt" where
  "insert_session s d now =
     (let row = s\<lparr>s_created := now\<rparr> in
      insertion
        (varchar 64 (s_refresh_hash s) \<and> text_opt (s_user_agent s))
        (\<exists>x\<in>set (sessions d). s_id x = s_id s \<or> s_refresh_hash x = s_refresh_hash s)
        (user_exists d (s_user s) \<and> tenant_exists d (s_tenant s))
        row (d\<lparr>sessions := sessions d @ [row]\<rparr>))"

definition SessionStore_Create :: "session \<Rightarrow> session op" where
  "SessionStore_Create s w =
     wrapped_unique (run_sql (insert_session (s\<lparr>s_id := id_or_new w (s_id s)\<rparr>)) w)"

definition SessionStore_GetByID :: "uuid \<Rightarrow> session op" where
  "SessionStore_GetByID i w =
     found ErrNotFound (wrapped (run_sql (query (\<lambda>d. find (\<lambda>s. s_id s = i) (sessions d))) w))"

definition ListByUserID :: "uuid \<Rightarrow> session list op" where
  "ListByUserID user w =
     wrapped (run_sql (\<lambda>d now. Inr (order_by_desc s_created
       (filter (\<lambda>s. s_user s = user \<and> now < s_expires s) (sessions d)), d)) w)"

definition GetByRefreshHash :: "string \<Rightarrow> session op" where
  "GetByRefreshHash h w =
     found ErrNotFound (wrapped (run_sql (query (\<lambda>d. find (\<lambda>s. s_refresh_hash s = h) (sessions d))) w))"

definition delete_sessions :: "(session \<Rightarrow> bool) \<Rightarrow> nat stmt" where
  "delete_sessions hit d now =
     Inr (length (filter hit (sessions d)), d\<lparr>sessions := filter (\<lambda>s. \<not> hit s) (sessions d)\<rparr>)"

definition SessionStore_DeleteByID :: "uuid \<Rightarrow> unit op" where
  "SessionStore_DeleteByID i w =
     affected ErrNotFound (wrapped (run_sql (delete_sessions (\<lambda>s. s_id s = i)) w))"

definition DeleteByUserID :: "uuid \<Rightarrow> unit op" where
  "DeleteByUserID user w =
     (case wrapped (run_sql (delete_sessions (\<lambda>s. s_user s = user)) w) of
        (Inl e, w') \<Rightarrow> (Inl e, w') | (Inr _, w') \<Rightarrow> (Inr (), w'))"

definition delete_expired_sessions :: "nat stmt" where
  "delete_expired_sessions d now = delete_sessions (\<lambda>s. s_expires s < now) d now"

definition SessionStore_DeleteExpired :: "nat op" where
  "SessionStore_DeleteExpired w = wrapped (run_sql delete_expired_sessions w)"

section \<open>Failed logins\<close>

definition insert_login_attempt :: "login_attempt \<Rightarrow> login_attempt stmt" where
  "insert_login_attempt a d now =
     insertion (text_opt (la_user_agent a))
       (la_id a \<in> la_id ` set (login_attempts d)) (user_exists d (la_user a))
       a (d\<lparr>login_attempts := login_attempts d @ [a]\<rparr>)"

definition LoginAttemptStore_Record :: "login_attempt \<Rightarrow> login_attempt op" where
  "LoginAttemptStore_Record a w =
     (let a1 = a\<lparr>la_id := id_or_new w (la_id a),
                 la_at := if la_at a = zero_time then clock w (tick w) else la_at a\<rparr> in
      wrapped (run_sql (insert_login_attempt a1) w))"

definition CountSince :: "uuid \<Rightarrow> time \<Rightarrow> nat op" where
  "CountSince user since w =
     wrapped (run_sql (query (\<lambda>d.
       length (filter (\<lambda>a. la_user a = user \<and> since \<le> la_at a) (login_attempts d)))) w)"

definition delete_attempts :: "(login_attempt \<Rightarrow> bool) \<Rightarrow> nat stmt" where
  "delete_attempts hit d now =
     Inr (length (filter hit (login_attempts d)),
          d\<lparr>login_attempts := filter (\<lambda>a. \<not> hit a) (login_attempts d)\<rparr>)"

definition ClearForUser :: "uuid \<Rightarrow> unit op" where
  "ClearForUser user w =
     (case wrapped (run_sql (delete_attempts (\<lambda>a. la_user a = user)) w) of
        (Inl e, w') \<Rightarrow> (Inl e, w') | (Inr _, w') \<Rightarrow> (Inr (), w'))"

definition DeleteOlderThan :: "time \<Rightarrow> nat op" where
  "DeleteOlderThan cutoff w = wrapped (run_sql (delete_attempts (\<lambda>a. la_at a < cutoff)) w)"

section \<open>Revoked refresh tokens\<close>

text \<open>\<open>ON CONFLICT (token_hash) DO NOTHING\<close>: a hash that is there already is no error.\<close>

definition insert_revoked :: "revoked_token \<Rightarrow> unit stmt" where
  "insert_revoked t d now =
     (if \<not> varchar 64 (rt_hash t) then Inl OtherViolation
      else if rt_hash t \<in> rt_hash ` set (revoked_tokens d) then Inr ((), d)
      else insertion True (rt_id t \<in> rt_id ` set (revoked_tokens d))
             (user_exists d (rt_user t) \<and> tenant_exists d (rt_tenant t))
             () (d\<lparr>revoked_tokens := revoked_tokens d @ [t]\<rparr>))"

definition RevokedTokenStore_Insert :: "revoked_token \<Rightarrow> unit op" where
  "RevokedTokenStore_Insert t w =
     (let t1 = t\<lparr>rt_id := id_or_new w (rt_id t),
                 rt_revoked := if rt_revoked t = zero_time then clock w (tick w) else rt_revoked t\<rparr> in
      wrapped (run_sql (insert_revoked t1) w))"

definition RevokedTokenStore_Lookup :: "string \<Rightarrow> revoked_token op" where
  "RevokedTokenStore_Lookup h w =
     found ErrNotFound (wrapped (run_sql (query (\<lambda>d. find (\<lambda>t. rt_hash t = h) (revoked_tokens d))) w))"

definition delete_expired_revoked :: "nat stmt" where
  "delete_expired_revoked d now =
     Inr (length (filter (\<lambda>t. rt_expires t < now) (revoked_tokens d)),
          d\<lparr>revoked_tokens := filter (\<lambda>t. \<not> rt_expires t < now) (revoked_tokens d)\<rparr>)"

definition RevokedTokenStore_DeleteExpired :: "nat op" where
  "RevokedTokenStore_DeleteExpired w = wrapped (run_sql delete_expired_revoked w)"

end
