(* ===== verification/Stores_Config.thy ===== *)
theory Stores_Config
  imports Database
begin

text \<open>
  The stores of the configuration: \<open>project_store.go\<close>, \<open>environment_store.go\<close>, \<open>apikey_store.go\<close>,
  \<open>flag_store.go\<close>, \<open>flag_env_store.go\<close>, \<open>segment_store.go\<close> and \<open>audit_store.go\<close>.
\<close>

section \<open>Projects\<close>

definition insert_project :: "project \<Rightarrow> project stmt" where
  "insert_project p d now =
     (let row = p\<lparr>p_created := now, p_updated := now\<rparr> in
      insertion
        (varchar 64 (p_slug p) \<and> varchar 255 (p_name p) \<and> slugRegex (p_slug p))
        (\<exists>x\<in>set (projects d). p_id x = p_id p \<or> p_tenant x = p_tenant p \<and> p_slug x = p_slug p)
        (tenant_exists d (p_tenant p))
        row (d\<lparr>projects := projects d @ [row]\<rparr>))"

definition ProjectStore_Create :: "project \<Rightarrow> project op" where
  "ProjectStore_Create p w =
     (let p1 = p\<lparr>p_id := id_or_new w (p_id p), p_slug := trim_space (p_slug p),
                 p_name := trim_space (p_name p)\<rparr> in
      wrapped_unique (run_sql (insert_project p1) w))"

definition ProjectStore_GetBySlug :: "uuid \<Rightarrow> string \<Rightarrow> project op" where
  "ProjectStore_GetBySlug tenant slug w =
     (let s = trim_space slug in
      found ErrProjectNotFound (wrapped (run_sql (text_query s
        (\<lambda>d. find (\<lambda>p. p_tenant p = tenant \<and> p_slug p = s) (projects d))) w)))"

definition ProjectStore_ListByTenant :: "uuid \<Rightarrow> project list op" where
  "ProjectStore_ListByTenant tenant w =
     wrapped (run_sql (query (\<lambda>d. order_by p_created (filter (\<lambda>p. p_tenant p = tenant) (projects d)))) w)"

text \<open>\<open>UPDATE projects \<dots> RETURNING updated_at\<close>: the stamp of the row, or no row.\<close>

definition update_project :: "project \<Rightarrow> time option stmt" where
  "update_project p d now =
     (case find (\<lambda>x. p_id x = p_id p) (projects d) of
        None \<Rightarrow> Inr (None, d)
      | Some old \<Rightarrow>
          (if \<not> (varchar 64 (p_slug p) \<and> varchar 255 (p_name p) \<and> slugRegex (p_slug p))
           then Inl OtherViolation
           else if \<exists>x\<in>set (projects d).
             p_id x \<noteq> p_id p \<and> p_tenant x = p_tenant old \<and> p_slug x = p_slug p
           then Inl UniqueViolation
           else Inr (Some now, d\<lparr>projects := update_where (\<lambda>x. p_id x = p_id p)
             (\<lambda>x. x\<lparr>p_slug := p_slug p, p_name := p_name p, p_updated := now\<rparr>) (projects d)\<rparr>)))"

definition ProjectStore_Update :: "project \<Rightarrow> project op" where
  "ProjectStore_Update p w =
     (let p1 = p\<lparr>p_slug := trim_space (p_slug p), p_name := trim_space (p_name p)\<rparr> in
      case found ErrProjectNotFound (wrapped_unique (run_sql (update_project p1) w)) of
        (Inl e, w') \<Rightarrow> (Inl e, w')
      | (Inr t, w') \<Rightarrow> (Inr (p1\<lparr>p_updated := t\<rparr>), w'))"

section \<open>Environments\<close>

definition insert_environment :: "environment \<Rightarrow> environment stmt" where
  "insert_environment e d now =
     (let row = e\<lparr>e_created := now, e_updated := now\<rparr> in
      insertion
        (varchar 64 (e_slug e) \<and> varchar 255 (e_name e) \<and> slugRegex (e_slug e))
        (\<exists>x\<in>set (environments d). e_id x = e_id e \<or> e_project x = e_project e \<and> e_slug x = e_slug e)
        (project_exists d (e_project e))
        row (d\<lparr>environments := environments d @ [row]\<rparr>))"

definition EnvironmentStore_Create :: "environment \<Rightarrow> environment op" where
  "EnvironmentStore_Create e w =
     (let e1 = e\<lparr>e_id := id_or_new w (e_id e), e_slug := trim_space (e_slug e),
                 e_name := trim_space (e_name e)\<rparr> in
      wrapped_unique (run_sql (insert_environment e1) w))"

definition EnvironmentStore_GetByID :: "uuid \<Rightarrow> environment op" where
  "EnvironmentStore_GetByID i w =
     found ErrEnvironmentNotFound
       (wrapped (run_sql (query (\<lambda>d. find (\<lambda>e. e_id e = i) (environments d))) w))"

definition EnvironmentStore_GetBySlug :: "uuid \<Rightarrow> string \<Rightarrow> environment op" where
  "EnvironmentStore_GetBySlug proj slug w =
     (let s = trim_space slug in
      found ErrEnvironmentNotFound (wrapped (run_sql (text_query s
        (\<lambda>d. find (\<lambda>e. e_project e = proj \<and> e_slug e = s) (environments d))) w)))"

definition EnvironmentStore_ListByProject :: "uuid \<Rightarrow> environment list op" where
  "EnvironmentStore_ListByProject proj w =
     wrapped (run_sql (query (\<lambda>d.
       order_by e_created (filter (\<lambda>e. e_project e = proj) (environments d)))) w)"

text \<open>\<open>DELETE\<close> with the cascades to \<open>api_keys\<close> and \<open>flag_environments\<close>.\<close>

definition delete_environment :: "uuid \<Rightarrow> nat stmt" where
  "delete_environment i d now =
     Inr (length (filter (\<lambda>e. e_id e = i) (environments d)),
          d\<lparr>environments := filter (\<lambda>e. e_id e \<noteq> i) (environments d),
            api_keys := filter (\<lambda>k. k_env k \<noteq> i \<or> \<not> environment_exists d i) (api_keys d),
            flag_envs := filter (\<lambda>c. fe_env c \<noteq> i \<or> \<not> environment_exists d i) (flag_envs d)\<rparr>)"

definition EnvironmentStore_DeleteByID :: "uuid \<Rightarrow> unit op" where
  "EnvironmentStore_DeleteByID i w =
     affected ErrEnvironmentNotFound (wrapped (run_sql (delete_environment i) w))"

section \<open>API keys\<close>

definition insert_api_key :: "api_key \<Rightarrow> api_key stmt" where
  "insert_api_key k d now =
     (let row = k\<lparr>k_created := now\<rparr> in
      insertion
        (varchar 255 (k_name k) \<and> varchar 64 (k_hash k) \<and> varchar 16 (k_prefix k))
        (\<exists>x\<in>set (api_keys d). k_id x = k_id k \<or> k_hash x = k_hash k)
        (environment_exists d (k_env k) \<and> user_ref d (k_created_by k))
        row (d\<lparr>api_keys := api_keys d @ [row]\<rparr>))"

definition APIKeyStore_Create :: "api_key \<Rightarrow> api_key op" where
  "APIKeyStore_Create k w =
     wrapped_unique (run_sql (insert_api_key (k\<lparr>k_id := id_or_new w (k_id k)\<rparr>)) w)"

definition GetByHash :: "string \<Rightarrow> api_key op" where
  "GetByHash h w =
     found ErrNotFound (wrapped (run_sql (query
       (\<lambda>d. find (\<lambda>k. k_hash k = h \<and> k_revoked k = None) (api_keys d))) w))"

definition APIKeyStore_ListByEnvironment :: "uuid \<Rightarrow> api_key list op" where
  "APIKeyStore_ListByEnvironment env w =
     wrapped (run_sql (query (\<lambda>d. order_by k_created (filter (\<lambda>k. k_env k = env) (api_keys d)))) w)"

definition update_api_key :: "uuid \<Rightarrow> (api_key \<Rightarrow> api_key) \<Rightarrow> nat stmt" where
  "update_api_key i f d now =
     Inr (length (filter (\<lambda>k. k_id k = i) (api_keys d)),
          d\<lparr>api_keys := update_where (\<lambda>k. k_id k = i) f (api_keys d)\<rparr>)"

definition Revoke :: "uuid \<Rightarrow> time \<Rightarrow> unit op" where
  "Revoke i t w =
     affected ErrNotFound (wrapped (run_sql (update_api_key i (\<lambda>k. k\<lparr>k_revoked := Some t\<rparr>)) w))"

definition UpdateLastUsed :: "uuid \<Rightarrow> time \<Rightarrow> unit op" where
  "UpdateLastUsed i t w =
     affected ErrNotFound (wrapped (run_sql (update_api_key i (\<lambda>k. k\<lparr>k_last_used := Some t\<rparr>)) w))"

section \<open>Flags\<close>

definition flag_checks :: "flag \<Rightarrow> bool" where
  "flag_checks f \<longleftrightarrow>
     varchar 128 (f_key f) \<and> varchar 255 (f_name f) \<and> text_opt (f_description f) \<and>
     f_type f \<in> {''boolean'', ''string'', ''number'', ''json''} \<and> flagKeyRegex (f_key f) \<and>
     (case f_default f of None \<Rightarrow> False | Some v \<Rightarrow> jsonb_ok v)"

definition insert_flag :: "flag \<Rightarrow> flag stmt" where
  "insert_flag f d now =
     (let row = f\<lparr>f_default := map_option jsonb (f_default f), f_created := now, f_updated := now\<rparr> in
      insertion (flag_checks f)
        (\<exists>x\<in>set (flags d). f_id x = f_id f \<or> f_project x = f_project f \<and> f_key x = f_key f)
        (project_exists d (f_project f) \<and> user_ref d (f_created_by f))
        (f\<lparr>f_created := now, f_updated := now\<rparr>) (d\<lparr>flags := flags d @ [row]\<rparr>))"

definition FlagStore_Create :: "flag \<Rightarrow> flag op" where
  "FlagStore_Create f w =
     (let f1 = f\<lparr>f_id := id_or_new w (f_id f), f_key := trim_space (f_key f),
                 f_name := trim_space (f_name f)\<rparr> in
      wrapped_unique (run_sql (insert_flag f1) w))"

definition FlagStore_GetByKey :: "uuid \<Rightarrow> string \<Rightarrow> flag op" where
  "FlagStore_GetByKey proj key w =
     (let k = trim_space key in
      found ErrFlagNotFound (wrapped (run_sql (text_query k
        (\<lambda>d. find (\<lambda>f. f_project f = proj \<and> f_key f = k \<and> f_archived f = None) (flags d))) w)))"

definition FlagStore_ListByProject :: "uuid \<Rightarrow> flag list op" where
  "FlagStore_ListByProject proj w =
     wrapped (run_sql (query (\<lambda>d. order_by f_created
       (filter (\<lambda>f. f_project f = proj \<and> f_archived f = None) (flags d)))) w)"

text \<open>The parameters PostgreSQL reads before it looks for the row: texts and \<open>JSONB\<close> documents.\<close>

definition flag_params :: "flag \<Rightarrow> bool" where
  "flag_params f \<longleftrightarrow>
     utf8_length (f_key f) \<noteq> None \<and> utf8_length (f_name f) \<noteq> None \<and> text_opt (f_description f) \<and>
     jsonb_opt_ok (f_default f)"

definition update_flag :: "flag \<Rightarrow> time option stmt" where
  "update_flag f d now =
     (if \<not> flag_params f then Inl OtherViolation
      else case find (\<lambda>x. f_id x = f_id f \<and> f_archived x = None) (flags d) of
        None \<Rightarrow> Inr (None, d)
      | Some old \<Rightarrow>
          (if \<not> flag_checks f then Inl OtherViolation
           else if \<exists>x\<in>set (flags d).
             f_id x \<noteq> f_id f \<and> f_project x = f_project old \<and> f_key x = f_key f
           then Inl UniqueViolation
           else Inr (Some now, d\<lparr>flags := update_where (\<lambda>x. f_id x = f_id f \<and> f_archived x = None)
             (\<lambda>x. x\<lparr>f_key := f_key f, f_name := f_name f, f_description := f_description f,
                    f_type := f_type f, f_default := map_option jsonb (f_default f),
                    f_updated := now\<rparr>) (flags d)\<rparr>)))"

definition FlagStore_Update :: "flag \<Rightarrow> flag op" where
  "FlagStore_Update f w =
     (let f1 = f\<lparr>f_key := trim_space (f_key f), f_name := trim_space (f_name f)\<rparr> in
      case found ErrFlagNotFound (wrapped_unique (run_sql (update_flag f1) w)) of
        (Inl e, w') \<Rightarrow> (Inl e, w')
      | (Inr t, w') \<Rightarrow> (Inr (f1\<lparr>f_updated := t\<rparr>), w'))"

definition archive_flag :: "uuid \<Rightarrow> time \<Rightarrow> nat stmt" where
  "archive_flag i t d now =
     (let hit = (\<lambda>f. f_id f = i \<and> f_archived f = None) in
      Inr (length (filter hit (flags d)),
           d\<lparr>flags := update_where hit (\<lambda>f. f\<lparr>f_archived := Some t, f_updated := now\<rparr>) (flags d)\<rparr>))"

definition FlagStore_Archive :: "uuid \<Rightarrow> time \<Rightarrow> unit op" where
  "FlagStore_Archive i t w = affected ErrFlagNotFound (wrapped (run_sql (archive_flag i t) w))"

section \<open>Flag environments\<close>

definition flag_env_checks :: "flag_environment \<Rightarrow> bool" where
  "flag_env_checks c \<longleftrightarrow>
     (case fe_rules c of None \<Rightarrow> False | Some v \<Rightarrow> jsonb_ok v) \<and> jsonb_opt_ok (fe_default c)"

text \<open>
  The new values of an update; the triggers raise the version by one and stamp the row.
\<close>

definition touch_flag_env :: "time \<Rightarrow> flag_environment \<Rightarrow> flag_environment" where
  "touch_flag_env now c = c\<lparr>fe_version := fe_version c + 1, fe_updated := now\<rparr>"

definition set_flag_env :: "flag_environment \<Rightarrow> flag_environment \<Rightarrow> flag_environment" where
  "set_flag_env c x =
     x\<lparr>fe_enabled := fe_enabled c, fe_rules := map_option jsonb (fe_rules c),
       fe_default := map_option jsonb (fe_default c), fe_updated_by := fe_updated_by c\<rparr>"

definition is_flag_env :: "uuid \<Rightarrow> uuid \<Rightarrow> flag_environment \<Rightarrow> bool" where
  "is_flag_env flag env c \<longleftrightarrow> fe_flag c = flag \<and> fe_env c = env"

text \<open>The result of a statement that returns \<open>version, created_at, updated_at\<close>, on the struct.\<close>

definition returning :: "flag_environment \<Rightarrow> flag_environment \<Rightarrow> flag_environment" where
  "returning c row =
     c\<lparr>fe_version := fe_version row, fe_created := fe_created row, fe_updated := fe_updated row\<rparr>"

definition upsert_flag_env :: "flag_environment \<Rightarrow> flag_environment stmt" where
  "upsert_flag_env c d now =
     (if \<not> flag_env_checks c then Inl OtherViolation
      else (case find (is_flag_env (fe_flag c) (fe_env c)) (flag_envs d) of
        None \<Rightarrow>
          (let row = set_flag_env c (c\<lparr>fe_version := 1, fe_created := now, fe_updated := now\<rparr>) in
           insertion True False
             (flag_exists d (fe_flag c) \<and> environment_exists d (fe_env c) \<and> user_ref d (fe_updated_by c))
             (returning c row) (d\<lparr>flag_envs := flag_envs d @ [row]\<rparr>))
      | Some old \<Rightarrow>
          (let row = touch_flag_env now (set_flag_env c old) in
           insertion True False (user_ref d (fe_updated_by c)) (returning c row)
             (d\<lparr>flag_envs := update_where (is_flag_env (fe_flag c) (fe_env c))
                 (\<lambda>x. touch_flag_env now (set_flag_env c x)) (flag_envs d)\<rparr>))))"

definition Upsert :: "flag_environment \<Rightarrow> flag_environment op" where
  "Upsert c w = wrapped (run_sql (upsert_flag_env c) w)"

definition FlagEnvironmentStore_Get :: "uuid \<Rightarrow> uuid \<Rightarrow> flag_environment op" where
  "FlagEnvironmentStore_Get flag env w =
     found ErrNotFound (wrapped (run_sql (query (\<lambda>d. find (is_flag_env flag env) (flag_envs d))) w))"

text \<open>
  \<open>UPDATE \<dots> WHERE version = $7 RETURNING version, updated_at\<close>: the version and stamp of the row, or
  no row; the documents are read before the row is looked for.  The column of the version is a \<open>BIGINT\<close>, the
  field an \<open>int\<close> without a bound: the model has no overflow after \<open>2 ^ 63\<close> updates of one row.
\<close>

definition update_flag_env :: "flag_environment \<Rightarrow> int \<Rightarrow> (int \<times> time) option stmt" where
  "update_flag_env c expected d now =
     (let hit = (\<lambda>x. is_flag_env (fe_flag c) (fe_env c) x \<and> fe_version x = expected) in
      if \<not> jsonb_opt_ok (fe_rules c) \<or> \<not> jsonb_opt_ok (fe_default c) then Inl OtherViolation
      else case find hit (flag_envs d) of
        None \<Rightarrow> Inr (None, d)
      | Some old \<Rightarrow>
          (if \<not> flag_env_checks c \<or> \<not> user_ref d (fe_updated_by c) then Inl OtherViolation
           else Inr (Some (fe_version old + 1, now),
             d\<lparr>flag_envs := update_where hit (\<lambda>x. touch_flag_env now (set_flag_env c x)) (flag_envs d)\<rparr>)))"

definition UpdateWithVersion :: "flag_environment \<Rightarrow> int \<Rightarrow> flag_environment op" where
  "UpdateWithVersion c expected w =
     (case found ErrVersionConflict (wrapped (run_sql (update_flag_env c expected) w)) of
        (Inl e, w') \<Rightarrow> (Inl e, w')
      | (Inr (v, t), w') \<Rightarrow> (Inr (c\<lparr>fe_version := v, fe_updated := t\<rparr>), w'))"

definition set_enabled :: "uuid \<Rightarrow> uuid \<Rightarrow> bool \<Rightarrow> nat stmt" where
  "set_enabled flag env b d now =
     Inr (length (filter (is_flag_env flag env) (flag_envs d)),
          d\<lparr>flag_envs := update_where (is_flag_env flag env)
             (\<lambda>x. touch_flag_env now (x\<lparr>fe_enabled := b\<rparr>)) (flag_envs d)\<rparr>)"

definition SetEnabled :: "uuid \<Rightarrow> uuid \<Rightarrow> bool \<Rightarrow> unit op" where
  "SetEnabled flag env b w =
     (case wrapped (run_sql (set_enabled flag env b) w) of
        (Inl e, w') \<Rightarrow> (Inl e, w') | (Inr _, w') \<Rightarrow> (Inr (), w'))"

definition joined :: "flag \<Rightarrow> flag_environment \<Rightarrow> flag_env_config" where
  "joined f c =
     \<lparr>fc_flag_id = f_id f, fc_env_id = fe_env c, fc_flag_key = f_key f, fc_flag_name = f_name f,
      fc_flag_type = f_type f, fc_flag_default = f_default f, fc_is_enabled = fe_enabled c,
      fc_raw_rules = fe_rules c, fc_env_default_raw = fe_default c, fc_row_version = fe_version c,
      fc_row_updated = fe_updated c, fc_row_updated_by = fe_updated_by c\<rparr>"

definition FlagEnvironmentStore_ListByEnvironment :: "uuid \<Rightarrow> flag_env_config list op" where
  "FlagEnvironmentStore_ListByEnvironment env w =
     wrapped (run_sql (query (\<lambda>d.
       concat (map (\<lambda>f. map (joined f) (filter (is_flag_env (f_id f) env) (flag_envs d)))
         (order_by f_created (filter (\<lambda>f. f_archived f = None) (flags d)))))) w)"

section \<open>Segments\<close>

definition segment_checks :: "db_segment \<Rightarrow> bool" where
  "segment_checks s \<longleftrightarrow>
     varchar 128 (g_key s) \<and> varchar 255 (g_name s) \<and> text_opt (g_description s) \<and>
     flagKeyRegex (g_key s) \<and> (case g_rules s of None \<Rightarrow> False | Some v \<Rightarrow> jsonb_ok v)"

definition insert_segment :: "db_segment \<Rightarrow> db_segment stmt" where
  "insert_segment s d now =
     (let row = s\<lparr>g_rules := map_option jsonb (g_rules s), g_created := now, g_updated := now\<rparr> in
      insertion (segment_checks s)
        (\<exists>x\<in>set (segment_rows d). g_id x = g_id s \<or> g_project x = g_project s \<and> g_key x = g_key s)
        (project_exists d (g_project s) \<and> user_ref d (g_created_by s))
        (s\<lparr>g_created := now, g_updated := now\<rparr>) (d\<lparr>segment_rows := segment_rows d @ [row]\<rparr>))"

definition SegmentStore_Create :: "db_segment \<Rightarrow> db_segment op" where
  "SegmentStore_Create s w =
     (let s1 = s\<lparr>g_id := id_or_new w (g_id s), g_key := trim_space (g_key s),
                 g_name := trim_space (g_name s)\<rparr> in
      wrapped_unique (run_sql (insert_segment s1) w))"

definition SegmentStore_GetByKey :: "uuid \<Rightarrow> string \<Rightarrow> db_segment op" where
  "SegmentStore_GetByKey proj key w =
     (let k = trim_space key in
      found ErrSegmentNotFound (wrapped (run_sql (text_query k (\<lambda>d.
        find (\<lambda>s. g_project s = proj \<and> g_key s = k \<and> g_archived s = None) (segment_rows d))) w)))"

definition SegmentStore_ListByProject :: "uuid \<Rightarrow> db_segment list op" where
  "SegmentStore_ListByProject proj w =
     wrapped (run_sql (query (\<lambda>d. order_by g_created
       (filter (\<lambda>s. g_project s = proj \<and> g_archived s = None) (segment_rows d)))) w)"

definition segment_params :: "db_segment \<Rightarrow> bool" where
  "segment_params s \<longleftrightarrow>
     utf8_length (g_key s) \<noteq> None \<and> utf8_length (g_name s) \<noteq> None \<and> text_opt (g_description s) \<and>
     jsonb_opt_ok (g_rules s)"

definition update_segment :: "db_segment \<Rightarrow> time option stmt" where
  "update_segment s d now =
     (if \<not> segment_params s then Inl OtherViolation
      else case find (\<lambda>x. g_id x = g_id s \<and> g_archived x = None) (segment_rows d) of
        None \<Rightarrow> Inr (None, d)
      | Some old \<Rightarrow>
          (if \<not> segment_checks s then Inl OtherViolation
           else if \<exists>x\<in>set (segment_rows d).
             g_id x \<noteq> g_id s \<and> g_project x = g_project old \<and> g_key x = g_key s
           then Inl UniqueViolation
           else Inr (Some now, d\<lparr>segment_rows :=
             update_where (\<lambda>x. g_id x = g_id s \<and> g_archived x = None)
               (\<lambda>x. x\<lparr>g_key := g_key s, g_name := g_name s, g_description := g_description s,
                      g_rules := map_option jsonb (g_rules s), g_updated := now\<rparr>)
               (segment_rows d)\<rparr>)))"

definition SegmentStore_Update :: "db_segment \<Rightarrow> db_segment op" where
  "SegmentStore_Update s w =
     (let s1 = s\<lparr>g_key := trim_space (g_key s), g_name := trim_space (g_name s)\<rparr> in
      case found ErrSegmentNotFound (wrapped_unique (run_sql (update_segment s1) w)) of
        (Inl e, w') \<Rightarrow> (Inl e, w')
      | (Inr t, w') \<Rightarrow> (Inr (s1\<lparr>g_updated := t\<rparr>), w'))"

definition archive_segment :: "uuid \<Rightarrow> time \<Rightarrow> nat stmt" where
  "archive_segment i t d now =
     (let hit = (\<lambda>s. g_id s = i \<and> g_archived s = None) in
      Inr (length (filter hit (segment_rows d)),
           d\<lparr>segment_rows := update_where hit (\<lambda>s. s\<lparr>g_archived := Some t, g_updated := now\<rparr>)
              (segment_rows d)\<rparr>))"

definition SegmentStore_Archive :: "uuid \<Rightarrow> time \<Rightarrow> unit op" where
  "SegmentStore_Archive i t w = affected ErrSegmentNotFound (wrapped (run_sql (archive_segment i t) w))"

section \<open>The audit log\<close>

definition insert_audit :: "audit_entry \<Rightarrow> audit_entry stmt" where
  "insert_audit a d now =
     (let row = a\<lparr>a_changes := map_option jsonb (a_changes a), a_created := now\<rparr> in
      insertion
        (a_actor_type a \<in> {''user'', ''api_key'', ''system''} \<and> varchar 64 (a_action a) \<and>
         varchar 32 (a_resource_type a) \<and> jsonb_opt_ok (a_changes a) \<and> text_opt (a_user_agent a))
        (a_id a \<in> a_id ` set (audit_log d))
        (tenant_exists d (a_tenant a) \<and> user_ref d (a_actor a))
        (a\<lparr>a_created := now\<rparr>) (d\<lparr>audit_log := audit_log d @ [row]\<rparr>))"

definition AuditStore_Insert :: "audit_entry \<Rightarrow> audit_entry op" where
  "AuditStore_Insert a w = wrapped (run_sql (insert_audit (a\<lparr>a_id := id_or_new w (a_id a)\<rparr>)) w)"

definition trimmedStringOrNil :: "string option \<Rightarrow> string option" where
  "trimmedStringOrNil v =
     (case v of None \<Rightarrow> None
      | Some s \<Rightarrow> (if trim_space s = '''' then None else Some (trim_space s)))"

definition opt_matches :: "'a option \<Rightarrow> 'a option \<Rightarrow> bool" where
  "opt_matches p v \<longleftrightarrow> (case p of None \<Rightarrow> True | Some x \<Rightarrow> v = Some x)"

text \<open>The \<open>WHERE\<close> clause both queries share.\<close>

definition audit_where :: "audit_filter \<Rightarrow> audit_entry \<Rightarrow> bool" where
  "audit_where f a \<longleftrightarrow>
     a_tenant a = af_tenant f \<and>
     opt_matches (af_actor f) (a_actor a) \<and>
     opt_matches (trimmedStringOrNil (af_actor_type f)) (Some (a_actor_type a)) \<and>
     opt_matches (trimmedStringOrNil (af_action f)) (Some (a_action a)) \<and>
     opt_matches (trimmedStringOrNil (af_resource_type f)) (Some (a_resource_type a)) \<and>
     opt_matches (af_resource f) (a_resource a) \<and>
     (case af_since f of None \<Rightarrow> True | Some t \<Rightarrow> t \<le> a_created a) \<and>
     (case af_until f of None \<Rightarrow> True | Some t \<Rightarrow> a_created a \<le> t)"

definition page_limit :: "audit_filter \<Rightarrow> int" where
  "page_limit f =
     (let l = (if af_limit f \<le> 0 then 20 else af_limit f) in if 100 < l then 100 else l)"

definition page_offset :: "audit_filter \<Rightarrow> int" where
  "page_offset f = (if af_offset f < 0 then 0 else af_offset f)"

definition audit_texts_ok :: "audit_filter \<Rightarrow> bool" where
  "audit_texts_ok f \<longleftrightarrow> text_opt (trimmedStringOrNil (af_actor_type f)) \<and>
     text_opt (trimmedStringOrNil (af_action f)) \<and> text_opt (trimmedStringOrNil (af_resource_type f))"

definition count_audit :: "audit_filter \<Rightarrow> nat stmt" where
  "count_audit f d now =
     (if \<not> audit_texts_ok f then Inl OtherViolation
      else Inr (length (filter (audit_where f) (audit_log d)), d))"

definition list_audit :: "audit_filter \<Rightarrow> audit_entry list stmt" where
  "list_audit f d now =
     (if \<not> audit_texts_ok f then Inl OtherViolation
      else Inr (take (nat (page_limit f)) (drop (nat (page_offset f))
             (order_by_desc a_created (filter (audit_where f) (audit_log d)))), d))"

definition AuditStore_Query :: "audit_filter \<Rightarrow> audit_page op" where
  "AuditStore_Query f w =
     (case wrapped (run_sql (count_audit f) w) of
        (Inl e, w1) \<Rightarrow> (Inl e, w1)
      | (Inr n, w1) \<Rightarrow>
          (case wrapped (run_sql (list_audit f) w1) of
             (Inl e, w2) \<Rightarrow> (Inl e, w2)
           | (Inr entries, w2) \<Rightarrow>
               (Inr \<lparr>ap_entries = entries, ap_total = n, ap_limit = page_limit f,
                     ap_offset = page_offset f\<rparr>, w2)))"

end
