(* ===== verification/Http.thy ===== *)
theory Http
  imports Auth Rules_Validator Stores_Identity Stores_Config
begin

text \<open>
  Requests, responses and middleware: \<open>internal/api/request.go\<close>, \<open>internal/api/middleware\<close> and the
  helpers of \<open>internal/api/auth.go\<close> that all handlers use.

  \<^item> A handler is a function of the request and the world; a response has a status, the code of an
    error envelope, a body and the refresh cookie it sets.  The texts of messages, headers other
    than that cookie are left out; metrics and request identifiers are added in \<open>Telemetry\<close> and \<open>Request_Scope\<close>.
  \<^item> A body is what the JSON decoder makes of the request: nothing, a text that is too long, no
    document, or a document and whether anything follows it.
  \<^item> The record \<open>server\<close> holds the configuration and what the handlers take from other packages:
    \<open>crypto\<close> (see \<open>Auth\<close>), regular expressions, \<open>net.ParseIP\<close>, \<open>mail.ParseAddress\<close> \<open>time.Parse\<close>
    and the decoding of a \<open>time.Time\<close> from a JSON text.
\<close>

section \<open>Requests and responses\<close>

datatype body = NoBody | BodyOverLimit | BodyMalformed | BodyDoc json bool

record http_request =
  rq_method :: string
  rq_path :: "(string \<times> string) list"
  rq_query :: "(string \<times> string) list"
  rq_body :: body
  rq_body_size :: nat
  rq_text_len :: "string \<Rightarrow> nat"
  rq_content_type :: string
  rq_authorization :: string
  rq_user_agent :: string
  rq_forwarded_for :: string
  rq_real_ip :: string
  rq_remote_addr :: string
  rq_refresh_cookie :: "string option"
  cx_claims :: "claims option"
  cx_env :: uuid
  cx_api_key :: uuid

record server =
  sv_crypto :: crypto
  sv_regex :: regex
  sv_parse_ip :: "string \<Rightarrow> string option"
  sv_mail_ok :: "string \<Rightarrow> bool"
  sv_parse_time :: "string \<Rightarrow> time option"
  sv_unmarshal_time :: "string \<Rightarrow> time option"
  sv_jwt_secret :: string
  sv_access_ttl :: int
  sv_refresh_ttl :: int
  sv_bcrypt_cost :: nat
  sv_fake_hash :: string

record project_response =
  pr_id :: uuid
  pr_slug :: string
  pr_name :: string
  pr_created :: time
  pr_updated :: time

record api_key_response =
  kr_id :: uuid
  kr_env :: uuid
  kr_name :: string
  kr_prefix :: string
  kr_last_used :: "time option"
  kr_expires :: "time option"
  kr_revoked :: "time option"
  kr_created :: time
  kr_created_by :: "uuid option"

record me_response =
  me_id :: uuid
  me_email :: string
  me_role :: string
  me_created :: time
  me_last_login :: "time option"

record session_response =
  sr_id :: uuid
  sr_ip :: "string option"
  sr_user_agent :: "string option"
  sr_created :: time
  sr_expires :: time
  sr_current :: bool

record audit_entry_response =
  ar_id :: uuid
  ar_actor :: "uuid option"
  ar_actor_type :: string
  ar_action :: string
  ar_resource_type :: string
  ar_resource :: "uuid option"
  ar_changes :: raw_message
  ar_ip :: "string option"
  ar_user_agent :: "string option"
  ar_created :: time

record snapshot =
  sn_environment :: string
  sn_flags :: "(string \<times> flag_config) list"
  sn_segments :: "(string \<times> segment) list"
  sn_fetched_at :: time

text \<open>Flags, flag environments, segments and environments are returned with all their fields.\<close>

datatype payload =
    PNone
  | PProject project_response
  | PProjects "project_response list"
  | PEnvironment environment
  | PEnvironments "environment list"
  | PFlagStates "(string \<times> bool) list"
  | PFlag flag
  | PFlags "flag list"
  | PFlagEnvironment flag_environment
  | PSegment db_segment
  | PSegments "db_segment list"
  | PApiKeyCreated api_key_response string
  | PApiKeys "api_key_response list"
  | PAudit "audit_entry_response list" nat int int
  | PToken string int
  | PTenants "(uuid \<times> string \<times> string) list"
  | PMe me_response
  | PSessions "session_response list"
  | PSetup uuid uuid string
  | PSetupStatus bool
  | PEvaluation string evaluate_result
  | PEvaluations "(string \<times> evaluate_result) list" string time
  | PSnapshot snapshot

record response =
  rs_status :: nat
  rs_code :: string
  rs_payload :: payload
  rs_cookie :: "(string \<times> time) option"

type_synonym handler = "http_request \<Rightarrow> world \<Rightarrow> response \<times> world"

text \<open>\<open>middleware.Error\<close>, \<open>middleware.JSON\<close>, \<open>w.WriteHeader(http.StatusNoContent)\<close>.\<close>

definition Error :: "nat \<Rightarrow> string \<Rightarrow> response" where
  "Error status code = \<lparr>rs_status = status, rs_code = code, rs_payload = PNone, rs_cookie = None\<rparr>"

definition JSON :: "nat \<Rightarrow> payload \<Rightarrow> response" where
  "JSON status data = \<lparr>rs_status = status, rs_code = '''', rs_payload = data, rs_cookie = None\<rparr>"

definition NoContent :: response where
  "NoContent = \<lparr>rs_status = 204, rs_code = '''', rs_payload = PNone, rs_cookie = None\<rparr>"

definition internal_error :: response where
  "internal_error = Error 500 ''INTERNAL_ERROR''"

definition path_value :: "http_request \<Rightarrow> string \<Rightarrow> string" where
  "path_value r k = (case map_of (rq_path r) k of None \<Rightarrow> '''' | Some v \<Rightarrow> v)"

section \<open>Continuing\<close>

text \<open>
  The shapes a handler is made of: reply; call a store and go on with its error or its result; call
  one whose error is only logged; read the clock; publish.
\<close>

type_synonym 'r step = "world \<Rightarrow> 'r \<times> world"

definition reply :: "'r \<Rightarrow> 'r step" where
  "reply r w = (r, w)"

definition attempt :: "'a op \<Rightarrow> (store_error \<Rightarrow> 'r step) \<Rightarrow> ('a \<Rightarrow> 'r step) \<Rightarrow> 'r step" where
  "attempt m h k w = (case m w of (Inl e, w') \<Rightarrow> h e w' | (Inr x, w') \<Rightarrow> k x w')"

definition logged :: "'a op \<Rightarrow> 'r step \<Rightarrow> 'r step" where
  "logged m k w = k (snd (m w))"

definition drawing :: "(world \<Rightarrow> 'a option \<times> world) \<Rightarrow> 'r step \<Rightarrow> ('a \<Rightarrow> 'r step) \<Rightarrow> 'r step" where
  "drawing m h k w = (case m w of (None, w') \<Rightarrow> h w' | (Some x, w') \<Rightarrow> k x w')"

definition with_now :: "(time \<Rightarrow> 'r step) \<Rightarrow> 'r step" where
  "with_now k w = k (clock w (tick w)) w"

text \<open>\<open>uuid.New()\<close> outside a store.\<close>

definition with_new_uuid :: "(uuid \<Rightarrow> 'r step) \<Rightarrow> 'r step" where
  "with_new_uuid k w = k (new_uuid w (tick w)) (w\<lparr>tick := Suc (tick w)\<rparr>)"

definition publish :: "event \<Rightarrow> 'r step \<Rightarrow> 'r step" where
  "publish e k w = k (w\<lparr>published := published w @ [e]\<rparr>)"

text \<open>
  A function run in one serializable transaction, whose time is that of its beginning.  An error of
  the function, or of the commit, leaves the tables as they were before.
\<close>

datatype tx_error = BeginFailed | FnFailed store_error | CommitFailed bool

definition in_tx :: "'a op \<Rightarrow> world \<Rightarrow> (tx_error + 'a) \<times> world" where
  "in_tx f w =
     (if fault w (tick w) then (Inl BeginFailed, w\<lparr>tick := Suc (tick w)\<rparr>)
      else (let w1 = w\<lparr>tick := Suc (tick w), tx_now := Some (clock w (tick w))\<rparr> in
            case f w1 of
              (Inl e, w2) \<Rightarrow> (Inl (FnFailed e), w2\<lparr>db := db w, tx_now := tx_now w\<rparr>)
            | (Inr x, w2) \<Rightarrow>
                (let w3 = w2\<lparr>tick := Suc (tick w2), tx_now := tx_now w\<rparr> in
                 if fault w2 (tick w2)
                 then (Inl (CommitFailed (serialization w2 (tick w2))), w3\<lparr>db := db w\<rparr>)
                 else (Inr x, w3))))"

text \<open>\<open>runInTx\<close>: the errors of the transaction itself are wrapped.\<close>

definition runInTx :: "'a op \<Rightarrow> 'a op" where
  "runInTx f w =
     (case in_tx f w of
        (Inl (FnFailed e), w') \<Rightarrow> (Inl e, w')
      | (Inl _, w') \<Rightarrow> (Inl ErrDatabase, w')
      | (Inr x, w') \<Rightarrow> (Inr x, w'))"

text \<open>Sequencing inside a transaction: the first error is returned.\<close>

definition andThen :: "'a op \<Rightarrow> ('a \<Rightarrow> 'b op) \<Rightarrow> 'b op" where
  "andThen m k w = (case m w of (Inl e, w') \<Rightarrow> (Inl e, w') | (Inr x, w') \<Rightarrow> k x w')"

definition return_op :: "'a \<Rightarrow> 'a op" where
  "return_op x w = (Inr x, w)"

fun for_each :: "('a \<Rightarrow> 'b op) \<Rightarrow> 'a list \<Rightarrow> unit op" where
  "for_each f [] w = (Inr (), w)"
| "for_each f (x # xs) w =
     (case f x w of (Inl e, w') \<Rightarrow> (Inl e, w') | (Inr _, w') \<Rightarrow> for_each f xs w')"

section \<open>Reading the request\<close>

text \<open>\<open>hasJSONContentType\<close>: the part before \<open>;\<close>, trimmed.\<close>

definition hasJSONContentType :: "string \<Rightarrow> bool" where
  "hasJSONContentType ct \<longleftrightarrow>
     trim_space (takeWhile (\<lambda>c. c \<noteq> CHR '';'') (trim_space ct)) = ''application/json''"

datatype decode_error = ErrEmptyBody | ErrUnsupportedContentType | ErrBodyTooLarge | ErrInvalidJSON

definition DecodeJSON :: "(json \<Rightarrow> 'a option) \<Rightarrow> http_request \<Rightarrow> decode_error + 'a" where
  "DecodeJSON decode r =
     (case rq_body r of
        NoBody \<Rightarrow> Inl ErrEmptyBody
      | b \<Rightarrow>
          (if rq_content_type r \<noteq> '''' \<and> \<not> hasJSONContentType (rq_content_type r)
           then Inl ErrUnsupportedContentType
           else (case b of
                   BodyOverLimit \<Rightarrow> Inl ErrBodyTooLarge
                 | BodyDoc doc trailing \<Rightarrow>
                     (case decode doc of
                        None \<Rightarrow> Inl ErrInvalidJSON
                      | Some x \<Rightarrow> (if trailing then Inl ErrInvalidJSON else Inr x))
                 | _ \<Rightarrow> Inl ErrInvalidJSON)))"

definition writeDecodeError :: "decode_error \<Rightarrow> response" where
  "writeDecodeError e =
     (case e of
        ErrBodyTooLarge \<Rightarrow> Error 413 ''BODY_TOO_LARGE''
      | ErrUnsupportedContentType \<Rightarrow> Error 415 ''UNSUPPORTED_MEDIA_TYPE''
      | _ \<Rightarrow> Error 400 ''VALIDATION_ERROR'')"

definition decoding :: "(json \<Rightarrow> 'a option) \<Rightarrow> http_request \<Rightarrow> ('a \<Rightarrow> response step) \<Rightarrow> response step" where
  "decoding decode r k =
     (case DecodeJSON decode r of Inl e \<Rightarrow> reply (writeDecodeError e) | Inr x \<Rightarrow> k x)"

text \<open>
  Structs decoded with \<open>DisallowUnknownFields\<close>: a table of the fields, each with the way its member
  changes the struct.
\<close>

fun decode_strict ::
  "(string \<times> (json \<Rightarrow> 'a \<Rightarrow> 'a option)) list \<Rightarrow> (string \<times> json) list \<Rightarrow> 'a \<Rightarrow> 'a option" where
  "decode_strict table [] x = Some x"
| "decode_strict table ((k, v) # ms) x =
     (case find (\<lambda>(name, f). field_is name k) table of
        None \<Rightarrow> None
      | Some (_, f) \<Rightarrow>
          (case f v x of None \<Rightarrow> None | Some x' \<Rightarrow> decode_strict table ms x'))"

definition decode_struct :: "(string \<times> (json \<Rightarrow> 'a \<Rightarrow> 'a option)) list \<Rightarrow> 'a \<Rightarrow> json \<Rightarrow> 'a option" where
  "decode_struct table zero v =
     (case v of JNull \<Rightarrow> Some zero | JObj ms \<Rightarrow> decode_strict table ms zero | _ \<Rightarrow> None)"

text \<open>\<open>json.RawMessage\<close> takes any document, \<open>null\<close> included; \<open>*json.RawMessage\<close> is nil for \<open>null\<close>.\<close>

definition decode_raw :: "json \<Rightarrow> raw_message" where
  "decode_raw v = Some v"

definition decode_raw_ptr :: "json \<Rightarrow> raw_message" where
  "decode_raw_ptr v = (case v of JNull \<Rightarrow> None | _ \<Rightarrow> Some v)"

text \<open>\<open>net.SplitHostPort\<close>: the host, \<open>None\<close> for an address it rejects.\<close>

definition SplitHostPort :: "string \<Rightarrow> string option" where
  "SplitHostPort s =
     (if CHR '':'' \<notin> set s then None
      else if s \<noteq> [] \<and> hd s = CHR ''['' then
        (let inner = takeWhile (\<lambda>c. c \<noteq> CHR '']'') s; rest = dropWhile (\<lambda>c. c \<noteq> CHR '']'') s in
         (case rest of
            _ # CHR '':'' # port \<Rightarrow>
              (if CHR '':'' \<in> set port \<or> CHR ''['' \<in> set (tl inner) \<or> CHR ''['' \<in> set port \<or>
                  CHR '']'' \<in> set port
               then None else Some (tl inner))
          | _ \<Rightarrow> None))
      else
        (let host = takeWhile (\<lambda>c. c \<noteq> CHR '':'') s; port = tl (dropWhile (\<lambda>c. c \<noteq> CHR '':'') s) in
         if CHR '':'' \<in> set port \<or> CHR ''['' \<in> set s \<or> CHR '']'' \<in> set s
         then None else Some host))"

definition requestIP :: "server \<Rightarrow> http_request \<Rightarrow> string option" where
  "requestIP sv r =
     (let forwarded = trim_space (rq_forwarded_for r);
          real = trim_space (rq_real_ip r);
          host = (if forwarded \<noteq> '''' then forwarded
                  else if real \<noteq> '''' then real
                  else (case SplitHostPort (rq_remote_addr r) of
                          Some h \<Rightarrow> h | None \<Rightarrow> rq_remote_addr r)) in
      sv_parse_ip sv (trim_space (takeWhile (\<lambda>c. c \<noteq> CHR '','') host)))"

definition stringPtr :: "string \<Rightarrow> string option" where
  "stringPtr v = (if v = '''' then None else Some v)"

definition user_agent :: "http_request \<Rightarrow> string option" where
  "user_agent r = stringPtr (trim_space (rq_user_agent r))"

section \<open>The identity of the caller\<close>

text \<open>\<open>claims.TenantUUID()\<close> and \<open>claims.UserID()\<close> with the reply every handler gives on error.\<close>

definition tenant_of :: "server \<Rightarrow> http_request \<Rightarrow> (uuid \<Rightarrow> response step) \<Rightarrow> response step" where
  "tenant_of sv r k =
     (case TenantUUID (sv_crypto sv) (cx_claims r) of
        None \<Rightarrow> reply (Error 401 ''INVALID_CREDENTIALS'') | Some t \<Rightarrow> k t)"

definition user_of :: "server \<Rightarrow> http_request \<Rightarrow> (uuid \<Rightarrow> response step) \<Rightarrow> response step" where
  "user_of sv r k =
     (case UserID (sv_crypto sv) (cx_claims r) of
        None \<Rightarrow> reply (Error 401 ''INVALID_CREDENTIALS'') | Some u \<Rightarrow> k u)"

text \<open>A store call whose not-found error is a 404 and whose other errors are a 500.\<close>

definition or_not_found :: "store_error \<Rightarrow> store_error \<Rightarrow> response step" where
  "or_not_found missing e = reply (if e = missing then Error 404 ''NOT_FOUND'' else internal_error)"

definition or_internal :: "store_error \<Rightarrow> response step" where
  "or_internal e = reply internal_error"

definition project_of :: "uuid \<Rightarrow> http_request \<Rightarrow> (project \<Rightarrow> response step) \<Rightarrow> response step" where
  "project_of tenant r k =
     attempt (ProjectStore_GetBySlug tenant (path_value r ''slug'')) (or_not_found ErrProjectNotFound) k"

definition environment_of :: "project \<Rightarrow> http_request \<Rightarrow> (environment \<Rightarrow> response step) \<Rightarrow> response step" where
  "environment_of p r k =
     attempt (EnvironmentStore_GetBySlug (p_id p) (path_value r ''envSlug''))
       (or_not_found ErrEnvironmentNotFound) k"

definition flag_of :: "project \<Rightarrow> http_request \<Rightarrow> (flag \<Rightarrow> response step) \<Rightarrow> response step" where
  "flag_of p r k =
     attempt (FlagStore_GetByKey (p_id p) (path_value r ''key'')) (or_not_found ErrFlagNotFound) k"

definition segment_of :: "project \<Rightarrow> http_request \<Rightarrow> (db_segment \<Rightarrow> response step) \<Rightarrow> response step" where
  "segment_of p r k =
     attempt (SegmentStore_GetByKey (p_id p) (path_value r ''key'')) (or_not_found ErrSegmentNotFound) k"

text \<open>The audit entry of a user's action.\<close>

definition user_audit ::
  "server \<Rightarrow> http_request \<Rightarrow> uuid \<Rightarrow> uuid \<Rightarrow> string \<Rightarrow> string \<Rightarrow> uuid option \<Rightarrow> audit_entry" where
  "user_audit sv r tenant user action resourceType resource =
     \<lparr>a_id = uuid_nil, a_tenant = tenant, a_actor = Some user, a_actor_type = ''user'',
      a_action = action, a_resource_type = resourceType, a_resource = resource, a_changes = None,
      a_ip = requestIP sv r, a_user_agent = user_agent r, a_created = zero_time\<rparr>"

definition writeAudit ::
  "server \<Rightarrow> http_request \<Rightarrow> uuid \<Rightarrow> uuid \<Rightarrow> string \<Rightarrow> string \<Rightarrow> uuid option \<Rightarrow> 'r step \<Rightarrow> 'r step" where
  "writeAudit sv r tenant user action resourceType resource k =
     logged (AuditStore_Insert (user_audit sv r tenant user action resourceType resource)) k"

end
