(* ===== verification/Middleware.thy ===== *)
theory Middleware
  imports Http
begin

text \<open>
  \<open>internal/api/middleware\<close>: authentication by access token and by API key, roles, body limit, content
  type, and the rate limiter.

  A middleware maps a handler to a handler.  \<open>RequestID\<close> and \<open>Logger\<close> only add an identifier and a
  log line, and \<open>RecoverPanic\<close> only acts on a panic, which no modelled handler raises; they do not
  change the request or the reply and are in \<open>Request_Scope\<close>.  \<open>BodyLimit\<close> replaces the body by one that fails
  when more than its limit is read.
\<close>

type_synonym middleware = "handler \<Rightarrow> handler"

definition not_authenticated :: response where
  "not_authenticated = Error 401 ''INVALID_CREDENTIALS''"

definition extractBearerToken :: "http_request \<Rightarrow> string option" where
  "extractBearerToken r =
     (if has_prefix (rq_authorization r) ''Bearer ''
      then Some (trim_space (drop (length ''Bearer '') (rq_authorization r))) else None)"

definition AuthJWT :: "server \<Rightarrow> middleware" where
  "AuthJWT sv next r =
     (case extractBearerToken r of
        None \<Rightarrow> reply not_authenticated
      | Some rawToken \<Rightarrow> with_now (\<lambda>now.
          (case ValidateAccessToken (sv_crypto sv) rawToken (sv_jwt_secret sv) now of
             None \<Rightarrow> reply not_authenticated
           | Some c \<Rightarrow> next (r\<lparr>cx_claims := Some c\<rparr>))))"

text \<open>
  The last use is recorded by a goroutine whose error is dropped; here it runs before the handler,
  and it touches nothing a handler reads.
\<close>

definition AuthAPIKey :: "server \<Rightarrow> middleware" where
  "AuthAPIKey sv next r =
     (case extractBearerToken r of
        None \<Rightarrow> reply not_authenticated
      | Some rawKey \<Rightarrow>
          attempt (GetByHash (HashAPIKey (sv_crypto sv) rawKey)) (\<lambda>e. reply not_authenticated)
            (\<lambda>key. with_now (\<lambda>now.
               (if (case k_expires key of None \<Rightarrow> False | Some t \<Rightarrow> \<not> now < t)
                then reply not_authenticated
                else logged (UpdateLastUsed (k_id key) now)
                       (next (r\<lparr>cx_env := k_env key, cx_api_key := k_id key\<rparr>))))))"

definition RequireRole :: "role \<Rightarrow> middleware" where
  "RequireRole minimum next r =
     (case cx_claims r of
        None \<Rightarrow> reply not_authenticated
      | Some c \<Rightarrow>
          (if \<not> AtLeast (ParseRole (c_role c)) minimum
           then reply (Error 403 ''INSUFFICIENT_PERMISSIONS'') else next r))"

definition RequireJSONContentType :: middleware where
  "RequireJSONContentType next r =
     (if rq_method r \<in> {''POST'', ''PUT'', ''PATCH''} \<and> \<not> hasJSONContentType (rq_content_type r)
      then reply (Error 415 ''UNSUPPORTED_MEDIA_TYPE'') else next r)"

text \<open>\<open>http.MaxBytesReader\<close>.\<close>

definition BodyLimit :: "nat \<Rightarrow> middleware" where
  "BodyLimit maxBytes next r =
     next (if rq_body r \<noteq> NoBody \<and> maxBytes < rq_body_size r then r\<lparr>rq_body := BodyOverLimit\<rparr> else r)"

section \<open>The rate limiter\<close>

text \<open>\<open>IPRateLimiter\<close>: a fixed window per address; the map is an association list.\<close>

definition Allow ::
  "nat \<Rightarrow> int \<Rightarrow> string \<Rightarrow> time \<Rightarrow> (string \<times> window_entry) list \<Rightarrow> bool \<times> (string \<times> window_entry) list" where
  "Allow limit window ip now entries =
     (case map_of entries ip of
        None \<Rightarrow> (True, put ip \<lparr>we_count = 1, we_reset = now + window\<rparr> entries)
      | Some e \<Rightarrow>
          (if we_reset e < now
           then (True, put ip \<lparr>we_count = 1, we_reset = now + window\<rparr> entries)
           else (we_count e + 1 \<le> limit, put ip (e\<lparr>we_count := we_count e + 1\<rparr>) entries)))"

definition cleanup_windows :: "time \<Rightarrow> (string \<times> window_entry) list \<Rightarrow> (string \<times> window_entry) list" where
  "cleanup_windows now entries = filter (\<lambda>(ip, e). \<not> we_reset e < now) entries"

definition minute :: int where "minute = 60000000"

definition remote_ip :: "http_request \<Rightarrow> string" where
  "remote_ip r =
     (case SplitHostPort (rq_remote_addr r) of Some ip \<Rightarrow> ip | None \<Rightarrow> rq_remote_addr r)"

definition rate_limited :: response where
  "rate_limited = Error 429 ''RATE_LIMITED''"

definition RateLimit_login :: middleware where
  "RateLimit_login next r w =
     (case Allow 5 minute (remote_ip r) (clock w (tick w)) (login_windows w) of
        (True, m) \<Rightarrow> next r (w\<lparr>login_windows := m\<rparr>)
      | (False, m) \<Rightarrow> (rate_limited, w\<lparr>login_windows := m\<rparr>))"

definition RateLimit_refresh :: middleware where
  "RateLimit_refresh next r w =
     (case Allow 10 minute (remote_ip r) (clock w (tick w)) (refresh_windows w) of
        (True, m) \<Rightarrow> next r (w\<lparr>refresh_windows := m\<rparr>)
      | (False, m) \<Rightarrow> (rate_limited, w\<lparr>refresh_windows := m\<rparr>))"

definition withMiddleware :: "handler \<Rightarrow> middleware list \<Rightarrow> handler" where
  "withMiddleware next mws = foldr (\<lambda>mw h. mw h) mws next"

end
