(* ===== verification/Handlers_Projects.thy ===== *)
theory Handlers_Projects
  imports Middleware
begin

text \<open>
  \<open>internal/api/projects.go\<close> and \<open>internal/api/environments.go\<close>.  A handler checks the request, then
  the claims, then finds the project of the caller's tenant, in the order of the code.
\<close>

definition invalid :: "response step" where
  "invalid = reply (Error 400 ''VALIDATION_ERROR'')"

definition conflict :: "string \<Rightarrow> store_error \<Rightarrow> response step" where
  "conflict code e =
     reply (if e = ErrDuplicateKey then Error 409 code
            else internal_error)"

definition conflict_or_not_found :: "string \<Rightarrow> store_error \<Rightarrow> store_error \<Rightarrow> response step" where
  "conflict_or_not_found code missing e =
     reply (if e = ErrDuplicateKey then Error 409 code
            else if e = missing then Error 404 ''NOT_FOUND''
            else internal_error)"

section \<open>Projects\<close>

record create_named =
  cn_slug :: string
  cn_name :: string

definition decode_create_named :: "json \<Rightarrow> create_named option" where
  "decode_create_named =
     decode_struct
       [(''slug'', \<lambda>v x. map_option (\<lambda>s. x\<lparr>cn_slug := s\<rparr>) (decode_string v (cn_slug x))),
        (''name'', \<lambda>v x. map_option (\<lambda>s. x\<lparr>cn_name := s\<rparr>) (decode_string v (cn_name x)))]
       \<lparr>cn_slug = '''', cn_name = ''''\<rparr>"

text \<open>\<open>validateCreateProject\<close>, which also trims the request.\<close>

definition validateCreateProject :: "create_named \<Rightarrow> create_named option" where
  "validateCreateProject req =
     (let slug = trim_space (cn_slug req); name = trim_space (cn_name req) in
      if slug = '''' then None
      else if 64 < length slug then None
      else if \<not> slugRegex slug then None
      else if name = '''' then None
      else if 255 < length name then None
      else Some \<lparr>cn_slug = slug, cn_name = name\<rparr>)"

definition project_response_of :: "project \<Rightarrow> project_response" where
  "project_response_of p =
     \<lparr>pr_id = p_id p, pr_slug = p_slug p, pr_name = p_name p, pr_created = p_created p,
      pr_updated = p_updated p\<rparr>"

definition default_environments :: "(string \<times> string) list" where
  "default_environments =
     [(''development'', ''Development''), (''staging'', ''Staging''), (''production'', ''Production'')]"

definition new_environment :: "uuid \<Rightarrow> string \<Rightarrow> string \<Rightarrow> environment" where
  "new_environment proj slug name =
     \<lparr>e_id = uuid_nil, e_project = proj, e_slug = slug, e_name = name, e_created = zero_time,
      e_updated = zero_time\<rparr>"

definition create_project_tx ::
  "server \<Rightarrow> http_request \<Rightarrow> uuid \<Rightarrow> uuid \<Rightarrow> create_named \<Rightarrow> project_response op" where
  "create_project_tx sv r tenant user req =
     with_new_uuid (\<lambda>i.
       andThen (ProjectStore_Create \<lparr>p_id = i, p_tenant = tenant, p_slug = cn_slug req,
                  p_name = cn_name req, p_created = zero_time, p_updated = zero_time\<rparr>) (\<lambda>p.
       andThen (for_each (\<lambda>(slug, name). EnvironmentStore_Create (new_environment (p_id p) slug name))
                  default_environments) (\<lambda>_.
       andThen (AuditStore_Insert
                  (user_audit sv r tenant user ''project.created'' ''project'' (Some (p_id p)))) (\<lambda>_.
       return_op (project_response_of p)))))"

definition handleCreateProject :: "server \<Rightarrow> handler" where
  "handleCreateProject sv r =
     decoding decode_create_named r (\<lambda>req0.
     (case validateCreateProject req0 of
        None \<Rightarrow> invalid
      | Some req \<Rightarrow>
          tenant_of sv r (\<lambda>tenant. user_of sv r (\<lambda>user.
          attempt (runInTx (create_project_tx sv r tenant user req))
            (conflict ''DUPLICATE_SLUG'')
            (\<lambda>resp. reply (JSON 201 (PProject resp)))))))"

definition handleListProjects :: "server \<Rightarrow> handler" where
  "handleListProjects sv r =
     tenant_of sv r (\<lambda>tenant.
     attempt (ProjectStore_ListByTenant tenant) or_internal
       (\<lambda>ps. reply (JSON 200 (PProjects (map project_response_of ps)))))"

definition handleGetProject :: "server \<Rightarrow> handler" where
  "handleGetProject sv r =
     tenant_of sv r (\<lambda>tenant.
     project_of tenant r (\<lambda>p. reply (JSON 200 (PProject (project_response_of p)))))"

record update_project_request =
  up_slug :: "string option"
  up_name :: "string option"

definition decode_update_project :: "json \<Rightarrow> update_project_request option" where
  "decode_update_project =
     decode_struct
       [(''slug'', \<lambda>v x. map_option (\<lambda>s. x\<lparr>up_slug := s\<rparr>) (decode_string_ptr v)),
        (''name'', \<lambda>v x. map_option (\<lambda>s. x\<lparr>up_name := s\<rparr>) (decode_string_ptr v))]
       \<lparr>up_slug = None, up_name = None\<rparr>"

text \<open>The fields of the request put into the project; \<open>None\<close> for a field that is not valid.\<close>

definition apply_slug :: "string option \<Rightarrow> project \<Rightarrow> project option" where
  "apply_slug v p =
     (case v of
        None \<Rightarrow> Some p
      | Some s \<Rightarrow>
          (let trimmed = trim_space s in
           if trimmed = '''' then None
           else if 64 < length trimmed then None
           else if \<not> slugRegex trimmed then None
           else Some (p\<lparr>p_slug := trimmed\<rparr>)))"

definition apply_name :: "string option \<Rightarrow> project \<Rightarrow> project option" where
  "apply_name v p =
     (case v of
        None \<Rightarrow> Some p
      | Some s \<Rightarrow>
          (let trimmed = trim_space s in
           if trimmed = '''' then None
           else if 255 < length trimmed then None
           else Some (p\<lparr>p_name := trimmed\<rparr>)))"

definition handleUpdateProject :: "server \<Rightarrow> handler" where
  "handleUpdateProject sv r =
     decoding decode_update_project r (\<lambda>req.
     tenant_of sv r (\<lambda>tenant. user_of sv r (\<lambda>user.
     project_of tenant r (\<lambda>p0.
     (case apply_slug (up_slug req) p0 of
        None \<Rightarrow> invalid
      | Some p1 \<Rightarrow>
     (case apply_name (up_name req) p1 of
        None \<Rightarrow> invalid
      | Some p2 \<Rightarrow>
          attempt (ProjectStore_Update p2)
            (conflict_or_not_found ''DUPLICATE_SLUG'' ErrProjectNotFound)
            (\<lambda>p. writeAudit sv r tenant user ''project.updated'' ''project'' (Some (p_id p))
               (reply (JSON 200 (PProject (project_response_of p)))))))))))"

section \<open>Environments\<close>

text \<open>The same checks as for a project, written again in \<open>environments.go\<close>.\<close>

definition validateCreateEnvironment :: "create_named \<Rightarrow> create_named option" where
  "validateCreateEnvironment req =
     (let slug = trim_space (cn_slug req); name = trim_space (cn_name req) in
      if slug = '''' then None
      else if 64 < length slug then None
      else if \<not> slugRegex slug then None
      else if name = '''' then None
      else if 255 < length name then None
      else Some \<lparr>cn_slug = slug, cn_name = name\<rparr>)"

definition create_environment_tx ::
  "server \<Rightarrow> http_request \<Rightarrow> uuid \<Rightarrow> uuid \<Rightarrow> project \<Rightarrow> create_named \<Rightarrow> environment op" where
  "create_environment_tx sv r tenant user p req =
     andThen (EnvironmentStore_Create (new_environment (p_id p) (cn_slug req) (cn_name req))) (\<lambda>e.
     andThen (AuditStore_Insert
                (user_audit sv r tenant user ''environment.created'' ''environment'' (Some (e_id e)))) (\<lambda>_.
     return_op e))"

definition handleCreateEnvironment :: "server \<Rightarrow> handler" where
  "handleCreateEnvironment sv r =
     decoding decode_create_named r (\<lambda>req0.
     (case validateCreateEnvironment req0 of
        None \<Rightarrow> invalid
      | Some req \<Rightarrow>
          tenant_of sv r (\<lambda>tenant. user_of sv r (\<lambda>user.
          project_of tenant r (\<lambda>p.
          attempt (runInTx (create_environment_tx sv r tenant user p req))
            (conflict ''DUPLICATE_SLUG'')
            (\<lambda>e. reply (JSON 201 (PEnvironment e))))))))"

definition handleListEnvironments :: "server \<Rightarrow> handler" where
  "handleListEnvironments sv r =
     tenant_of sv r (\<lambda>tenant.
     project_of tenant r (\<lambda>p.
     attempt (EnvironmentStore_ListByProject (p_id p)) or_internal
       (\<lambda>es. reply (JSON 200 (PEnvironments es)))))"

definition handleDeleteEnvironment :: "server \<Rightarrow> handler" where
  "handleDeleteEnvironment sv r =
     tenant_of sv r (\<lambda>tenant. user_of sv r (\<lambda>user.
     project_of tenant r (\<lambda>p.
     environment_of p r (\<lambda>e.
     attempt (EnvironmentStore_DeleteByID (e_id e)) (or_not_found ErrEnvironmentNotFound)
       (\<lambda>_. writeAudit sv r tenant user ''environment.deleted'' ''environment'' (Some (e_id e))
          (reply NoContent))))))"

definition handleListFlagStates :: "server \<Rightarrow> handler" where
  "handleListFlagStates sv r =
     tenant_of sv r (\<lambda>tenant.
     project_of tenant r (\<lambda>p.
     environment_of p r (\<lambda>e.
     attempt (FlagEnvironmentStore_ListByEnvironment (e_id e)) or_internal
       (\<lambda>cs. reply (JSON 200 (PFlagStates (map (\<lambda>c. (fc_flag_key c, fc_is_enabled c)) cs)))))))"

end
