(* ===== verification/Handlers_Auth.thy ===== *)
theory Handlers_Auth
  imports Handlers_Projects
begin

text \<open>
  \<open>internal/api/auth.go\<close> and \<open>internal/api/account.go\<close>: login with lockout, rotation of refresh tokens
  and the detection of their reuse, logout, and a user's own account and sessions.
\<close>

definition invalid_credentials :: "response step" where
  "invalid_credentials = reply (Error 401 ''INVALID_CREDENTIALS'')"

section \<open>Cookies and tokens\<close>

text \<open>\<open>time.Unix(0, 0)\<close>, in microseconds since the zero time.\<close>

definition unix_epoch :: time where "unix_epoch = 62135596800000000"

definition setRefreshCookie :: "string \<Rightarrow> time \<Rightarrow> response \<Rightarrow> response" where
  "setRefreshCookie raw expiresAt rs = rs\<lparr>rs_cookie := Some (raw, expiresAt)\<rparr>"

definition clearRefreshCookie :: "response \<Rightarrow> response" where
  "clearRefreshCookie rs = rs\<lparr>rs_cookie := Some ('''', unix_epoch)\<rparr>"

text \<open>\<open>r.Cookie("refresh_token")\<close>, absent when it is blank.\<close>

definition refresh_cookie :: "http_request \<Rightarrow> string option" where
  "refresh_cookie r =
     (case rq_refresh_cookie r of
        None \<Rightarrow> None | Some v \<Rightarrow> (if trim_space v = '''' then None else Some v))"

definition token_response :: "server \<Rightarrow> string \<Rightarrow> string \<Rightarrow> time \<Rightarrow> response" where
  "token_response sv accessToken refreshRaw now =
     setRefreshCookie refreshRaw (now + sv_refresh_ttl sv)
       (JSON 200 (PToken accessToken (sv_access_ttl sv div 1000000)))"

definition new_session :: "server \<Rightarrow> http_request \<Rightarrow> uuid \<Rightarrow> uuid \<Rightarrow> string \<Rightarrow> time \<Rightarrow> session" where
  "new_session sv r user tenant refreshHash now =
     \<lparr>s_id = uuid_nil, s_user = user, s_tenant = tenant, s_refresh_hash = refreshHash,
      s_user_agent = user_agent r, s_ip = requestIP sv r, s_expires = now + sv_refresh_ttl sv,
      s_created = zero_time\<rparr>"

text \<open>\<open>auth.GenerateAccessToken\<close>, which reads the clock, with the reply to its error.\<close>

definition with_access_token ::
  "server \<Rightarrow> uuid \<Rightarrow> uuid \<Rightarrow> string \<Rightarrow> uuid \<Rightarrow> (string \<Rightarrow> response step) \<Rightarrow> response step" where
  "with_access_token sv user tenant role sid k =
     with_now (\<lambda>now.
       (case GenerateAccessToken (sv_crypto sv) user tenant role (sv_jwt_secret sv)
               (sv_access_ttl sv) sid now of
          None \<Rightarrow> reply internal_error
        | Some token \<Rightarrow> k token))"

section \<open>Login\<close>

definition maxFailedLoginAttempts :: nat where "maxFailedLoginAttempts = 5"
definition loginLockoutWindow :: int where "loginLockoutWindow = 15 * minute"

record login_request =
  lr_email :: string
  lr_password :: string
  lr_tenant_slug :: string

definition decode_login :: "json \<Rightarrow> login_request option" where
  "decode_login =
     decode_struct
       [(''email'', \<lambda>v x. map_option (\<lambda>s. x\<lparr>lr_email := s\<rparr>) (decode_string v (lr_email x))),
        (''password'', \<lambda>v x. map_option (\<lambda>s. x\<lparr>lr_password := s\<rparr>) (decode_string v (lr_password x))),
        (''tenant_slug'',
           \<lambda>v x. map_option (\<lambda>s. x\<lparr>lr_tenant_slug := s\<rparr>) (decode_string v (lr_tenant_slug x)))]
       \<lparr>lr_email = '''', lr_password = '''', lr_tenant_slug = ''''\<rparr>"

definition validateLogin :: "server \<Rightarrow> login_request \<Rightarrow> bool" where
  "validateLogin sv req \<longleftrightarrow>
     trim_space (lr_email req) \<noteq> '''' \<and> sv_mail_ok sv (lr_email req) \<and> lr_password req \<noteq> ''''"

datatype tenant_error =
    errMultipleTenants
  | errTenantMismatch
  | errNoTenantAccess
  | errStore store_error

definition resolveUserTenant :: "uuid \<Rightarrow> string \<Rightarrow> world \<Rightarrow> (tenant_error + uuid \<times> string) \<times> world" where
  "resolveUserTenant user tenantSlug =
     (let slug = trim_space tenantSlug in
      if slug \<noteq> '''' then
        attempt (TenantStore_GetBySlug slug) (\<lambda>e. reply (Inl (errStore e)))
          (\<lambda>t. attempt (GetRole (t_id t) user)
             (\<lambda>e. reply (Inl (if e = ErrNotFound then errTenantMismatch else errStore e)))
             (\<lambda>role. reply (Inr (t_id t, role))))
      else
        attempt (MemberStore_ListByUser user) (\<lambda>e. reply (Inl (errStore e)))
          (\<lambda>ms. case ms of
              [] \<Rightarrow> reply (Inl errNoTenantAccess)
            | [m] \<Rightarrow> reply (Inr (m_tenant m, m_role m))
            | _ \<Rightarrow> reply (Inl errMultipleTenants)))"

fun tenant_summaries ::
  "tenant_member list \<Rightarrow> (uuid \<times> string \<times> string) list \<Rightarrow> ((uuid \<times> string \<times> string) list \<Rightarrow> response step) \<Rightarrow>
   response step" where
  "tenant_summaries [] acc k = k acc"
| "tenant_summaries (m # ms) acc k =
     attempt (TenantStore_GetByID (m_tenant m)) (\<lambda>_. tenant_summaries ms acc k)
       (\<lambda>t. tenant_summaries ms (acc @ [(t_id t, t_slug t, t_name t)]) k)"

definition writeMultipleTenants :: "uuid \<Rightarrow> response step" where
  "writeMultipleTenants user =
     attempt (MemberStore_ListByUser user) or_internal
       (\<lambda>ms. tenant_summaries ms []
          (\<lambda>ts. reply ((JSON 409 (PTenants ts))\<lparr>rs_code := ''MULTIPLE_TENANTS''\<rparr>)))"

definition tenant_error_reply :: "uuid \<Rightarrow> tenant_error \<Rightarrow> response step" where
  "tenant_error_reply user e =
     (case e of
        errMultipleTenants \<Rightarrow> writeMultipleTenants user
      | errNoTenantAccess \<Rightarrow> invalid_credentials
      | errTenantMismatch \<Rightarrow> invalid_credentials
      | errStore s \<Rightarrow>
          (if s = ErrTenantNotFound \<or> s = ErrNotFound then invalid_credentials
           else reply internal_error))"

definition failed_attempt :: "server \<Rightarrow> http_request \<Rightarrow> uuid \<Rightarrow> login_attempt" where
  "failed_attempt sv r user =
     \<lparr>la_id = uuid_nil, la_user = user, la_ip = requestIP sv r, la_user_agent = user_agent r,
      la_at = zero_time\<rparr>"

definition recordFailedLogin :: "server \<Rightarrow> http_request \<Rightarrow> uuid \<Rightarrow> 'r step \<Rightarrow> 'r step" where
  "recordFailedLogin sv r user k = logged (LoginAttemptStore_Record (failed_attempt sv r user)) k"

definition password_matches :: "server \<Rightarrow> user \<Rightarrow> string \<Rightarrow> bool" where
  "password_matches sv u password \<longleftrightarrow>
     (case u_password_hash u of None \<Rightarrow> False | Some h \<Rightarrow> VerifyPassword (sv_crypto sv) h password)"

text \<open>The rest of a login whose password is right.\<close>

definition open_session ::
  "server \<Rightarrow> http_request \<Rightarrow> user \<Rightarrow> uuid \<Rightarrow> string \<Rightarrow> response step" where
  "open_session sv r u tenant role =
     logged (ClearForUser (u_id u))
       (drawing (GenerateRefreshToken (sv_crypto sv) 32) (reply internal_error)
         (\<lambda>(refreshRaw, refreshHash). with_now (\<lambda>now.
            attempt (SessionStore_Create (new_session sv r (u_id u) tenant refreshHash now)) or_internal
              (\<lambda>s. with_access_token sv (u_id u) tenant role (s_id s)
                 (\<lambda>accessToken.
                    logged (UpdateLastLogin (u_id u) now)
                      (writeAudit sv r tenant (u_id u) ''auth.login'' ''user'' (Some (u_id u))
                        (reply (token_response sv accessToken refreshRaw now))))))))"

definition handleLogin :: "server \<Rightarrow> handler" where
  "handleLogin sv r =
     decoding decode_login r (\<lambda>req.
     if \<not> validateLogin sv req then invalid
     else
       attempt (UserStore_GetByEmail (lr_email req))
         (\<lambda>e. if e = ErrUserNotFound then invalid_credentials else reply internal_error)
         (\<lambda>u. with_now (\<lambda>now.
            attempt (CountSince (u_id u) (now - loginLockoutWindow)) or_internal
              (\<lambda>count.
                 if maxFailedLoginAttempts \<le> count then reply (Error 423 ''ACCOUNT_LOCKED'')
                 else if \<not> password_matches sv u (lr_password req)
                 then recordFailedLogin sv r (u_id u) invalid_credentials
                 else (\<lambda>w.
                   (case resolveUserTenant (u_id u) (lr_tenant_slug req) w of
                      (Inl e, w') \<Rightarrow> tenant_error_reply (u_id u) e w'
                    | (Inr (tenant, role), w') \<Rightarrow> open_session sv r u tenant role w'))))))"

section \<open>Refresh\<close>

definition handleRefreshReuse :: "server \<Rightarrow> http_request \<Rightarrow> revoked_token \<Rightarrow> response step" where
  "handleRefreshReuse sv r t =
     logged (DeleteByUserID (rt_user t))
       (writeAudit sv r (rt_tenant t) (rt_user t) ''auth.refresh_reuse'' ''user'' (Some (rt_user t))
         (reply (clearRefreshCookie (Error 401 ''INVALID_CREDENTIALS''))))"

definition revoked :: "string \<Rightarrow> uuid \<Rightarrow> session \<Rightarrow> revoked_token" where
  "revoked refreshHash user s =
     \<lparr>rt_id = uuid_nil, rt_hash = refreshHash, rt_user = user, rt_tenant = s_tenant s,
      rt_revoked = zero_time, rt_expires = s_expires s\<rparr>"

definition rotate_tx :: "string \<Rightarrow> user \<Rightarrow> session \<Rightarrow> session \<Rightarrow> session op" where
  "rotate_tx refreshHash u s newSession =
     andThen (RevokedTokenStore_Insert (revoked refreshHash (u_id u) s)) (\<lambda>_.
     andThen (SessionStore_DeleteByID (s_id s)) (\<lambda>_.
     SessionStore_Create newSession))"

definition rotate_session ::
  "server \<Rightarrow> http_request \<Rightarrow> string \<Rightarrow> session \<Rightarrow> user \<Rightarrow> string \<Rightarrow> time \<Rightarrow> response step" where
  "rotate_session sv r refreshHash s u role now =
     drawing (GenerateRefreshToken (sv_crypto sv) 32) (reply internal_error)
       (\<lambda>(newRaw, newHash).
          attempt (runInTx (rotate_tx refreshHash u s
                     (new_session sv r (u_id u) (s_tenant s) newHash now))) or_internal
            (\<lambda>s'. with_access_token sv (u_id u) (s_tenant s) role (s_id s')
               (\<lambda>accessToken.
                  writeAudit sv r (s_tenant s) (u_id u) ''auth.refresh'' ''session'' (Some (s_id s'))
                    (reply (token_response sv accessToken newRaw now)))))"

definition handleRefresh :: "server \<Rightarrow> handler" where
  "handleRefresh sv r =
     (case refresh_cookie r of
        None \<Rightarrow> invalid_credentials
      | Some raw \<Rightarrow>
          (let refreshHash = HashRefreshToken (sv_crypto sv) raw in
           attempt (RevokedTokenStore_Lookup refreshHash)
             (\<lambda>e. if e \<noteq> ErrNotFound then reply internal_error
               else
                 attempt (GetByRefreshHash refreshHash) (\<lambda>_. invalid_credentials)
                   (\<lambda>s. with_now (\<lambda>now.
                      if \<not> now < s_expires s
                      then logged (SessionStore_DeleteByID (s_id s)) invalid_credentials
                      else
                        attempt (UserStore_GetByID (s_user s)) (\<lambda>_. invalid_credentials)
                          (\<lambda>u. attempt (GetRole (s_tenant s) (s_user s)) (\<lambda>_. invalid_credentials)
                             (\<lambda>role. rotate_session sv r refreshHash s u role now)))))
             (\<lambda>t. handleRefreshReuse sv r t)))"

definition logout_tx :: "string \<Rightarrow> session \<Rightarrow> unit op" where
  "logout_tx refreshHash s =
     andThen (RevokedTokenStore_Insert (revoked refreshHash (s_user s) s)) (\<lambda>_.
     SessionStore_DeleteByID (s_id s))"

definition handleLogout :: "server \<Rightarrow> handler" where
  "handleLogout sv r =
     user_of sv r (\<lambda>user. tenant_of sv r (\<lambda>tenant.
     (let finish = writeAudit sv r tenant user ''auth.logout'' ''user'' (Some user)
                     (reply (clearRefreshCookie NoContent)) in
      case refresh_cookie r of
        None \<Rightarrow> finish
      | Some raw \<Rightarrow>
          (let refreshHash = HashRefreshToken (sv_crypto sv) raw in
           attempt (GetByRefreshHash refreshHash) (\<lambda>_. finish)
             (\<lambda>s. logged (runInTx (logout_tx refreshHash s)) finish)))))"

section \<open>The account\<close>

definition handleGetMe :: "server \<Rightarrow> handler" where
  "handleGetMe sv r =
     user_of sv r (\<lambda>user. tenant_of sv r (\<lambda>tenant.
     attempt (UserStore_GetByID user) (or_not_found ErrUserNotFound)
       (\<lambda>u. attempt (GetRole tenant user)
          (\<lambda>e. reply (if e = ErrNotFound then Error 403 ''INSUFFICIENT_PERMISSIONS''
                       else internal_error))
          (\<lambda>role. reply (JSON 200 (PMe
             \<lparr>me_id = u_id u, me_email = u_email u, me_role = role, me_created = u_created u,
              me_last_login = u_last_login u\<rparr>))))))"

record change_password_request =
  cp_current :: string
  cp_new :: string
  cp_confirm :: string

definition decode_change_password :: "json \<Rightarrow> change_password_request option" where
  "decode_change_password =
     decode_struct
       [(''current_password'', \<lambda>v x. map_option (\<lambda>s. x\<lparr>cp_current := s\<rparr>) (decode_string v (cp_current x))),
        (''new_password'', \<lambda>v x. map_option (\<lambda>s. x\<lparr>cp_new := s\<rparr>) (decode_string v (cp_new x))),
        (''confirm_password'', \<lambda>v x. map_option (\<lambda>s. x\<lparr>cp_confirm := s\<rparr>) (decode_string v (cp_confirm x)))]
       \<lparr>cp_current = '''', cp_new = '''', cp_confirm = ''''\<rparr>"

text \<open>The audit entry is written when the claims name a tenant.\<close>

definition audit_if_tenant ::
  "server \<Rightarrow> http_request \<Rightarrow> uuid \<Rightarrow> string \<Rightarrow> string \<Rightarrow> uuid option \<Rightarrow> 'r step \<Rightarrow> 'r step" where
  "audit_if_tenant sv r user action resourceType resource k =
     (case TenantUUID (sv_crypto sv) (cx_claims r) of
        None \<Rightarrow> k
      | Some tenant \<Rightarrow> writeAudit sv r tenant user action resourceType resource k)"

definition handleChangePassword :: "server \<Rightarrow> handler" where
  "handleChangePassword sv r =
     user_of sv r (\<lambda>user.
     decoding decode_change_password r (\<lambda>req.
     if cp_new req \<noteq> cp_confirm req \<or> length (cp_new req) < 8 \<or> 72 < length (cp_new req) then invalid
     else
       attempt (UserStore_GetByID user) (or_not_found ErrUserNotFound)
         (\<lambda>u. if \<not> password_matches sv u (cp_current req) then invalid_credentials
           else (case HashPassword (sv_crypto sv) (cp_new req) (sv_bcrypt_cost sv) of
               None \<Rightarrow> reply internal_error
             | Some newHash \<Rightarrow>
                 attempt (UpdatePasswordHash user newHash) or_internal
                   (\<lambda>_. audit_if_tenant sv r user ''auth.password_changed'' ''user'' (Some user)
                      (logged (DeleteByUserID user) (reply NoContent)))))))"

definition current_sid :: "server \<Rightarrow> http_request \<Rightarrow> uuid" where
  "current_sid sv r =
     (case SessionID (sv_crypto sv) (cx_claims r) of None \<Rightarrow> uuid_nil | Some i \<Rightarrow> i)"

definition session_response_of :: "uuid \<Rightarrow> session \<Rightarrow> session_response" where
  "session_response_of sid s =
     \<lparr>sr_id = s_id s, sr_ip = s_ip s, sr_user_agent = s_user_agent s, sr_created = s_created s,
      sr_expires = s_expires s, sr_current = (sid \<noteq> uuid_nil \<and> s_id s = sid)\<rparr>"

definition handleListSessions :: "server \<Rightarrow> handler" where
  "handleListSessions sv r =
     user_of sv r (\<lambda>user.
     attempt (ListByUserID user) or_internal
       (\<lambda>ss. reply (JSON 200 (PSessions (map (session_response_of (current_sid sv r)) ss)))))"

definition handleRevokeSession :: "server \<Rightarrow> handler" where
  "handleRevokeSession sv r =
     user_of sv r (\<lambda>user.
     (case uuid_parse (sv_crypto sv) (path_value r ''id'') of
        None \<Rightarrow> invalid
      | Some sessionID \<Rightarrow>
          (if current_sid sv r \<noteq> uuid_nil \<and> sessionID = current_sid sv r then invalid
           else
             attempt (SessionStore_GetByID sessionID) (or_not_found ErrNotFound)
               (\<lambda>s. if s_user s \<noteq> user then reply (Error 404 ''NOT_FOUND'')
                 else
                   attempt (SessionStore_DeleteByID sessionID) or_internal
                     (\<lambda>_. audit_if_tenant sv r user ''auth.session_revoked'' ''session'' (Some sessionID)
                        (reply NoContent))))))"

definition handleRevokeAllSessions :: "server \<Rightarrow> handler" where
  "handleRevokeAllSessions sv r =
     user_of sv r (\<lambda>user.
     attempt (DeleteByUserID user) or_internal
       (\<lambda>_. audit_if_tenant sv r user ''auth.sessions_revoked_all'' ''user'' (Some user)
          (reply NoContent)))"

end
