(* ===== verification/Handlers_Setup.thy ===== *)
theory Handlers_Setup
  imports Handlers_Auth
begin

text \<open>
  \<open>internal/api/setup.go\<close>: the bootstrap of an instance, once, with its tenant and owner.  Its
  statements are SQL in the handler and not store methods; they stamp the rows with the time the
  handler read, not with \<open>NOW()\<close>.
\<close>

record setup_request =
  sq_tenant_name :: string
  sq_email :: string
  sq_password :: string

definition decode_setup :: "json \<Rightarrow> setup_request option" where
  "decode_setup =
     decode_struct
       [(''tenant_name'', \<lambda>v x. map_option (\<lambda>s. x\<lparr>sq_tenant_name := s\<rparr>) (decode_string v (sq_tenant_name x))),
        (''admin_email'', \<lambda>v x. map_option (\<lambda>s. x\<lparr>sq_email := s\<rparr>) (decode_string v (sq_email x))),
        (''admin_password'', \<lambda>v x. map_option (\<lambda>s. x\<lparr>sq_password := s\<rparr>) (decode_string v (sq_password x)))]
       \<lparr>sq_tenant_name = '''', sq_email = '''', sq_password = ''''\<rparr>"

definition validateSetup :: "server \<Rightarrow> setup_request \<Rightarrow> bool" where
  "validateSetup sv req \<longleftrightarrow>
     trim_space (sq_tenant_name req) \<noteq> '''' \<and> length (sq_tenant_name req) \<le> 255 \<and>
     trim_space (sq_email req) \<noteq> '''' \<and> sv_mail_ok sv (sq_email req) \<and>
     sq_password req \<noteq> '''' \<and> 8 \<le> length (sq_password req) \<and> length (sq_password req) \<le> 72"

section \<open>The slug\<close>

text \<open>
  The loop of \<open>slugifyTenantName\<close>, byte by byte: as a run of other characters becomes one dash, the
  bytes of one character count as the character.
\<close>

fun slug_loop :: "string \<Rightarrow> bool \<Rightarrow> string" where
  "slug_loop [] prevDash = []"
| "slug_loop (c # cs) prevDash =
     (if lower_alnum c then c # slug_loop cs False
      else if \<not> prevDash then CHR ''-'' # slug_loop cs True
      else slug_loop cs True)"

definition trim_dashes :: "string \<Rightarrow> string" where
  "trim_dashes s =
     rev (dropWhile (\<lambda>c. c = CHR ''-'') (rev (dropWhile (\<lambda>c. c = CHR ''-'') s)))"

text \<open>\<open>cryptoRandInt64\<close>: little-endian, two's complement, 0 when there are no bytes.\<close>

definition int64_le :: "nat list \<Rightarrow> int" where
  "int64_le bs =
     (let n = foldr (\<lambda>b acc. int b + 256 * acc) bs 0 in if n < 2 ^ 63 then n else n - 2 ^ 64)"

definition cryptoRandInt64 :: "world \<Rightarrow> int \<times> world" where
  "cryptoRandInt64 w =
     ((case random_bytes w (tick w) 8 of None \<Rightarrow> 0 | Some bs \<Rightarrow> int64_le bs), w\<lparr>tick := Suc (tick w)\<rparr>)"

fun decimal :: "nat \<Rightarrow> string" where
  "decimal n = (if n < 10 then [char_of (48 + n)] else decimal (n div 10) @ [char_of (48 + n mod 10)])"

declare decimal.simps [simp del]

text \<open>\<open>%d\<close> of \<open>n % 100000\<close>, where Go's remainder has the sign of \<open>n\<close>.\<close>

definition decimal_rem :: "int \<Rightarrow> string" where
  "decimal_rem n =
     (let m = nat (\<bar>n\<bar> mod 100000) in if n < 0 \<and> m \<noteq> 0 then CHR ''-'' # decimal m else decimal m)"

definition slugifyTenantName :: "string \<Rightarrow> world \<Rightarrow> string \<times> world" where
  "slugifyTenantName name w =
     (let slug = trim_dashes (slug_loop (to_lower (trim_space name)) False) in
      if slug = '''' then
        (case cryptoRandInt64 w of (n, w') \<Rightarrow> (''tenant-'' @ decimal_rem n, w'))
      else (slug, w))"

section \<open>The bootstrap\<close>

text \<open>A statement of the transaction stamped with the handler's time; its error is wrapped.\<close>

definition exec_at :: "time \<Rightarrow> 'a stmt \<Rightarrow> 'a op" where
  "exec_at now st w = wrapped (run_sql (\<lambda>d _. st d now) w)"

definition executeBootstrap ::
  "uuid \<Rightarrow> uuid \<Rightarrow> string \<Rightarrow> setup_request \<Rightarrow> string \<Rightarrow> string \<Rightarrow> time \<Rightarrow> time \<Rightarrow> unit op" where
  "executeBootstrap tenantID userID slug req passwordHash refreshHash now expiresAt =
     andThen ExistsAny (\<lambda>exists.
     if exists then (\<lambda>w. (Inl ErrAlreadyInitialized, w))
     else
       andThen (exec_at now (insert_tenant
         \<lparr>t_id = tenantID, t_slug = slug, t_name = trim_space (sq_tenant_name req), t_plan = ''free'',
          t_created = now, t_updated = now\<rparr>)) (\<lambda>_.
       andThen (exec_at now (insert_user
         \<lparr>u_id = userID, u_email = trim_space (sq_email req), u_password_hash = Some passwordHash,
          u_email_verified = Some now, u_last_login = None, u_created = now, u_updated = now\<rparr>)) (\<lambda>_.
       andThen (exec_at now (insert_member
         \<lparr>m_tenant = tenantID, m_user = userID, m_role = ''owner'', m_created = now\<rparr>)) (\<lambda>_.
       with_new_uuid (\<lambda>sid.
       andThen (exec_at now (insert_session
         \<lparr>s_id = sid, s_user = userID, s_tenant = tenantID, s_refresh_hash = refreshHash,
          s_user_agent = None, s_ip = None, s_expires = expiresAt, s_created = now\<rparr>)) (\<lambda>_.
       with_new_uuid (\<lambda>aid.
       andThen (exec_at now (insert_audit
         \<lparr>a_id = aid, a_tenant = tenantID, a_actor = None, a_actor_type = ''system'',
          a_action = ''system.bootstrap'', a_resource_type = ''tenant'', a_resource = Some tenantID,
          a_changes = None, a_ip = None, a_user_agent = None, a_created = now\<rparr>)) (\<lambda>_.
       return_op ()))))))))"

definition already_initialized :: response where
  "already_initialized = Error 409 ''ALREADY_INITIALIZED''"

definition bootstrap_error :: "tx_error \<Rightarrow> response" where
  "bootstrap_error e =
     (if e = FnFailed ErrAlreadyInitialized \<or> e = CommitFailed True then already_initialized
      else internal_error)"

definition bootstrap ::
  "server \<Rightarrow> setup_request \<Rightarrow> uuid \<Rightarrow> uuid \<Rightarrow> string \<Rightarrow> string \<Rightarrow> string \<Rightarrow> string \<Rightarrow> response step" where
  "bootstrap sv req tenantID userID slug passwordHash refreshRaw refreshHash =
     with_now (\<lambda>now.
     (let expiresAt = now + sv_refresh_ttl sv in
      (\<lambda>w. case in_tx (executeBootstrap tenantID userID slug req passwordHash refreshHash now expiresAt) w of
         (Inl e, w') \<Rightarrow> (bootstrap_error e, w')
       | (Inr _, w') \<Rightarrow>
           with_access_token sv userID tenantID ''owner'' uuid_nil
             (\<lambda>accessToken. reply (setRefreshCookie refreshRaw expiresAt
                (JSON 201 (PSetup tenantID userID accessToken)))) w')))"

definition handleSetup :: "server \<Rightarrow> handler" where
  "handleSetup sv r =
     decoding decode_setup r (\<lambda>req.
     if \<not> validateSetup sv req then invalid
     else
       attempt ExistsAny or_internal (\<lambda>exists.
       if exists then reply already_initialized
       else
         with_new_uuid (\<lambda>tenantID. with_new_uuid (\<lambda>userID.
         (\<lambda>w. case slugifyTenantName (sq_tenant_name req) w of
            (slug, w1) \<Rightarrow>
              (case HashPassword (sv_crypto sv) (sq_password req) (sv_bcrypt_cost sv) of
                 None \<Rightarrow> reply internal_error
               | Some passwordHash \<Rightarrow>
                   drawing (GenerateRefreshToken (sv_crypto sv) 32) (reply internal_error)
                     (\<lambda>(refreshRaw, refreshHash).
                        bootstrap sv req tenantID userID slug passwordHash refreshRaw refreshHash))
              w1)))))"

definition handleSetupStatus :: "server \<Rightarrow> handler" where
  "handleSetupStatus sv r =
     attempt ExistsAny or_internal (\<lambda>initialized. reply (JSON 200 (PSetupStatus initialized)))"

end
