(* ===== verification/Handlers_Flags.thy ===== *)
theory Handlers_Flags
  imports Handlers_Projects
begin

text \<open>
  \<open>internal/api/flags.go\<close>, \<open>internal/api/flag_envs.go\<close> and the publishing of changes in
  \<open>internal/api/server.go\<close>.
\<close>

section \<open>Publishing\<close>

definition change_event :: "string \<Rightarrow> string \<Rightarrow> string \<Rightarrow> uuid \<Rightarrow> event" where
  "change_event kind key action env =
     \<lparr>ev_env = env, ev_type = kind, ev_key = key, ev_action = action\<rparr>"

definition publishFlagChange :: "uuid \<Rightarrow> string \<Rightarrow> string \<Rightarrow> 'r step \<Rightarrow> 'r step" where
  "publishFlagChange proj key action k =
     attempt (EnvironmentStore_ListByProject proj) (\<lambda>_. k)
       (\<lambda>es. foldr (\<lambda>e. publish (change_event ''flag_change'' key action (e_id e))) es k)"

definition publishSegmentChange :: "uuid \<Rightarrow> string \<Rightarrow> string \<Rightarrow> 'r step \<Rightarrow> 'r step" where
  "publishSegmentChange proj key action k =
     attempt (EnvironmentStore_ListByProject proj) (\<lambda>_. k)
       (\<lambda>es. foldr (\<lambda>e. publish (change_event ''segment_change'' key action (e_id e))) es k)"

section \<open>Flags\<close>

definition validFlagTypes :: "string set" where
  "validFlagTypes = {''boolean'', ''string'', ''number'', ''json''}"

record create_flag_request =
  cf_key :: string
  cf_name :: string
  cf_description :: "string option"
  cf_type :: string
  cf_default :: raw_message

definition decode_create_flag :: "json \<Rightarrow> create_flag_request option" where
  "decode_create_flag =
     decode_struct
       [(''key'', \<lambda>v x. map_option (\<lambda>s. x\<lparr>cf_key := s\<rparr>) (decode_string v (cf_key x))),
        (''name'', \<lambda>v x. map_option (\<lambda>s. x\<lparr>cf_name := s\<rparr>) (decode_string v (cf_name x))),
        (''description'', \<lambda>v x. map_option (\<lambda>s. x\<lparr>cf_description := s\<rparr>) (decode_string_ptr v)),
        (''type'', \<lambda>v x. map_option (\<lambda>s. x\<lparr>cf_type := s\<rparr>) (decode_string v (cf_type x))),
        (''default_value'', \<lambda>v x. Some (x\<lparr>cf_default := decode_raw v\<rparr>))]
       \<lparr>cf_key = '''', cf_name = '''', cf_description = None, cf_type = '''', cf_default = None\<rparr>"

definition zero_default :: "string \<Rightarrow> raw_message" where
  "zero_default typ =
     (if typ = ''boolean'' then Some (JBool False)
      else if typ = ''number'' then Some (JInt 0)
      else if typ = ''string'' then Some (JStr '''')
      else Some JNull)"

definition validateCreateFlag :: "create_flag_request \<Rightarrow> create_flag_request option" where
  "validateCreateFlag req =
     (let key = trim_space (cf_key req); name = trim_space (cf_name req);
          desc = map_option trim_space (cf_description req); typ = trim_space (cf_type req) in
      if key = '''' then None
      else if 128 < length key then None
      else if \<not> flagKeyRegex key then None
      else if name = '''' then None
      else if 255 < length name then None
      else if (case desc of None \<Rightarrow> False | Some d \<Rightarrow> 2000 < length d) then None
      else if typ \<notin> validFlagTypes then None
      else Some \<lparr>cf_key = key, cf_name = name, cf_description = desc, cf_type = typ,
                 cf_default = (case cf_default req of
                                 None \<Rightarrow> zero_default typ | Some v \<Rightarrow> Some v)\<rparr>)"

definition new_flag :: "uuid \<Rightarrow> uuid \<Rightarrow> create_flag_request \<Rightarrow> flag" where
  "new_flag proj user req =
     \<lparr>f_id = uuid_nil, f_project = proj, f_key = cf_key req, f_name = cf_name req,
      f_description = cf_description req, f_type = cf_type req, f_default = cf_default req,
      f_archived = None, f_created = zero_time, f_updated = zero_time, f_created_by = Some user\<rparr>"

definition off_in :: "flag \<Rightarrow> environment \<Rightarrow> flag_environment" where
  "off_in f e =
     \<lparr>fe_flag = f_id f, fe_env = e_id e, fe_enabled = False, fe_rules = Some (JArr []),
      fe_default = None, fe_version = 0, fe_created = zero_time, fe_updated = zero_time,
      fe_updated_by = None\<rparr>"

definition create_flag_tx ::
  "server \<Rightarrow> http_request \<Rightarrow> uuid \<Rightarrow> uuid \<Rightarrow> project \<Rightarrow> create_flag_request \<Rightarrow> flag op" where
  "create_flag_tx sv r tenant user p req =
     andThen (FlagStore_Create (new_flag (p_id p) user req)) (\<lambda>f.
     andThen (EnvironmentStore_ListByProject (p_id p)) (\<lambda>es.
     andThen (for_each (\<lambda>e. Upsert (off_in f e)) es) (\<lambda>_.
     andThen (AuditStore_Insert (user_audit sv r tenant user ''flag.created'' ''flag'' (Some (f_id f))))
       (\<lambda>_. return_op f))))"

definition handleCreateFlag :: "server \<Rightarrow> handler" where
  "handleCreateFlag sv r =
     decoding decode_create_flag r (\<lambda>req0.
     (case validateCreateFlag req0 of
        None \<Rightarrow> invalid
      | Some req \<Rightarrow>
          tenant_of sv r (\<lambda>tenant. user_of sv r (\<lambda>user.
          project_of tenant r (\<lambda>p.
          attempt (runInTx (create_flag_tx sv r tenant user p req))
            (conflict ''DUPLICATE_KEY'')
            (\<lambda>f. publishFlagChange (p_id p) (cf_key req) ''created''
               (reply (JSON 201 (PFlag f)))))))))"

definition handleListFlags :: "server \<Rightarrow> handler" where
  "handleListFlags sv r =
     tenant_of sv r (\<lambda>tenant.
     project_of tenant r (\<lambda>p.
     attempt (FlagStore_ListByProject (p_id p)) or_internal
       (\<lambda>fs. reply (JSON 200 (PFlags fs)))))"

definition handleGetFlag :: "server \<Rightarrow> handler" where
  "handleGetFlag sv r =
     tenant_of sv r (\<lambda>tenant.
     project_of tenant r (\<lambda>p.
     flag_of p r (\<lambda>f. reply (JSON 200 (PFlag f)))))"

record update_flag_request =
  uf_key :: "string option"
  uf_name :: "string option"
  uf_description :: "string option"
  uf_type :: "string option"
  uf_default :: raw_message

definition decode_update_flag :: "json \<Rightarrow> update_flag_request option" where
  "decode_update_flag =
     decode_struct
       [(''key'', \<lambda>v x. map_option (\<lambda>s. x\<lparr>uf_key := s\<rparr>) (decode_string_ptr v)),
        (''name'', \<lambda>v x. map_option (\<lambda>s. x\<lparr>uf_name := s\<rparr>) (decode_string_ptr v)),
        (''description'', \<lambda>v x. map_option (\<lambda>s. x\<lparr>uf_description := s\<rparr>) (decode_string_ptr v)),
        (''type'', \<lambda>v x. map_option (\<lambda>s. x\<lparr>uf_type := s\<rparr>) (decode_string_ptr v)),
        (''default_value'', \<lambda>v x. Some (x\<lparr>uf_default := decode_raw_ptr v\<rparr>))]
       \<lparr>uf_key = None, uf_name = None, uf_description = None, uf_type = None, uf_default = None\<rparr>"

definition apply_update_flag :: "update_flag_request \<Rightarrow> flag \<Rightarrow> flag option" where
  "apply_update_flag req f0 =
     (let key = map_option trim_space (uf_key req); name = map_option trim_space (uf_name req);
          desc = map_option trim_space (uf_description req);
          typ = map_option trim_space (uf_type req) in
      if (case key of None \<Rightarrow> False
          | Some k \<Rightarrow> k = '''' \<or> 128 < length k \<or> \<not> flagKeyRegex k) then None
      else if (case name of None \<Rightarrow> False | Some n \<Rightarrow> n = '''' \<or> 255 < length n) then None
      else if (case desc of None \<Rightarrow> False | Some d \<Rightarrow> 2000 < length d) then None
      else if (case typ of None \<Rightarrow> False | Some t \<Rightarrow> t \<notin> validFlagTypes) then None
      else Some (f0\<lparr>f_key := case_option (f_key f0) id key,
                    f_name := case_option (f_name f0) id name,
                    f_description := (case desc of
                        None \<Rightarrow> f_description f0
                      | Some d \<Rightarrow> (if d = '''' then None else Some d)),
                    f_type := case_option (f_type f0) id typ,
                    f_default := (case uf_default req of
                        None \<Rightarrow> f_default f0 | Some v \<Rightarrow> Some v)\<rparr>))"

definition handleUpdateFlag :: "server \<Rightarrow> handler" where
  "handleUpdateFlag sv r =
     decoding decode_update_flag r (\<lambda>req.
     tenant_of sv r (\<lambda>tenant. user_of sv r (\<lambda>user.
     project_of tenant r (\<lambda>p.
     flag_of p r (\<lambda>f0.
     (case apply_update_flag req f0 of
        None \<Rightarrow> invalid
      | Some f1 \<Rightarrow>
          attempt (FlagStore_Update f1) (conflict_or_not_found ''DUPLICATE_KEY'' ErrFlagNotFound)
            (\<lambda>f. writeAudit sv r tenant user ''flag.updated'' ''flag'' (Some (f_id f))
               (publishFlagChange (p_id p) (f_key f) ''updated''
                  (reply (JSON 200 (PFlag f)))))))))))"

definition handleArchiveFlag :: "server \<Rightarrow> handler" where
  "handleArchiveFlag sv r =
     tenant_of sv r (\<lambda>tenant. user_of sv r (\<lambda>user.
     project_of tenant r (\<lambda>p.
     flag_of p r (\<lambda>f.
     with_now (\<lambda>now.
     attempt (FlagStore_Archive (f_id f) now) (or_not_found ErrFlagNotFound)
       (\<lambda>_. writeAudit sv r tenant user ''flag.archived'' ''flag'' (Some (f_id f))
          (publishFlagChange (p_id p) (f_key f) ''archived'' (reply NoContent))))))))"

section \<open>Flags in an environment\<close>

definition handleGetFlagEnvironment :: "server \<Rightarrow> handler" where
  "handleGetFlagEnvironment sv r =
     tenant_of sv r (\<lambda>tenant.
     project_of tenant r (\<lambda>p.
     flag_of p r (\<lambda>f.
     environment_of p r (\<lambda>e.
     attempt (FlagEnvironmentStore_Get (f_id f) (e_id e)) (or_not_found ErrNotFound)
       (\<lambda>c. reply (JSON 200 (PFlagEnvironment c)))))))"

definition decode_toggle :: "json \<Rightarrow> bool option" where
  "decode_toggle = decode_struct [(''enabled'', decode_bool)] False"

definition handleToggleFlagEnvironment :: "server \<Rightarrow> handler" where
  "handleToggleFlagEnvironment sv r =
     decoding decode_toggle r (\<lambda>enabled.
     tenant_of sv r (\<lambda>tenant. user_of sv r (\<lambda>user.
     project_of tenant r (\<lambda>p.
     flag_of p r (\<lambda>f.
     environment_of p r (\<lambda>e.
     attempt (SetEnabled (f_id f) (e_id e) enabled) or_internal
       (\<lambda>_. writeAudit sv r tenant user
          (if enabled then ''flag_environment.enabled'' else ''flag_environment.disabled'')
          ''flag_environment'' None
          (publish (change_event ''flag_change'' (f_key f) ''toggled'' (e_id e))
             (reply NoContent)))))))))"

record update_flag_env_request =
  ue_enabled :: bool
  ue_rules :: raw_message
  ue_default :: raw_message
  ue_version :: int

definition decode_update_flag_env :: "json \<Rightarrow> update_flag_env_request option" where
  "decode_update_flag_env =
     decode_struct
       [(''enabled'', \<lambda>v x. map_option (\<lambda>b. x\<lparr>ue_enabled := b\<rparr>) (decode_bool v (ue_enabled x))),
        (''rules'', \<lambda>v x. Some (x\<lparr>ue_rules := decode_raw v\<rparr>)),
        (''default_value'', \<lambda>v x. Some (x\<lparr>ue_default := decode_raw_ptr v\<rparr>)),
        (''version'', \<lambda>v x. map_option (\<lambda>i. x\<lparr>ue_version := i\<rparr>) (decode_int v (ue_version x)))]
       \<lparr>ue_enabled = False, ue_rules = None, ue_default = None, ue_version = 0\<rparr>"

definition updated_flag_env ::
  "uuid \<Rightarrow> flag \<Rightarrow> environment \<Rightarrow> update_flag_env_request \<Rightarrow> flag_environment" where
  "updated_flag_env user f e req =
     \<lparr>fe_flag = f_id f, fe_env = e_id e, fe_enabled = ue_enabled req, fe_rules = ue_rules req,
      fe_default = ue_default req, fe_version = 0, fe_created = zero_time, fe_updated = zero_time,
      fe_updated_by = Some user\<rparr>"

definition version_conflict :: "store_error \<Rightarrow> response step" where
  "version_conflict e =
     reply (if e = ErrVersionConflict then Error 409 ''VERSION_CONFLICT'' else internal_error)"

definition handleUpdateFlagEnvironment :: "server \<Rightarrow> handler" where
  "handleUpdateFlagEnvironment sv r =
     decoding decode_update_flag_env r (\<lambda>req.
     if \<not> is_ok (ValidateFlagRules (rq_text_len r ''rules'') (ue_rules req))
     then invalid
     else
       tenant_of sv r (\<lambda>tenant. user_of sv r (\<lambda>user.
       project_of tenant r (\<lambda>p.
       flag_of p r (\<lambda>f.
       environment_of p r (\<lambda>e.
       attempt (UpdateWithVersion (updated_flag_env user f e req) (ue_version req)) version_conflict
         (\<lambda>c. writeAudit sv r tenant user ''flag_environment.updated'' ''flag_environment'' None
            (publish (change_event ''flag_change'' (f_key f) ''rules_updated'' (e_id e))
               (reply (JSON 200 (PFlagEnvironment c)))))))))))"

end
