(* ===== verification/Handlers_Segments.thy ===== *)
theory Handlers_Segments
  imports Handlers_Flags
begin

text \<open>
  \<open>internal/api/segments.go\<close>, \<open>internal/api/apikeys.go\<close> and \<open>internal/api/audit.go\<close>.
\<close>

section \<open>Segments\<close>

record create_segment_request =
  cs_key :: string
  cs_name :: string
  cs_description :: "string option"
  cs_rules :: raw_message

definition decode_create_segment :: "json \<Rightarrow> create_segment_request option" where
  "decode_create_segment =
     decode_struct
       [(''key'', \<lambda>v x. map_option (\<lambda>s. x\<lparr>cs_key := s\<rparr>) (decode_string v (cs_key x))),
        (''name'', \<lambda>v x. map_option (\<lambda>s. x\<lparr>cs_name := s\<rparr>) (decode_string v (cs_name x))),
        (''description'', \<lambda>v x. map_option (\<lambda>s. x\<lparr>cs_description := s\<rparr>) (decode_string_ptr v)),
        (''rules'', \<lambda>v x. Some (x\<lparr>cs_rules := decode_raw v\<rparr>))]
       \<lparr>cs_key = '''', cs_name = '''', cs_description = None, cs_rules = None\<rparr>"

text \<open>The number is the length of the text of the rules.\<close>

definition validateCreateSegment :: "nat \<Rightarrow> create_segment_request \<Rightarrow> create_segment_request option" where
  "validateCreateSegment len req =
     (let key = trim_space (cs_key req); name = trim_space (cs_name req);
          desc = map_option trim_space (cs_description req) in
      if key = '''' then None
      else if 128 < length key then None
      else if \<not> flagKeyRegex key then None
      else if name = '''' then None
      else if 255 < length name then None
      else if (case desc of None \<Rightarrow> False | Some d \<Rightarrow> 2000 < length d) then None
      else if \<not> is_ok (ValidateSegmentRules len (cs_rules req)) then None
      else Some \<lparr>cs_key = key, cs_name = name, cs_description = desc, cs_rules = cs_rules req\<rparr>)"

definition new_segment :: "uuid \<Rightarrow> uuid \<Rightarrow> create_segment_request \<Rightarrow> db_segment" where
  "new_segment proj user req =
     \<lparr>g_id = uuid_nil, g_project = proj, g_key = cs_key req, g_name = cs_name req,
      g_description = cs_description req, g_rules = cs_rules req, g_archived = None,
      g_created = zero_time, g_updated = zero_time, g_created_by = Some user\<rparr>"

definition handleCreateSegment :: "server \<Rightarrow> handler" where
  "handleCreateSegment sv r =
     decoding decode_create_segment r (\<lambda>req0.
     (case validateCreateSegment (rq_text_len r ''rules'') req0 of
        None \<Rightarrow> invalid
      | Some req \<Rightarrow>
          tenant_of sv r (\<lambda>tenant. user_of sv r (\<lambda>user.
          project_of tenant r (\<lambda>p.
          attempt (SegmentStore_Create (new_segment (p_id p) user req)) (conflict ''DUPLICATE_KEY'')
            (\<lambda>g. writeAudit sv r tenant user ''segment.created'' ''segment'' (Some (g_id g))
               (publishSegmentChange (p_id p) (g_key g) ''created''
                  (reply (JSON 201 (PSegment g))))))))))"

definition handleListSegments :: "server \<Rightarrow> handler" where
  "handleListSegments sv r =
     tenant_of sv r (\<lambda>tenant.
     project_of tenant r (\<lambda>p.
     attempt (SegmentStore_ListByProject (p_id p)) or_internal
       (\<lambda>gs. reply (JSON 200 (PSegments gs)))))"

definition handleGetSegment :: "server \<Rightarrow> handler" where
  "handleGetSegment sv r =
     tenant_of sv r (\<lambda>tenant.
     project_of tenant r (\<lambda>p.
     segment_of p r (\<lambda>g. reply (JSON 200 (PSegment g)))))"

record update_segment_request =
  us_key :: "string option"
  us_name :: "string option"
  us_description :: "string option"
  us_rules :: raw_message

definition decode_update_segment :: "json \<Rightarrow> update_segment_request option" where
  "decode_update_segment =
     decode_struct
       [(''key'', \<lambda>v x. map_option (\<lambda>s. x\<lparr>us_key := s\<rparr>) (decode_string_ptr v)),
        (''name'', \<lambda>v x. map_option (\<lambda>s. x\<lparr>us_name := s\<rparr>) (decode_string_ptr v)),
        (''description'', \<lambda>v x. map_option (\<lambda>s. x\<lparr>us_description := s\<rparr>) (decode_string_ptr v)),
        (''rules'', \<lambda>v x. Some (x\<lparr>us_rules := decode_raw_ptr v\<rparr>))]
       \<lparr>us_key = None, us_name = None, us_description = None, us_rules = None\<rparr>"

definition apply_update_segment ::
  "nat \<Rightarrow> update_segment_request \<Rightarrow> db_segment \<Rightarrow> db_segment option" where
  "apply_update_segment len req g0 =
     (let key = map_option trim_space (us_key req); name = map_option trim_space (us_name req);
          desc = map_option trim_space (us_description req) in
      if (case key of None \<Rightarrow> False
          | Some k \<Rightarrow> k = '''' \<or> 128 < length k \<or> \<not> flagKeyRegex k) then None
      else if (case name of None \<Rightarrow> False | Some n \<Rightarrow> n = '''' \<or> 255 < length n) then None
      else if (case desc of None \<Rightarrow> False | Some d \<Rightarrow> 2000 < length d) then None
      else if \<not> is_ok (ValidateSegmentRules len (us_rules req)) then None
      else Some (g0\<lparr>g_key := case_option (g_key g0) id key,
                    g_name := case_option (g_name g0) id name,
                    g_description := (case desc of
                        None \<Rightarrow> g_description g0
                      | Some d \<Rightarrow> (if d = '''' then None else Some d)),
                    g_rules := (case us_rules req of
                        None \<Rightarrow> g_rules g0 | Some v \<Rightarrow> Some v)\<rparr>))"

definition handleUpdateSegment :: "server \<Rightarrow> handler" where
  "handleUpdateSegment sv r =
     decoding decode_update_segment r (\<lambda>req.
     tenant_of sv r (\<lambda>tenant. user_of sv r (\<lambda>user.
     project_of tenant r (\<lambda>p.
     segment_of p r (\<lambda>g0.
     (case apply_update_segment (rq_text_len r ''rules'') req g0 of
        None \<Rightarrow> invalid
      | Some g1 \<Rightarrow>
          attempt (SegmentStore_Update g1) (conflict_or_not_found ''DUPLICATE_KEY'' ErrSegmentNotFound)
            (\<lambda>g. writeAudit sv r tenant user ''segment.updated'' ''segment'' (Some (g_id g))
               (publishSegmentChange (p_id p) (g_key g) ''updated''
                  (reply (JSON 200 (PSegment g)))))))))))"

definition handleArchiveSegment :: "server \<Rightarrow> handler" where
  "handleArchiveSegment sv r =
     tenant_of sv r (\<lambda>tenant. user_of sv r (\<lambda>user.
     project_of tenant r (\<lambda>p.
     segment_of p r (\<lambda>g.
     with_now (\<lambda>now.
     attempt (SegmentStore_Archive (g_id g) now) (or_not_found ErrSegmentNotFound)
       (\<lambda>_. writeAudit sv r tenant user ''segment.archived'' ''segment'' (Some (g_id g))
          (publishSegmentChange (p_id p) (g_key g) ''archived'' (reply NoContent))))))))"

section \<open>API keys\<close>

record create_api_key_request =
  ck_name :: string
  ck_env_hint :: "string option"
  ck_expires :: "time option"

definition decode_time_ptr :: "server \<Rightarrow> json \<Rightarrow> time option option" where
  "decode_time_ptr sv v =
     (case v of JNull \<Rightarrow> Some None | JStr s \<Rightarrow> map_option Some (sv_unmarshal_time sv s) | _ \<Rightarrow> None)"

definition decode_create_api_key :: "server \<Rightarrow> json \<Rightarrow> create_api_key_request option" where
  "decode_create_api_key sv =
     decode_struct
       [(''name'', \<lambda>v x. map_option (\<lambda>s. x\<lparr>ck_name := s\<rparr>) (decode_string v (ck_name x))),
        (''env_hint'', \<lambda>v x. map_option (\<lambda>s. x\<lparr>ck_env_hint := s\<rparr>) (decode_string_ptr v)),
        (''expires_at'', \<lambda>v x. map_option (\<lambda>t. x\<lparr>ck_expires := t\<rparr>) (decode_time_ptr sv v))]
       \<lparr>ck_name = '''', ck_env_hint = None, ck_expires = None\<rparr>"

definition env_hint :: "string option \<Rightarrow> string" where
  "env_hint v =
     (case v of
        None \<Rightarrow> ''live''
      | Some h \<Rightarrow> (if trim_space h = '''' then ''live'' else trim_space h))"

definition apiKeyResponseFromKey :: "api_key \<Rightarrow> api_key_response" where
  "apiKeyResponseFromKey k =
     \<lparr>kr_id = k_id k, kr_env = k_env k, kr_name = k_name k, kr_prefix = k_prefix k,
      kr_last_used = k_last_used k, kr_expires = k_expires k, kr_revoked = k_revoked k,
      kr_created = k_created k, kr_created_by = k_created_by k\<rparr>"

definition new_api_key ::
  "uuid \<Rightarrow> uuid \<Rightarrow> string \<Rightarrow> string \<Rightarrow> string \<Rightarrow> time option \<Rightarrow> api_key" where
  "new_api_key env user name keyHash keyPrefix expires =
     \<lparr>k_id = uuid_nil, k_env = env, k_name = name, k_hash = keyHash, k_prefix = keyPrefix,
      k_last_used = None, k_expires = expires, k_revoked = None, k_created = zero_time,
      k_created_by = Some user\<rparr>"

definition handleCreateAPIKey :: "server \<Rightarrow> handler" where
  "handleCreateAPIKey sv r =
     decoding (decode_create_api_key sv) r (\<lambda>req.
     let name = trim_space (ck_name req) in
     if name = '''' \<or> 255 < length name then invalid
     else
       tenant_of sv r (\<lambda>tenant. user_of sv r (\<lambda>user.
       project_of tenant r (\<lambda>p.
       environment_of p r (\<lambda>e.
       drawing (GenerateAPIKey (sv_crypto sv) (env_hint (ck_env_hint req)) 32) (reply internal_error)
         (\<lambda>(rawKey, keyHash, keyPrefix).
            attempt (APIKeyStore_Create
                       (new_api_key (e_id e) user name keyHash keyPrefix (ck_expires req)))
              (conflict ''DUPLICATE_KEY'')
              (\<lambda>k. writeAudit sv r tenant user ''apikey.created'' ''api_key'' (Some (k_id k))
                 (reply (JSON 201 (PApiKeyCreated (apiKeyResponseFromKey k) rawKey))))))))))"

definition handleListAPIKeys :: "server \<Rightarrow> handler" where
  "handleListAPIKeys sv r =
     tenant_of sv r (\<lambda>tenant.
     project_of tenant r (\<lambda>p.
     environment_of p r (\<lambda>e.
     attempt (APIKeyStore_ListByEnvironment (e_id e)) or_internal
       (\<lambda>ks. reply (JSON 200 (PApiKeys (map apiKeyResponseFromKey ks)))))))"

definition handleRevokeAPIKey :: "server \<Rightarrow> handler" where
  "handleRevokeAPIKey sv r =
     tenant_of sv r (\<lambda>tenant. user_of sv r (\<lambda>user.
     (case uuid_parse (sv_crypto sv) (path_value r ''id'') of
        None \<Rightarrow> invalid
      | Some keyID \<Rightarrow>
          project_of tenant r (\<lambda>p.
          environment_of p r (\<lambda>_.
          with_now (\<lambda>now.
          attempt (Revoke keyID now) (or_not_found ErrNotFound)
            (\<lambda>_. writeAudit sv r tenant user ''apikey.revoked'' ''api_key'' (Some keyID)
               (reply NoContent))))))))"

section \<open>The audit log\<close>

definition trimQuery :: "http_request \<Rightarrow> string \<Rightarrow> string" where
  "trimQuery r key = trim_space (case map_of (rq_query r) key of None \<Rightarrow> '''' | Some v \<Rightarrow> v)"

text \<open>\<open>strconv.Atoi\<close>: an optional sign and decimal digits, in the range of \<open>int\<close>.\<close>

definition is_digit :: "char \<Rightarrow> bool" where
  "is_digit c \<longleftrightarrow> between 48 57 c"

definition digits_value :: "string \<Rightarrow> int" where
  "digits_value s = foldl (\<lambda>n c. 10 * n + (int (of_char c) - 48)) 0 s"

definition Atoi :: "string \<Rightarrow> int option" where
  "Atoi s =
     (let neg = s \<noteq> [] \<and> hd s = CHR ''-'';
          ds = (if s \<noteq> [] \<and> (hd s = CHR ''-'' \<or> hd s = CHR ''+'') then tl s else s);
          n = (if neg then - digits_value ds else digits_value ds) in
      if ds = [] \<or> \<not> list_all is_digit ds \<or> n < - (2 ^ 63) \<or> 2 ^ 63 \<le> n then None else Some n)"

definition queryInt :: "http_request \<Rightarrow> string \<Rightarrow> int \<Rightarrow> int" where
  "queryInt r key defaultVal =
     (let v = trimQuery r key in
      if v = '''' then defaultVal
      else (case Atoi v of None \<Rightarrow> defaultVal | Some n \<Rightarrow> n))"

definition text_filter :: "http_request \<Rightarrow> string \<Rightarrow> string option" where
  "text_filter r key = stringPtr (trimQuery r key)"

text \<open>A parsed filter: \<open>None\<close> is the error, \<open>Some None\<close> no filter.\<close>

definition parsed_filter :: "(string \<Rightarrow> 'a option) \<Rightarrow> http_request \<Rightarrow> string \<Rightarrow> 'a option option" where
  "parsed_filter parse r key =
     (let v = trimQuery r key in if v = '''' then Some None else map_option Some (parse v))"

definition audit_filter_of :: "server \<Rightarrow> http_request \<Rightarrow> uuid \<Rightarrow> audit_filter option" where
  "audit_filter_of sv r tenant =
     (case parsed_filter (uuid_parse (sv_crypto sv)) r ''actor_id'' of
        None \<Rightarrow> None
      | Some actor \<Rightarrow>
     (case parsed_filter (uuid_parse (sv_crypto sv)) r ''resource_id'' of
        None \<Rightarrow> None
      | Some resource \<Rightarrow>
     (case parsed_filter (sv_parse_time sv) r ''since'' of
        None \<Rightarrow> None
      | Some since \<Rightarrow>
     (case parsed_filter (sv_parse_time sv) r ''until'' of
        None \<Rightarrow> None
      | Some until \<Rightarrow>
          Some \<lparr>af_tenant = tenant, af_actor = actor, af_actor_type = text_filter r ''actor_type'',
                af_action = text_filter r ''action'',
                af_resource_type = text_filter r ''resource_type'', af_resource = resource,
                af_since = since, af_until = until,
                af_limit = min 100 (max 1 (queryInt r ''limit'' 20)),
                af_offset = max 0 (queryInt r ''offset'' 0)\<rparr>))))"

definition audit_entry_response_of :: "audit_entry \<Rightarrow> audit_entry_response" where
  "audit_entry_response_of a =
     \<lparr>ar_id = a_id a, ar_actor = a_actor a, ar_actor_type = a_actor_type a, ar_action = a_action a,
      ar_resource_type = a_resource_type a, ar_resource = a_resource a, ar_changes = a_changes a,
      ar_ip = a_ip a, ar_user_agent = a_user_agent a, ar_created = a_created a\<rparr>"

definition handleAuditLog :: "server \<Rightarrow> handler" where
  "handleAuditLog sv r =
     (if cx_claims r = None then reply not_authenticated
      else tenant_of sv r (\<lambda>tenant.
        (case audit_filter_of sv r tenant of
           None \<Rightarrow> invalid
         | Some f \<Rightarrow>
             attempt (AuditStore_Query f) or_internal
               (\<lambda>page. reply (JSON 200 (PAudit (map audit_entry_response_of (ap_entries page))
                         (ap_total page) (ap_limit page) (ap_offset page)))))))"

end
