(* ===== verification/Handlers_Evaluate.thy ===== *)
theory Handlers_Evaluate
  imports Middleware
begin

text \<open>
  \<open>internal/api/evaluate.go\<close>, \<open>internal/api/sdk_snapshot.go\<close> and \<open>internal/api/sdk_usage.go\<close>: the
  requests of the SDKs, authenticated by an API key.

  The callbacks of the server's engine only count; they always return.
\<close>

section \<open>The context of a request\<close>

text \<open>\<open>map[string]any\<close>: \<open>null\<close> is the nil map, an object adds its members to the map there is.\<close>

definition decode_map :: "json \<Rightarrow> ctx option \<Rightarrow> ctx option option" where
  "decode_map v old =
     (case v of
        JNull \<Rightarrow> Some None
      | JObj ms \<Rightarrow> Some (Some (foldl (\<lambda>m (k, v). put k (to_any v) m)
                                  (case old of None \<Rightarrow> [] | Some m \<Rightarrow> m) ms))
      | _ \<Rightarrow> None)"

definition decode_evaluate :: "json \<Rightarrow> ctx option option" where
  "decode_evaluate = decode_struct [(''context'', decode_map)] None"

fun is_str :: "gval \<Rightarrow> bool" where
  "is_str (GStr _) = True"
| "is_str _ = False"

fun eval_value_ok :: "gval \<Rightarrow> bool" where
  "eval_value_ok (GStr s) = (length s \<le> 1024)"
| "eval_value_ok (GF64 _) = True"
| "eval_value_ok (GBool _) = True"
| "eval_value_ok (GArr vs) = list_all is_str vs"
| "eval_value_ok _ = False"

definition validateEvalContext :: "ctx option \<Rightarrow> bool" where
  "validateEvalContext c =
     (case c of
        None \<Rightarrow> True
      | Some m \<Rightarrow> length m \<le> 100 \<and> list_all (\<lambda>(k, v). length k \<le> 128 \<and> eval_value_ok v) m)"

definition context_of :: "ctx option \<Rightarrow> ctx" where
  "context_of c = (case c of None \<Rightarrow> [] | Some m \<Rightarrow> m)"

section \<open>From rows to the engine\<close>

text \<open>The default of the environment: absent, unreadable, or a value.\<close>

definition with_env_default :: "string \<Rightarrow> raw_message \<Rightarrow> flag_config \<Rightarrow> flag_config option" where
  "with_env_default typ raw fc =
     (case raw of
        None \<Rightarrow> Some fc
      | Some v \<Rightarrow>
          map_option (\<lambda>x. fc\<lparr>fc_env_default := x, fc_has_env_default := True\<rparr>)
            (parseDefaultValue typ (Some v)))"

definition buildFlagConfig :: "flag \<Rightarrow> flag_environment \<Rightarrow> flag_config option" where
  "buildFlagConfig f c =
     (case unmarshal_rules (fe_rules c) of
        None \<Rightarrow> None
      | Some rules \<Rightarrow>
          (case parseDefaultValue (f_type f) (f_default f) of
             None \<Rightarrow> None
           | Some defaultValue \<Rightarrow>
               with_env_default (f_type f) (fe_default c)
                 \<lparr>fc_key = f_key f, fc_enabled = fe_enabled c, fc_type = f_type f,
                  fc_default = defaultValue, fc_env_default = GNil, fc_has_env_default = False,
                  fc_version = fe_version c, fc_rules = rules\<rparr>))"

definition buildFlagConfigFromJoined :: "flag_env_config \<Rightarrow> flag_config option" where
  "buildFlagConfigFromJoined c =
     (case unmarshal_rules (fc_raw_rules c) of
        None \<Rightarrow> None
      | Some rules \<Rightarrow>
          (case parseDefaultValue (fc_flag_type c) (fc_flag_default c) of
             None \<Rightarrow> None
           | Some defaultValue \<Rightarrow>
               with_env_default (fc_flag_type c) (fc_env_default_raw c)
                 \<lparr>fc_key = fc_flag_key c, fc_enabled = fc_is_enabled c, fc_type = fc_flag_type c,
                  fc_default = defaultValue, fc_env_default = GNil, fc_has_env_default = False,
                  fc_version = fc_row_version c, fc_rules = rules\<rparr>))"

text \<open>The loops over the rows skip those that cannot be read.\<close>

definition engine_segments :: "db_segment list \<Rightarrow> segments" where
  "engine_segments gs =
     foldl (\<lambda>m g. case unmarshal_segment (g_rules g) of
                    None \<Rightarrow> m
                  | Some cond \<Rightarrow> put (g_key g) \<lparr>sg_key = g_key g, sg_conditions = cond\<rparr> m) [] gs"

definition loadEngineSegments :: "uuid \<Rightarrow> segments op" where
  "loadEngineSegments proj w =
     (case SegmentStore_ListByProject proj w of
        (Inl e, w') \<Rightarrow> (Inl e, w')
      | (Inr gs, w') \<Rightarrow> (Inr (engine_segments gs), w'))"

definition readable_configs :: "flag_env_config list \<Rightarrow> flag_config list" where
  "readable_configs cs = List.map_filter buildFlagConfigFromJoined cs"

section \<open>Evaluation\<close>

definition flag_not_found :: evaluate_result where
  "flag_not_found = \<lparr>er_value = GBool False, er_reason = FlagNotFound, er_rule_index = -1\<rparr>"

definition counting :: hook where
  "counting _ = True"

definition env_by_id :: "uuid \<Rightarrow> (environment \<Rightarrow> response step) \<Rightarrow> response step" where
  "env_by_id i k = attempt (EnvironmentStore_GetByID i) (or_not_found ErrEnvironmentNotFound) k"

definition evaluate_stored ::
  "server \<Rightarrow> flag \<Rightarrow> flag_environment \<Rightarrow> segments \<Rightarrow> ctx \<Rightarrow> response" where
  "evaluate_stored sv f c segs m =
     (case buildFlagConfig f c of
        None \<Rightarrow> internal_error
      | Some fc \<Rightarrow>
          (case Evaluate (sv_regex sv) counting \<lparr>rq_flag = fc, rq_segments = segs, rq_context = m\<rparr> of
             (None, _) \<Rightarrow> internal_error
           | (Some res, _) \<Rightarrow> JSON 200 (PEvaluation (f_key f) res)))"

definition handleEvaluateFlag :: "server \<Rightarrow> handler" where
  "handleEvaluateFlag sv r =
     (let envID = cx_env r; flagKey = path_value r ''key'' in
      if envID = uuid_nil then reply not_authenticated
      else if flagKey = '''' then reply (Error 400 ''VALIDATION_ERROR'')
      else
        decoding decode_evaluate r (\<lambda>m.
        if \<not> validateEvalContext m then reply (Error 400 ''VALIDATION_ERROR'')
        else
          env_by_id envID (\<lambda>e.
          attempt (FlagStore_GetByKey (e_project e) flagKey)
            (\<lambda>err. reply (if err = ErrFlagNotFound then JSON 200 (PEvaluation flagKey flag_not_found)
                           else internal_error))
            (\<lambda>f. attempt (FlagEnvironmentStore_Get (f_id f) envID)
               (\<lambda>err. reply (if err = ErrNotFound then JSON 200 (PEvaluation (f_key f) flag_not_found)
                              else internal_error))
               (\<lambda>c. attempt (loadEngineSegments (e_project e)) or_internal
                  (\<lambda>segs. reply (evaluate_stored sv f c segs (context_of m))))))))"

definition handleEvaluateFlags :: "server \<Rightarrow> handler" where
  "handleEvaluateFlags sv r =
     (let envID = cx_env r in
      if envID = uuid_nil then reply not_authenticated
      else
        decoding decode_evaluate r (\<lambda>m.
        if \<not> validateEvalContext m then reply (Error 400 ''VALIDATION_ERROR'')
        else
          env_by_id envID (\<lambda>e.
          attempt (FlagEnvironmentStore_ListByEnvironment envID) or_internal
            (\<lambda>cs. attempt (loadEngineSegments (e_project e)) or_internal
               (\<lambda>segs. with_now (\<lambda>now.
                  (case EvaluateAll (sv_regex sv) counting (readable_configs cs) segs (context_of m) of
                     None \<Rightarrow> reply internal_error
                   | Some results \<Rightarrow> reply (JSON 200 (PEvaluations results (e_slug e) now)))))))))"

section \<open>The snapshot\<close>

definition snapshot_flags :: "flag_env_config list \<Rightarrow> (string \<times> flag_config) list" where
  "snapshot_flags cs = foldl (\<lambda>m fc. put (fc_key fc) fc m) [] (readable_configs cs)"

definition handleSDKSnapshot :: "server \<Rightarrow> handler" where
  "handleSDKSnapshot sv r =
     (let envID = cx_env r in
      if envID = uuid_nil then reply not_authenticated
      else
        env_by_id envID (\<lambda>e.
        attempt (FlagEnvironmentStore_ListByEnvironment envID) or_internal
          (\<lambda>cs. attempt (SegmentStore_ListByProject (e_project e)) or_internal
             (\<lambda>gs. with_now (\<lambda>now.
                reply (JSON 200 (PSnapshot
                  \<lparr>sn_environment = e_slug e, sn_flags = snapshot_flags cs,
                   sn_segments = engine_segments gs, sn_fetched_at = now\<rparr>)))))))"

section \<open>Usage reports\<close>

text \<open>
  The counts of a report go to metrics (\<open>Telemetry\<close>); the body is decoded without
  \<open>DisallowUnknownFields\<close> and without a check of what follows it.
\<close>

record usage_entry =
  uu_flag_key :: string
  uu_count :: int
  uu_last_reason :: string
  uu_last_eval :: time

fun decode_lenient ::
  "(string \<times> (json \<Rightarrow> 'a \<Rightarrow> 'a option)) list \<Rightarrow> (string \<times> json) list \<Rightarrow> 'a \<Rightarrow> 'a option" where
  "decode_lenient table [] x = Some x"
| "decode_lenient table ((k, v) # ms) x =
     (case find (\<lambda>(name, f). field_is name k) table of
        None \<Rightarrow> decode_lenient table ms x
      | Some (_, f) \<Rightarrow>
          (case f v x of None \<Rightarrow> None | Some x' \<Rightarrow> decode_lenient table ms x'))"

definition decode_time :: "server \<Rightarrow> json \<Rightarrow> time \<Rightarrow> time option" where
  "decode_time sv v old =
     (case v of JNull \<Rightarrow> Some old | JStr s \<Rightarrow> sv_unmarshal_time sv s | _ \<Rightarrow> None)"

definition decode_usage_entry :: "server \<Rightarrow> json \<Rightarrow> usage_entry option" where
  "decode_usage_entry sv v =
     (let zero = \<lparr>uu_flag_key = '''', uu_count = 0, uu_last_reason = '''', uu_last_eval = zero_time\<rparr> in
      case v of
        JNull \<Rightarrow> Some zero
      | JObj ms \<Rightarrow>
          decode_lenient
            [(''flag_key'', \<lambda>v x. map_option (\<lambda>s. x\<lparr>uu_flag_key := s\<rparr>) (decode_string v (uu_flag_key x))),
             (''count'', \<lambda>v x. map_option (\<lambda>i. x\<lparr>uu_count := i\<rparr>) (decode_int v (uu_count x))),
             (''last_reason'', \<lambda>v x. map_option (\<lambda>s. x\<lparr>uu_last_reason := s\<rparr>) (decode_string v (uu_last_reason x))),
             (''last_evaluated_at'', \<lambda>v x. map_option (\<lambda>t. x\<lparr>uu_last_eval := t\<rparr>) (decode_time sv v (uu_last_eval x)))]
            ms zero
      | _ \<Rightarrow> None)"

definition decode_usage :: "server \<Rightarrow> json \<Rightarrow> usage_entry list option" where
  "decode_usage sv v =
     (case v of
        JNull \<Rightarrow> Some []
      | JObj ms \<Rightarrow>
          decode_lenient
            [(''entries'', \<lambda>v x. case v of
                 JNull \<Rightarrow> Some []
               | JArr vs \<Rightarrow> decode_list (decode_usage_entry sv) vs
               | _ \<Rightarrow> None)]
            ms []
      | _ \<Rightarrow> None)"

definition handleSDKUsage :: "server \<Rightarrow> handler" where
  "handleSDKUsage sv r =
     (if cx_env r = uuid_nil then reply not_authenticated
      else
        (case (case rq_body r of BodyDoc doc _ \<Rightarrow> decode_usage sv doc | _ \<Rightarrow> None) of
           None \<Rightarrow> reply (Error 400 ''VALIDATION_ERROR'')
         | Some entries \<Rightarrow>
             (if entries = [] then reply NoContent
              else env_by_id (cx_env r) (\<lambda>e. reply NoContent))))"

end
