(* ===== verification/Routes.thy ===== *)
theory Routes
  imports Handlers_Setup Handlers_Segments Handlers_Evaluate
begin

text \<open>
  \<open>internal/api/server.go\<close>: the table of routes with their middleware, the dispatch of a request, and
  the periodic cleanup.

  \<^item> A middleware of the table is a \<open>guard\<close>, so that the table is data; \<open>apply_guard\<close> is its meaning.
  \<^item> A path is the list of its segments; a variable of a pattern matches one segment that is not
    empty.  No two patterns of the table match the same request, so the first match is the one
    \<open>http.ServeMux\<close> takes.
  \<^item> The event stream (\<open>GET /api/v1/stream\<close>) answers with a sequence of events and not with one
    response; it is not in this table.
\<close>

datatype guard =
    GRateLimitLogin
  | GRateLimitRefresh
  | GBodyLimit nat
  | GJSON
  | GJWT
  | GAPIKey
  | GRole role

fun apply_guard :: "server \<Rightarrow> guard \<Rightarrow> middleware" where
  "apply_guard sv GRateLimitLogin = RateLimit_login"
| "apply_guard sv GRateLimitRefresh = RateLimit_refresh"
| "apply_guard sv (GBodyLimit n) = BodyLimit n"
| "apply_guard sv GJSON = RequireJSONContentType"
| "apply_guard sv GJWT = AuthJWT sv"
| "apply_guard sv GAPIKey = AuthAPIKey sv"
| "apply_guard sv (GRole r) = RequireRole r"

datatype path_segment = Lit string | Var string

record route =
  rt_method :: string
  rt_path :: "path_segment list"
  rt_guards :: "guard list"
  rt_handler :: handler

definition route :: "string \<Rightarrow> path_segment list \<Rightarrow> guard list \<Rightarrow> handler \<Rightarrow> route" where
  "route m p gs h =
     \<lparr>rt_method = m, rt_path = Lit ''api'' # Lit ''v1'' # p, rt_guards = gs, rt_handler = h\<rparr>"

definition json_body :: "guard list" where "json_body = [GBodyLimit 1048576, GJSON]"

abbreviation a_project :: "path_segment list" where
  "a_project \<equiv> [Lit ''projects'', Var ''slug'']"
abbreviation an_environment :: "path_segment list" where
  "an_environment \<equiv> a_project @ [Lit ''environments'', Var ''envSlug'']"
abbreviation a_flag :: "path_segment list" where
  "a_flag \<equiv> a_project @ [Lit ''flags'', Var ''key'']"
abbreviation a_segment :: "path_segment list" where
  "a_segment \<equiv> a_project @ [Lit ''segments'', Var ''key'']"

definition account_routes :: "server \<Rightarrow> route list" where
  "account_routes sv =
     [route ''POST'' [Lit ''setup''] json_body (handleSetup sv),
      route ''GET'' [Lit ''setup'', Lit ''status''] [] (handleSetupStatus sv),
      route ''POST'' [Lit ''auth'', Lit ''login''] (GRateLimitLogin # json_body) (handleLogin sv),
      route ''POST'' [Lit ''auth'', Lit ''refresh''] [GRateLimitRefresh] (handleRefresh sv),
      route ''POST'' [Lit ''auth'', Lit ''logout''] [GJWT] (handleLogout sv),
      route ''GET'' [Lit ''auth'', Lit ''me''] [GJWT, GRole RoleViewer] (handleGetMe sv),
      route ''PATCH'' [Lit ''auth'', Lit ''me'', Lit ''password''] (json_body @ [GJWT])
        (handleChangePassword sv),
      route ''GET'' [Lit ''auth'', Lit ''sessions''] [GJWT] (handleListSessions sv),
      route ''DELETE'' [Lit ''auth'', Lit ''sessions'', Var ''id''] [GJWT] (handleRevokeSession sv),
      route ''DELETE'' [Lit ''auth'', Lit ''sessions''] [GJWT] (handleRevokeAllSessions sv)]"

definition project_routes :: "server \<Rightarrow> route list" where
  "project_routes sv =
     [route ''POST'' [Lit ''projects''] (json_body @ [GJWT, GRole RoleAdmin]) (handleCreateProject sv),
      route ''GET'' [Lit ''projects''] [GJWT, GRole RoleViewer] (handleListProjects sv),
      route ''GET'' a_project [GJWT, GRole RoleViewer] (handleGetProject sv),
      route ''PUT'' a_project (json_body @ [GJWT, GRole RoleAdmin]) (handleUpdateProject sv),
      route ''GET'' (a_project @ [Lit ''environments'']) [GJWT, GRole RoleViewer]
        (handleListEnvironments sv),
      route ''POST'' (a_project @ [Lit ''environments'']) (json_body @ [GJWT, GRole RoleAdmin])
        (handleCreateEnvironment sv),
      route ''DELETE'' an_environment [GJWT, GRole RoleOwner] (handleDeleteEnvironment sv)]"

definition flag_routes :: "server \<Rightarrow> route list" where
  "flag_routes sv =
     [route ''POST'' (a_project @ [Lit ''flags'']) (json_body @ [GJWT, GRole RoleMember])
        (handleCreateFlag sv),
      route ''GET'' (a_project @ [Lit ''flags'']) [GJWT, GRole RoleViewer] (handleListFlags sv),
      route ''GET'' a_flag [GJWT, GRole RoleViewer] (handleGetFlag sv),
      route ''PUT'' a_flag (json_body @ [GJWT, GRole RoleMember]) (handleUpdateFlag sv),
      route ''DELETE'' a_flag [GJWT, GRole RoleAdmin] (handleArchiveFlag sv),
      route ''GET'' (a_flag @ [Lit ''environments'', Var ''envSlug'']) [GJWT, GRole RoleViewer]
        (handleGetFlagEnvironment sv),
      route ''PUT'' (a_flag @ [Lit ''environments'', Var ''envSlug''])
        (json_body @ [GJWT, GRole RoleMember]) (handleUpdateFlagEnvironment sv),
      route ''PATCH'' (a_flag @ [Lit ''environments'', Var ''envSlug''])
        (json_body @ [GJWT, GRole RoleMember]) (handleToggleFlagEnvironment sv)]"

definition segment_routes :: "server \<Rightarrow> route list" where
  "segment_routes sv =
     [route ''POST'' (a_project @ [Lit ''segments'']) (json_body @ [GJWT, GRole RoleMember])
        (handleCreateSegment sv),
      route ''GET'' (a_project @ [Lit ''segments'']) [GJWT, GRole RoleViewer] (handleListSegments sv),
      route ''GET'' a_segment [GJWT, GRole RoleViewer] (handleGetSegment sv),
      route ''PUT'' a_segment (json_body @ [GJWT, GRole RoleMember]) (handleUpdateSegment sv),
      route ''DELETE'' a_segment [GJWT, GRole RoleAdmin] (handleArchiveSegment sv),
      route ''GET'' (an_environment @ [Lit ''flag-states'']) [GJWT, GRole RoleViewer]
        (handleListFlagStates sv),
      route ''POST'' (an_environment @ [Lit ''apikeys'']) (json_body @ [GJWT, GRole RoleAdmin])
        (handleCreateAPIKey sv),
      route ''GET'' (an_environment @ [Lit ''apikeys'']) [GJWT, GRole RoleMember] (handleListAPIKeys sv),
      route ''DELETE'' (an_environment @ [Lit ''apikeys'', Var ''id'']) [GJWT, GRole RoleAdmin]
        (handleRevokeAPIKey sv),
      route ''GET'' [Lit ''audit''] [GJWT, GRole RoleViewer] (handleAuditLog sv)]"

definition sdk_routes :: "server \<Rightarrow> route list" where
  "sdk_routes sv =
     [route ''POST'' [Lit ''evaluate'', Lit ''flags'', Var ''key''] (json_body @ [GAPIKey])
        (handleEvaluateFlag sv),
      route ''POST'' [Lit ''evaluate'', Lit ''flags''] (json_body @ [GAPIKey]) (handleEvaluateFlags sv),
      route ''GET'' [Lit ''sdk'', Lit ''snapshot''] [GAPIKey] (handleSDKSnapshot sv),
      route ''POST'' [Lit ''sdk'', Lit ''usage''] (json_body @ [GAPIKey]) (handleSDKUsage sv)]"

definition routes :: "server \<Rightarrow> route list" where
  "routes sv =
     account_routes sv @ project_routes sv @ flag_routes sv @ segment_routes sv @ sdk_routes sv"

section \<open>Dispatch\<close>

fun match_path :: "path_segment list \<Rightarrow> string list \<Rightarrow> (string \<times> string) list option" where
  "match_path [] [] = Some []"
| "match_path (Lit l # ps) (s # ss) = (if s = l then match_path ps ss else None)"
| "match_path (Var v # ps) (s # ss) =
     (if s = '''' then None else map_option (\<lambda>b. (v, s) # b) (match_path ps ss))"
| "match_path _ _ = None"

text \<open>A pattern with the method \<open>GET\<close> also takes \<open>HEAD\<close>.\<close>

definition method_matches :: "string \<Rightarrow> string \<Rightarrow> bool" where
  "method_matches pattern m \<longleftrightarrow> pattern = m \<or> pattern = ''GET'' \<and> m = ''HEAD''"

definition run_route :: "server \<Rightarrow> route \<Rightarrow> handler" where
  "run_route sv rt = withMiddleware (rt_handler rt) (map (apply_guard sv) (rt_guards rt))"

definition find_route ::
  "route list \<Rightarrow> string \<Rightarrow> string list \<Rightarrow> (route \<times> (string \<times> string) list) option" where
  "find_route rts m path =
     (case find (\<lambda>rt. method_matches (rt_method rt) m \<and> match_path (rt_path rt) path \<noteq> None) rts of
        None \<Rightarrow> None
      | Some rt \<Rightarrow> map_option (\<lambda>b. (rt, b)) (match_path (rt_path rt) path))"

text \<open>\<open>ServeHTTP\<close> of the mux; without a pattern it answers 405 or 404 itself.  A path is the list of its segments, so
  it is clean: the redirect with which the mux answers \<open>//\<close> and \<open>/../\<close> comes before all this.\<close>

definition serve :: "server \<Rightarrow> string list \<Rightarrow> handler" where
  "serve sv path r =
     (case find_route (routes sv) (rq_method r) path of
        Some (rt, b) \<Rightarrow> run_route sv rt (r\<lparr>rq_path := b\<rparr>)
      | None \<Rightarrow>
          reply (Error (if \<exists>rt\<in>set (routes sv). match_path (rt_path rt) path \<noteq> None then 405 else 404) ''''))"

section \<open>Cleanup\<close>

text \<open>\<open>cleanupInterval\<close>'s work: expired revoked tokens and attempts older than an hour.\<close>

definition loginAttemptRetention :: int where "loginAttemptRetention = 60 * minute"

definition runOnce :: "unit step" where
  "runOnce =
     logged RevokedTokenStore_DeleteExpired
       (with_now (\<lambda>now. logged (DeleteOlderThan (now - loginAttemptRetention)) (reply ())))"

end
