(* ===== verification/Steps.thy ===== *)
theory Steps
  imports Routes
begin

text \<open>
  Every request changes the database by statements of the stores only.

  \<^item> \<open>db_step\<close>: one statement that ran; the relation has one rule per statement.
  \<^item> \<open>stepwise\<close>: an operation, a handler or a middleware whose effect on the tables is a sequence of
    such statements (a transaction that is rolled back has none).  One lemma per combinator of
    \<open>Http\<close>, per operation of the stores and per handler, collected in \<open>stepwise\<close>.
  \<^item> \<open>run\<close>: a sequence of requests and cleanups.
  \<^item> The locale \<open>db_invariant\<close>: what every statement keeps holds after every sequence of requests.
\<close>

named_theorems effects \<open>statements whose effect is a step\<close>
named_theorems stepwise \<open>operations whose effect is a sequence of steps\<close>

section \<open>Statements\<close>

inductive db_step :: "database \<Rightarrow> database \<Rightarrow> bool" where
  tenant_added: "insert_tenant t d now = Inr (x, d') \<Longrightarrow> db_step d d'"
| user_added: "insert_user u d now = Inr (y, d') \<Longrightarrow> db_step d d'"
| user_logged_in: "update_user i (\<lambda>u. u\<lparr>u_last_login := Some t\<rparr>) d now = Inr (n, d') \<Longrightarrow> db_step d d'"
| user_verified: "update_user i (\<lambda>u. u\<lparr>u_email_verified := Some t\<rparr>) d now = Inr (n, d') \<Longrightarrow> db_step d d'"
| password_changed: "update_password i h d now = Inr (n, d') \<Longrightarrow> db_step d d'"
| member_added: "insert_member m d now = Inr (z, d') \<Longrightarrow> db_step d d'"
| role_changed: "update_role ten usr ro d now = Inr (n, d') \<Longrightarrow> db_step d d'"
| member_removed: "delete_member ten usr d now = Inr (n, d') \<Longrightarrow> db_step d d'"
| session_added: "insert_session s d now = Inr (s', d') \<Longrightarrow> db_step d d'"
| sessions_deleted: "delete_sessions hit d now = Inr (n, d') \<Longrightarrow> db_step d d'"
| attempt_recorded: "insert_login_attempt a d now = Inr (a', d') \<Longrightarrow> db_step d d'"
| attempts_deleted: "delete_attempts hit' d now = Inr (n, d') \<Longrightarrow> db_step d d'"
| token_revoked: "insert_revoked rt d now = Inr (v, d') \<Longrightarrow> db_step d d'"
| revoked_deleted: "delete_expired_revoked d now = Inr (n, d') \<Longrightarrow> db_step d d'"
| project_added: "insert_project p d now = Inr (p', d') \<Longrightarrow> db_step d d'"
| project_updated: "update_project p d now = Inr (tm, d') \<Longrightarrow> db_step d d'"
| environment_added: "insert_environment e d now = Inr (e', d') \<Longrightarrow> db_step d d'"
| environment_deleted: "delete_environment i d now = Inr (n, d') \<Longrightarrow> db_step d d'"
| key_added: "insert_api_key k d now = Inr (k', d') \<Longrightarrow> db_step d d'"
| key_revoked: "update_api_key i (\<lambda>k. k\<lparr>k_revoked := Some t\<rparr>) d now = Inr (n, d') \<Longrightarrow> db_step d d'"
| key_used: "update_api_key i (\<lambda>k. k\<lparr>k_last_used := Some t\<rparr>) d now = Inr (n, d') \<Longrightarrow> db_step d d'"
| flag_added: "insert_flag f d now = Inr (f', d') \<Longrightarrow> db_step d d'"
| flag_updated: "update_flag f d now = Inr (tm, d') \<Longrightarrow> db_step d d'"
| flag_archived: "archive_flag i t d now = Inr (n, d') \<Longrightarrow> db_step d d'"
| flag_env_upserted: "upsert_flag_env c d now = Inr (c', d') \<Longrightarrow> db_step d d'"
| flag_env_updated: "update_flag_env c v d now = Inr (vt, d') \<Longrightarrow> db_step d d'"
| flag_env_switched: "set_enabled i j b d now = Inr (n, d') \<Longrightarrow> db_step d d'"
| segment_added: "insert_segment g d now = Inr (g', d') \<Longrightarrow> db_step d d'"
| segment_updated: "update_segment g d now = Inr (tm, d') \<Longrightarrow> db_step d d'"
| segment_archived: "archive_segment i t d now = Inr (n, d') \<Longrightarrow> db_step d d'"
| audited: "insert_audit au d now = Inr (au', d') \<Longrightarrow> db_step d d'"

definition effect :: "'a stmt \<Rightarrow> bool" where
  "effect st \<longleftrightarrow> (\<forall>d now x d'. st d now = Inr (x, d') \<longrightarrow> db_step\<^sup>=\<^sup>= d d')"

lemma effectI: "(\<And>d now x d'. st d now = Inr (x, d') \<Longrightarrow> db_step d d') \<Longrightarrow> effect st"
  by (auto simp: effect_def)

lemma effect_at: "effect st \<Longrightarrow> effect (\<lambda>d _. st d now)"
  by (auto simp: effect_def)

lemma effect_reads [effects]:
  "effect (query f)" "effect (text_query s f)" "effect (count_audit flt)" "effect (list_audit flt)"
  "effect (\<lambda>d now. Inr (g d now, d))"
  by (auto simp: effect_def query_def text_query_def count_audit_def list_audit_def)

lemma effect_writes [effects]:
  "effect (insert_tenant t)" "effect (insert_user u)" "effect (update_password i h)"
  "effect (update_user i (\<lambda>u. u\<lparr>u_last_login := Some tm\<rparr>))"
  "effect (update_user i (\<lambda>u. u\<lparr>u_email_verified := Some tm\<rparr>))"
  "effect (insert_member m)" "effect (update_role ten usr ro)" "effect (delete_member ten usr)"
  "effect (insert_session s)" "effect (delete_sessions hit)" "effect (insert_login_attempt a)"
  "effect (delete_attempts hit')" "effect (insert_revoked rt)" "effect delete_expired_revoked"
  "effect (insert_project p)" "effect (update_project p)" "effect (insert_environment e)"
  "effect (delete_environment i)" "effect (insert_api_key k)"
  "effect (update_api_key i (\<lambda>k. k\<lparr>k_revoked := Some tm\<rparr>))"
  "effect (update_api_key i (\<lambda>k. k\<lparr>k_last_used := Some tm\<rparr>))"
  "effect (insert_flag f)" "effect (update_flag f)" "effect (archive_flag i tm)"
  "effect (upsert_flag_env c)" "effect (update_flag_env c v)" "effect (set_enabled i j b)"
  "effect (insert_segment g)" "effect (update_segment g)" "effect (archive_segment i tm)"
  "effect (insert_audit au)"
  by (rule effectI, erule db_step.intros)+

section \<open>Combinators\<close>

definition steps :: "world \<Rightarrow> world \<Rightarrow> bool" where
  "steps w w' \<longleftrightarrow> db_step\<^sup>*\<^sup>* (db w) (db w')"

definition stepwise :: "'r step \<Rightarrow> bool" where
  "stepwise s \<longleftrightarrow> (\<forall>w. steps w (snd (s w)))"

lemma steps_refl [simp]: "steps w w"
  by (simp add: steps_def)

lemma steps_trans: "steps a b \<Longrightarrow> steps b c \<Longrightarrow> steps a c"
  by (simp add: steps_def)

lemma steps_same_db: "db w' = db w \<Longrightarrow> steps w w'"
  by (simp add: steps_def)

lemma stepwiseI: "(\<And>w. steps w (snd (s w))) \<Longrightarrow> stepwise s"
  by (simp add: stepwise_def)

lemma stepwiseD: "stepwise s \<Longrightarrow> steps w (snd (s w))"
  by (simp add: stepwise_def)

lemma stepwise_result: "stepwise s \<Longrightarrow> s w = (x, w') \<Longrightarrow> steps w w'"
  by (metis stepwiseD snd_conv)

lemma stepwise_after: "steps w w' \<Longrightarrow> stepwise s \<Longrightarrow> steps w (snd (s w'))"
  by (blast intro: steps_trans stepwiseD)

lemma snd_wrappers [simp]:
  "snd (wrapped r) = snd r" "snd (wrapped_unique r) = snd r" "snd (found e q) = snd q"
  "snd (affected e n) = snd n"
  by (auto simp: wrapped_def wrapped_unique_def found_def affected_def split: prod.splits sum.splits option.splits)

lemma run_sql_steps:
  assumes "effect st"
  shows "steps w (snd (run_sql st w))"
proof (cases rule: run_sql_cases [of w st])
  case (done_ x d)
  then have "db_step\<^sup>=\<^sup>= (db w) d" using assms unfolding effect_def by blast
  then have "db_step\<^sup>*\<^sup>* (db w) d" by auto
  with done_ show ?thesis by (simp add: steps_def)
qed (simp_all add: steps_def)

lemma stepwise_reply [stepwise]: "stepwise (reply x)"
  by (simp add: stepwise_def reply_def)

lemma stepwise_attempt [stepwise]:
  assumes "stepwise m" and "\<And>e. stepwise (h e)" and "\<And>x. stepwise (k x)"
  shows "stepwise (attempt m h k)"
proof (rule stepwiseI)
  fix w
  have "steps w (snd (m w))" by (rule stepwiseD [OF assms(1)])
  then show "steps w (snd (attempt m h k w))"
    by (auto simp: attempt_def split: prod.split sum.split intro!: stepwise_after assms)
qed

lemma stepwise_logged [stepwise]: "stepwise m \<Longrightarrow> stepwise k \<Longrightarrow> stepwise (logged m k)"
  by (rule stepwiseI) (simp add: logged_def stepwise_after stepwiseD)

lemma stepwise_drawing [stepwise]:
  assumes "\<And>w. db (snd (m w)) = db w" and "stepwise h" and "\<And>x. stepwise (k x)"
  shows "stepwise (drawing m h k)"
proof (rule stepwiseI)
  fix w
  have "steps w (snd (m w))" by (rule steps_same_db) (rule assms(1))
  then show "steps w (snd (drawing m h k w))"
    by (auto simp: drawing_def split: prod.split option.split intro!: stepwise_after assms)
qed

lemma stepwise_with_now [stepwise]: "(\<And>t. stepwise (k t)) \<Longrightarrow> stepwise (with_now k)"
  by (simp add: stepwise_def with_now_def)

lemma stepwise_with_new_uuid [stepwise]:
  assumes "\<And>i. stepwise (k i)"
  shows "stepwise (with_new_uuid k)"
proof (rule stepwiseI)
  fix w
  have "steps (w\<lparr>tick := Suc (tick w)\<rparr>) (snd (k (new_uuid w (tick w)) (w\<lparr>tick := Suc (tick w)\<rparr>)))"
    by (rule stepwiseD) (rule assms)
  then show "steps w (snd (with_new_uuid k w))" by (simp add: with_new_uuid_def steps_def)
qed

lemma stepwise_publish [stepwise]:
  assumes "stepwise k"
  shows "stepwise (publish e k)"
proof (rule stepwiseI)
  fix w
  have "steps (w\<lparr>published := published w @ [e]\<rparr>) (snd (k (w\<lparr>published := published w @ [e]\<rparr>)))"
    by (rule stepwiseD) (rule assms)
  then show "steps w (snd (publish e k w))" by (simp add: publish_def steps_def)
qed

lemma stepwise_foldr [stepwise]:
  "stepwise k \<Longrightarrow> (\<And>x k. stepwise k \<Longrightarrow> stepwise (f x k)) \<Longrightarrow> stepwise (foldr f xs k)"
  by (induction xs) auto

lemma stepwise_in_tx:
  fixes f :: "'a op"
  assumes "stepwise f"
  shows "stepwise (in_tx f)"
proof (rule stepwiseI)
  fix w :: world
  let ?w1 = "w\<lparr>tick := Suc (tick w), tx_now := Some (clock w (tick w))\<rparr>"
  have "steps ?w1 (snd (f ?w1))" by (rule stepwiseD [OF assms])
  then show "steps w (snd (in_tx f w))"
    by (cases "f ?w1") (auto simp: in_tx_def Let_def steps_def split: sum.split)
qed

lemma snd_runInTx: "snd (runInTx f w) = snd (in_tx f w)"
  by (simp add: runInTx_def split: prod.split sum.split tx_error.split)

lemma stepwise_runInTx [stepwise]: "stepwise f \<Longrightarrow> stepwise (runInTx f)"
  using stepwise_in_tx [of f] by (simp add: stepwise_def snd_runInTx)

lemma stepwise_andThen [stepwise]:
  assumes "stepwise m" and "\<And>x. stepwise (k x)"
  shows "stepwise (andThen m k)"
proof (rule stepwiseI)
  fix w
  have "steps w (snd (m w))" by (rule stepwiseD [OF assms(1)])
  then show "steps w (snd (andThen m k w))"
    by (auto simp: andThen_def split: prod.split sum.split intro!: stepwise_after assms)
qed

lemma stepwise_return_op [stepwise]: "stepwise (return_op x)" "stepwise (\<lambda>w. (r, w))"
  by (simp_all add: stepwise_def return_op_def)

lemma stepwise_for_each [stepwise]:
  assumes "\<And>x. stepwise (f x)"
  shows "stepwise (for_each f xs)"
proof (induction xs)
  case Nil
  then show ?case by (simp add: stepwise_def)
next
  case (Cons x xs)
  show ?case
  proof (rule stepwiseI)
    fix w
    have "steps w (snd (f x w))" by (rule stepwiseD [OF assms])
    then show "steps w (snd (for_each f (x # xs) w))"
      by (auto split: prod.split sum.split intro!: stepwise_after Cons.IH)
  qed
qed

text \<open>The branches of a handler, wherever they stand.\<close>

lemma stepwise_branches [stepwise]:
  "stepwise a \<Longrightarrow> stepwise b \<Longrightarrow> stepwise (if c then a else b)"
  "stepwise n \<Longrightarrow> (\<And>x. stepwise (s x)) \<Longrightarrow> stepwise (case_option n s opt)"
  "(\<And>e. stepwise (l e)) \<Longrightarrow> (\<And>x. stepwise (r x)) \<Longrightarrow> stepwise (case_sum l r res)"
  "(\<And>x y. stepwise (p x y)) \<Longrightarrow> stepwise (case_prod p xy)"
  "stepwise n \<Longrightarrow> (\<And>y ys. stepwise (q y ys)) \<Longrightarrow> stepwise (case_list n q list)"
  "stepwise (g v) \<Longrightarrow> stepwise (Let v g)"
  by (auto split: option.split sum.split prod.split list.split)

text \<open>A computation that goes on with the result of an operation, written out.\<close>

lemma stepwise_bind_sum [stepwise]:
  assumes "stepwise m" and "\<And>e. stepwise (h e)" and "\<And>x. stepwise (k x)"
  shows "stepwise (\<lambda>w. case m w of (Inl e, w') \<Rightarrow> h e w' | (Inr x, w') \<Rightarrow> k x w')"
proof (rule stepwiseI)
  fix w
  have "steps w (snd (m w))" by (rule stepwiseD [OF assms(1)])
  then show "steps w (snd (case m w of (Inl e, w') \<Rightarrow> h e w' | (Inr x, w') \<Rightarrow> k x w'))"
    by (auto split: prod.split sum.split intro!: stepwise_after assms)
qed

lemma stepwise_decoding [stepwise]: "(\<And>x. stepwise (k x)) \<Longrightarrow> stepwise (decoding dec r k)"
  unfolding decoding_def by (auto split: sum.split intro: stepwise)

lemma stepwise_caller [stepwise]:
  "(\<And>t. stepwise (k t)) \<Longrightarrow> stepwise (tenant_of sv r k)"
  "(\<And>u. stepwise (k u)) \<Longrightarrow> stepwise (user_of sv r k)"
  unfolding tenant_of_def user_of_def by (auto split: option.split intro: stepwise)

lemma stepwise_error_replies [stepwise]:
  "stepwise (or_not_found err e)" "stepwise (or_internal e)" "stepwise invalid"
  "stepwise (conflict code e)" "stepwise (conflict_or_not_found code err e)"
  "stepwise (version_conflict e)" "stepwise invalid_credentials"
  unfolding or_not_found_def or_internal_def invalid_def conflict_def conflict_or_not_found_def
    version_conflict_def invalid_credentials_def by (rule stepwise)+

section \<open>The stores\<close>

lemmas store_defs =
  ExistsAny_def TenantStore_Create_def TenantStore_GetByID_def TenantStore_GetBySlug_def
  UserStore_Create_def UserStore_GetByID_def UserStore_GetByEmail_def UpdateLastLogin_def
  UpdatePasswordHash_def VerifyEmail_def MemberStore_Add_def GetRole_def MemberStore_ListByTenant_def
  UpdateRole_def MemberStore_Remove_def MemberStore_ListByUser_def SessionStore_Create_def
  SessionStore_GetByID_def ListByUserID_def GetByRefreshHash_def SessionStore_DeleteByID_def
  SessionStore_DeleteExpired_def LoginAttemptStore_Record_def CountSince_def DeleteOlderThan_def
  RevokedTokenStore_Insert_def RevokedTokenStore_Lookup_def RevokedTokenStore_DeleteExpired_def
  ProjectStore_Create_def ProjectStore_GetBySlug_def ProjectStore_ListByTenant_def
  EnvironmentStore_Create_def EnvironmentStore_GetByID_def EnvironmentStore_GetBySlug_def
  EnvironmentStore_ListByProject_def EnvironmentStore_DeleteByID_def APIKeyStore_Create_def
  GetByHash_def APIKeyStore_ListByEnvironment_def Revoke_def UpdateLastUsed_def FlagStore_Create_def
  FlagStore_GetByKey_def FlagStore_ListByProject_def FlagStore_Archive_def Upsert_def
  FlagEnvironmentStore_Get_def FlagEnvironmentStore_ListByEnvironment_def SegmentStore_Create_def
  SegmentStore_GetByKey_def SegmentStore_ListByProject_def SegmentStore_Archive_def
  AuditStore_Insert_def

lemma delete_expired_sessions_eq: "delete_expired_sessions d now = delete_sessions (\<lambda>s. s_expires s < now) d now"
  by (simp add: delete_expired_sessions_def)

lemma effect_delete_expired_sessions [effects]: "effect delete_expired_sessions"
  by (rule effectI) (simp add: delete_expired_sessions_def sessions_deleted)

lemma stepwise_stores [stepwise]:
  "stepwise ExistsAny" "stepwise (TenantStore_Create t)" "stepwise (TenantStore_GetByID i)"
  "stepwise (TenantStore_GetBySlug sl)" "stepwise (UserStore_Create u)" "stepwise (UserStore_GetByID i)"
  "stepwise (UserStore_GetByEmail em)" "stepwise (UpdateLastLogin i tm)" "stepwise (UpdatePasswordHash i h)"
  "stepwise (VerifyEmail i tm)" "stepwise (MemberStore_Add m)" "stepwise (GetRole ten usr)"
  "stepwise (MemberStore_ListByTenant ten)" "stepwise (UpdateRole ten usr ro)"
  "stepwise (MemberStore_Remove ten usr)" "stepwise (MemberStore_ListByUser usr)"
  "stepwise (SessionStore_Create s)" "stepwise (SessionStore_GetByID i)" "stepwise (ListByUserID usr)"
  "stepwise (GetByRefreshHash h)" "stepwise (SessionStore_DeleteByID i)"
  "stepwise SessionStore_DeleteExpired" "stepwise (LoginAttemptStore_Record a)" "stepwise (CountSince usr tm)"
  "stepwise (DeleteOlderThan tm)" "stepwise (RevokedTokenStore_Insert rt)"
  "stepwise (RevokedTokenStore_Lookup h)" "stepwise RevokedTokenStore_DeleteExpired"
  "stepwise (ProjectStore_Create p)" "stepwise (ProjectStore_GetBySlug ten sl)"
  "stepwise (ProjectStore_ListByTenant ten)" "stepwise (EnvironmentStore_Create e)"
  "stepwise (EnvironmentStore_GetByID i)" "stepwise (EnvironmentStore_GetBySlug i sl)"
  "stepwise (EnvironmentStore_ListByProject i)" "stepwise (EnvironmentStore_DeleteByID i)"
  "stepwise (APIKeyStore_Create k)" "stepwise (GetByHash h)" "stepwise (APIKeyStore_ListByEnvironment i)"
  "stepwise (Revoke i tm)" "stepwise (UpdateLastUsed i tm)" "stepwise (FlagStore_Create f)"
  "stepwise (FlagStore_GetByKey i key)" "stepwise (FlagStore_ListByProject i)"
  "stepwise (FlagStore_Archive i tm)" "stepwise (Upsert c)" "stepwise (FlagEnvironmentStore_Get i j)"
  "stepwise (FlagEnvironmentStore_ListByEnvironment i)" "stepwise (SegmentStore_Create g)"
  "stepwise (SegmentStore_GetByKey i key)" "stepwise (SegmentStore_ListByProject i)"
  "stepwise (SegmentStore_Archive i tm)" "stepwise (AuditStore_Insert au)"
  by (rule stepwiseI, simp only: store_defs Let_def snd_wrappers, intro run_sql_steps effects)+

lemma steps_case_result:
  "steps w (snd q) \<Longrightarrow>
   steps w (snd (case q of (Inl e, w') \<Rightarrow> (Inl (f e), w') | (Inr x, w') \<Rightarrow> (Inr (g x), w')))"
  by (auto split: prod.split sum.split)

lemma stepwise_updates [stepwise]:
  "stepwise (DeleteByUserID i)" "stepwise (ClearForUser i)" "stepwise (SetEnabled i j b)"
  "stepwise (ProjectStore_Update p)" "stepwise (FlagStore_Update f)" "stepwise (SegmentStore_Update g)"
  by (rule stepwiseI, simp only: DeleteByUserID_def ClearForUser_def SetEnabled_def
        ProjectStore_Update_def FlagStore_Update_def SegmentStore_Update_def Let_def,
      rule steps_case_result, simp only: snd_wrappers, intro run_sql_steps effects)+

lemma stepwise_UpdateWithVersion [stepwise]: "stepwise (UpdateWithVersion c v)"
proof (rule stepwiseI)
  fix w
  have "steps w (snd (run_sql (update_flag_env c v) w))" by (intro run_sql_steps effects)
  then show "steps w (snd (UpdateWithVersion c v w))"
    by (auto simp: UpdateWithVersion_def split: prod.split sum.split)
       (metis snd_conv snd_wrappers(1) snd_wrappers(3))+
qed

lemma stepwise_wrapped [stepwise]:
  "effect st \<Longrightarrow> stepwise (\<lambda>w. wrapped (run_sql st w))"
  by (rule stepwiseI) (simp add: run_sql_steps)

lemma stepwise_AuditStore_Query [stepwise]: "stepwise (AuditStore_Query flt)"
  unfolding AuditStore_Query_def [abs_def]
  by (intro stepwise effects)

lemma stepwise_exec_at [stepwise]: "effect st \<Longrightarrow> stepwise (exec_at now st)"
  unfolding exec_at_def [abs_def] by (intro stepwise effect_at)

lemma stepwise_loadEngineSegments [stepwise]: "stepwise (loadEngineSegments i)"
  unfolding loadEngineSegments_def [abs_def] by (intro stepwise)

section \<open>The handlers\<close>

lemma generateOpaqueToken_db: "db (snd (generateOpaqueToken n w)) = db w"
  by (simp add: generateOpaqueToken_def Let_def)

lemma draws_keep_db [simp]:
  "db (snd (GenerateRefreshToken cr n w)) = db w" "db (snd (GenerateAPIKey cr hint n w)) = db w"
  "db (snd (slugifyTenantName nm w)) = db w"
  using generateOpaqueToken_db [of n w]
  by (auto simp: GenerateRefreshToken_def GenerateAPIKey_def slugifyTenantName_def cryptoRandInt64_def
      Let_def split: prod.splits option.splits)

lemma stepwise_shared [stepwise]:
  "stepwise k \<Longrightarrow> stepwise (writeAudit sv r ten usr act rt io k)"
  "(\<And>p. stepwise (kp p)) \<Longrightarrow> stepwise (project_of ten r kp)"
  "(\<And>e. stepwise (ke e)) \<Longrightarrow> stepwise (environment_of p r ke)"
  "(\<And>f. stepwise (kf f)) \<Longrightarrow> stepwise (flag_of p r kf)"
  "(\<And>g. stepwise (kg g)) \<Longrightarrow> stepwise (segment_of p r kg)"
  "(\<And>e. stepwise (ke e)) \<Longrightarrow> stepwise (env_by_id i ke)"
  "stepwise k \<Longrightarrow> stepwise (publishFlagChange i key act k)"
  "stepwise k \<Longrightarrow> stepwise (publishSegmentChange i key act k)"
  "stepwise k \<Longrightarrow> stepwise (recordFailedLogin sv r i k)"
  "stepwise k \<Longrightarrow> stepwise (audit_if_tenant sv r i act rt io k)"
  "(\<And>tok. stepwise (kt tok)) \<Longrightarrow> stepwise (with_access_token sv usr ten ro sid kt)"
  unfolding writeAudit_def project_of_def environment_of_def flag_of_def segment_of_def env_by_id_def
    publishFlagChange_def publishSegmentChange_def recordFailedLogin_def audit_if_tenant_def
    with_access_token_def
  by (intro stepwise | assumption | simp)+

lemma stepwise_transactions [stepwise]:
  "stepwise (create_project_tx sv r ten usr req)" "stepwise (create_environment_tx sv r ten usr p req)"
  "stepwise (create_flag_tx sv r ten usr p freq)" "stepwise (rotate_tx h u s s')"
  "stepwise (logout_tx h s)" "stepwise (executeBootstrap i j slug sreq ph rh now ex)"
  unfolding create_project_tx_def create_environment_tx_def create_flag_tx_def rotate_tx_def
    logout_tx_def executeBootstrap_def
  by (intro stepwise effects)+

lemma stepwise_management [stepwise]:
  "stepwise (handleCreateProject sv r)" "stepwise (handleListProjects sv r)"
  "stepwise (handleGetProject sv r)" "stepwise (handleUpdateProject sv r)"
  "stepwise (handleCreateEnvironment sv r)" "stepwise (handleListEnvironments sv r)"
  "stepwise (handleDeleteEnvironment sv r)" "stepwise (handleListFlagStates sv r)"
  "stepwise (handleCreateFlag sv r)" "stepwise (handleListFlags sv r)" "stepwise (handleGetFlag sv r)"
  "stepwise (handleUpdateFlag sv r)" "stepwise (handleArchiveFlag sv r)"
  "stepwise (handleGetFlagEnvironment sv r)" "stepwise (handleToggleFlagEnvironment sv r)"
  "stepwise (handleUpdateFlagEnvironment sv r)"
  "stepwise (handleCreateSegment sv r)" "stepwise (handleListSegments sv r)"
  "stepwise (handleGetSegment sv r)" "stepwise (handleUpdateSegment sv r)"
  "stepwise (handleArchiveSegment sv r)" "stepwise (handleListAPIKeys sv r)"
  "stepwise (handleRevokeAPIKey sv r)" "stepwise (handleAuditLog sv r)"
  unfolding handleCreateProject_def handleListProjects_def handleGetProject_def handleUpdateProject_def
    handleCreateEnvironment_def handleListEnvironments_def handleDeleteEnvironment_def
    handleListFlagStates_def handleCreateFlag_def handleListFlags_def handleGetFlag_def
    handleUpdateFlag_def handleArchiveFlag_def handleGetFlagEnvironment_def
    handleToggleFlagEnvironment_def handleUpdateFlagEnvironment_def handleCreateSegment_def
    handleListSegments_def handleGetSegment_def handleUpdateSegment_def handleArchiveSegment_def
    handleListAPIKeys_def handleRevokeAPIKey_def handleAuditLog_def
  by (intro stepwise)+

lemma stepwise_drawing_token [stepwise]:
  "stepwise h \<Longrightarrow> (\<And>x. stepwise (k x)) \<Longrightarrow> stepwise (drawing (GenerateRefreshToken cr n) h k)"
  "stepwise h \<Longrightarrow> (\<And>y. stepwise (k' y)) \<Longrightarrow> stepwise (drawing (GenerateAPIKey cr hint n) h k')"
  by (rule stepwise_drawing; simp)+

lemma stepwise_handleCreateAPIKey [stepwise]: "stepwise (handleCreateAPIKey sv r)"
  unfolding handleCreateAPIKey_def by (intro stepwise)

lemma stepwise_resolveUserTenant [stepwise]: "stepwise (resolveUserTenant i slug)"
  unfolding resolveUserTenant_def by (intro stepwise)

lemma stepwise_tenant_summaries [stepwise]:
  "(\<And>ts. stepwise (k ts)) \<Longrightarrow> stepwise (tenant_summaries ms acc k)"
  by (induction ms arbitrary: acc) (auto intro!: stepwise)

lemma stepwise_tenant_error_reply [stepwise]: "stepwise (tenant_error_reply i e)"
  unfolding tenant_error_reply_def writeMultipleTenants_def
  by (auto split: tenant_error.split intro!: stepwise)

lemma stepwise_sessions [stepwise]:
  "stepwise (open_session sv r u ten ro)" "stepwise (rotate_session sv r h s u ro now)"
  "stepwise (handleRefreshReuse sv r rt)"
  unfolding open_session_def rotate_session_def handleRefreshReuse_def by (intro stepwise)+

lemma stepwise_bind_pair [stepwise]:
  assumes "stepwise m" and "\<And>e. stepwise (h e)" and "\<And>x y. stepwise (k x y)"
  shows "stepwise (\<lambda>w. case m w of (Inl e, w') \<Rightarrow> h e w' | (Inr (x, y), w') \<Rightarrow> k x y w')"
proof (rule stepwiseI)
  fix w
  have "steps w (snd (m w))" by (rule stepwiseD [OF assms(1)])
  then show "steps w (snd (case m w of (Inl e, w') \<Rightarrow> h e w' | (Inr (x, y), w') \<Rightarrow> k x y w'))"
    by (auto split: prod.split sum.split intro!: stepwise_after assms)
qed

lemma stepwise_account [stepwise]:
  "stepwise (handleRefresh sv r)" "stepwise (handleLogout sv r)" "stepwise (handleGetMe sv r)"
  "stepwise (handleChangePassword sv r)" "stepwise (handleListSessions sv r)"
  "stepwise (handleRevokeSession sv r)" "stepwise (handleRevokeAllSessions sv r)"
  "stepwise (handleLogin sv r)"
  unfolding handleRefresh_def handleLogout_def handleGetMe_def handleChangePassword_def
    handleListSessions_def handleRevokeSession_def handleRevokeAllSessions_def handleLogin_def
  by (intro stepwise)+

lemma stepwise_in_tx_then [stepwise]:
  assumes "stepwise f" and "\<And>x. stepwise (k x)"
  shows "stepwise (\<lambda>w. case in_tx f w of (Inl e, w') \<Rightarrow> (h e, w') | (Inr x, w') \<Rightarrow> k x w')"
proof (rule stepwiseI)
  fix w
  have "steps w (snd (in_tx f w))" by (rule stepwiseD [OF stepwise_in_tx [OF assms(1)]])
  then show "steps w (snd (case in_tx f w of (Inl e, w') \<Rightarrow> (h e, w') | (Inr x, w') \<Rightarrow> k x w'))"
    by (auto split: prod.split sum.split intro!: stepwise_after assms)
qed

lemma stepwise_slug [stepwise]:
  assumes "\<And>s. stepwise (k s)"
  shows "stepwise (\<lambda>w. case slugifyTenantName nm w of (s, w1) \<Rightarrow> k s w1)"
proof (rule stepwiseI)
  fix w
  have "steps w (snd (slugifyTenantName nm w))" by (rule steps_same_db) simp
  then show "steps w (snd (case slugifyTenantName nm w of (s, w1) \<Rightarrow> k s w1))"
    by (auto split: prod.split intro!: stepwise_after assms)
qed

lemma stepwise_bootstrap [stepwise]: "stepwise (bootstrap sv req i j slug ph raw h)"
  unfolding bootstrap_def by (intro stepwise)

lemma stepwise_setup [stepwise]: "stepwise (handleSetup sv r)" "stepwise (handleSetupStatus sv r)"
  unfolding handleSetup_def handleSetupStatus_def by (intro stepwise)+

lemma stepwise_sdk [stepwise]:
  "stepwise (handleEvaluateFlag sv r)" "stepwise (handleEvaluateFlags sv r)"
  "stepwise (handleSDKSnapshot sv r)" "stepwise (handleSDKUsage sv r)"
  unfolding handleEvaluateFlag_def handleEvaluateFlags_def handleSDKSnapshot_def handleSDKUsage_def
  by (intro stepwise)+

section \<open>Middleware and dispatch\<close>

lemma stepwise_windows:
  assumes "stepwise (h r)"
  shows "stepwise (RateLimit_login h r)" and "stepwise (RateLimit_refresh h r)"
proof -
  have "steps w (snd (h r (w\<lparr>login_windows := m\<rparr>)))" "steps w (snd (h r (w\<lparr>refresh_windows := m\<rparr>)))"
    for w :: world and m
    using stepwise_after [OF steps_same_db assms, of "w\<lparr>login_windows := m\<rparr>" w]
      stepwise_after [OF steps_same_db assms, of "w\<lparr>refresh_windows := m\<rparr>" w] by simp_all
  then show "stepwise (RateLimit_login h r)" "stepwise (RateLimit_refresh h r)"
    by (auto simp: RateLimit_login_def RateLimit_refresh_def steps_def
        intro!: stepwiseI split: prod.split bool.split)
qed

lemma stepwise_guard:
  assumes "\<And>r. stepwise (h r)"
  shows "stepwise (apply_guard sv g h r)"
proof (cases g)
  case GRateLimitLogin
  then show ?thesis by (simp add: stepwise_windows assms)
next
  case GRateLimitRefresh
  then show ?thesis by (simp add: stepwise_windows assms)
next
  case (GBodyLimit n)
  then show ?thesis by (simp add: BodyLimit_def assms)
next
  case GJSON
  then show ?thesis by (simp add: RequireJSONContentType_def assms stepwise)
next
  case GJWT
  have "stepwise (AuthJWT sv h r)" unfolding AuthJWT_def by (intro stepwise assms)
  with GJWT show ?thesis by simp
next
  case GAPIKey
  have "stepwise (AuthAPIKey sv h r)" unfolding AuthAPIKey_def by (intro stepwise assms)
  with GAPIKey show ?thesis by simp
next
  case (GRole ro)
  have "stepwise (RequireRole ro h r)" unfolding RequireRole_def by (intro stepwise assms)
  with GRole show ?thesis by simp
qed

lemma stepwise_withMiddleware:
  assumes "\<And>r. stepwise (h r)"
  shows "stepwise (withMiddleware h (map (apply_guard sv) gs) r)"
  unfolding withMiddleware_def by (induction gs arbitrary: r) (simp_all add: assms stepwise_guard)

lemma routes_handlers:
  assumes "rt \<in> set (routes sv)"
  shows "stepwise (rt_handler rt r)"
  using assms unfolding routes_def account_routes_def project_routes_def flag_routes_def
    segment_routes_def sdk_routes_def route_def
  by (auto intro: stepwise)

lemma find_route_in: "find_route rts m path = Some (rt, b) \<Longrightarrow> rt \<in> set rts"
  by (auto simp: find_route_def split: option.splits dest: find_Some_in)

lemma stepwise_serve [stepwise]: "stepwise (serve sv path r)"
  unfolding serve_def run_route_def
  by (auto split: option.split prod.split intro!: stepwise stepwise_withMiddleware routes_handlers
      dest: find_route_in)

lemma stepwise_runOnce [stepwise]: "stepwise runOnce"
  unfolding runOnce_def by (intro stepwise)

end
