(* ===== verification/Invariants.thy ===== *)
theory Invariants
  imports Steps
begin

text \<open>
  What holds of the database in every state the server can reach.

  \<^item> \<open>ids_unique\<close>, \<open>keys_unique\<close>, \<open>refs_ok\<close>, \<open>values_ok\<close>: primary keys, the unique keys the lookups of
    the stores rely on, references that lead to a row, values in their range.
  \<^item> The audit log only grows; archived flags and segments stay archived.
  \<^item> \<open>run\<close>: a sequence of requests, with cleanups between them.
\<close>

section \<open>Sequences of requests\<close>

datatype action = Request "string list" http_request | Cleanup | Window_Cleanup time

fun perform :: "server \<Rightarrow> action \<Rightarrow> world \<Rightarrow> world" where
  "perform sv (Request path r) w = snd (serve sv path r w)"
| "perform sv Cleanup w = snd (runOnce w)"
| "perform sv (Window_Cleanup now) w =
     w\<lparr>login_windows := cleanup_windows now (login_windows w),
       refresh_windows := cleanup_windows now (refresh_windows w)\<rparr>"

definition run :: "server \<Rightarrow> action list \<Rightarrow> world \<Rightarrow> world" where
  "run sv acts w = fold (perform sv) acts w"

lemma perform_steps: "steps w (perform sv a w)"
  by (cases a) (auto intro: stepwiseD stepwise steps_same_db)

lemma run_steps: "steps w (run sv acts w)"
  unfolding run_def
  by (induction acts arbitrary: w) (auto intro: steps_trans perform_steps)

locale db_invariant =
  fixes I :: "database \<Rightarrow> bool"
  assumes step: "db_step d d' \<Longrightarrow> I d \<Longrightarrow> I d'"
begin

lemma many: "db_step\<^sup>*\<^sup>* d d' \<Longrightarrow> I d \<Longrightarrow> I d'"
  by (induction rule: rtranclp_induct) (auto intro: step)

lemma kept: "steps w w' \<Longrightarrow> I (db w) \<Longrightarrow> I (db w')"
  unfolding steps_def by (rule many)

lemma after_request: "I (db w) \<Longrightarrow> I (db (snd (serve sv path r w)))"
  by (rule kept) (rule stepwiseD [OF stepwise_serve])

lemma after_run: "I (db w) \<Longrightarrow> I (db (run sv acts w))"
  by (rule kept) (rule run_steps)

end

text \<open>A relation between the tables before and after, reflexive and transitive.\<close>

locale db_relation =
  fixes R :: "database \<Rightarrow> database \<Rightarrow> bool"
  assumes refl: "R d d" and trans: "R d d' \<Longrightarrow> R d' d'' \<Longrightarrow> R d d''"
    and step: "db_step d d' \<Longrightarrow> R d d'"

sublocale db_relation \<subseteq> past: db_invariant "R d" for d
  by unfold_locales (blast intro: trans step)

context db_relation
begin

lemma run_related: "R (db w) (db (run sv acts w))"
  by (rule past.after_run) (rule refl)

end

section \<open>Unique keys\<close>

definition unique :: "('a \<Rightarrow> 'b) \<Rightarrow> 'a list \<Rightarrow> bool" where
  "unique f xs \<longleftrightarrow> distinct (map f xs)"

lemma unique_Nil [simp]: "unique f []"
  by (simp add: unique_def)

lemma unique_snoc [simp]: "unique f (xs @ [x]) \<longleftrightarrow> unique f xs \<and> f x \<notin> f ` set xs"
  by (auto simp: unique_def)

lemma unique_filter [simp]: "unique f xs \<Longrightarrow> unique f (filter p xs)"
  by (simp add: unique_def distinct_map_filter)

lemma unique_update [simp]: "(\<And>x. f (g x) = f x) \<Longrightarrow> unique f (update_where p g xs) = unique f xs"
  by (simp add: unique_def map_update_where)

lemma insertion_Inr [simp]:
  "insertion checks clash refs row d' = Inr (x, d) \<longleftrightarrow> checks \<and> \<not> clash \<and> refs \<and> x = row \<and> d = d'"
  by (auto simp: insertion_def)

definition ids_unique :: "database \<Rightarrow> bool" where
  "ids_unique d \<longleftrightarrow>
     unique t_id (tenants d) \<and> unique u_id (users d) \<and> unique s_id (sessions d) \<and>
     unique p_id (projects d) \<and> unique e_id (environments d) \<and> unique k_id (api_keys d) \<and>
     unique f_id (flags d) \<and> unique g_id (segment_rows d) \<and> unique la_id (login_attempts d) \<and>
     unique rt_id (revoked_tokens d) \<and> unique a_id (audit_log d)"

lemmas statement_defs =
  insert_tenant_def insert_user_def update_user_def update_password_def insert_member_def
  update_role_def delete_member_def insert_session_def delete_sessions_def insert_login_attempt_def
  delete_attempts_def insert_revoked_def delete_expired_revoked_def insert_project_def
  update_project_def insert_environment_def delete_environment_def insert_api_key_def
  update_api_key_def insert_flag_def update_flag_def archive_flag_def upsert_flag_env_def
  update_flag_env_def set_enabled_def insert_segment_def update_segment_def archive_segment_def
  insert_audit_def

lemma ids_unique_step: "db_step d d' \<Longrightarrow> ids_unique d \<Longrightarrow> ids_unique d'"
  by (erule db_step.cases)
     (auto simp: ids_unique_def statement_defs Let_def split: if_splits option.splits)

text \<open>The update of the one row of an identifier keeps a key unique that no other row has.\<close>

lemma unique_update_one:
  assumes "unique f xs" and "unique k xs" and "old \<in> set xs" and "p old"
    and "\<And>x. p x \<Longrightarrow> k x = k old" and "\<And>x. x \<in> set xs \<Longrightarrow> k x \<noteq> k old \<Longrightarrow> f x \<noteq> f (g old)"
  shows "unique f (update_where p g xs)"
proof -
  from assms(3) obtain ys zs where xs: "xs = ys @ old # zs" by (auto dest: split_list)
  have others: "k x \<noteq> k old" if "x \<in> set ys \<or> x \<in> set zs" for x
  proof
    assume "k x = k old"
    with that have "k old \<in> k ` set ys \<or> k old \<in> k ` set zs" by (metis imageI)
    with assms(2) show False by (simp add: xs unique_def)
  qed
  have off: "\<not> p x" if "x \<in> set ys \<or> x \<in> set zs" for x
    using others [OF that] assms(5) by blast
  then have "update_where p g ys = ys" "update_where p g zs = zs"
    by (simp_all add: update_where_none)
  then have new: "update_where p g xs = ys @ g old # zs"
    using assms(4) by (simp add: xs update_where_def)
  have "f x \<noteq> f (g old)" if "x \<in> set ys \<or> x \<in> set zs" for x
    by (rule assms(6)) (use that others in \<open>auto simp: xs\<close>)
  then have "f (g old) \<notin> f ` set ys" "f (g old) \<notin> f ` set zs"
    by (metis imageE)+
  then show ?thesis using assms(1) unfolding new by (auto simp: xs unique_def)
qed

definition keys_unique :: "database \<Rightarrow> bool" where
  "keys_unique d \<longleftrightarrow>
     unique t_slug (tenants d) \<and> unique (\<lambda>u. map lower_char (u_email u)) (users d) \<and>
     unique (\<lambda>m. (m_tenant m, m_user m)) (members d) \<and> unique s_refresh_hash (sessions d) \<and>
     unique (\<lambda>p. (p_tenant p, p_slug p)) (projects d) \<and>
     unique (\<lambda>e. (e_project e, e_slug e)) (environments d) \<and> unique k_hash (api_keys d) \<and>
     unique (\<lambda>f. (f_project f, f_key f)) (flags d) \<and>
     unique (\<lambda>c. (fe_flag c, fe_env c)) (flag_envs d) \<and>
     unique (\<lambda>g. (g_project g, g_key g)) (segment_rows d) \<and> unique rt_hash (revoked_tokens d)"

lemma keys_after_update_project:
  assumes "update_project p d now = Inr (tm, d')" and "ids_unique d" and "keys_unique d"
  shows "unique (\<lambda>p. (p_tenant p, p_slug p)) (projects d')"
proof (cases "find (\<lambda>x. p_id x = p_id p) (projects d)")
  case None
  with assms show ?thesis by (simp add: update_project_def keys_unique_def)
next
  case (Some old)
  then have old: "old \<in> set (projects d)" "p_id old = p_id p" by (auto dest: find_Some_in)
  have "unique (\<lambda>p. (p_tenant p, p_slug p)) (update_where (\<lambda>x. p_id x = p_id p)
      (\<lambda>x. x\<lparr>p_slug := p_slug p, p_name := p_name p, p_updated := now\<rparr>) (projects d))"
    if "\<not> (\<exists>x\<in>set (projects d). p_id x \<noteq> p_id p \<and> p_tenant x = p_tenant old \<and> p_slug x = p_slug p)"
    by (rule unique_update_one [where k = p_id and old = old])
       (use that old assms in \<open>auto simp: ids_unique_def keys_unique_def\<close>)
  with Some assms show ?thesis by (auto simp: update_project_def split: if_splits)
qed

lemma keys_after_update_flag:
  assumes "update_flag f d now = Inr (tm, d')" and "ids_unique d" and "keys_unique d"
  shows "unique (\<lambda>f. (f_project f, f_key f)) (flags d')"
proof (cases "find (\<lambda>x. f_id x = f_id f \<and> f_archived x = None) (flags d)")
  case None
  with assms show ?thesis by (auto simp: update_flag_def keys_unique_def split: if_splits)
next
  case (Some old)
  then have old: "old \<in> set (flags d)" "f_id old = f_id f" "f_archived old = None"
    by (auto dest: find_Some_in)
  have "unique (\<lambda>f. (f_project f, f_key f)) (update_where (\<lambda>x. f_id x = f_id f \<and> f_archived x = None)
      (\<lambda>x. x\<lparr>f_key := f_key f, f_name := f_name f, f_description := f_description f,
        f_type := f_type f, f_default := map_option jsonb (f_default f), f_updated := now\<rparr>) (flags d))"
    if "\<not> (\<exists>x\<in>set (flags d). f_id x \<noteq> f_id f \<and> f_project x = f_project old \<and> f_key x = f_key f)"
    by (rule unique_update_one [where k = f_id and old = old])
       (use that old assms in \<open>auto simp: ids_unique_def keys_unique_def\<close>)
  with Some assms show ?thesis by (auto simp: update_flag_def split: if_splits)
qed

lemma keys_after_update_segment:
  assumes "update_segment g d now = Inr (tm, d')" and "ids_unique d" and "keys_unique d"
  shows "unique (\<lambda>g. (g_project g, g_key g)) (segment_rows d')"
proof (cases "find (\<lambda>x. g_id x = g_id g \<and> g_archived x = None) (segment_rows d)")
  case None
  with assms show ?thesis by (auto simp: update_segment_def keys_unique_def split: if_splits)
next
  case (Some old)
  then have old: "old \<in> set (segment_rows d)" "g_id old = g_id g" "g_archived old = None"
    by (auto dest: find_Some_in)
  have "unique (\<lambda>g. (g_project g, g_key g)) (update_where (\<lambda>x. g_id x = g_id g \<and> g_archived x = None)
      (\<lambda>x. x\<lparr>g_key := g_key g, g_name := g_name g, g_description := g_description g,
        g_rules := map_option jsonb (g_rules g), g_updated := now\<rparr>) (segment_rows d))"
    if "\<not> (\<exists>x\<in>set (segment_rows d). g_id x \<noteq> g_id g \<and> g_project x = g_project old \<and> g_key x = g_key g)"
    by (rule unique_update_one [where k = g_id and old = old])
       (use that old assms in \<open>auto simp: ids_unique_def keys_unique_def\<close>)
  with Some assms show ?thesis by (auto simp: update_segment_def split: if_splits)
qed

text \<open>Of the three updates above only the rest of the tables is left to show.\<close>

lemma touch_keys [simp]:
  "fe_flag (touch_flag_env now c) = fe_flag c" "fe_env (touch_flag_env now c) = fe_env c"
  "fe_flag (set_flag_env c' c) = fe_flag c" "fe_env (set_flag_env c' c) = fe_env c"
  by (simp_all add: touch_flag_env_def set_flag_env_def)

lemma keys_unique_step:
  assumes "db_step d d'" and "ids_unique d" and "keys_unique d"
  shows "keys_unique d'"
  using assms(1)
proof cases
  case (project_updated p now tm)
  with keys_after_update_project [OF project_updated assms(2,3)] assms(3) show ?thesis
    by (auto simp: keys_unique_def update_project_def split: if_splits option.splits)
next
  case (flag_updated f now tm)
  with keys_after_update_flag [OF flag_updated assms(2,3)] assms(3) show ?thesis
    by (auto simp: keys_unique_def update_flag_def split: if_splits option.splits)
next
  case (segment_updated g now tm)
  with keys_after_update_segment [OF segment_updated assms(2,3)] assms(3) show ?thesis
    by (auto simp: keys_unique_def update_segment_def split: if_splits option.splits)
next
  case (flag_env_upserted c now c')
  with assms(3) show ?thesis
    by (auto simp: keys_unique_def upsert_flag_env_def find_None is_flag_env_def Let_def
        split: if_splits option.splits)
qed (use assms(3) in \<open>auto simp: keys_unique_def statement_defs citext_eq_def Let_def image_iff
      split: if_splits option.splits\<close>)

section \<open>References\<close>

definition refs_ok :: "database \<Rightarrow> bool" where
  "refs_ok d \<longleftrightarrow>
     (\<forall>m\<in>set (members d). tenant_exists d (m_tenant m) \<and> user_exists d (m_user m)) \<and>
     (\<forall>s\<in>set (sessions d). user_exists d (s_user s) \<and> tenant_exists d (s_tenant s)) \<and>
     (\<forall>p\<in>set (projects d). tenant_exists d (p_tenant p)) \<and>
     (\<forall>e\<in>set (environments d). project_exists d (e_project e)) \<and>
     (\<forall>k\<in>set (api_keys d). environment_exists d (k_env k)) \<and>
     (\<forall>f\<in>set (flags d). project_exists d (f_project f)) \<and>
     (\<forall>c\<in>set (flag_envs d). flag_exists d (fe_flag c) \<and> environment_exists d (fe_env c)) \<and>
     (\<forall>g\<in>set (segment_rows d). project_exists d (g_project g)) \<and>
     (\<forall>a\<in>set (login_attempts d). user_exists d (la_user a)) \<and>
     (\<forall>t\<in>set (revoked_tokens d). user_exists d (rt_user t) \<and> tenant_exists d (rt_tenant t)) \<and>
     (\<forall>a\<in>set (audit_log d). tenant_exists d (a_tenant a) \<and> user_ref d (a_actor a))"

lemma image_update_where [simp]:
  "(\<And>x. f (g x) = f x) \<Longrightarrow> f ` set (update_where p g xs) = f ` set xs"
  using map_update_where [of p f g xs] by (metis list.set_map)

lemma ball_update_where [simp]:
  "(\<And>x. P (g x) = P x) \<Longrightarrow> (\<forall>x\<in>set (update_where p g xs). P x) \<longleftrightarrow> (\<forall>x\<in>set xs. P x)"
  by (simp add: update_where_def) blast

lemma exists_other_table [simp]:
  "tenant_exists (d\<lparr>users := a1\<rparr>) = tenant_exists d"
  "tenant_exists (d\<lparr>members := a2\<rparr>) = tenant_exists d"
  "tenant_exists (d\<lparr>sessions := a3\<rparr>) = tenant_exists d"
  "tenant_exists (d\<lparr>projects := a4\<rparr>) = tenant_exists d"
  "tenant_exists (d\<lparr>environments := a5\<rparr>) = tenant_exists d"
  "tenant_exists (d\<lparr>api_keys := a6\<rparr>) = tenant_exists d"
  "tenant_exists (d\<lparr>flags := a7\<rparr>) = tenant_exists d"
  "tenant_exists (d\<lparr>flag_envs := a8\<rparr>) = tenant_exists d"
  "tenant_exists (d\<lparr>segment_rows := a9\<rparr>) = tenant_exists d"
  "tenant_exists (d\<lparr>login_attempts := a10\<rparr>) = tenant_exists d"
  "tenant_exists (d\<lparr>revoked_tokens := a11\<rparr>) = tenant_exists d"
  "tenant_exists (d\<lparr>audit_log := a12\<rparr>) = tenant_exists d"
  "user_exists (d\<lparr>tenants := a0\<rparr>) = user_exists d"
  "user_exists (d\<lparr>members := a2\<rparr>) = user_exists d"
  "user_exists (d\<lparr>sessions := a3\<rparr>) = user_exists d"
  "user_exists (d\<lparr>projects := a4\<rparr>) = user_exists d"
  "user_exists (d\<lparr>environments := a5\<rparr>) = user_exists d"
  "user_exists (d\<lparr>api_keys := a6\<rparr>) = user_exists d"
  "user_exists (d\<lparr>flags := a7\<rparr>) = user_exists d"
  "user_exists (d\<lparr>flag_envs := a8\<rparr>) = user_exists d"
  "user_exists (d\<lparr>segment_rows := a9\<rparr>) = user_exists d"
  "user_exists (d\<lparr>login_attempts := a10\<rparr>) = user_exists d"
  "user_exists (d\<lparr>revoked_tokens := a11\<rparr>) = user_exists d"
  "user_exists (d\<lparr>audit_log := a12\<rparr>) = user_exists d"
  "project_exists (d\<lparr>tenants := a0\<rparr>) = project_exists d"
  "project_exists (d\<lparr>users := a1\<rparr>) = project_exists d"
  "project_exists (d\<lparr>members := a2\<rparr>) = project_exists d"
  "project_exists (d\<lparr>sessions := a3\<rparr>) = project_exists d"
  "project_exists (d\<lparr>environments := a5\<rparr>) = project_exists d"
  "project_exists (d\<lparr>api_keys := a6\<rparr>) = project_exists d"
  "project_exists (d\<lparr>flags := a7\<rparr>) = project_exists d"
  "project_exists (d\<lparr>flag_envs := a8\<rparr>) = project_exists d"
  "project_exists (d\<lparr>segment_rows := a9\<rparr>) = project_exists d"
  "project_exists (d\<lparr>login_attempts := a10\<rparr>) = project_exists d"
  "project_exists (d\<lparr>revoked_tokens := a11\<rparr>) = project_exists d"
  "project_exists (d\<lparr>audit_log := a12\<rparr>) = project_exists d"
  "environment_exists (d\<lparr>tenants := a0\<rparr>) = environment_exists d"
  "environment_exists (d\<lparr>users := a1\<rparr>) = environment_exists d"
  "environment_exists (d\<lparr>members := a2\<rparr>) = environment_exists d"
  "environment_exists (d\<lparr>sessions := a3\<rparr>) = environment_exists d"
  "environment_exists (d\<lparr>projects := a4\<rparr>) = environment_exists d"
  "environment_exists (d\<lparr>api_keys := a6\<rparr>) = environment_exists d"
  "environment_exists (d\<lparr>flags := a7\<rparr>) = environment_exists d"
  "environment_exists (d\<lparr>flag_envs := a8\<rparr>) = environment_exists d"
  "environment_exists (d\<lparr>segment_rows := a9\<rparr>) = environment_exists d"
  "environment_exists (d\<lparr>login_attempts := a10\<rparr>) = environment_exists d"
  "environment_exists (d\<lparr>revoked_tokens := a11\<rparr>) = environment_exists d"
  "environment_exists (d\<lparr>audit_log := a12\<rparr>) = environment_exists d"
  "flag_exists (d\<lparr>tenants := a0\<rparr>) = flag_exists d"
  "flag_exists (d\<lparr>users := a1\<rparr>) = flag_exists d"
  "flag_exists (d\<lparr>members := a2\<rparr>) = flag_exists d"
  "flag_exists (d\<lparr>sessions := a3\<rparr>) = flag_exists d"
  "flag_exists (d\<lparr>projects := a4\<rparr>) = flag_exists d"
  "flag_exists (d\<lparr>environments := a5\<rparr>) = flag_exists d"
  "flag_exists (d\<lparr>api_keys := a6\<rparr>) = flag_exists d"
  "flag_exists (d\<lparr>flag_envs := a8\<rparr>) = flag_exists d"
  "flag_exists (d\<lparr>segment_rows := a9\<rparr>) = flag_exists d"
  "flag_exists (d\<lparr>login_attempts := a10\<rparr>) = flag_exists d"
  "flag_exists (d\<lparr>revoked_tokens := a11\<rparr>) = flag_exists d"
  "flag_exists (d\<lparr>audit_log := a12\<rparr>) = flag_exists d"
  by (simp_all add: fun_eq_iff tenant_exists_def user_exists_def project_exists_def
      environment_exists_def flag_exists_def)

lemma exists_after [simp]:
  "tenant_exists (d\<lparr>tenants := tenants d @ [t]\<rparr>) i \<longleftrightarrow> tenant_exists d i \<or> i = t_id t"
  "user_exists (d\<lparr>users := users d @ [u]\<rparr>) i \<longleftrightarrow> user_exists d i \<or> i = u_id u"
  "project_exists (d\<lparr>projects := projects d @ [p]\<rparr>) i \<longleftrightarrow> project_exists d i \<or> i = p_id p"
  "environment_exists (d\<lparr>environments := environments d @ [e]\<rparr>) i \<longleftrightarrow>
     environment_exists d i \<or> i = e_id e"
  "flag_exists (d\<lparr>flags := flags d @ [f]\<rparr>) i \<longleftrightarrow> flag_exists d i \<or> i = f_id f"
  "environment_exists (d\<lparr>environments := filter (\<lambda>e. e_id e \<noteq> j) (environments d)\<rparr>) i \<longleftrightarrow>
     environment_exists d i \<and> i \<noteq> j"
  "(\<And>u. u_id (gu u) = u_id u) \<Longrightarrow>
     user_exists (d\<lparr>users := update_where pu gu (users d)\<rparr>) i = user_exists d i"
  "(\<And>p. p_id (gp p) = p_id p) \<Longrightarrow>
     project_exists (d\<lparr>projects := update_where pp gp (projects d)\<rparr>) i = project_exists d i"
  "(\<And>f. f_id (gf f) = f_id f) \<Longrightarrow>
     flag_exists (d\<lparr>flags := update_where pf gf (flags d)\<rparr>) i = flag_exists d i"
  by (auto simp: tenant_exists_def user_exists_def project_exists_def environment_exists_def
      flag_exists_def)

lemma user_ref_simps [simp]:
  "user_ref d None" "user_ref d (Some u) = user_exists d u"
  by (simp_all add: user_ref_def)

lemma user_ref_mono: "user_ref d i \<Longrightarrow> (\<And>u. user_exists d u \<Longrightarrow> user_exists d' u) \<Longrightarrow> user_ref d' i"
  by (cases i) simp_all

lemma refs_ok_step: "db_step d d' \<Longrightarrow> refs_ok d \<Longrightarrow> refs_ok d'"
  by (erule db_step.cases)
     (auto simp: refs_ok_def statement_defs Let_def elim!: user_ref_mono split: if_splits option.splits)

section \<open>Values\<close>

definition flag_ok :: "flag \<Rightarrow> bool" where
  "flag_ok f \<longleftrightarrow> flagKeyRegex (f_key f) \<and> f_type f \<in> validFlagTypes \<and> f_default f \<noteq> None"

definition flag_env_ok :: "flag_environment \<Rightarrow> bool" where
  "flag_env_ok c \<longleftrightarrow> 1 \<le> fe_version c \<and> fe_rules c \<noteq> None"

definition segment_ok :: "db_segment \<Rightarrow> bool" where
  "segment_ok g \<longleftrightarrow> flagKeyRegex (g_key g) \<and> g_rules g \<noteq> None"

definition member_ok :: "tenant_member \<Rightarrow> bool" where
  "member_ok m \<longleftrightarrow> Valid (ParseRole (m_role m))"

definition values_ok :: "database \<Rightarrow> bool" where
  "values_ok d \<longleftrightarrow>
     (\<forall>t\<in>set (tenants d). slugRegex (t_slug t)) \<and> (\<forall>m\<in>set (members d). member_ok m) \<and>
     (\<forall>p\<in>set (projects d). slugRegex (p_slug p)) \<and> (\<forall>e\<in>set (environments d). slugRegex (e_slug e)) \<and>
     (\<forall>f\<in>set (flags d). flag_ok f) \<and> (\<forall>c\<in>set (flag_envs d). flag_env_ok c) \<and>
     (\<forall>g\<in>set (segment_rows d). segment_ok g)"

lemma known_roles_valid:
  "role \<in> {''owner'', ''admin'', ''member'', ''viewer''} \<Longrightarrow> Valid (ParseRole role)"
  by (elim insertE emptyE; hypsubst; code_simp)

lemma member_values:
  "m_role m \<in> {''owner'', ''admin'', ''member'', ''viewer''} \<Longrightarrow> member_ok (m\<lparr>m_created := t\<rparr>)"
  "ro \<in> {''owner'', ''admin'', ''member'', ''viewer''} \<Longrightarrow> member_ok (m\<lparr>m_role := ro\<rparr>)"
  using known_roles_valid by (simp_all add: member_ok_def)

lemma flag_values:
  "flag_checks f \<Longrightarrow>
     flag_ok (f\<lparr>f_default := map_option jsonb (f_default f), f_created := t, f_updated := t\<rparr>)"
  "flag_checks f \<Longrightarrow> flag_ok (x\<lparr>f_key := f_key f, f_name := f_name f, f_description := f_description f,
     f_type := f_type f, f_default := map_option jsonb (f_default f), f_updated := t\<rparr>)"
  "flag_ok (x\<lparr>f_archived := a, f_updated := t\<rparr>) = flag_ok x"
  by (auto simp: flag_ok_def flag_checks_def validFlagTypes_def split: option.splits)

lemma segment_values:
  "segment_checks g \<Longrightarrow>
     segment_ok (g\<lparr>g_rules := map_option jsonb (g_rules g), g_created := t, g_updated := t\<rparr>)"
  "segment_checks g \<Longrightarrow> segment_ok (x\<lparr>g_key := g_key g, g_name := g_name g,
     g_description := g_description g, g_rules := map_option jsonb (g_rules g), g_updated := t\<rparr>)"
  "segment_ok (x\<lparr>g_archived := a, g_updated := t\<rparr>) = segment_ok x"
  by (auto simp: segment_ok_def segment_checks_def split: option.splits)

lemma flag_env_values:
  "flag_env_checks c \<Longrightarrow> flag_env_ok (set_flag_env c (c\<lparr>fe_version := 1, fe_created := t, fe_updated := t\<rparr>))"
  "flag_env_checks c \<Longrightarrow> flag_env_ok x \<Longrightarrow> flag_env_ok (touch_flag_env t (set_flag_env c x))"
  "flag_env_ok x \<Longrightarrow> flag_env_ok (touch_flag_env t (x\<lparr>fe_enabled := b\<rparr>))"
  by (auto simp: flag_env_ok_def flag_env_checks_def touch_flag_env_def set_flag_env_def split: option.splits)

lemma in_updateE:
  assumes "x \<in> set (update_where p g xs)"
  obtains y where "y \<in> set xs" and "p y" and "x = g y" | "x \<in> set xs" and "\<not> p x"
  using assms by (auto simp: set_update_where split: if_splits)

lemma values_ok_step: "db_step d d' \<Longrightarrow> values_ok d \<Longrightarrow> values_ok d'"
  by (erule db_step.cases)
     (auto simp: values_ok_def statement_defs Let_def member_values flag_values segment_values filter_empty_conv
      elim!: in_updateE intro!: flag_env_values split: if_splits option.splits)

section \<open>What never comes back\<close>

text \<open>The audit log grows at its end; an archived flag or segment stays as it is.\<close>

definition archived_flags :: "database \<Rightarrow> flag set" where
  "archived_flags d = {f \<in> set (flags d). f_archived f \<noteq> None}"

definition archived_segments :: "database \<Rightarrow> db_segment set" where
  "archived_segments d = {g \<in> set (segment_rows d). g_archived g \<noteq> None}"

definition history :: "database \<Rightarrow> database \<Rightarrow> bool" where
  "history d d' \<longleftrightarrow> prefix (audit_log d) (audit_log d') \<and>
     archived_flags d \<subseteq> archived_flags d' \<and> archived_segments d \<subseteq> archived_segments d'"

lemma kept_by_update:
  "(\<And>x. q x \<Longrightarrow> \<not> p x) \<Longrightarrow> {x \<in> set xs. q x} \<subseteq> {x \<in> set (update_where p g xs). q x}"
  by (force simp: set_update_where)

lemma archived_step:
  assumes "db_step d d'"
  shows "archived_flags d \<subseteq> archived_flags d'" and "archived_segments d \<subseteq> archived_segments d'"
  using assms unfolding archived_flags_def archived_segments_def
  by (elim db_step.cases; auto simp: statement_defs Let_def simp del: not_None_eq
      intro!: kept_by_update [THEN subsetD, simplified] split: if_splits option.splits)+

lemma audit_step: "db_step d d' \<Longrightarrow> prefix (audit_log d) (audit_log d')"
  by (erule db_step.cases) (auto simp: statement_defs Let_def split: if_splits option.splits)

lemma history_step: "db_step d d' \<Longrightarrow> history d d'"
  by (simp add: history_def audit_step archived_step)

section \<open>The invariants hold\<close>

interpretation ids: db_invariant ids_unique
  by unfold_locales (rule ids_unique_step)

interpretation keys: db_invariant "\<lambda>d. ids_unique d \<and> keys_unique d"
  by unfold_locales (auto intro: ids_unique_step keys_unique_step)

interpretation refs: db_invariant refs_ok
  by unfold_locales (rule refs_ok_step)

interpretation vals: db_invariant values_ok
  by unfold_locales (rule values_ok_step)

interpretation past_log: db_relation history
proof unfold_locales
  show "history d d" for d by (simp add: history_def)
  show "history d d''" if "history d d'" "history d' d''" for d d' d''
    using that unfolding history_def by (auto intro: prefix_order.trans)
  show "history d d'" if "db_step d d'" for d d' using that by (rule history_step)
qed

definition sound :: "database \<Rightarrow> bool" where
  "sound d \<longleftrightarrow> ids_unique d \<and> keys_unique d \<and> refs_ok d \<and> values_ok d"

definition empty_db :: database where
  "empty_db = \<lparr>tenants = [], users = [], members = [], sessions = [], projects = [], environments = [],
     api_keys = [], flags = [], flag_envs = [], segment_rows = [], login_attempts = [],
     revoked_tokens = [], audit_log = []\<rparr>"

lemma sound_empty: "sound empty_db"
  by (simp add: sound_def empty_db_def ids_unique_def keys_unique_def refs_ok_def values_ok_def)

lemma sound_run: "sound (db w) \<Longrightarrow> sound (db (run sv acts w))"
  unfolding sound_def using keys.after_run refs.after_run vals.after_run by blast

section \<open>The properties\<close>

text \<open>C2. After every sequence of requests and cleanups on a database that started empty: identifiers
  and keys are unique, every reference leads to a row, and slugs, keys, roles, flag types, versions
  and the columns that must not be null are as the tables demand.\<close>

theorem database_stays_sound: "sound (db (run sv acts (w\<lparr>db := empty_db\<rparr>)))"
  by (rule sound_run) (simp add: sound_empty)

text \<open>C8. No sequence of requests and cleanups changes or removes an entry of the audit log, and what
  is archived stays archived, with all its columns.\<close>

theorem history_is_kept:
  "prefix (audit_log (db w)) (audit_log (db (run sv acts w))) \<and>
   archived_flags (db w) \<subseteq> archived_flags (db (run sv acts w)) \<and>
   archived_segments (db w) \<subseteq> archived_segments (db (run sv acts w))"
  using past_log.run_related unfolding history_def by blast

end
