(* ===== verification/Frames.thy ===== *)
theory Frames
  imports Invariants
begin

text \<open>
  What a request leaves unchanged.

  \<^item> \<open>ok R P s\<close>: from tables with \<open>P\<close> the operation \<open>s\<close> leads to tables that \<open>R\<close> relates to the ones
    before.  The locale \<open>db_frame\<close> has one rule per combinator of \<open>Http\<close>, for every reflexive and
    transitive \<open>R\<close>.
  \<^item> \<open>config_of\<close>: the tables of projects, environments, flags and segments; the requests that leave
    them alone.
\<close>

definition ok :: "(database \<Rightarrow> database \<Rightarrow> bool) \<Rightarrow> (database \<Rightarrow> bool) \<Rightarrow> 'r step \<Rightarrow> bool" where
  "ok R P s \<longleftrightarrow> (\<forall>w. P (db w) \<longrightarrow> R (db w) (db (snd (s w))))"

lemma okI: "(\<And>w. P (db w) \<Longrightarrow> R (db w) (db (snd (s w)))) \<Longrightarrow> ok R P s"
  by (simp add: ok_def)

lemma okD: "ok R P s \<Longrightarrow> P (db w) \<Longrightarrow> R (db w) (db (snd (s w)))"
  by (simp add: ok_def)

lemma ok_weaken: "ok R Q s \<Longrightarrow> (\<And>d. P d \<Longrightarrow> Q d) \<Longrightarrow> ok R P s"
  by (simp add: ok_def)

lemma ok_anywhere: "ok R (\<lambda>_. True) s \<Longrightarrow> ok R P s"
  by (simp add: ok_def)

text \<open>An operation that only reads, and what it finds.\<close>

definition reads :: "'a op \<Rightarrow> ('a \<Rightarrow> database \<Rightarrow> bool) \<Rightarrow> bool" where
  "reads m \<Phi> \<longleftrightarrow>
     (\<forall>w. (\<exists>n. snd (m w) = w\<lparr>tick := n\<rparr>) \<and> (\<forall>x. fst (m w) = Inr x \<longrightarrow> \<Phi> x (db w)))"

lemma run_query:
  "run_sql (query f) w = ((if fault w (tick w) then Inl None else Inr (f (db w))), w\<lparr>tick := Suc (tick w)\<rparr>)"
  "run_sql (text_query s f) w =
     ((if fault w (tick w) then Inl None
       else if utf8_length s = None then Inl (Some OtherViolation) else Inr (f (db w))),
      w\<lparr>tick := Suc (tick w)\<rparr>)"
  by (simp_all add: run_sql_def query_def text_query_def Let_def)

lemma reads_query:
  "reads (\<lambda>w. found e (wrapped (run_sql (query f) w))) (\<lambda>x d. f d = Some x)"
  "reads (\<lambda>w. found e (wrapped (run_sql (text_query s f) w))) (\<lambda>x d. f d = Some x)"
  "reads (\<lambda>w. wrapped (run_sql (query g) w)) (\<lambda>x d. x = g d)"
  by (auto simp: reads_def run_query found_def wrapped_def split: option.splits)

lemma reads_weaken: "reads m \<Phi> \<Longrightarrow> (\<And>x d. \<Phi> x d \<Longrightarrow> \<Psi> x d) \<Longrightarrow> reads m \<Psi>"
  by (simp add: reads_def)

lemma reads_db: "reads m \<Phi> \<Longrightarrow> db (snd (m w)) = db w"
proof -
  assume "reads m \<Phi>"
  then obtain n where "snd (m w) = w\<lparr>tick := n\<rparr>" by (auto simp: reads_def)
  then show ?thesis by simp
qed

locale db_frame =
  fixes R :: "database \<Rightarrow> database \<Rightarrow> bool"
  assumes refl: "R d d" and trans: "R d d' \<Longrightarrow> R d' d'' \<Longrightarrow> R d d''"
begin

lemma ok_same: "(\<And>w. db (snd (s w)) = db w) \<Longrightarrow> ok R P s"
  by (simp add: ok_def refl)

lemma ok_then:
  assumes "R (db w) (db w')" and "Q (db w')" and "ok R Q s"
  shows "R (db w) (db (snd (s w')))"
  by (rule trans [OF assms(1)]) (rule okD [OF assms(3,2)])

lemma ok_reply: "ok R P (reply x)"
  by (rule ok_same) (simp add: reply_def)

lemma ok_attempt:
  assumes "ok R P m" and "\<And>e. ok R (\<lambda>_. True) (h e)" and "\<And>x. ok R (\<lambda>_. True) (k x)"
  shows "ok R P (attempt m h k)"
proof (rule okI)
  fix w :: world assume "P (db w)"
  then have "R (db w) (db (snd (m w)))" by (rule okD [OF assms(1)])
  then show "R (db w) (db (snd (attempt m h k w)))"
    by (auto simp: attempt_def split: prod.split sum.split intro: ok_then assms(2,3))
qed

lemma ok_read:
  assumes "reads m \<Phi>" and "\<And>e. ok R P (h e)" and "\<And>x. ok R (\<lambda>d. P d \<and> \<Phi> x d) (k x)"
  shows "ok R P (attempt m h k)"
proof (rule okI)
  fix w :: world assume P: "P (db w)"
  show "R (db w) (db (snd (attempt m h k w)))"
  proof (cases "m w")
    case (Pair res w')
    then have same: "db w' = db w" using reads_db [OF assms(1), of w] by simp
    have found: "\<Phi> x (db w)" if "res = Inr x" for x
      using assms(1) Pair that unfolding reads_def by (metis fst_conv)
    show ?thesis
      using okD [OF assms(2), of w'] okD [OF assms(3), of w'] P Pair
      by (cases res) (auto simp: attempt_def same found)
  qed
qed

lemma ok_logged: "ok R P m \<Longrightarrow> ok R (\<lambda>_. True) k \<Longrightarrow> ok R P (logged m k)"
  by (rule okI) (auto simp: logged_def intro: ok_then okD)

lemma ok_drawing:
  assumes "\<And>w. db (snd (m w)) = db w" and "ok R P h" and "\<And>x. ok R P (k x)"
  shows "ok R P (drawing m h k)"
proof (rule okI)
  fix w :: world assume "P (db w)"
  then show "R (db w) (db (snd (drawing m h k w)))"
    using assms(1) [of w] okD [OF assms(2), of "snd (m w)"] okD [OF assms(3), of "snd (m w)"]
    by (auto simp: drawing_def split: prod.split option.split)
qed

lemma ok_with_now: "(\<And>t. ok R P (k t)) \<Longrightarrow> ok R P (with_now k)"
  by (simp add: ok_def with_now_def)

lemma ok_with_new_uuid:
  assumes "\<And>i. ok R P (k i)"
  shows "ok R P (with_new_uuid k)"
proof (rule okI)
  fix w :: world assume "P (db w)"
  then show "R (db w) (db (snd (with_new_uuid k w)))"
    using okD [OF assms, of "w\<lparr>tick := Suc (tick w)\<rparr>"] by (simp add: with_new_uuid_def)
qed

lemma ok_publish:
  assumes "ok R P k"
  shows "ok R P (publish e k)"
proof (rule okI)
  fix w :: world assume "P (db w)"
  then show "R (db w) (db (snd (publish e k w)))"
    using okD [OF assms, of "w\<lparr>published := published w @ [e]\<rparr>"] by (simp add: publish_def)
qed

lemma ok_foldr: "ok R P k \<Longrightarrow> (\<And>x k. ok R P k \<Longrightarrow> ok R P (f x k)) \<Longrightarrow> ok R P (foldr f xs k)"
  by (induction xs) auto

lemma ok_branches:
  "ok R P a \<Longrightarrow> ok R P b \<Longrightarrow> ok R P (if c then a else b)"
  "ok R P n \<Longrightarrow> (\<And>x. ok R P (s x)) \<Longrightarrow> ok R P (case_option n s opt)"
  "(\<And>e. ok R P (l e)) \<Longrightarrow> (\<And>x. ok R P (r x)) \<Longrightarrow> ok R P (case_sum l r res)"
  "(\<And>x y. ok R P (p x y)) \<Longrightarrow> ok R P (case_prod p xy)"
  "ok R P n \<Longrightarrow> (\<And>y ys. ok R P (q y ys)) \<Longrightarrow> ok R P (case_list n q list)"
  "ok R P (g v) \<Longrightarrow> ok R P (Let v g)"
  by (auto split: option.split sum.split prod.split list.split)

lemma ok_decoding: "(\<And>x. ok R P (k x)) \<Longrightarrow> ok R P (decoding dec r k)"
  unfolding decoding_def by (auto split: sum.split intro: ok_reply)

lemma ok_caller:
  "(\<And>t. ok R P (k t)) \<Longrightarrow> ok R P (tenant_of sv r k)"
  "(\<And>u. ok R P (k u)) \<Longrightarrow> ok R P (user_of sv r k)"
  unfolding tenant_of_def user_of_def by (auto split: option.split intro: ok_reply)

lemma ok_error_replies:
  "ok R P (or_not_found err e)" "ok R P (or_internal e)" "ok R P invalid" "ok R P (conflict code e)"
  "ok R P (conflict_or_not_found code err e)" "ok R P (version_conflict e)" "ok R P invalid_credentials"
  unfolding or_not_found_def or_internal_def invalid_def conflict_def conflict_or_not_found_def
    version_conflict_def invalid_credentials_def by (rule ok_reply)+

lemma ok_in_tx:
  assumes "ok R P f"
  shows "ok R P (in_tx f)"
proof (rule okI)
  fix w :: world
  let ?w1 = "w\<lparr>tick := Suc (tick w), tx_now := Some (clock w (tick w))\<rparr>"
  assume "P (db w)"
  then have "R (db w) (db (snd (f ?w1)))" using okD [OF assms, of ?w1] by simp
  then show "R (db w) (db (snd (in_tx f w)))"
    by (cases "f ?w1") (auto simp: in_tx_def Let_def refl split: sum.split)
qed

lemma ok_runInTx: "ok R P f \<Longrightarrow> ok R P (runInTx f)"
  using ok_in_tx [of P f] by (simp add: ok_def snd_runInTx)

lemma ok_reads: "reads m \<Phi> \<Longrightarrow> ok R P m"
  by (rule ok_same) (rule reads_db)

lemma run_sql_frame:
  assumes "\<And>now x d'. st (db w) now = Inr (x, d') \<Longrightarrow> R (db w) d'"
  shows "R (db w) (db (snd (run_sql st w)))"
  by (cases rule: run_sql_cases [of w st]) (auto intro: assms simp: refl)

lemma ok_result:
  assumes "ok R P m"
  shows "ok R P (\<lambda>w. case m w of (Inl e, w') \<Rightarrow> (Inl (f e), w') | (Inr x, w') \<Rightarrow> (Inr (g x), w'))"
proof (rule okI)
  fix w :: world assume "P (db w)"
  then have "R (db w) (db (snd (m w)))" by (rule okD [OF assms])
  then show "R (db w) (db (snd (case m w of (Inl e, w') \<Rightarrow> (Inl (f e), w') | (Inr x, w') \<Rightarrow> (Inr (g x), w'))))"
    by (auto split: prod.split sum.split)
qed

text \<open>A computation that goes on with the result of an operation, written out.\<close>

lemma ok_bind:
  assumes "ok R P m" and "\<And>e. ok R (\<lambda>_. True) (h e)" and "\<And>x. ok R (\<lambda>_. True) (k x)"
  shows "ok R P (\<lambda>w. case m w of (Inl e, w') \<Rightarrow> h e w' | (Inr x, w') \<Rightarrow> k x w')"
proof (rule okI)
  fix w :: world assume "P (db w)"
  then have "R (db w) (db (snd (m w)))" by (rule okD [OF assms(1)])
  then show "R (db w) (db (snd (case m w of (Inl e, w') \<Rightarrow> h e w' | (Inr x, w') \<Rightarrow> k x w')))"
    by (auto split: prod.split sum.split intro: ok_then assms(2,3))
qed

lemma ok_bind_pair:
  assumes "ok R P m" and "\<And>e. ok R (\<lambda>_. True) (h e)" and "\<And>x y. ok R (\<lambda>_. True) (k x y)"
  shows "ok R P (\<lambda>w. case m w of (Inl e, w') \<Rightarrow> h e w' | (Inr (x, y), w') \<Rightarrow> k x y w')"
proof (rule okI)
  fix w :: world assume "P (db w)"
  then have "R (db w) (db (snd (m w)))" by (rule okD [OF assms(1)])
  then show "R (db w) (db (snd (case m w of (Inl e, w') \<Rightarrow> h e w' | (Inr (x, y), w') \<Rightarrow> k x y w')))"
    by (auto split: prod.split sum.split intro: ok_then assms(2,3))
qed

lemma ok_bind_tx:
  assumes "ok R P f" and "\<And>x. ok R (\<lambda>_. True) (k x)"
  shows "ok R P (\<lambda>w. case in_tx f w of (Inl e, w') \<Rightarrow> (h e, w') | (Inr x, w') \<Rightarrow> k x w')"
proof (rule okI)
  fix w :: world assume "P (db w)"
  then have "R (db w) (db (snd (in_tx f w)))" by (rule okD [OF ok_in_tx [OF assms(1)]])
  then show "R (db w) (db (snd (case in_tx f w of (Inl e, w') \<Rightarrow> (h e, w') | (Inr x, w') \<Rightarrow> k x w')))"
    by (auto split: prod.split sum.split intro: ok_then assms(2))
qed

lemma ok_andThen:
  assumes "ok R P m" and "\<And>x. ok R (\<lambda>_. True) (k x)"
  shows "ok R P (andThen m k)"
proof (rule okI)
  fix w :: world assume "P (db w)"
  then have "R (db w) (db (snd (m w)))" by (rule okD [OF assms(1)])
  then show "R (db w) (db (snd (andThen m k w)))"
    by (auto simp: andThen_def split: prod.split sum.split intro: ok_then assms(2))
qed

text \<open>Sequencing with what the first operation establishes.\<close>

lemma ok_andThen_post:
  assumes "ok R P m" and "\<And>w x w'. P (db w) \<Longrightarrow> m w = (Inr x, w') \<Longrightarrow> Q x (db w')" and "\<And>x. ok R (Q x) (k x)"
  shows "ok R P (andThen m k)"
proof (rule okI)
  fix w :: world assume P: "P (db w)"
  then have m: "R (db w) (db (snd (m w)))" by (rule okD [OF assms(1)])
  show "R (db w) (db (snd (andThen m k w)))"
  proof (cases "m w")
    case (Pair res w')
    show ?thesis
    proof (cases res)
      case (Inr x)
      have "R (db w) (db (snd (k x w')))"
        by (rule ok_then [OF _ assms(2) [OF P] assms(3)]) (use m Pair Inr in simp_all)
      with Pair Inr show ?thesis by (simp add: andThen_def)
    qed (use m Pair in \<open>simp add: andThen_def\<close>)
  qed
qed

lemma ok_for_each:
  assumes "\<And>x. x \<in> set xs \<Longrightarrow> ok R P (f x)" and "\<And>x w. x \<in> set xs \<Longrightarrow> P (db w) \<Longrightarrow> P (db (snd (f x w)))"
  shows "ok R P (for_each f xs)"
  using assms
proof (induction xs)
  case (Cons x xs)
  then have rest: "ok R P (for_each f xs)" by simp
  show ?case
  proof (rule okI)
    fix w :: world assume P: "P (db w)"
    then have "R (db w) (db (snd (f x w)))" "P (db (snd (f x w)))"
      using Cons.prems by (simp_all add: ok_def)
    then have "R (db w) (db (snd (for_each f xs (snd (f x w)))))" "R (db w) (db (snd (f x w)))"
      by (auto intro: ok_then [OF _ _ rest])
    then show "R (db w) (db (snd (for_each f (x # xs) w)))"
      by (cases "f x w") (auto split: sum.split)
  qed
qed (simp add: ok_def refl)

lemma ok_return_op: "ok R P (return_op x)" "ok R P (\<lambda>w. (r, w))"
  by (rule ok_same; simp add: return_op_def)+

lemmas ok_rules =
  ok_reply ok_attempt ok_logged ok_with_now ok_with_new_uuid ok_publish ok_foldr ok_branches ok_decoding
  ok_caller ok_error_replies ok_runInTx ok_andThen ok_return_op

end

section \<open>The configuration\<close>

definition config_of ::
  "database \<Rightarrow> project list \<times> environment list \<times> flag list \<times> flag_environment list \<times> db_segment list" where
  "config_of d = (projects d, environments d, flags d, flag_envs d, segment_rows d)"

definition same_config :: "database \<Rightarrow> database \<Rightarrow> bool" where
  "same_config d d' \<longleftrightarrow> config_of d' = config_of d"

text \<open>Relations that only speak of the configuration.\<close>

locale config_frame = db_frame +
  assumes quiet: "same_config d d' \<Longrightarrow> R d d'"
begin

lemma ok_quiet: "ok same_config P s \<Longrightarrow> ok R P s"
  by (simp add: ok_def quiet)

end

interpretation config: config_frame same_config
  by unfold_locales (auto simp: same_config_def)

named_theorems config_rules \<open>operations that leave the configuration alone\<close>

lemmas config_combinators [config_rules] = config.ok_rules

lemma config_stores [config_rules]:
  "ok same_config P ExistsAny" "ok same_config P (TenantStore_GetByID i)"
  "ok same_config P (TenantStore_GetBySlug sl)" "ok same_config P (UserStore_GetByID i)"
  "ok same_config P (UserStore_GetByEmail em)" "ok same_config P (UpdateLastLogin i tm)"
  "ok same_config P (UpdatePasswordHash i h)" "ok same_config P (GetRole ten usr)"
  "ok same_config P (MemberStore_ListByUser usr)" "ok same_config P (SessionStore_Create s)"
  "ok same_config P (SessionStore_GetByID i)" "ok same_config P (ListByUserID usr)"
  "ok same_config P (GetByRefreshHash h)" "ok same_config P (SessionStore_DeleteByID i)"
  "ok same_config P (LoginAttemptStore_Record a)" "ok same_config P (CountSince usr tm)"
  "ok same_config P (DeleteOlderThan tm)" "ok same_config P (RevokedTokenStore_Insert rt)"
  "ok same_config P (RevokedTokenStore_Lookup h)" "ok same_config P RevokedTokenStore_DeleteExpired"
  "ok same_config P (ProjectStore_GetBySlug ten sl)" "ok same_config P (ProjectStore_ListByTenant ten)"
  "ok same_config P (EnvironmentStore_GetByID i)" "ok same_config P (EnvironmentStore_GetBySlug i sl)"
  "ok same_config P (EnvironmentStore_ListByProject i)" "ok same_config P (APIKeyStore_Create k)"
  "ok same_config P (GetByHash h)" "ok same_config P (APIKeyStore_ListByEnvironment i)"
  "ok same_config P (Revoke i tm)" "ok same_config P (UpdateLastUsed i tm)"
  "ok same_config P (FlagStore_GetByKey i key)" "ok same_config P (FlagStore_ListByProject i)"
  "ok same_config P (FlagEnvironmentStore_Get i j)"
  "ok same_config P (FlagEnvironmentStore_ListByEnvironment i)"
  "ok same_config P (SegmentStore_GetByKey i key)" "ok same_config P (SegmentStore_ListByProject i)"
  "ok same_config P (AuditStore_Insert au)"
  by (rule okI, simp only: store_defs Let_def snd_wrappers, rule config.run_sql_frame,
      simp add: same_config_def config_of_def query_def text_query_def statement_defs Let_def
      split: if_splits, blast?)+

lemma config_updates [config_rules]:
  "ok same_config P (DeleteByUserID i)" "ok same_config P (ClearForUser i)"
  unfolding DeleteByUserID_def [abs_def] ClearForUser_def [abs_def]
  by (rule config.ok_result, rule okI, simp only: snd_wrappers, rule config.run_sql_frame,
      simp add: same_config_def config_of_def statement_defs, blast?)+

lemma config_AuditStore_Query [config_rules]: "ok same_config P (AuditStore_Query flt)"
  unfolding AuditStore_Query_def [abs_def]
  by (intro config.ok_bind config.ok_return_op)
     (rule okI, simp only: snd_wrappers, rule config.run_sql_frame,
      simp add: same_config_def count_audit_def list_audit_def split: if_splits)+

lemma config_exec_at [config_rules]:
  assumes "\<And>d d' x. st d now = Inr (x, d') \<Longrightarrow> same_config d d'"
  shows "ok same_config P (exec_at now st)"
  unfolding exec_at_def [abs_def]
  by (rule okI, simp only: snd_wrappers, rule config.run_sql_frame, rule assms)

lemma config_identity_statements [config_rules]:
  "insert_tenant t d now = Inr (x, d') \<Longrightarrow> same_config d d'"
  "insert_user u d now = Inr (y, d') \<Longrightarrow> same_config d d'"
  "insert_member m d now = Inr (z, d') \<Longrightarrow> same_config d d'"
  "insert_session s d now = Inr (v, d') \<Longrightarrow> same_config d d'"
  "insert_audit a d now = Inr (r, d') \<Longrightarrow> same_config d d'"
  by (auto simp: same_config_def config_of_def statement_defs Let_def)

lemma config_draws [config_rules]:
  "ok same_config P h \<Longrightarrow> (\<And>x. ok same_config P (k x)) \<Longrightarrow>
   ok same_config P (drawing (GenerateRefreshToken cr n) h k)"
  "ok same_config P h \<Longrightarrow> (\<And>y. ok same_config P (k' y)) \<Longrightarrow>
   ok same_config P (drawing (GenerateAPIKey cr hint n) h k')"
  by (rule config.ok_drawing; simp)+

lemma config_shared [config_rules]:
  "ok same_config (\<lambda>_. True) k \<Longrightarrow> ok same_config P (writeAudit sv r ten usr act rt io k)"
  "(\<And>p. ok same_config (\<lambda>_. True) (kp p)) \<Longrightarrow> ok same_config P (project_of ten r kp)"
  "(\<And>e. ok same_config (\<lambda>_. True) (ke e)) \<Longrightarrow> ok same_config P (environment_of p r ke)"
  "(\<And>f. ok same_config (\<lambda>_. True) (kf f)) \<Longrightarrow> ok same_config P (flag_of p r kf)"
  "(\<And>g. ok same_config (\<lambda>_. True) (kg g)) \<Longrightarrow> ok same_config P (segment_of p r kg)"
  "(\<And>e. ok same_config (\<lambda>_. True) (ke e)) \<Longrightarrow> ok same_config P (env_by_id i ke)"
  "ok same_config (\<lambda>_. True) k \<Longrightarrow> ok same_config P (recordFailedLogin sv r i k)"
  unfolding writeAudit_def project_of_def environment_of_def flag_of_def segment_of_def env_by_id_def
    recordFailedLogin_def
  by (intro config_rules | assumption)+

lemma config_with_access_token [config_rules]:
  "(\<And>tok. ok same_config P (kt tok)) \<Longrightarrow> ok same_config P (with_access_token sv usr ten ro sid kt)"
  unfolding with_access_token_def by (auto intro!: config_rules split: option.split)

lemma config_audit_if_tenant [config_rules]:
  "ok same_config (\<lambda>_. True) k \<Longrightarrow> ok same_config P (audit_if_tenant sv r i act rt io k)"
  unfolding audit_if_tenant_def by (cases "TenantUUID (sv_crypto sv) (cx_claims r)") (auto intro: config_rules ok_anywhere)

lemma config_loadEngineSegments [config_rules]: "ok same_config P (loadEngineSegments i)"
  unfolding loadEngineSegments_def [abs_def] by (intro config.ok_result config_rules)

lemma config_reading [config_rules]:
  "ok same_config P (handleListProjects sv r)" "ok same_config P (handleGetProject sv r)"
  "ok same_config P (handleListEnvironments sv r)" "ok same_config P (handleListFlagStates sv r)"
  "ok same_config P (handleListFlags sv r)" "ok same_config P (handleGetFlag sv r)"
  "ok same_config P (handleGetFlagEnvironment sv r)" "ok same_config P (handleListSegments sv r)"
  "ok same_config P (handleGetSegment sv r)" "ok same_config P (handleCreateAPIKey sv r)"
  "ok same_config P (handleListAPIKeys sv r)" "ok same_config P (handleRevokeAPIKey sv r)"
  "ok same_config P (handleAuditLog sv r)" "ok same_config P (handleEvaluateFlag sv r)"
  "ok same_config P (handleEvaluateFlags sv r)" "ok same_config P (handleSDKSnapshot sv r)"
  "ok same_config P (handleSDKUsage sv r)"
  unfolding handleListProjects_def handleGetProject_def handleListEnvironments_def handleListFlagStates_def
    handleListFlags_def handleGetFlag_def handleGetFlagEnvironment_def handleListSegments_def
    handleGetSegment_def handleCreateAPIKey_def handleListAPIKeys_def handleRevokeAPIKey_def
    handleAuditLog_def handleEvaluateFlag_def handleEvaluateFlags_def handleSDKSnapshot_def handleSDKUsage_def
  by (intro config_rules)+

lemma config_tenant_summaries [config_rules]:
  "(\<And>ts. ok same_config (\<lambda>_. True) (k ts)) \<Longrightarrow> ok same_config P (tenant_summaries ms acc k)"
  by (induction ms arbitrary: acc P) (auto intro!: config_rules intro: ok_anywhere)

lemma config_tenant_error_reply [config_rules]: "ok same_config P (tenant_error_reply i e)"
  unfolding tenant_error_reply_def writeMultipleTenants_def
  by (cases e) (auto intro!: config_rules)

lemma config_transactions [config_rules]:
  "ok same_config P (rotate_tx h u s s')" "ok same_config P (logout_tx h s)"
  "ok same_config P (executeBootstrap i j slug sreq ph rh now ex)"
  unfolding rotate_tx_def logout_tx_def executeBootstrap_def
  by (intro config_rules | erule config_rules)+

lemma config_sessions [config_rules]:
  "ok same_config P (open_session sv r u ten ro)" "ok same_config P (rotate_session sv r h s u ro now)"
  "ok same_config P (handleRefreshReuse sv r rt)" "ok same_config P (resolveUserTenant i slug)"
  unfolding open_session_def rotate_session_def handleRefreshReuse_def resolveUserTenant_def
  by (intro config_rules)+

lemma config_account [config_rules]:
  "ok same_config P (handleRefresh sv r)" "ok same_config P (handleLogout sv r)"
  "ok same_config P (handleGetMe sv r)" "ok same_config P (handleChangePassword sv r)"
  "ok same_config P (handleListSessions sv r)" "ok same_config P (handleRevokeSession sv r)"
  "ok same_config P (handleRevokeAllSessions sv r)" "ok same_config P (handleLogin sv r)"
  unfolding handleRefresh_def handleLogout_def handleGetMe_def handleChangePassword_def
    handleListSessions_def handleRevokeSession_def handleRevokeAllSessions_def handleLogin_def
  by (intro config_rules config.ok_bind_pair)+

lemma config_slug [config_rules]:
  assumes "\<And>s. ok same_config P (k s)"
  shows "ok same_config P (\<lambda>w. case slugifyTenantName nm w of (s, w1) \<Rightarrow> k s w1)"
proof (rule okI)
  fix w :: world assume "P (db w)"
  then show "same_config (db w) (db (snd (case slugifyTenantName nm w of (s, w1) \<Rightarrow> k s w1)))"
    using okD [OF assms, of "snd (slugifyTenantName nm w)"] draws_keep_db(3) [of nm w]
    by (auto split: prod.split)
qed

lemma config_setup [config_rules]:
  "ok same_config P (handleSetup sv r)" "ok same_config P (handleSetupStatus sv r)"
  unfolding handleSetup_def handleSetupStatus_def bootstrap_def
  by (intro config_rules config.ok_bind_tx)+

section \<open>Middleware\<close>

lemma withMiddleware_simps [simp]:
  "withMiddleware h [] = h" "withMiddleware h (m # ms) = m (withMiddleware h ms)"
  by (simp_all add: withMiddleware_def)

context config_frame
begin

lemma ok_windows:
  assumes "ok R (\<lambda>_. True) (h r)"
  shows "ok R (\<lambda>_. True) (RateLimit_login h r)" and "ok R (\<lambda>_. True) (RateLimit_refresh h r)"
proof -
  have "R (db w) (db (snd (h r (w\<lparr>login_windows := m\<rparr>))))"
    "R (db w) (db (snd (h r (w\<lparr>refresh_windows := m\<rparr>))))" for w :: world and m
    using okD [OF assms, of "w\<lparr>login_windows := m\<rparr>"] okD [OF assms, of "w\<lparr>refresh_windows := m\<rparr>"]
    by simp_all
  then show "ok R (\<lambda>_. True) (RateLimit_login h r)" "ok R (\<lambda>_. True) (RateLimit_refresh h r)"
    by (auto simp: RateLimit_login_def RateLimit_refresh_def refl intro!: okI split: prod.split bool.split)
qed

lemma ok_guard:
  assumes "\<And>r. ok R (\<lambda>_. True) (h r)"
  shows "ok R (\<lambda>_. True) (apply_guard sv g h r)"
proof (cases g)
  case GAPIKey
  have "ok R (\<lambda>_. True) (AuthAPIKey sv h r)"
    unfolding AuthAPIKey_def by (intro ok_rules assms ok_quiet config_rules)
  with GAPIKey show ?thesis by simp
next
  case GJWT
  have "ok R (\<lambda>_. True) (AuthJWT sv h r)"
    unfolding AuthJWT_def by (intro ok_rules assms)
  with GJWT show ?thesis by simp
qed (auto simp: BodyLimit_def RequireJSONContentType_def RequireRole_def split: option.split
      intro: assms ok_rules ok_windows)

lemma ok_run_route:
  assumes "\<And>r. ok R (\<lambda>_. True) (rt_handler rt r)"
  shows "ok R (\<lambda>_. True) (run_route sv rt r)"
proof -
  have "ok R (\<lambda>_. True) (withMiddleware (rt_handler rt) (map (apply_guard sv) gs) r)" for gs r
    by (induction gs arbitrary: r) (simp_all add: assms ok_guard)
  then show ?thesis by (simp add: run_route_def)
qed

end

end
