(* ===== verification/Auth_Correct.thy ===== *)
theory Auth_Correct
  imports Auth
begin

text \<open>
  Base62 is lossless, roles are linearly ordered by privilege, API keys carry their own prefix and
  hash, and an access token validates to the claims it was made of.
\<close>

section \<open>Base62\<close>

definition value_of :: "nat \<Rightarrow> nat list \<Rightarrow> nat" where
  "value_of b ds = foldl (\<lambda>x d. b * x + d) 0 ds"

lemma value_of_snoc: "value_of b (ds @ [d]) = b * value_of b ds + d"
  by (simp add: value_of_def)

lemma digits_rev_0 [simp]: "digits_rev b 0 = []"
  by (simp add: digits_rev.simps)

lemma value_of_digits: "2 \<le> b \<Longrightarrow> value_of b (rev (digits_rev b n)) = n"
proof (induction b n rule: digits_rev.induct)
  case (1 b n)
  then show ?case
    by (subst digits_rev.simps) (auto simp: value_of_snoc, simp add: value_of_def)
qed

lemma digits_rev_snoc:
  assumes "2 \<le> b" and "\<forall>d\<in>set ds. d < b" and "ds = [] \<or> hd ds \<noteq> 0"
  shows "digits_rev b (value_of b ds) = rev ds"
  using assms(2,3)
proof (induction ds rule: rev_induct)
  case Nil
  then show ?case by (simp add: value_of_def)
next
  case (snoc d ds)
  have positive: "0 < value_of b (ds @ [d])"
  proof (cases "ds = []")
    case True
    with snoc.prems show ?thesis by (simp add: value_of_def)
  next
    case False
    then have "digits_rev b (value_of b ds) = rev ds" using snoc by simp
    then have "value_of b ds \<noteq> 0" using False by (metis digits_rev.simps rev_is_Nil_conv)
    with assms(1) show ?thesis by (simp add: value_of_snoc)
  qed
  have "ds = [] \<or> hd ds \<noteq> 0" using snoc.prems by (cases ds) auto
  then have "digits_rev b (value_of b ds) = rev ds" using snoc by simp
  moreover have "(b * value_of b ds + d) mod b = d" "(b * value_of b ds + d) div b = value_of b ds"
    using snoc.prems assms(1) by simp_all
  ultimately show ?case
    using positive assms(1) by (subst digits_rev.simps) (simp add: value_of_snoc)
qed

lemma digits_rev_less: "2 \<le> b \<Longrightarrow> \<forall>d\<in>set (digits_rev b n). d < b"
proof (induction b n rule: digits_rev.induct)
  case (1 b n)
  then show ?case by (subst digits_rev.simps) auto
qed

lemma digits_rev_last: "2 \<le> b \<Longrightarrow> 0 < n \<Longrightarrow> digits_rev b n \<noteq> [] \<and> last (digits_rev b n) \<noteq> 0"
proof (induction b n rule: digits_rev.induct)
  case (1 b n)
  show ?case
  proof (cases "n div b = 0")
    case True
    then have "n mod b = n" by (metis add_0 mult_0_right mult_div_mod_eq)
    with True 1 show ?thesis
      by (subst (1 2) digits_rev.simps) auto
  next
    case False
    with 1 show ?thesis by (subst (1 2) digits_rev.simps) auto
  qed
qed

text \<open>The alphabet has no character twice.\<close>

lemma base62Index_nth: "d < 62 \<Longrightarrow> base62Index (base62Alphabet ! d) = Some d"
proof -
  have "\<forall>d\<in>set [0..<62]. base62Index (base62Alphabet ! d) = Some d" by code_simp
  then show "d < 62 \<Longrightarrow> base62Index (base62Alphabet ! d) = Some d" by simp
qed

lemma decode_digits_map:
  "\<forall>d\<in>set ds. d < 62 \<Longrightarrow>
   decode_digits x (map (\<lambda>d. base62Alphabet ! d) ds) = Some (foldl (\<lambda>x d. 62 * x + d) x ds)"
  by (induction ds arbitrary: x) (auto simp: base62Index_nth mult.commute)

lemma leading_replicate: "xs = [] \<or> hd xs \<noteq> z \<Longrightarrow> leading z (replicate n z @ xs) = n"
  by (induction n) (cases xs; auto simp: leading_def)+

lemma leading_split: "replicate (leading z xs) z @ dropWhile (\<lambda>x. x = z) xs = xs"
  by (induction xs) (auto simp: leading_def)

lemma set_bytes_drop: "set_bytes src = value_of 256 (dropWhile (\<lambda>b. b = 0) src)"
  by (induction src) (auto simp: set_bytes_def value_of_def)

lemma dropWhile_Nil_or: "dropWhile P xs = [] \<or> \<not> P (hd (dropWhile P xs))"
  using hd_dropWhile by blast

lemma foldl_zeros: "foldl (\<lambda>x d. b * x + d) (0 :: nat) (replicate n 0) = 0"
  by (induction n) auto

lemma big_bytes_set_bytes:
  assumes "\<forall>b\<in>set src. b < 256"
  shows "big_bytes (set_bytes src) = dropWhile (\<lambda>b. b = 0) src"
proof -
  let ?ds = "dropWhile (\<lambda>b. b = 0) src"
  have "digits_rev 256 (value_of 256 ?ds) = rev ?ds"
  proof (rule digits_rev_snoc)
    show "\<forall>d\<in>set ?ds. d < 256" using assms by (auto dest: set_dropWhileD)
  qed (use dropWhile_Nil_or [of "\<lambda>b. b = 0" src] in simp_all)
  then show ?thesis by (simp add: big_bytes_def set_bytes_drop)
qed

text \<open>C21. Base62 loses nothing: decoding the encoding of any byte string gives that byte string,
  leading zero bytes included.\<close>

theorem base62_roundtrip:
  assumes "\<forall>b\<in>set src. b < 256"
  shows "Base62Decode (Base62Encode src) = Some src"
proof (cases "src = []")
  case True
  then show ?thesis by (simp add: Base62Encode_def Base62Decode_def)
next
  case False
  let ?lz = "leading 0 src" and ?ds = "dropWhile (\<lambda>b. b = 0) src"
  let ?x = "set_bytes src" and ?zero = "base62Alphabet ! 0"
  have src: "replicate ?lz 0 @ ?ds = src" by (rule leading_split)
  have bytes: "big_bytes ?x = ?ds" by (rule big_bytes_set_bytes [OF assms])
  define es where "es = rev (digits_rev 62 ?x)"
  have enc: "Base62Encode src = map (\<lambda>d. base62Alphabet ! d) (replicate ?lz 0 @ es)"
    using False by (auto simp: Base62Encode_def Let_def es_def rev_map)
  have es: "\<forall>d\<in>set es. d < 62" unfolding es_def using digits_rev_less [of 62] by simp
  have head: "es = [] \<or> hd es \<noteq> 0"
    unfolding es_def using digits_rev_last [of 62 ?x]
    by (cases "?x = 0") (simp_all add: hd_rev)
  have "map (\<lambda>d. base62Alphabet ! d) es = [] \<or> hd (map (\<lambda>d. base62Alphabet ! d) es) \<noteq> ?zero"
  proof (cases es)
    case (Cons d ds)
    with es head have "base62Index (base62Alphabet ! d) = Some d" and "d \<noteq> 0"
      by (simp_all add: base62Index_nth)
    moreover have "base62Index ?zero = Some 0" by (simp add: base62Index_nth)
    ultimately show ?thesis using Cons by auto
  qed simp
  then have lead: "leading ?zero (Base62Encode src) = ?lz"
    unfolding enc by (simp add: leading_replicate)
  have digits: "decode_digits 0 (Base62Encode src) = Some ?x"
    unfolding enc using es value_of_digits [of 62 ?x]
    by (subst decode_digits_map) (auto simp: foldl_zeros es_def value_of_def)
  have "Base62Encode src \<noteq> ''''"
  proof
    assume "Base62Encode src = ''''"
    then have "?lz = 0" and "es = []" unfolding enc by simp_all
    then have "?x = 0" unfolding es_def using digits_rev_last [of 62 ?x] by auto
    then have "?ds = []" unfolding bytes [symmetric] by (simp add: big_bytes_def)
    with src \<open>?lz = 0\<close> False show False by simp
  qed
  with lead digits bytes src show ?thesis by (simp add: Base62Decode_def)
qed

lemma base62_roundtrip_witness: "Base62Decode (Base62Encode [0, 0, 7, 255]) = Some [0, 0, 7, 255]"
  by (rule base62_roundtrip) simp

section \<open>Tokens\<close>

text \<open>What \<open>golang-jwt\<close> documents: \<open>NewNumericDate\<close> cuts a time to whole seconds; a token signed with the key is read as
  the claims it was made of, if their dates are whole seconds, they name the expected issuer, they are not used
  before their first moment, and not from the moment of their expiry on.\<close>

definition NumericDate :: "time \<Rightarrow> time" where
  "NumericDate t = t div 1000000 * 1000000"

definition jwt_documented :: "crypto \<Rightarrow> string \<Rightarrow> bool" where
  "jwt_documented cr secret \<longleftrightarrow> jwt_date cr = NumericDate \<and>
     (\<forall>c tok. jwt_sign cr c secret = Some tok \<longrightarrow> tok \<noteq> [] \<and>
        (NumericDate (c_issued c) = c_issued c \<and> NumericDate (c_not_before c) = c_not_before c \<and>
         NumericDate (c_expires c) = c_expires c \<longrightarrow>
         (\<forall>iss now. jwt_parse cr tok secret iss now =
            (if c_issuer c = iss \<and> c_not_before c \<le> now \<and> now < c_expires c then Some c else None))))"

lemma NumericDate_idem [simp]: "NumericDate (NumericDate t) = NumericDate t"
  by (simp add: NumericDate_def)

lemma NumericDate_bounds: "NumericDate t \<le> t" "t < NumericDate t + 1000000"
  unfolding NumericDate_def by presburger+

text \<open>C20. An access token the server hands out is accepted from the second in which it was issued until the last
  whole second of its lifetime, which may be up to a second earlier than issue and lifetime say, and at no
  other time; then with exactly the identity it was made for: user, tenant, role and session.  The hypotheses
  are what the JWT and UUID packages document.\<close>

theorem access_token_roundtrip:
  assumes "jwt_documented cr secret"
    and "\<And>i. uuid_parse cr (uuid_string cr i) = Some i" and "\<And>i. uuid_string cr i \<noteq> []"
    and "GenerateAccessToken cr userID tenantID role secret ttl sessionID issued = Some tok"
  shows "if NumericDate issued \<le> now \<and> now < NumericDate (issued + ttl)
    then \<exists>c. ValidateAccessToken cr tok secret now = Some c \<and> c_role c = role \<and>
      UserID cr (Some c) = Some userID \<and> TenantUUID cr (Some c) = Some tenantID \<and>
      SessionID cr (Some c) = Some sessionID
    else ValidateAccessToken cr tok secret now = None"
proof -
  from assms(4) obtain c where long: "\<not> length secret < 32" and valid: "Valid (ParseRole role)"
    and c: "NewClaims cr userID tenantID role issued ttl sessionID = Some c"
    and sign: "jwt_sign cr c secret = Some tok"
    by (auto simp: GenerateAccessToken_def split: if_splits option.splits)
  from c have fields: "c_tenant_id c = uuid_string cr tenantID" "c_role c = role"
      "c_sid c = (if sessionID = uuid_nil then [] else uuid_string cr sessionID)"
      "c_subject c = uuid_string cr userID"
    and dates: "c_issuer c = issuer" "c_issued c = NumericDate issued" "c_not_before c = NumericDate issued"
      "c_expires c = NumericDate (issued + ttl)"
    using assms(1) by (auto simp: NewClaims_def jwt_documented_def split: if_splits)
  have "tok \<noteq> []" and parsed: "jwt_parse cr tok secret issuer now =
      (if NumericDate issued \<le> now \<and> now < NumericDate (issued + ttl) then Some c else None)"
    using assms(1) sign unfolding jwt_documented_def by (auto simp: dates)
  with fields long valid assms(2,3) show ?thesis
    by (simp add: ValidateAccessToken_def UserID_def TenantUUID_def SessionID_def)
qed

text \<open>A signing scheme and a text form of UUIDs to try the theorem on: the token of claims is their
  fields in a row, the text of a UUID as many characters.\<close>

definition unary :: "nat \<Rightarrow> string" where
  "unary n = replicate (Suc n) CHR ''u''"

definition toy_claims :: claims where
  "toy_claims = \<lparr>c_tenant_id = unary 2, c_role = ''admin'', c_sid = [], c_subject = unary 1, c_issuer = issuer,
     c_issued = 100000000, c_not_before = 100000000, c_expires = 160000000\<rparr>"

definition toy_crypto :: crypto where
  "toy_crypto = \<lparr>sha256_hex = (\<lambda>s. s), bcrypt_hash = (\<lambda>p n. Some p), bcrypt_ok = (\<lambda>h p. h = p),
     jwt_date = NumericDate, jwt_sign = (\<lambda>c k. if c = toy_claims then Some (''token'') else None),
     jwt_parse = (\<lambda>t k iss now. if t = ''token'' \<and> iss = issuer \<and> 100000000 \<le> now \<and> now < 160000000
       then Some toy_claims else None),
     uuid_string = unary, uuid_parse = (\<lambda>s. Some (length s - 1))\<rparr>"

text \<open>Issued half a second after a full one, for a minute: still good in the last microsecond of the sixtieth second.\<close>

lemma access_token_roundtrip_witness:
  "(\<exists>c. ValidateAccessToken toy_crypto ''token'' (replicate 32 CHR ''k'') 159999999 = Some c \<and>
     c_role c = ''admin'') \<and> ValidateAccessToken toy_crypto ''token'' (replicate 32 CHR ''k'') 160000000 = None"
proof -
  let ?k = "replicate 32 CHR ''k''"
  have made: "GenerateAccessToken toy_crypto 1 2 ''admin'' ?k 60000000 0 100500000 = Some ''token''"
    by code_simp
  have "jwt_documented toy_crypto ?k"
    by (auto simp: jwt_documented_def toy_crypto_def toy_claims_def split: if_splits)
  note valid = access_token_roundtrip [OF this _ _ made]
  have u: "uuid_parse toy_crypto (uuid_string toy_crypto i) = Some i" "uuid_string toy_crypto i \<noteq> []" for i
    by (simp_all add: toy_crypto_def unary_def)
  show ?thesis
    using valid [OF u, of 159999999] valid [OF u, of 160000000] by (auto simp: NumericDate_def)
qed

text \<open>An API key is what its record says: the key starts with the stored prefix, which is at
  most 12 characters and names the kind of key, and its hash is the one under which the key is
  looked up; a hint other than live and test gives no key.\<close>

theorem GenerateAPIKey_parts:
  "case fst (GenerateAPIKey cr hint n w) of
     Some (raw, hash, pre) \<Rightarrow>
       prefix pre raw \<and> length pre \<le> 12 \<and> hash = HashAPIKey cr raw \<and>
       (prefix ''fs_live_'' pre \<or> prefix ''fs_test_'' pre)
   | None \<Rightarrow> normalizeEnvHint hint = None \<or> fst (generateOpaqueToken n w) = None"
proof (cases "normalizeEnvHint hint")
  case None
  then show ?thesis by (simp add: GenerateAPIKey_def)
next
  case (Some h)
  then have h: "h = ''live'' \<or> h = ''test''"
    by (auto simp: normalizeEnvHint_def Let_def split: if_splits)
  show ?thesis
  proof (cases "generateOpaqueToken n w")
    case (Pair t w')
    with Some h show ?thesis
      by (cases t) (auto simp: GenerateAPIKey_def Let_def apiKeyPrefixLength_def take_is_prefix)
  qed
qed

end
