(* ===== verification/Samples.thy ===== *)
theory Samples
  imports Auth_Correct Routes
begin

text \<open>
  A small instance of everything the model takes from elsewhere, to try the theorems on: a server
  whose access tokens are the names of roles, and a database of two tenants with one project each.
\<close>

definition sample_claims :: "string \<Rightarrow> claims" where
  "sample_claims role =
     \<lparr>c_tenant_id = unary 1, c_role = role, c_sid = '''', c_subject = unary 1,
      c_issuer = issuer, c_issued = 0, c_not_before = 0, c_expires = 1000000\<rparr>"

definition sample_crypto :: crypto where
  "sample_crypto =
     \<lparr>sha256_hex = (\<lambda>s. s), bcrypt_hash = (\<lambda>p n. Some p), bcrypt_ok = (\<lambda>h p. h = p),
      jwt_date = id, jwt_sign = (\<lambda>c k. Some (c_role c)),
      jwt_parse = (\<lambda>t k iss now. if iss = issuer \<and> now < 1000000 then Some (sample_claims t) else None),
      uuid_string = unary, uuid_parse = (\<lambda>s. Some (length s - 1))\<rparr>"

definition sample_server :: server where
  "sample_server =
     \<lparr>sv_crypto = sample_crypto, sv_regex = (\<lambda>p s. None), sv_parse_ip = Some, sv_mail_ok = (\<lambda>_. True),
      sv_parse_time = (\<lambda>_. None), sv_unmarshal_time = (\<lambda>_. None), sv_jwt_secret = replicate 32 CHR ''k'',
      sv_access_ttl = 900000000, sv_refresh_ttl = 5000, sv_bcrypt_cost = 12, sv_fake_hash = ''''\<rparr>"

definition sample_world :: "database \<Rightarrow> world" where
  "sample_world d =
     \<lparr>db = d, published = [], login_windows = [], refresh_windows = [], tick = 0, tx_now = None,
      clock = (\<lambda>_. 1000), new_uuid = (\<lambda>n. 100 + n), random_bytes = (\<lambda>n k. Some (replicate k 7)),
      fault = (\<lambda>_. False), serialization = (\<lambda>_. False)\<rparr>"

definition sample_request :: "string \<Rightarrow> string \<Rightarrow> body \<Rightarrow> http_request" where
  "sample_request m authorization b =
     \<lparr>rq_method = m, rq_path = [], rq_query = [], rq_body = b, rq_body_size = 100,
      rq_text_len = (\<lambda>_. 10), rq_content_type = ''application/json'',
      rq_authorization = authorization, rq_user_agent = '''', rq_forwarded_for = '''', rq_real_ip = '''',
      rq_remote_addr = ''10.0.0.1:80'', rq_refresh_cookie = None, cx_claims = None, cx_env = uuid_nil,
      cx_api_key = uuid_nil\<rparr>"

definition sample_tenant :: "uuid \<Rightarrow> string \<Rightarrow> tenant" where
  "sample_tenant i slug =
     \<lparr>t_id = i, t_slug = slug, t_name = slug, t_plan = ''free'', t_created = 1, t_updated = 1\<rparr>"

definition sample_user :: "uuid \<Rightarrow> string \<Rightarrow> user" where
  "sample_user i email =
     \<lparr>u_id = i, u_email = email, u_password_hash = Some ''secret'', u_email_verified = None,
      u_last_login = None, u_created = 1, u_updated = 1\<rparr>"

definition sample_member :: "uuid \<Rightarrow> tenant_member" where
  "sample_member i = \<lparr>m_tenant = i, m_user = i, m_role = ''owner'', m_created = 1\<rparr>"

definition sample_project :: "uuid \<Rightarrow> string \<Rightarrow> project" where
  "sample_project i slug =
     \<lparr>p_id = i, p_tenant = i, p_slug = slug, p_name = slug, p_created = 1, p_updated = 1\<rparr>"

definition sample_environment :: "uuid \<Rightarrow> string \<Rightarrow> environment" where
  "sample_environment i slug =
     \<lparr>e_id = i, e_project = i, e_slug = slug, e_name = slug, e_created = 1, e_updated = 1\<rparr>"

definition sample_key :: "uuid \<Rightarrow> string \<Rightarrow> api_key" where
  "sample_key i hash =
     \<lparr>k_id = i, k_env = i, k_name = ''key'', k_hash = hash, k_prefix = ''fs_live_abcd'', k_last_used = None,
      k_expires = None, k_revoked = None, k_created = 1, k_created_by = Some i\<rparr>"

definition sample_flag :: "uuid \<Rightarrow> string \<Rightarrow> flag" where
  "sample_flag i key =
     \<lparr>f_id = i, f_project = i, f_key = key, f_name = key, f_description = None, f_type = ''boolean'',
      f_default = Some (JBool False), f_archived = None, f_created = 1, f_updated = 1,
      f_created_by = Some i\<rparr>"

definition sample_flag_env :: "uuid \<Rightarrow> flag_environment" where
  "sample_flag_env i =
     \<lparr>fe_flag = i, fe_env = i, fe_enabled = True, fe_rules = Some (JArr []), fe_default = None,
      fe_version = 3, fe_created = 1, fe_updated = 1, fe_updated_by = None\<rparr>"

definition sample_db :: database where
  "sample_db =
     \<lparr>tenants = [sample_tenant 1 ''acme'', sample_tenant 2 ''globex''],
      users = [sample_user 1 ''a@x'', sample_user 2 ''b@y''],
      members = [sample_member 1, sample_member 2], sessions = [],
      projects = [sample_project 1 ''web'', sample_project 2 ''app''],
      environments = [sample_environment 1 ''prod'', sample_environment 2 ''live''],
      api_keys = [sample_key 1 ''h1'', sample_key 2 ''h2''],
      flags = [sample_flag 1 ''f1'', sample_flag 2 ''f2''],
      flag_envs = [sample_flag_env 1, sample_flag_env 2], segment_rows = [],
      login_attempts = [], revoked_tokens = [], audit_log = []\<rparr>"

lemmas sample_defs =
  sample_claims_def sample_crypto_def sample_server_def sample_world_def sample_request_def
  sample_tenant_def sample_user_def sample_member_def sample_project_def sample_environment_def
  sample_key_def sample_flag_def sample_flag_env_def sample_db_def unary_def

lemma sample_simps [simp]:
  "db (sample_world d) = d" "published (sample_world d) = []"
  "fe_flag (sample_flag_env i) = i" "fe_env (sample_flag_env i) = i" "fe_version (sample_flag_env i) = 3"
  "flag_envs sample_db = [sample_flag_env 1, sample_flag_env 2]"
  by (simp_all add: sample_world_def sample_flag_env_def sample_db_def)

end
