(* ===== verification/Access.thy ===== *)
theory Access
  imports Frames Samples
begin

text \<open>
  Who may do what: authentication before every management request, the permission matrix of
  \<open>SECURITY.md\<close>, and what follows for the configuration.
\<close>

section \<open>The caller\<close>

text \<open>The claims \<open>AuthJWT\<close> finds, from the header of the request and the time.\<close>

definition caller :: "server \<Rightarrow> http_request \<Rightarrow> world \<Rightarrow> claims option" where
  "caller sv r w =
     (case extractBearerToken r of
        None \<Rightarrow> None
      | Some t \<Rightarrow> ValidateAccessToken (sv_crypto sv) t (sv_jwt_secret sv) (clock w (tick w)))"

definition caller_has :: "server \<Rightarrow> http_request \<Rightarrow> world \<Rightarrow> role \<Rightarrow> bool" where
  "caller_has sv r w minimum \<longleftrightarrow>
     (case caller sv r w of None \<Rightarrow> False | Some c \<Rightarrow> AtLeast (ParseRole (c_role c)) minimum)"

definition unsupported_media :: response where
  "unsupported_media = Error 415 ''UNSUPPORTED_MEDIA_TYPE''"

definition forbidden :: response where
  "forbidden = Error 403 ''INSUFFICIENT_PERMISSIONS''"

text \<open>The request as the body limit of a route leaves it.\<close>

definition limited :: "guard list \<Rightarrow> http_request \<Rightarrow> http_request" where
  "limited gs r =
     (if GBodyLimit 1048576 \<in> set gs \<and> rq_body r \<noteq> NoBody \<and> 1048576 < rq_body_size r
      then r\<lparr>rq_body := BodyOverLimit\<rparr> else r)"

definition media_ok :: "guard list \<Rightarrow> http_request \<Rightarrow> bool" where
  "media_ok gs r \<longleftrightarrow>
     GJSON \<in> set gs \<longrightarrow> rq_method r \<in> {''POST'', ''PUT'', ''PATCH''} \<longrightarrow> hasJSONContentType (rq_content_type r)"

lemma AuthJWT_caller:
  "AuthJWT sv next r w =
     (case caller sv r w of None \<Rightarrow> (not_authenticated, w) | Some c \<Rightarrow> next (r\<lparr>cx_claims := Some c\<rparr>) w)"
  by (simp add: AuthJWT_def caller_def reply_def with_now_def split: option.split)

lemma caller_request_simps [simp]:
  "caller sv (r\<lparr>rq_body := b\<rparr>) w = caller sv r w" "caller sv (r\<lparr>rq_path := p\<rparr>) w = caller sv r w"
  by (simp_all add: caller_def extractBearerToken_def)

lemma media_ok_path [simp]: "media_ok gs (r\<lparr>rq_path := p\<rparr>) = media_ok gs r"
  by (simp add: media_ok_def)

text \<open>What the middleware of a management route does, the body limit and the content type first.\<close>

lemma run_login_route:
  assumes "rt_guards rt = pre @ GJWT # gs" and "pre = [] \<or> pre = json_body"
  shows "run_route sv rt r w =
    (if \<not> media_ok pre r then (unsupported_media, w)
     else case caller sv r w of
         None \<Rightarrow> (not_authenticated, w)
       | Some c \<Rightarrow> withMiddleware (rt_handler rt) (map (apply_guard sv) gs)
           ((limited pre r)\<lparr>cx_claims := Some c\<rparr>) w)"
  using assms
  by (auto simp: run_route_def json_body_def media_ok_def limited_def BodyLimit_def unsupported_media_def
      RequireJSONContentType_def reply_def AuthJWT_caller split: option.split)

lemma RequireRole_caller:
  "RequireRole minimum next (r\<lparr>cx_claims := Some c\<rparr>) w =
     (if AtLeast (ParseRole (c_role c)) minimum then next (r\<lparr>cx_claims := Some c\<rparr>) w else (forbidden, w))"
  by (simp add: RequireRole_def reply_def forbidden_def)

section \<open>Routes that need a login\<close>

definition management_path :: "string list \<Rightarrow> bool" where
  "management_path path \<longleftrightarrow>
     (\<exists>s rest. path = ''api'' # ''v1'' # s # rest \<and> s \<in> {''projects'', ''audit''})"

lemma match_path_Lit [simp]:
  "match_path (Lit l # ps) path = (case path of [] \<Rightarrow> None | s # ss \<Rightarrow> if s = l then match_path ps ss else None)"
  by (cases path) simp_all

lemma management_routes:
  assumes "rt \<in> set (routes sv)" and "match_path (rt_path rt) path \<noteq> None" and "management_path path"
  obtains pre ro where "rt_guards rt = pre @ [GJWT, GRole ro]" and "pre = [] \<or> pre = json_body"
proof -
  have "rt \<in> set (project_routes sv @ flag_routes sv @ segment_routes sv)"
    using assms unfolding routes_def account_routes_def sdk_routes_def management_path_def route_def
    by auto
  then show ?thesis
    unfolding project_routes_def flag_routes_def segment_routes_def route_def
    by (auto intro: that [of "[]"] that [of json_body])
qed

lemma find_route_matches: "find_route rts m path = Some (rt, b) \<Longrightarrow> match_path (rt_path rt) path = Some b"
  by (auto simp: find_route_def split: option.splits)

text \<open>C5. Without a valid access token no management request does anything: the answer is 401, or 404
  or 405 for a path no route has, or 415 for a body of another content type, with no payload; the
  database, the published events and the limiter's windows stay as they are.\<close>

theorem management_needs_token:
  assumes "management_path path" and "caller sv r w = None"
  shows "snd (serve sv path r w) = w \<and> rs_status (fst (serve sv path r w)) \<in> {401, 404, 405, 415} \<and>
    rs_payload (fst (serve sv path r w)) = PNone"
proof (cases "find_route (routes sv) (rq_method r) path")
  case None
  then show ?thesis by (simp add: serve_def reply_def Error_def)
next
  case (Some found)
  obtain rt b where f: "found = (rt, b)" by (cases found)
  have "rt \<in> set (routes sv)" "match_path (rt_path rt) path \<noteq> None"
    using Some f by (auto dest: find_route_in find_route_matches)
  then obtain pre ro where "rt_guards rt = pre @ [GJWT, GRole ro]" "pre = [] \<or> pre = json_body"
    using assms(1) by (rule management_routes)
  then have "serve sv path r w = (unsupported_media, w) \<or> serve sv path r w = (not_authenticated, w)"
    using Some f assms(2) by (simp add: serve_def run_login_route)
  then show ?thesis by (auto simp: unsupported_media_def not_authenticated_def Error_def)
qed

lemma sample_caller [simp]: "caller sv (sample_request m '''' b) w = None"
  by (simp add: caller_def extractBearerToken_def sample_request_def has_prefix_def starts_with_def)

lemma management_needs_token_witness:
  "snd (serve sample_server [''api'', ''v1'', ''projects''] (sample_request ''GET'' '''' NoBody)
     (sample_world sample_db)) = sample_world sample_db"
  by (rule conjunct1 [OF management_needs_token]) (simp_all add: management_path_def)

section \<open>The permission matrix\<close>

text \<open>
  The rows of the table in \<open>SECURITY.md\<close> that have a route, with the least role and the handler; then
  the routes the table does not name.
\<close>

definition permission_matrix :: "server \<Rightarrow> (string \<times> path_segment list \<times> role \<times> handler) list" where
  "permission_matrix sv =
     [(''GET'', a_project @ [Lit ''flags''], RoleViewer, handleListFlags sv),
      (''GET'', a_flag, RoleViewer, handleGetFlag sv),
      (''POST'', a_project @ [Lit ''flags''], RoleMember, handleCreateFlag sv),
      (''PUT'', a_flag, RoleMember, handleUpdateFlag sv),
      (''PUT'', a_flag @ [Lit ''environments'', Var ''envSlug''], RoleMember, handleUpdateFlagEnvironment sv),
      (''PATCH'', a_flag @ [Lit ''environments'', Var ''envSlug''], RoleMember, handleToggleFlagEnvironment sv),
      (''DELETE'', a_flag, RoleAdmin, handleArchiveFlag sv),
      (''GET'', a_project @ [Lit ''segments''], RoleViewer, handleListSegments sv),
      (''GET'', a_segment, RoleViewer, handleGetSegment sv),
      (''POST'', a_project @ [Lit ''segments''], RoleMember, handleCreateSegment sv),
      (''PUT'', a_segment, RoleMember, handleUpdateSegment sv),
      (''DELETE'', a_segment, RoleAdmin, handleArchiveSegment sv),
      (''GET'', a_project @ [Lit ''environments''], RoleViewer, handleListEnvironments sv),
      (''POST'', a_project @ [Lit ''environments''], RoleAdmin, handleCreateEnvironment sv),
      (''DELETE'', an_environment, RoleOwner, handleDeleteEnvironment sv),
      (''GET'', an_environment @ [Lit ''apikeys''], RoleMember, handleListAPIKeys sv),
      (''POST'', an_environment @ [Lit ''apikeys''], RoleAdmin, handleCreateAPIKey sv),
      (''DELETE'', an_environment @ [Lit ''apikeys'', Var ''id''], RoleAdmin, handleRevokeAPIKey sv),
      (''GET'', [Lit ''audit''], RoleViewer, handleAuditLog sv),
      (''POST'', [Lit ''projects''], RoleAdmin, handleCreateProject sv),
      (''GET'', [Lit ''projects''], RoleViewer, handleListProjects sv),
      (''GET'', a_project, RoleViewer, handleGetProject sv),
      (''PUT'', a_project, RoleAdmin, handleUpdateProject sv),
      (''GET'', a_flag @ [Lit ''environments'', Var ''envSlug''], RoleViewer, handleGetFlagEnvironment sv),
      (''GET'', an_environment @ [Lit ''flag-states''], RoleViewer, handleListFlagStates sv)]"

definition body_guards :: "string \<Rightarrow> guard list" where
  "body_guards m = (if m \<in> {''POST'', ''PUT'', ''PATCH''} then json_body else [])"

lemma match_path_Var [simp]:
  "match_path (Var v # ps) path = (case path of [] \<Rightarrow> None | s # ss \<Rightarrow>
     if s = '''' then None else map_option (\<lambda>b. (v, s) # b) (match_path ps ss))"
  by (cases path) simp_all

lemma match_path_Nil [simp]: "match_path [] path = (if path = [] then Some [] else None)"
  by (cases path) simp_all

text \<open>Two patterns that a path may both match; the table has no two such routes of one method.\<close>

fun overlap :: "path_segment list \<Rightarrow> path_segment list \<Rightarrow> bool" where
  "overlap [] [] = True"
| "overlap (Lit a # ps) (Lit b # qs) = (a = b \<and> overlap ps qs)"
| "overlap (_ # ps) (_ # qs) = overlap ps qs"
| "overlap _ _ = False"

fun unambiguous :: "(string \<times> path_segment list) list \<Rightarrow> bool" where
  "unambiguous [] = True"
| "unambiguous (k # ks) =
     (list_all (\<lambda>k'. \<not> (fst k = fst k' \<and> overlap (snd k) (snd k'))) ks \<and> unambiguous ks)"

definition route_key :: "route \<Rightarrow> string \<times> path_segment list" where
  "route_key rt = (rt_method rt, rt_path rt)"

lemma match_path_tail:
  "match_path (p # ps) (x # xs) = Some b \<Longrightarrow> \<exists>b'. match_path ps xs = Some b'"
  by (cases p) (auto split: if_splits)

lemma overlap_match: "match_path ps path = Some b \<Longrightarrow> match_path qs path = Some c \<Longrightarrow> overlap ps qs"
  by (induction ps qs arbitrary: path b c rule: overlap.induct)
     (auto split: list.splits if_splits dest!: match_path_tail)

lemma overlap_sym: "overlap ps qs = overlap qs ps"
  by (induction ps qs rule: overlap.induct) auto

lemma unambiguous_unique:
  assumes "unambiguous (map route_key rts)" and "rt1 \<in> set rts" and "rt2 \<in> set rts"
    and "rt_method rt1 = rt_method rt2" and "overlap (rt_path rt1) (rt_path rt2)"
  shows "rt1 = rt2"
  using assms
  by (induction rts) (auto simp: route_key_def list_all_iff overlap_sym)

lemma routes_unambiguous: "unambiguous (map route_key (routes sv))"
  unfolding routes_def account_routes_def project_routes_def flag_routes_def segment_routes_def
    sdk_routes_def route_def route_key_def
  by simp

lemma matrix_in_routes:
  "(m, p, ro, h) \<in> set (permission_matrix sv) \<Longrightarrow>
   route m p (body_guards m @ [GJWT, GRole ro]) h \<in> set (routes sv) \<and> m \<noteq> ''HEAD''"
  unfolding permission_matrix_def
  by (simp only: list.set insert_iff empty_iff prod.inject simp_thms)
     (elim disjE conjE; simp add: routes_def account_routes_def project_routes_def flag_routes_def
      segment_routes_def sdk_routes_def body_guards_def json_body_def)

lemma matching_route:
  assumes "rt \<in> set (routes sv)" and "match_path (rt_path rt) path = Some b" and "rt_method rt \<noteq> ''HEAD''"
  shows "find_route (routes sv) (rt_method rt) path = Some (rt, b)"
proof -
  let ?p = "\<lambda>rt'. method_matches (rt_method rt') (rt_method rt) \<and> match_path (rt_path rt') path \<noteq> None"
  have "?p rt" using assms(2) by (simp add: method_matches_def)
  with assms(1) obtain rt' where f: "find ?p (routes sv) = Some rt'"
    by (cases "find ?p (routes sv)") (auto simp: find_None_iff)
  then have rt': "rt' \<in> set (routes sv)" "?p rt'" by (auto dest: find_Some_in)
  then have "rt_method rt' = rt_method rt" "overlap (rt_path rt') (rt_path rt)"
    using assms(2,3) overlap_match by (auto simp: method_matches_def)
  then have "rt' = rt"
    using unambiguous_unique [OF routes_unambiguous rt'(1) assms(1)] by simp
  with f assms(2) show ?thesis by (simp add: find_route_def)
qed

lemma matrix_serves:
  assumes "(rq_method r, p, ro, h) \<in> set (permission_matrix sv)"
    and "match_path (Lit ''api'' # Lit ''v1'' # p) path = Some b"
    and "caller sv r w = Some c"
  shows "serve sv path r w =
    (if \<not> media_ok (body_guards (rq_method r)) r then (unsupported_media, w)
     else if \<not> AtLeast (ParseRole (c_role c)) ro then (forbidden, w)
     else h ((limited (body_guards (rq_method r)) (r\<lparr>rq_path := b\<rparr>))\<lparr>cx_claims := Some c\<rparr>) w)"
proof -
  let ?gs = "body_guards (rq_method r)" and ?r = "r\<lparr>rq_path := b\<rparr>"
  let ?rt = "route (rq_method r) p (?gs @ [GJWT, GRole ro]) h"
  have rt: "rt_guards ?rt = ?gs @ GJWT # [GRole ro]" "rt_handler ?rt = h" by (simp_all add: route_def)
  have "?rt \<in> set (routes sv)" "rq_method r \<noteq> ''HEAD''"
    using matrix_in_routes [OF assms(1)] by auto
  then have "find_route (routes sv) (rq_method r) path = Some (?rt, b)"
    using matching_route [of ?rt sv path b] assms(2) by (simp add: route_def)
  then have "serve sv path r w = run_route sv ?rt ?r w" by (simp add: serve_def)
  also have "?gs = [] \<or> ?gs = json_body" by (simp add: body_guards_def)
  from run_login_route [OF rt(1) this]
  have "run_route sv ?rt ?r w =
    (if \<not> media_ok ?gs ?r then (unsupported_media, w)
     else RequireRole ro h ((limited ?gs ?r)\<lparr>cx_claims := Some c\<rparr>) w)"
    using assms(3) by (simp only: caller_request_simps rt(2)) simp
  finally show ?thesis by (auto simp: RequireRole_caller)
qed

text \<open>C3. The permission matrix: for every action of the table in SECURITY.md (and the routes it leaves
  out), a request with a valid token is refused with 403 exactly when the caller's role is below the
  one of the table, before anything is read or written; otherwise the handler of that action runs,
  with the caller's claims.  A body of another content type is refused first.\<close>

theorem permission_matrix_enforced:
  assumes "(rq_method r, p, ro, h) \<in> set (permission_matrix sv)"
    and "match_path (Lit ''api'' # Lit ''v1'' # p) path = Some b"
    and "caller sv r w = Some c"
  shows "serve sv path r w =
    (if \<not> media_ok (body_guards (rq_method r)) r then (unsupported_media, w)
     else if \<not> AtLeast (ParseRole (c_role c)) ro then (forbidden, w)
     else h ((limited (body_guards (rq_method r)) (r\<lparr>rq_path := b\<rparr>))\<lparr>cx_claims := Some c\<rparr>) w)"
  using assms by (rule matrix_serves)

lemma sound_sample: "sound sample_db"
  by code_simp

text \<open>The caller of a request of the sample server is the role its token names.\<close>

lemma sample_role:
  assumes "role \<in> {''owner'', ''admin'', ''member'', ''viewer''}"
  shows "caller sample_server (sample_request m (''Bearer '' @ role) b) (sample_world d) =
    Some (sample_claims role)"
proof -
  from assms have "extractBearerToken (sample_request m (''Bearer '' @ role) b) = Some role"
    by (auto simp: extractBearerToken_def sample_request_def has_prefix_def starts_with_def; code_simp)
  moreover have "ValidateAccessToken sample_crypto role (replicate 32 CHR ''k'') 1000 = Some (sample_claims role)"
    using assms by (elim insertE emptyE; hypsubst; code_simp)
  ultimately show ?thesis
    by (simp add: caller_def sample_server_def sample_world_def)
qed

lemma permission_matrix_enforced_witness:
  "serve sample_server [''api'', ''v1'', ''projects'', ''web'', ''flags'', ''f1'']
     (sample_request ''DELETE'' ''Bearer member'' NoBody) (sample_world sample_db) =
   (forbidden, sample_world sample_db)"
proof -
  let ?r = "sample_request ''DELETE'' (''Bearer '' @ ''member'') NoBody"
  have "(rq_method ?r, a_flag, RoleAdmin, handleArchiveFlag sample_server) \<in>
      set (permission_matrix sample_server)"
    by (simp add: permission_matrix_def sample_request_def)
  moreover have "match_path (Lit ''api'' # Lit ''v1'' # a_flag)
      [''api'', ''v1'', ''projects'', ''web'', ''flags'', ''f1''] = Some [(''slug'', ''web''), (''key'', ''f1'')]"
    by simp
  moreover have "caller sample_server ?r (sample_world sample_db) = Some (sample_claims ''member'')"
    using sample_role [of "''member''"] by simp
  moreover have "\<not> AtLeast (ParseRole (c_role (sample_claims ''member''))) RoleAdmin"
      "media_ok (body_guards ''DELETE'') ?r"
    by (simp_all add: sample_claims_def media_ok_def body_guards_def, code_simp)
  ultimately show ?thesis
    using permission_matrix_enforced [of ?r a_flag RoleAdmin "handleArchiveFlag sample_server" sample_server]
    by (simp add: sample_request_def)
qed

section \<open>Changing the configuration\<close>

lemma routes_that_write:
  assumes "rt \<in> set (routes sv)"
  shows "(\<forall>r. ok same_config (\<lambda>_. True) (rt_handler rt r)) \<or>
    (\<exists>pre ro. rt_guards rt = pre @ [GJWT, GRole ro] \<and> (pre = [] \<or> pre = json_body) \<and>
       AtLeast ro RoleMember)"
  using assms unfolding routes_def account_routes_def project_routes_def flag_routes_def
    segment_routes_def sdk_routes_def route_def
  by (simp only: set_append Un_iff list.set insert_iff empty_iff simp_thms)
     (elim disjE; simp add: config_rules AtLeast_def)

text \<open>C6. Only members and above change the configuration: whatever the request, if its caller has no
  valid token or one of a lower role, then projects, environments, flags, their settings in the
  environments, and segments are afterwards as they were.\<close>

theorem config_change_needs_member:
  assumes "\<not> caller_has sv r w RoleMember"
  shows "config_of (db (snd (serve sv path r w))) = config_of (db w)"
proof (cases "find_route (routes sv) (rq_method r) path")
  case None
  then show ?thesis by (simp add: serve_def reply_def)
next
  case (Some found)
  obtain rt b where f: "found = (rt, b)" by (cases found)
  let ?r = "r\<lparr>rq_path := b\<rparr>"
  have serve: "serve sv path r w = run_route sv rt ?r w" using Some f by (simp add: serve_def)
  from Some f have "rt \<in> set (routes sv)" by (auto dest: find_route_in)
  from routes_that_write [OF this] show ?thesis
  proof
    assume "\<forall>r. ok same_config (\<lambda>_. True) (rt_handler rt r)"
    then have "ok same_config (\<lambda>_. True) (run_route sv rt ?r)" by (blast intro: config.ok_run_route)
    from okD [OF this, of w] show ?thesis by (simp add: same_config_def serve)
  next
    assume "\<exists>pre ro. rt_guards rt = pre @ [GJWT, GRole ro] \<and> (pre = [] \<or> pre = json_body) \<and>
      AtLeast ro RoleMember"
    then obtain pre ro where "rt_guards rt = pre @ [GJWT, GRole ro]" "pre = [] \<or> pre = json_body"
        "AtLeast ro RoleMember" by blast
    then have "snd (run_route sv rt ?r w) = w"
      using assms
      by (auto simp: run_login_route RequireRole_caller caller_has_def AtLeast_def split: option.splits)
    then show ?thesis by (simp add: serve)
  qed
qed

lemma config_change_needs_member_witness:
  "config_of (db (snd (serve sample_server [''api'', ''v1'', ''projects''] (sample_request ''POST'' ''Bearer viewer'' (BodyDoc JNull False))
     (sample_world sample_db)))) = config_of sample_db"
proof -
  let ?r = "sample_request ''POST'' (''Bearer '' @ ''viewer'') (BodyDoc JNull False)"
  have "caller sample_server ?r (sample_world sample_db) = Some (sample_claims ''viewer'')"
    using sample_role [of "''viewer''"] by simp
  moreover have "\<not> AtLeast (ParseRole (c_role (sample_claims ''viewer''))) RoleMember"
    by (simp add: sample_claims_def, code_simp)
  ultimately have "\<not> caller_has sample_server ?r (sample_world sample_db) RoleMember"
    by (simp add: caller_has_def)
  from config_change_needs_member [OF this] show ?thesis by (simp add: sample_world_def)
qed

end
