(* ===== verification/Outcomes.thy ===== *)
theory Outcomes
  imports Frames
begin

text \<open>
  The outcomes of the operations the handlers are made of, as case distinctions: a lookup finds a row
  of the tables as they are or ends the request; a write happens as a whole or not at all.
\<close>

lemma response_simps [simp]:
  "rs_status (Error n c) = n" "rs_code (Error n c) = c" "rs_payload (Error n c) = PNone"
  "rs_cookie (Error n c) = None" "rs_status (JSON n p) = n" "rs_code (JSON n p) = ''''"
  "rs_payload (JSON n p) = p" "rs_cookie (JSON n p) = None" "rs_status NoContent = 204"
  "rs_payload NoContent = PNone" "rs_status internal_error = 500" "rs_payload internal_error = PNone"
  by (simp_all add: Error_def JSON_def NoContent_def internal_error_def)

section \<open>Lookups\<close>

lemma attempt_read:
  assumes "reads m \<Phi>"
  obtains (failed) e n where "attempt m h k w = h e (w\<lparr>tick := n\<rparr>)"
  | (found) x n where "attempt m h k w = k x (w\<lparr>tick := n\<rparr>)" and "\<Phi> x (db w)"
proof -
  from assms obtain n where "snd (m w) = w\<lparr>tick := n\<rparr>" by (auto simp: reads_def)
  moreover have "fst (m w) = Inr x \<Longrightarrow> \<Phi> x (db w)" for x using assms by (simp add: reads_def)
  ultimately show thesis
    by (cases "fst (m w)"; cases "m w") (auto simp: attempt_def intro: failed found)
qed

text \<open>The reply of a lookup that ends the request: 404 or 500 without a payload.\<close>

definition gives_up :: "response \<times> world \<Rightarrow> world \<Rightarrow> bool" where
  "gives_up res w \<longleftrightarrow> (\<exists>n. snd res = w\<lparr>tick := n\<rparr>) \<and> rs_status (fst res) \<in> {404, 500} \<and>
     rs_payload (fst res) = PNone \<and> rs_cookie (fst res) = None"

lemma gives_up_replies:
  "gives_up (or_not_found missing e (w\<lparr>tick := n\<rparr>)) w" "gives_up (or_internal e (w\<lparr>tick := n\<rparr>)) w"
  by (auto simp: gives_up_def or_not_found_def or_internal_def reply_def internal_error_def Error_def)

lemma reads_project:
  "reads (ProjectStore_GetBySlug tenant slug) (\<lambda>p d. p \<in> set (projects d) \<and>
     p_tenant p = tenant \<and> p_slug p = trim_space slug)"
  unfolding ProjectStore_GetBySlug_def [abs_def] Let_def
  by (rule reads_weaken [OF reads_query(2)]) (auto dest: find_Some_in)

lemma reads_environment:
  "reads (EnvironmentStore_GetBySlug proj slug) (\<lambda>e d. e \<in> set (environments d) \<and>
     e_project e = proj \<and> e_slug e = trim_space slug)"
  unfolding EnvironmentStore_GetBySlug_def [abs_def] Let_def
  by (rule reads_weaken [OF reads_query(2)]) (auto dest: find_Some_in)

lemma reads_flag:
  "reads (FlagStore_GetByKey proj key) (\<lambda>f d. f \<in> set (flags d) \<and>
     f_project f = proj \<and> f_key f = trim_space key \<and> f_archived f = None)"
  unfolding FlagStore_GetByKey_def [abs_def] Let_def
  by (rule reads_weaken [OF reads_query(2)]) (auto dest: find_Some_in)

lemma reads_segment:
  "reads (SegmentStore_GetByKey proj key) (\<lambda>g d. g \<in> set (segment_rows d) \<and>
     g_project g = proj \<and> g_key g = trim_space key \<and> g_archived g = None)"
  unfolding SegmentStore_GetByKey_def [abs_def] Let_def
  by (rule reads_weaken [OF reads_query(2)]) (auto dest: find_Some_in)

lemma reads_project_environments:
  "reads (EnvironmentStore_ListByProject proj) (\<lambda>es d. \<forall>e\<in>set es. e \<in> set (environments d) \<and> e_project e = proj)"
  unfolding EnvironmentStore_ListByProject_def [abs_def]
  by (rule reads_weaken [OF reads_query(3)]) (auto simp: order_by_def)

lemma project_of_cases:
  obtains (failed) "gives_up (project_of tenant r k w) w"
  | (found) p n where "project_of tenant r k w = k p (w\<lparr>tick := n\<rparr>)" and "p \<in> set (projects (db w))"
      and "p_tenant p = tenant" and "p_slug p = trim_space (path_value r ''slug'')"
  by (rule attempt_read [OF reads_project, where h = "or_not_found ErrProjectNotFound" and k = k and w = w])
     (auto simp: project_of_def gives_up_replies(1) intro: failed found)

lemma environment_of_cases:
  obtains (failed) "gives_up (environment_of p r k w) w"
  | (found) e n where "environment_of p r k w = k e (w\<lparr>tick := n\<rparr>)" and "e \<in> set (environments (db w))"
      and "e_project e = p_id p" and "e_slug e = trim_space (path_value r ''envSlug'')"
  by (rule attempt_read [OF reads_environment, where h = "or_not_found ErrEnvironmentNotFound" and k = k and w = w])
     (auto simp: environment_of_def gives_up_replies(1) intro: failed found)

lemma flag_of_cases:
  obtains (failed) "gives_up (flag_of p r k w) w"
  | (found) f n where "flag_of p r k w = k f (w\<lparr>tick := n\<rparr>)" and "f \<in> set (flags (db w))"
      and "f_project f = p_id p" and "f_key f = trim_space (path_value r ''key'')"
      and "f_archived f = None"
  by (rule attempt_read [OF reads_flag, where h = "or_not_found ErrFlagNotFound" and k = k and w = w])
     (auto simp: flag_of_def gives_up_replies(1) intro: failed found)

lemma segment_of_cases:
  obtains (failed) "gives_up (segment_of p r k w) w"
  | (found) g n where "segment_of p r k w = k g (w\<lparr>tick := n\<rparr>)" and "g \<in> set (segment_rows (db w))"
      and "g_project g = p_id p" and "g_key g = trim_space (path_value r ''key'')"
      and "g_archived g = None"
  by (rule attempt_read [OF reads_segment, where h = "or_not_found ErrSegmentNotFound" and k = k and w = w])
     (auto simp: segment_of_def gives_up_replies(1) intro: failed found)

section \<open>The beginning of a handler\<close>

text \<open>Decoding and the claims do not touch the world.\<close>

definition refused :: "response \<times> world \<Rightarrow> world \<Rightarrow> bool" where
  "refused res w \<longleftrightarrow> snd res = w \<and> rs_status (fst res) \<in> {400, 401, 413, 415} \<and>
     rs_payload (fst res) = PNone \<and> rs_cookie (fst res) = None"

lemma refused_replies [simp]:
  "refused (invalid w) w" "refused (reply (Error 401 c) w) w" "refused (writeDecodeError e, w) w"
  by (auto simp: refused_def invalid_def reply_def Error_def writeDecodeError_def split: decode_error.split)

lemma decoding_cases:
  obtains (failed) "refused (decoding dec r k w) w"
  | (found) x where "DecodeJSON dec r = Inr x" and "decoding dec r k w = k x w"
proof (cases "DecodeJSON dec r")
  case (Inl e)
  then have "decoding dec r k w = (writeDecodeError e, w)" by (simp add: decoding_def reply_def)
  then show thesis using failed by simp
next
  case (Inr x)
  then show thesis using found by (simp add: decoding_def)
qed

lemma tenant_of_cases:
  obtains (failed) "refused (tenant_of sv r k w) w"
  | (found) t where "TenantUUID (sv_crypto sv) (cx_claims r) = Some t" and "tenant_of sv r k w = k t w"
proof (cases "TenantUUID (sv_crypto sv) (cx_claims r)")
  case None
  then show thesis using failed by (simp add: tenant_of_def)
next
  case (Some t)
  then show thesis using found by (simp add: tenant_of_def)
qed

lemma user_of_cases:
  obtains (failed) "refused (user_of sv r k w) w"
  | (found) u where "UserID (sv_crypto sv) (cx_claims r) = Some u" and "user_of sv r k w = k u w"
proof (cases "UserID (sv_crypto sv) (cx_claims r)")
  case None
  then show thesis using failed by (simp add: user_of_def)
next
  case (Some u)
  then show thesis using found by (simp add: user_of_def)
qed

section \<open>Audit entries\<close>

lemma AuditStore_Insert_cases:
  obtains (failed) e n where "AuditStore_Insert a w = (Inl e, w\<lparr>tick := n\<rparr>)"
  | (done_) a' n row where "AuditStore_Insert a w =
      (Inr a', w\<lparr>tick := n, db := (db w)\<lparr>audit_log := audit_log (db w) @ [row]\<rparr>\<rparr>)"
      and "a_tenant row = a_tenant a" and "a_action row = a_action a" and "a_actor row = a_actor a"
      and "a_resource row = a_resource a"
proof (cases rule: run_sql_cases [of w "insert_audit (a\<lparr>a_id := id_or_new w (a_id a)\<rparr>)"])
  case (done_ x d)
  let ?a = "a\<lparr>a_id := id_or_new w (a_id a)\<rparr>"
  let ?row = "?a\<lparr>a_changes := map_option jsonb (a_changes a), a_created := sql_now w\<rparr>"
  from done_ have "d = (db w)\<lparr>audit_log := audit_log (db w) @ [?row]\<rparr>"
    by (simp add: insert_audit_def Let_def)
  then show thesis
    using done_ that(2) [of x ?row "Suc (tick w)"] by (simp add: AuditStore_Insert_def wrapped_def)
qed (use failed in \<open>auto simp: AuditStore_Insert_def wrapped_def\<close>)

lemma writeAudit_cases:
  obtains (failed) n where "writeAudit sv r tenant user act rt res k w = k (w\<lparr>tick := n\<rparr>)"
  | (done_) n row where "writeAudit sv r tenant user act rt res k w =
      k (w\<lparr>tick := n, db := (db w)\<lparr>audit_log := audit_log (db w) @ [row]\<rparr>\<rparr>)"
      and "a_tenant row = tenant" and "a_action row = act" and "a_actor row = Some user"
      and "a_resource row = res"
proof (cases rule: AuditStore_Insert_cases [of "user_audit sv r tenant user act rt res" w])
  case (failed e n)
  then show thesis using that(1) by (simp add: writeAudit_def logged_def)
next
  case (done_ a' n row)
  then show thesis using that(2) [of row n] by (simp add: writeAudit_def logged_def user_audit_def)
qed

section \<open>The update of a flag's settings\<close>

lemma UpdateWithVersion_cases:
  fixes u :: flag_environment
  obtains (conflict) n where "UpdateWithVersion u v w = (Inl ErrVersionConflict, w\<lparr>tick := n\<rparr>)"
      and "\<And>x. x \<in> set (flag_envs (db w)) \<Longrightarrow> is_flag_env (fe_flag u) (fe_env u) x \<Longrightarrow> fe_version x \<noteq> v"
  | (failed) n where "UpdateWithVersion u v w = (Inl ErrDatabase, w\<lparr>tick := n\<rparr>)"
  | (done_) old now n where
      "UpdateWithVersion u v w =
        (Inr (u\<lparr>fe_version := v + 1, fe_updated := now\<rparr>),
         w\<lparr>tick := n, db := (db w)\<lparr>flag_envs :=
           update_where (\<lambda>x. is_flag_env (fe_flag u) (fe_env u) x \<and> fe_version x = v)
             (\<lambda>x. touch_flag_env now (set_flag_env u x)) (flag_envs (db w))\<rparr>\<rparr>)"
      and "old \<in> set (flag_envs (db w))" and "is_flag_env (fe_flag u) (fe_env u) old"
      and "fe_version old = v"
proof (cases rule: run_sql_cases [of w "update_flag_env u v"])
  case (done_ x d)
  let ?hit = "\<lambda>x. is_flag_env (fe_flag u) (fe_env u) x \<and> fe_version x = v"
  show thesis
  proof (cases "find ?hit (flag_envs (db w))")
    case None
    with done_ have "x = None" "d = db w" by (auto simp: update_flag_env_def Let_def split: if_splits)
    with done_ have "UpdateWithVersion u v w = (Inl ErrVersionConflict, w\<lparr>tick := Suc (tick w)\<rparr>)"
      by (simp add: UpdateWithVersion_def found_def wrapped_def)
    with None show thesis by (intro conflict) (auto simp: find_None_iff)
  next
    case (Some old)
    then have "old \<in> set (flag_envs (db w))" "?hit old" by (auto dest: find_Some_in)
    with Some done_ show thesis
      by (intro that(3) [of "sql_now w" "Suc (tick w)" old])
         (auto simp: update_flag_env_def Let_def UpdateWithVersion_def found_def wrapped_def split: if_splits)
  qed
qed (use failed in \<open>auto simp: UpdateWithVersion_def wrapped_def found_def\<close>)

section \<open>Results\<close>

text \<open>\<open>yields Q s w\<close>: the response of \<open>s\<close> and the world it leaves satisfy \<open>Q\<close>.  One rule per shape
  of a handler; \<open>intro yields\<close> follows the handler and leaves one goal per reply.\<close>

named_theorems yields \<open>what the operations of a handler yield\<close>

definition yields :: "(response \<times> world \<Rightarrow> bool) \<Rightarrow> response step \<Rightarrow> world \<Rightarrow> bool" where
  "yields Q s w \<longleftrightarrow> Q (s w)"

lemma yieldsD: "yields Q s w \<Longrightarrow> s w = res \<Longrightarrow> Q res"
  by (simp add: yields_def)

lemma yields_reply [yields]: "Q (x, w) \<Longrightarrow> yields Q (reply x) w"
  by (simp add: yields_def reply_def)

lemma yields_branches [yields]:
  "(c \<Longrightarrow> yields Q a w) \<Longrightarrow> (\<not> c \<Longrightarrow> yields Q b w) \<Longrightarrow> yields Q (if c then a else b) w"
  "(opt = None \<Longrightarrow> yields Q n w) \<Longrightarrow> (\<And>x. opt = Some x \<Longrightarrow> yields Q (s x) w) \<Longrightarrow>
   yields Q (case_option n s opt) w"
  "(\<And>x y. xy = (x, y) \<Longrightarrow> yields Q (p x y) w) \<Longrightarrow> yields Q (case_prod p xy) w"
  by (auto simp: yields_def split: option.split prod.split)

lemma yields_with_now [yields]: "yields Q (k (clock w (tick w))) w \<Longrightarrow> yields Q (with_now k) w"
  by (simp add: yields_def with_now_def)

lemma yields_publish [yields]:
  "yields Q k (w\<lparr>published := published w @ [e]\<rparr>) \<Longrightarrow> yields Q (publish e k) w"
  by (simp add: yields_def publish_def)

lemma yields_invalid [yields]: "(\<And>res. refused res w \<Longrightarrow> Q res) \<Longrightarrow> yields Q invalid w"
  using refused_replies(1) by (simp add: yields_def)

lemma yields_decoding [yields]:
  assumes "\<And>res. refused res w \<Longrightarrow> Q res" and "\<And>x. DecodeJSON dec r = Inr x \<Longrightarrow> yields Q (k x) w"
  shows "yields Q (decoding dec r k) w"
  by (cases rule: decoding_cases [of dec r k w]) (simp_all add: yields_def assms(1) assms(2) [unfolded yields_def])

lemma yields_tenant_of [yields]:
  assumes "\<And>res. refused res w \<Longrightarrow> Q res"
    and "\<And>t. TenantUUID (sv_crypto sv) (cx_claims r) = Some t \<Longrightarrow> yields Q (k t) w"
  shows "yields Q (tenant_of sv r k) w"
  by (cases rule: tenant_of_cases [of sv r k w]) (simp_all add: yields_def assms(1) assms(2) [unfolded yields_def])

lemma yields_user_of [yields]:
  assumes "\<And>res. refused res w \<Longrightarrow> Q res"
    and "\<And>u. UserID (sv_crypto sv) (cx_claims r) = Some u \<Longrightarrow> yields Q (k u) w"
  shows "yields Q (user_of sv r k) w"
  by (cases rule: user_of_cases [of sv r k w]) (simp_all add: yields_def assms(1) assms(2) [unfolded yields_def])

lemma yields_project_of [yields]:
  assumes "\<And>res. gives_up res w \<Longrightarrow> Q res"
    and "\<And>p n. p \<in> set (projects (db w)) \<Longrightarrow> p_tenant p = tenant \<Longrightarrow>
      p_slug p = trim_space (path_value r ''slug'') \<Longrightarrow> yields Q (k p) (w\<lparr>tick := n\<rparr>)"
  shows "yields Q (project_of tenant r k) w"
  by (cases rule: project_of_cases [of tenant r k w])
     (simp_all add: yields_def assms(1) assms(2) [unfolded yields_def])

lemma yields_environment_of [yields]:
  assumes "\<And>res. gives_up res w \<Longrightarrow> Q res"
    and "\<And>e n. e \<in> set (environments (db w)) \<Longrightarrow> e_project e = p_id p \<Longrightarrow>
      e_slug e = trim_space (path_value r ''envSlug'') \<Longrightarrow> yields Q (k e) (w\<lparr>tick := n\<rparr>)"
  shows "yields Q (environment_of p r k) w"
  by (cases rule: environment_of_cases [of p r k w])
     (simp_all add: yields_def assms(1) assms(2) [unfolded yields_def])

lemma yields_flag_of [yields]:
  assumes "\<And>res. gives_up res w \<Longrightarrow> Q res"
    and "\<And>f n. f \<in> set (flags (db w)) \<Longrightarrow> f_project f = p_id p \<Longrightarrow>
      f_key f = trim_space (path_value r ''key'') \<Longrightarrow> f_archived f = None \<Longrightarrow> yields Q (k f) (w\<lparr>tick := n\<rparr>)"
  shows "yields Q (flag_of p r k) w"
  by (cases rule: flag_of_cases [of p r k w])
     (simp_all add: yields_def assms(1) assms(2) [unfolded yields_def])

lemma yields_segment_of [yields]:
  assumes "\<And>res. gives_up res w \<Longrightarrow> Q res"
    and "\<And>g n. g \<in> set (segment_rows (db w)) \<Longrightarrow> g_project g = p_id p \<Longrightarrow>
      g_key g = trim_space (path_value r ''key'') \<Longrightarrow> g_archived g = None \<Longrightarrow> yields Q (k g) (w\<lparr>tick := n\<rparr>)"
  shows "yields Q (segment_of p r k) w"
  by (cases rule: segment_of_cases [of p r k w])
     (simp_all add: yields_def assms(1) assms(2) [unfolded yields_def])

lemma yields_writeAudit [yields]:
  assumes "\<And>n log. prefix (audit_log (db w)) log \<Longrightarrow> yields Q k (w\<lparr>tick := n, db := (db w)\<lparr>audit_log := log\<rparr>\<rparr>)"
  shows "yields Q (writeAudit sv r tenant user act rt res k) w"
proof (cases rule: writeAudit_cases [of sv r tenant user act rt res k w])
  case (failed n)
  have "(db w)\<lparr>audit_log := audit_log (db w)\<rparr> = db w" by simp
  then show ?thesis
    using failed assms [of "audit_log (db w)" n] by (simp add: yields_def)
next
  case (done_ n row)
  then show ?thesis using assms [of "audit_log (db w) @ [row]" n] by (simp add: yields_def)
qed

lemma yields_UpdateWithVersion [yields]:
  assumes "\<And>n. (\<And>x. x \<in> set (flag_envs (db w)) \<Longrightarrow> is_flag_env (fe_flag u) (fe_env u) x \<Longrightarrow> fe_version x \<noteq> v) \<Longrightarrow>
      yields Q (h ErrVersionConflict) (w\<lparr>tick := n\<rparr>)"
    and "\<And>n. yields Q (h ErrDatabase) (w\<lparr>tick := n\<rparr>)"
    and "\<And>old now n. old \<in> set (flag_envs (db w)) \<Longrightarrow> is_flag_env (fe_flag u) (fe_env u) old \<Longrightarrow>
      fe_version old = v \<Longrightarrow>
      yields Q (k (u\<lparr>fe_version := v + 1, fe_updated := now\<rparr>))
        (w\<lparr>tick := n, db := (db w)\<lparr>flag_envs :=
           update_where (\<lambda>x. is_flag_env (fe_flag u) (fe_env u) x \<and> fe_version x = v)
             (\<lambda>x. touch_flag_env now (set_flag_env u x)) (flag_envs (db w))\<rparr>\<rparr>)"
  shows "yields Q (attempt (UpdateWithVersion u v) h k) w"
  by (cases rule: UpdateWithVersion_cases [of u v w])
     (simp_all add: yields_def attempt_def assms(1,2) [unfolded yields_def] assms(3) [unfolded yields_def])

end
