(* ===== verification/Versions.thy ===== *)
theory Versions
  imports Access Outcomes
begin

text \<open>
  Optimistic locking of the settings of a flag in an environment (\<open>flag_envs.go\<close>,
  \<open>flag_env_store.go\<close>): the version of a row names its contents, and an update with a version that is
  not the current one is refused.
\<close>

section \<open>Relations kept by every request but a deletion\<close>

fun no_delete :: "action \<Rightarrow> bool" where
  "no_delete (Request path r) = (rq_method r \<noteq> ''DELETE'')"
| "no_delete _ = True"

locale config_writes = config_frame +
  assumes project_insert: "insert_project p d now = Inr (x1, d') \<Longrightarrow> R d d'"
    and project_update: "update_project p d now = Inr (x2, d') \<Longrightarrow> R d d'"
    and environment_insert: "insert_environment e d now = Inr (x3, d') \<Longrightarrow> R d d'"
    and flag_insert: "insert_flag f d now = Inr (x4, d') \<Longrightarrow> R d d'"
    and flag_update: "update_flag f d now = Inr (x5, d') \<Longrightarrow> R d d'"
    and flag_env_upsert: "upsert_flag_env c d now = Inr (x7, d') \<Longrightarrow> R d d'"
    and flag_env_update: "update_flag_env c v d now = Inr (x8, d') \<Longrightarrow> R d d'"
    and flag_env_switch: "set_enabled i j b d now = Inr (x9, d') \<Longrightarrow> R d d'"
    and segment_insert: "insert_segment g d now = Inr (x10, d') \<Longrightarrow> R d d'"
    and segment_update: "update_segment g d now = Inr (x11, d') \<Longrightarrow> R d d'"
begin

lemma ok_write_stores:
  "ok R P (ProjectStore_Create p)" "ok R P (EnvironmentStore_Create e)" "ok R P (FlagStore_Create f)"
  "ok R P (Upsert c)" "ok R P (SegmentStore_Create g)"
  by (rule okI, simp only: store_defs Let_def snd_wrappers, rule run_sql_frame,
      erule project_insert environment_insert flag_insert flag_env_upsert segment_insert)+

lemma ok_write_updates:
  "ok R P (ProjectStore_Update p)" "ok R P (FlagStore_Update f)" "ok R P (SegmentStore_Update g)"
  "ok R P (SetEnabled i j b)"
  unfolding ProjectStore_Update_def [abs_def] FlagStore_Update_def [abs_def]
    SegmentStore_Update_def [abs_def] SetEnabled_def [abs_def] Let_def
  by (rule ok_result, rule okI, simp only: snd_wrappers, rule run_sql_frame,
      erule project_update flag_update segment_update flag_env_switch)+

lemma ok_UpdateWithVersion: "ok R P (UpdateWithVersion c v)"
proof -
  have "ok R P (\<lambda>w. found ErrVersionConflict (wrapped (run_sql (update_flag_env c v) w)))"
    by (rule okI, simp only: snd_wrappers, rule run_sql_frame) (erule flag_env_update)
  then have "ok R P (\<lambda>w. case found ErrVersionConflict (wrapped (run_sql (update_flag_env c v) w)) of
      (Inl e, w') \<Rightarrow> (Inl e, w') | (Inr x, w') \<Rightarrow> (Inr (c\<lparr>fe_version := fst x, fe_updated := snd x\<rparr>), w'))"
    by (rule ok_result)
  moreover have "UpdateWithVersion c v = (\<lambda>w. case found ErrVersionConflict (wrapped (run_sql (update_flag_env c v) w)) of
      (Inl e, w') \<Rightarrow> (Inl e, w') | (Inr x, w') \<Rightarrow> (Inr (c\<lparr>fe_version := fst x, fe_updated := snd x\<rparr>), w'))"
    by (auto simp: UpdateWithVersion_def fun_eq_iff split: prod.split sum.split)
  ultimately show ?thesis by simp
qed

lemma ok_each: "(\<And>x. ok R (\<lambda>_. True) (f x)) \<Longrightarrow> ok R P (for_each f xs)"
  by (rule ok_anywhere) (rule ok_for_each, simp_all)

lemmas ok_writes = ok_rules ok_write_stores ok_write_updates ok_UpdateWithVersion ok_each

lemma ok_shared:
  "ok R (\<lambda>_. True) k \<Longrightarrow> ok R P (writeAudit sv r ten usr act rt io k)"
  "(\<And>p. ok R (\<lambda>_. True) (kp p)) \<Longrightarrow> ok R P (project_of ten r kp)"
  "(\<And>e. ok R (\<lambda>_. True) (ke e)) \<Longrightarrow> ok R P (environment_of p r ke)"
  "(\<And>f. ok R (\<lambda>_. True) (kf f)) \<Longrightarrow> ok R P (flag_of p r kf)"
  "(\<And>g. ok R (\<lambda>_. True) (kg g)) \<Longrightarrow> ok R P (segment_of p r kg)"
  "ok R (\<lambda>_. True) k \<Longrightarrow> ok R P (publishFlagChange i key act k)"
  "ok R (\<lambda>_. True) k \<Longrightarrow> ok R P (publishSegmentChange i key act k)"
  unfolding writeAudit_def project_of_def environment_of_def flag_of_def segment_of_def
    publishFlagChange_def publishSegmentChange_def
  by (intro ok_attempt ok_logged ok_error_replies ok_foldr ok_publish | assumption |
      rule ok_quiet, rule config_rules)+

lemma ok_transactions:
  "ok R P (create_project_tx sv r ten usr req)" "ok R P (create_environment_tx sv r ten usr p ereq)"
  "ok R P (create_flag_tx sv r ten usr p freq)"
  unfolding create_project_tx_def create_environment_tx_def create_flag_tx_def
  by (intro ok_writes | rule ok_quiet, rule config_rules)+

lemma ok_write_handlers:
  "ok R P (handleCreateProject sv r)" "ok R P (handleUpdateProject sv r)"
  "ok R P (handleCreateEnvironment sv r)" "ok R P (handleCreateFlag sv r)"
  "ok R P (handleUpdateFlag sv r)" "ok R P (handleToggleFlagEnvironment sv r)"
  "ok R P (handleUpdateFlagEnvironment sv r)" "ok R P (handleCreateSegment sv r)"
  "ok R P (handleUpdateSegment sv r)"
  unfolding handleCreateProject_def handleUpdateProject_def handleCreateEnvironment_def
    handleCreateFlag_def handleUpdateFlag_def handleToggleFlagEnvironment_def
    handleUpdateFlagEnvironment_def handleCreateSegment_def handleUpdateSegment_def
  by (intro ok_writes ok_transactions ok_shared)+

lemma ok_routes:
  assumes "rt \<in> set (routes sv)" and "rt_method rt \<noteq> ''DELETE''"
  shows "ok R (\<lambda>_. True) (rt_handler rt r)"
  using assms unfolding routes_def account_routes_def project_routes_def flag_routes_def
    segment_routes_def sdk_routes_def route_def
  by (simp only: set_append Un_iff list.set insert_iff empty_iff simp_thms)
     (elim disjE; simp add: ok_write_handlers ok_quiet config_rules)

text \<open>What every request keeps whose method is not \<open>DELETE\<close>.\<close>

lemma after_request:
  assumes "rq_method r \<noteq> ''DELETE''"
  shows "R (db w) (db (snd (serve sv path r w)))"
proof (cases "find_route (routes sv) (rq_method r) path")
  case None
  then show ?thesis by (simp add: serve_def reply_def refl)
next
  case (Some found)
  obtain rt b where f: "found = (rt, b)" by (cases found)
  with Some have "method_matches (rt_method rt) (rq_method r)"
    by (auto simp: find_route_def split: option.splits dest: find_Some_in)
  with assms have "rt_method rt \<noteq> ''DELETE''" by (auto simp: method_matches_def)
  moreover have "rt \<in> set (routes sv)" using Some f by (auto dest: find_route_in)
  ultimately have "ok R (\<lambda>_. True) (run_route sv rt (r\<lparr>rq_path := b\<rparr>))"
    by (blast intro: ok_run_route ok_routes)
  from okD [OF this, of w] show ?thesis using Some f by (simp add: serve_def)
qed

lemma ok_runOnce: "ok R (\<lambda>_. True) runOnce"
  unfolding runOnce_def by (intro ok_rules | rule ok_quiet, rule config_rules)+

lemma after_run:
  assumes "list_all no_delete acts"
  shows "R (db w) (db (run sv acts w))"
  using assms unfolding run_def
proof (induction acts arbitrary: w)
  case (Cons a acts)
  have "R (db w) (db (perform sv a w))"
    using Cons.prems by (cases a) (auto simp: after_request refl okD [OF ok_runOnce])
  moreover have "R (db (perform sv a w)) (db (fold (perform sv) acts (perform sv a w)))"
    by (rule Cons.IH) (use Cons.prems in auto)
  ultimately show ?case by (auto intro: trans)
qed (simp add: refl)

end

section \<open>Versions\<close>

definition successor :: "flag_environment \<Rightarrow> flag_environment \<Rightarrow> bool" where
  "successor c c' \<longleftrightarrow> fe_flag c' = fe_flag c \<and> fe_env c' = fe_env c \<and>
     (c' = c \<or> fe_version c < fe_version c')"

definition version_history :: "database \<Rightarrow> database \<Rightarrow> bool" where
  "version_history d d' \<longleftrightarrow> (\<forall>c\<in>set (flag_envs d). \<exists>c'\<in>set (flag_envs d'). successor c c')"

lemma successor_refl [simp]: "successor c c"
  by (simp add: successor_def)

lemma successor_trans: "successor a b \<Longrightarrow> successor b c \<Longrightarrow> successor a c"
  by (auto simp: successor_def)

lemma version_history_same: "flag_envs d' = flag_envs d \<Longrightarrow> version_history d d'"
  by (auto simp: version_history_def intro: successor_refl)

lemma version_history_add: "flag_envs d' = flag_envs d @ cs \<Longrightarrow> version_history d d'"
  by (auto simp: version_history_def intro: successor_refl)

lemma version_history_update:
  assumes "flag_envs d' = update_where p g (flag_envs d)" and "\<And>c. successor c (g c)"
  shows "version_history d d'"
  unfolding version_history_def
proof
  fix c assume "c \<in> set (flag_envs d)"
  then have "(if p c then g c else c) \<in> set (flag_envs d')"
    by (auto simp: assms(1) set_update_where)
  moreover have "successor c (if p c then g c else c)" using assms(2) by simp
  ultimately show "\<exists>c'\<in>set (flag_envs d'). successor c c'" by blast
qed

lemma successor_touch [simp]:
  "successor c (touch_flag_env now (set_flag_env u c))" "successor c (touch_flag_env now (c\<lparr>fe_enabled := b\<rparr>))"
  by (simp_all add: successor_def touch_flag_env_def set_flag_env_def)

interpretation versions: config_writes version_history
proof unfold_locales
  show "version_history d d''" if "version_history d d'" "version_history d' d''" for d d' d''
    using that unfolding version_history_def by (meson successor_trans)
  show "version_history d d'" if "upsert_flag_env c d now = Inr (x, d')" for c d now x d'
    using that unfolding upsert_flag_env_def Let_def
    by (auto split: if_splits option.splits intro: version_history_add version_history_update)
  show "version_history d d'" if "update_flag_env c v d now = Inr (x, d')" for c v d now x d'
    using that unfolding update_flag_env_def Let_def
    by (auto split: if_splits option.splits intro: version_history_same version_history_update)
  show "version_history d d'" if "set_enabled i j b d now = Inr (x, d')" for i j b d now x d'
    using that unfolding set_enabled_def by (auto intro: version_history_update)
qed (auto simp: same_config_def config_of_def statement_defs Let_def
    intro!: version_history_same split: if_splits option.splits)

section \<open>Optimistic locking\<close>

text \<open>What an accepted update does: the row of the flag and environment the path names, with exactly the
  version of the request, gets the request's values and the next version; every other row stays; one
  event goes to that environment.\<close>

definition settings_updated :: "http_request \<Rightarrow> world \<Rightarrow> world \<Rightarrow> bool" where
  "settings_updated r w w' \<longleftrightarrow>
     (\<exists>req f e user now old.
        DecodeJSON decode_update_flag_env r = Inr req \<and>
        f \<in> set (flags (db w)) \<and> f_key f = trim_space (path_value r ''key'') \<and>
        e \<in> set (environments (db w)) \<and> e_slug e = trim_space (path_value r ''envSlug'') \<and>
        e_project e = f_project f \<and>
        old \<in> set (flag_envs (db w)) \<and> is_flag_env (f_id f) (e_id e) old \<and>
        fe_version old = ue_version req \<and>
        flag_envs (db w') =
          update_where (\<lambda>x. is_flag_env (f_id f) (e_id e) x \<and> fe_version x = ue_version req)
            (\<lambda>x. touch_flag_env now (set_flag_env (updated_flag_env user f e req) x)) (flag_envs (db w)) \<and>
        published w' = published w @ [change_event ''flag_change'' (f_key f) ''rules_updated'' (e_id e)])"

lemma settings_updatedI:
  assumes "DecodeJSON decode_update_flag_env r = Inr req"
    and "f \<in> set (flags (db w))" and "f_key f = trim_space (path_value r ''key'')"
    and "e \<in> set (environments (db w))" and "e_slug e = trim_space (path_value r ''envSlug'')"
    and "e_project e = f_project f" and "old \<in> set (flag_envs (db w))"
    and "is_flag_env (f_id f) (e_id e) old" and "fe_version old = ue_version req"
    and "flag_envs (db w') =
          update_where (\<lambda>x. is_flag_env (f_id f) (e_id e) x \<and> fe_version x = ue_version req)
            (\<lambda>x. touch_flag_env now (set_flag_env (updated_flag_env user f e req) x)) (flag_envs (db w))"
    and "published w' = published w @ [change_event ''flag_change'' (f_key f) ''rules_updated'' (e_id e)]"
  shows "settings_updated r w w'"
  unfolding settings_updated_def using assms by blast

lemma updated_flag_env_simps [simp]:
  "fe_flag (updated_flag_env u f e req) = f_id f" "fe_env (updated_flag_env u f e req) = e_id e"
  by (simp_all add: updated_flag_env_def)

text \<open>C7. Updating a flag's settings in an environment: with status 200 the update happened as a whole
  and at the version the request named; with every other status (409 for another version, 400, 404,
  500 and so on) no row changed and nothing was published.\<close>

theorem update_flag_environment_spec:
  "case handleUpdateFlagEnvironment sv r w of (resp, w') \<Rightarrow>
     if rs_status resp = 200 then settings_updated r w w'
     else flag_envs (db w') = flag_envs (db w) \<and> published w' = published w"
proof -
  let ?Q = "\<lambda>(resp, w'). if rs_status resp = 200 then settings_updated r w w'
     else flag_envs (db w') = flag_envs (db w) \<and> published w' = published w"
  have "yields ?Q (handleUpdateFlagEnvironment sv r) w"
    unfolding handleUpdateFlagEnvironment_def version_conflict_def
    by (intro yields) (auto simp: refused_def gives_up_def intro: settings_updatedI)
  then show ?thesis by (simp add: yields_def split_def)
qed

lemma one_row_per_key:
  assumes "keys_unique d" and "c \<in> set (flag_envs d)" and "c' \<in> set (flag_envs d)"
    and "fe_flag c' = fe_flag c" and "fe_env c' = fe_env c"
  shows "c' = c"
proof -
  have "inj_on (\<lambda>c. (fe_flag c, fe_env c)) (set (flag_envs d))"
    using assms(1) by (simp add: keys_unique_def unique_def distinct_map)
  then show ?thesis using assms(2-5) by (auto dest: inj_onD)
qed

text \<open>C4. No update is lost: if a client read the settings \<open>c\<close> of a flag in an environment, then,
  whatever requests other than deletions and whatever cleanups ran since, an update with the version
  of \<open>c\<close> succeeds only if the row still is exactly \<open>c\<close>; and if anything in the row was changed in
  between, the update reports a version conflict (or a failure of the database) and changes
  nothing.\<close>

theorem no_lost_update:
  assumes "sound (db w)" and "c \<in> set (flag_envs (db w))" and "list_all no_delete acts"
    and "fe_flag u = fe_flag c" and "fe_env u = fe_env c"
  shows "case UpdateWithVersion u (fe_version c) (run sv acts w) of
      (Inr u', w'') \<Rightarrow> c \<in> set (flag_envs (db (run sv acts w))) \<and> fe_version u' = fe_version c + 1
    | (Inl e, w'') \<Rightarrow> e \<in> {ErrVersionConflict, ErrDatabase} \<and> db w'' = db (run sv acts w)"
proof (cases rule: UpdateWithVersion_cases [of u "fe_version c" "run sv acts w"])
  case (done_ old now n)
  let ?d = "db (run sv acts w)"
  obtain c' where c': "c' \<in> set (flag_envs ?d)" "successor c c'"
    using versions.after_run [OF assms(3), of w sv] assms(2) by (auto simp: version_history_def)
  have "keys_unique ?d" using sound_run [OF assms(1)] by (simp add: sound_def)
  then have "old = c'"
    by (rule one_row_per_key) (use c' done_ assms(4,5) in \<open>auto simp: is_flag_env_def successor_def\<close>)
  with c' done_ have "c' = c" by (auto simp: successor_def)
  with c' done_ show ?thesis by simp
qed simp_all

lemma no_lost_update_witness:
  "case UpdateWithVersion ((sample_flag_env 1)\<lparr>fe_enabled := False\<rparr>) 3 (sample_world sample_db) of
      (Inr u', w'') \<Rightarrow> sample_flag_env 1 \<in> set (flag_envs sample_db) \<and> fe_version u' = 4
    | (Inl e, w'') \<Rightarrow> e \<in> {ErrVersionConflict, ErrDatabase} \<and> db w'' = sample_db"
  using no_lost_update [of "sample_world sample_db" "sample_flag_env 1" "[]"
      "(sample_flag_env 1)\<lparr>fe_enabled := False\<rparr>" sample_server] sound_sample
  by (simp add: run_def split: prod.splits sum.splits)

end
