(* ===== verification/Isolation.thy ===== *)
theory Isolation
  imports Access Outcomes
begin

text \<open>
  Tenant isolation: what a request with a token of one tenant leaves unchanged.

  \<^item> \<open>foreign T d\<close>: the projects of the tenants other than \<open>T\<close>, with their environments, flags,
    settings, segments and API keys (but for the time a key was last used).
  \<^item> \<open>isolated T\<close>: the statements that ran leave \<open>foreign T\<close> alone on sound tables.
  \<^item> Every management request but the revocation of a key is isolated; that one is not.
\<close>

section \<open>What belongs to other tenants\<close>

definition own :: "uuid \<Rightarrow> database \<Rightarrow> uuid \<Rightarrow> bool" where
  "own T d i \<longleftrightarrow> (\<exists>p\<in>set (projects d). p_id p = i \<and> p_tenant p = T)"

definition own_env :: "uuid \<Rightarrow> database \<Rightarrow> uuid \<Rightarrow> bool" where
  "own_env T d j \<longleftrightarrow> (\<exists>e\<in>set (environments d). e_id e = j \<and> own T d (e_project e))"

definition foreign :: "uuid \<Rightarrow> database \<Rightarrow> project list \<times> environment list \<times> flag list \<times>
    flag_environment list \<times> db_segment list \<times> api_key list" where
  "foreign T d =
     (filter (\<lambda>p. p_tenant p \<noteq> T) (projects d),
      filter (\<lambda>e. \<not> own T d (e_project e)) (environments d),
      filter (\<lambda>f. \<not> own T d (f_project f)) (flags d),
      filter (\<lambda>c. \<not> own_env T d (fe_env c)) (flag_envs d),
      filter (\<lambda>g. \<not> own T d (g_project g)) (segment_rows d),
      map (\<lambda>k. k\<lparr>k_last_used := None\<rparr>) (filter (\<lambda>k. \<not> own_env T d (k_env k)) (api_keys d)))"

definition isolated :: "uuid \<Rightarrow> database \<Rightarrow> database \<Rightarrow> bool" where
  "isolated T d d' \<longleftrightarrow> db_step\<^sup>*\<^sup>* d d' \<and> (sound d \<longrightarrow> foreign T d' = foreign T d)"

lemma sound_steps: "db_step\<^sup>*\<^sup>* d d' \<Longrightarrow> sound d \<Longrightarrow> sound d'"
  unfolding sound_def using keys.many refs.many vals.many by blast

interpretation isolation: db_frame "isolated T" for T
proof unfold_locales
  show "isolated T d d" for d by (simp add: isolated_def)
  show "isolated T d d''" if "isolated T d d'" "isolated T d' d''" for d d' d''
    using that by (auto simp: isolated_def dest: sound_steps)
qed

section \<open>Statements\<close>

lemma filter_unaffected:
  assumes "\<And>x. x \<in> set xs \<Longrightarrow> p x \<Longrightarrow> \<not> P x \<and> \<not> P (g x)"
  shows "filter P (update_where p g xs) = filter P xs"
  using assms by (induction xs) (auto simp: update_where_def)

lemma filter_cong_set: "(\<And>x. x \<in> set xs \<Longrightarrow> P x = Q x) \<Longrightarrow> filter P xs = filter Q xs"
  by (rule filter_cong) simp_all

lemma unique_same: "unique f xs \<Longrightarrow> x \<in> set xs \<Longrightarrow> y \<in> set xs \<Longrightarrow> f x = f y \<Longrightarrow> x = y"
  by (auto simp: unique_def distinct_map dest: inj_onD)

lemma sound_ids:
  assumes "sound d"
  shows "unique p_id (projects d)" "unique e_id (environments d)" "unique f_id (flags d)"
    "unique g_id (segment_rows d)" "unique k_id (api_keys d)"
  using assms by (simp_all add: sound_def ids_unique_def)

lemma sound_refs:
  assumes "sound d"
  shows "e \<in> set (environments d) \<Longrightarrow> project_exists d (e_project e)"
    "f \<in> set (flags d) \<Longrightarrow> project_exists d (f_project f)"
    "g \<in> set (segment_rows d) \<Longrightarrow> project_exists d (g_project g)"
    "c \<in> set (flag_envs d) \<Longrightarrow> environment_exists d (fe_env c)"
    "k \<in> set (api_keys d) \<Longrightarrow> environment_exists d (k_env k)"
  using assms by (auto simp: sound_def refs_ok_def)

lemma own_pairs: "own T d i \<longleftrightarrow> (i, T) \<in> (\<lambda>p. (p_id p, p_tenant p)) ` set (projects d)"
  by (force simp: own_def)

lemma own_tenant: "sound d \<Longrightarrow> x \<in> set (projects d) \<Longrightarrow> own T d (p_id x) \<Longrightarrow> p_tenant x = T"
  unfolding own_def by (blast dest: unique_same [OF sound_ids(1)])

lemma own_env_project:
  "sound d \<Longrightarrow> x \<in> set (environments d) \<Longrightarrow> own_env T d (e_id x) \<Longrightarrow> own T d (e_project x)"
  unfolding own_env_def using unique_same [OF sound_ids(2)] by metis

text \<open>Which projects and environments are a tenant's own, after a statement.\<close>

lemma own_other_table [simp]:
  "own T (d\<lparr>environments := es\<rparr>) = own T d" "own T (d\<lparr>api_keys := ks\<rparr>) = own T d"
  "own T (d\<lparr>flags := fs\<rparr>) = own T d" "own T (d\<lparr>flag_envs := cs\<rparr>) = own T d"
  "own T (d\<lparr>segment_rows := gs\<rparr>) = own T d"
  "own_env T (d\<lparr>api_keys := ks\<rparr>) = own_env T d"
  "own_env T (d\<lparr>flags := fs\<rparr>) = own_env T d" "own_env T (d\<lparr>flag_envs := cs\<rparr>) = own_env T d"
  "own_env T (d\<lparr>segment_rows := gs\<rparr>) = own_env T d"
  by (simp_all add: own_def own_env_def fun_eq_iff)

lemma foreign_insert_project:
  assumes "sound d" and "insert_project p d now = Inr (x, d')" and "p_tenant p = T"
  shows "foreign T d' = foreign T d"
proof -
  let ?row = "p\<lparr>p_created := now, p_updated := now\<rparr>"
  have d': "d' = d\<lparr>projects := projects d @ [?row]\<rparr>" and fresh: "\<not> project_exists d (p_id p)"
    using assms(2) by (auto simp: insert_project_def Let_def project_exists_def)
  have own: "own T d' i = (own T d i \<or> i = p_id p)" for i
    by (auto simp: d' own_def assms(3))
  have same: "own T d' i = own T d i" if "project_exists d i" for i
    using that fresh by (auto simp: own)
  then have envs: "own_env T d' j = own_env T d j" for j
    using sound_refs(1) [OF assms(1)] by (auto simp: own_env_def d')
  have "filter (\<lambda>e. \<not> own T d' (e_project e)) (environments d) = filter (\<lambda>e. \<not> own T d (e_project e)) (environments d)"
    "filter (\<lambda>f. \<not> own T d' (f_project f)) (flags d) = filter (\<lambda>f. \<not> own T d (f_project f)) (flags d)"
    "filter (\<lambda>g. \<not> own T d' (g_project g)) (segment_rows d) = filter (\<lambda>g. \<not> own T d (g_project g)) (segment_rows d)"
    using sound_refs [OF assms(1)] same by (auto intro!: filter_cong_set)
  with envs show ?thesis by (simp add: foreign_def d' assms(3))
qed

lemma foreign_update_project:
  assumes "sound d" and "update_project p d now = Inr (x, d')" and "own T d (p_id p)"
  shows "foreign T d' = foreign T d"
proof (cases "d' = d")
  case False
  then obtain g where d': "d' = d\<lparr>projects := update_where (\<lambda>x. p_id x = p_id p) g (projects d)\<rparr>"
    and g: "\<And>x. p_id (g x) = p_id x" "\<And>x. p_tenant (g x) = p_tenant x"
    using assms(2)
    by (auto simp: update_project_def split: option.splits if_splits
        intro!: that [of "\<lambda>x. x\<lparr>p_slug := p_slug p, p_name := p_name p, p_updated := now\<rparr>"])
  have "own T d' i = own T d i" for i
    using image_update_where [of "\<lambda>x. (p_id x, p_tenant x)" g "\<lambda>x. p_id x = p_id p" "projects d"] g
    by (simp add: own_pairs d')
  then have "own T d' = own T d" by (simp add: fun_eq_iff)
  moreover then have "own_env T d' = own_env T d" by (auto simp: own_env_def d' fun_eq_iff)
  moreover have "filter (\<lambda>x. p_tenant x \<noteq> T) (projects d') = filter (\<lambda>x. p_tenant x \<noteq> T) (projects d)"
    unfolding d' using own_tenant [OF assms(1)] assms(3) g by (auto intro!: filter_unaffected)
  ultimately show ?thesis by (simp add: foreign_def d')
qed simp

lemma foreign_insert_environment:
  assumes "sound d" and "insert_environment e d now = Inr (x, d')" and "own T d (e_project e)"
  shows "foreign T d' = foreign T d"
proof -
  let ?row = "e\<lparr>e_created := now, e_updated := now\<rparr>"
  have d': "d' = d\<lparr>environments := environments d @ [?row]\<rparr>" and fresh: "\<not> environment_exists d (e_id e)"
    using assms(2) by (auto simp: insert_environment_def Let_def environment_exists_def)
  have "own_env T d' j = own_env T d j" if "environment_exists d j" for j
    using that fresh by (auto simp: own_env_def d')
  then have "filter (\<lambda>c. \<not> own_env T d' (fe_env c)) (flag_envs d) = filter (\<lambda>c. \<not> own_env T d (fe_env c)) (flag_envs d)"
    "filter (\<lambda>k. \<not> own_env T d' (k_env k)) (api_keys d) = filter (\<lambda>k. \<not> own_env T d (k_env k)) (api_keys d)"
    using sound_refs [OF assms(1)] by (auto intro!: filter_cong_set)
  then show ?thesis using assms(3) by (simp add: foreign_def d')
qed

lemma foreign_delete_environment:
  assumes "sound d" and "delete_environment i d now = Inr (x, d')" and "own_env T d i"
  shows "foreign T d' = foreign T d"
proof -
  let ?es = "filter (\<lambda>e. e_id e \<noteq> i) (environments d)"
  have ex: "environment_exists d i" using assms(3) by (auto simp: own_env_def environment_exists_def)
  have d': "d' = d\<lparr>environments := ?es, api_keys := filter (\<lambda>k. k_env k \<noteq> i) (api_keys d),
      flag_envs := filter (\<lambda>c. fe_env c \<noteq> i) (flag_envs d)\<rparr>"
    using assms(2) ex by (simp add: delete_environment_def)
  have own: "own_env T (d\<lparr>environments := ?es\<rparr>) j \<longleftrightarrow> own_env T d j \<and> j \<noteq> i" for j
    by (auto simp: own_env_def)
  have "filter (\<lambda>e. \<not> own T d (e_project e)) ?es = filter (\<lambda>e. \<not> own T d (e_project e)) (environments d)"
    using own_env_project [OF assms(1)] assms(3) by (auto intro!: filter_cong_set)
  moreover have "filter (\<lambda>c. \<not> own_env T d' (fe_env c)) (flag_envs d') = filter (\<lambda>c. \<not> own_env T d (fe_env c)) (flag_envs d)"
    "filter (\<lambda>k. \<not> own_env T d' (k_env k)) (api_keys d') = filter (\<lambda>k. \<not> own_env T d (k_env k)) (api_keys d)"
    using assms(3) by (auto simp: own d' intro!: filter_cong_set)
  ultimately show ?thesis by (simp add: foreign_def d')
qed

text \<open>Rows of one's own projects and environments are no part of \<open>foreign\<close>.\<close>

lemma foreign_insert_rows:
  "insert_api_key k d now = Inr (x1, d') \<Longrightarrow> own_env T d (k_env k) \<Longrightarrow> foreign T d' = foreign T d"
  "insert_flag f d now = Inr (x2, d') \<Longrightarrow> own T d (f_project f) \<Longrightarrow> foreign T d' = foreign T d"
  "insert_segment g d now = Inr (x3, d') \<Longrightarrow> own T d (g_project g) \<Longrightarrow> foreign T d' = foreign T d"
  by (auto simp: foreign_def insert_api_key_def insert_flag_def insert_segment_def Let_def)

lemma foreign_update_flags:
  assumes "sound d" and "d' = d\<lparr>flags := update_where p g (flags d)\<rparr>" and "f \<in> set (flags d)"
    and "own T d (f_project f)" and "\<And>x. p x \<Longrightarrow> f_id x = f_id f" and "\<And>x. f_project (g x) = f_project x"
  shows "foreign T d' = foreign T d"
proof -
  have same: "x = f" if "x \<in> set (flags d)" and "p x" for x
    by (rule unique_same [OF sound_ids(3) [OF assms(1)] that(1) assms(3)]) (rule assms(5) [OF that(2)])
  have "filter (\<lambda>x. \<not> own T d (f_project x)) (flags d') = filter (\<lambda>x. \<not> own T d (f_project x)) (flags d)"
    using assms(2,4,6) same by (auto intro!: filter_unaffected)
  with assms(2) show ?thesis by (simp add: foreign_def)
qed

lemma foreign_update_segments:
  assumes "sound d" and "d' = d\<lparr>segment_rows := update_where p h (segment_rows d)\<rparr>" and "g \<in> set (segment_rows d)"
    and "own T d (g_project g)" and "\<And>x. p x \<Longrightarrow> g_id x = g_id g" and "\<And>x. g_project (h x) = g_project x"
  shows "foreign T d' = foreign T d"
proof -
  have same: "x = g" if "x \<in> set (segment_rows d)" and "p x" for x
    by (rule unique_same [OF sound_ids(4) [OF assms(1)] that(1) assms(3)]) (rule assms(5) [OF that(2)])
  have "filter (\<lambda>x. \<not> own T d (g_project x)) (segment_rows d') = filter (\<lambda>x. \<not> own T d (g_project x)) (segment_rows d)"
    using assms(2,4,6) same by (auto intro!: filter_unaffected)
  with assms(2) show ?thesis by (simp add: foreign_def)
qed

lemma foreign_update_flag:
  assumes "sound d" and "update_flag f d now = Inr (x, d')" and "f0 \<in> set (flags d)"
    and "f_id f0 = f_id f" and "own T d (f_project f0)"
  shows "foreign T d' = foreign T d"
  using assms(2) foreign_update_flags [OF assms(1) _ assms(3) assms(5)] assms(4)
  by (auto simp: update_flag_def split: option.splits if_splits)

lemma foreign_archive_flag:
  assumes "sound d" and "archive_flag i t d now = Inr (x, d')" and "f0 \<in> set (flags d)"
    and "f_id f0 = i" and "own T d (f_project f0)"
  shows "foreign T d' = foreign T d"
  using assms(2) foreign_update_flags [OF assms(1) _ assms(3) assms(5)] assms(4)
  by (auto simp: archive_flag_def Let_def)

lemma foreign_update_segment:
  assumes "sound d" and "update_segment g d now = Inr (x, d')" and "g0 \<in> set (segment_rows d)"
    and "g_id g0 = g_id g" and "own T d (g_project g0)"
  shows "foreign T d' = foreign T d"
  using assms(2) foreign_update_segments [OF assms(1) _ assms(3) assms(5)] assms(4)
  by (auto simp: update_segment_def split: option.splits if_splits)

lemma foreign_archive_segment:
  assumes "sound d" and "archive_segment i t d now = Inr (x, d')" and "g0 \<in> set (segment_rows d)"
    and "g_id g0 = i" and "own T d (g_project g0)"
  shows "foreign T d' = foreign T d"
  using assms(2) foreign_update_segments [OF assms(1) _ assms(3) assms(5)] assms(4)
  by (auto simp: archive_segment_def Let_def)

lemma foreign_update_flag_envs:
  assumes "d' = d\<lparr>flag_envs := update_where p g (flag_envs d)\<rparr>" and "own_env T d j"
    and "\<And>x. p x \<Longrightarrow> fe_env x = j" and "\<And>x. fe_env (g x) = fe_env x"
  shows "foreign T d' = foreign T d"
proof -
  have "filter (\<lambda>x. \<not> own_env T d (fe_env x)) (flag_envs d') = filter (\<lambda>x. \<not> own_env T d (fe_env x)) (flag_envs d)"
    using assms by (auto intro!: filter_unaffected)
  with assms(1) show ?thesis by (simp add: foreign_def)
qed

lemma foreign_upsert_flag_env:
  assumes "upsert_flag_env c d now = Inr (x, d')" and "own_env T d (fe_env c)"
  shows "foreign T d' = foreign T d"
  using assms
  by (auto simp: upsert_flag_env_def Let_def is_flag_env_def foreign_def intro!: filter_unaffected
      split: option.splits if_splits)

lemma foreign_update_flag_env:
  assumes "update_flag_env c v d now = Inr (x, d')" and "own_env T d (fe_env c)"
  shows "foreign T d' = foreign T d"
  using assms(1) foreign_update_flag_envs [OF _ assms(2)]
  by (auto simp: update_flag_env_def Let_def is_flag_env_def split: option.splits if_splits)

lemma foreign_set_enabled:
  assumes "set_enabled i j b d now = Inr (x, d')" and "own_env T d j"
  shows "foreign T d' = foreign T d"
  using assms by (auto simp: set_enabled_def is_flag_env_def foreign_def intro!: filter_unaffected)

section \<open>Operations\<close>

lemma isolated_sql:
  assumes "effect st" and "\<And>now x d'. sound (db w) \<Longrightarrow> st (db w) now = Inr (x, d') \<Longrightarrow> foreign T d' = foreign T (db w)"
  shows "isolated T (db w) (db (snd (run_sql st w)))"
proof -
  have "foreign T (db (snd (run_sql st w))) = foreign T (db w)" if "sound (db w)"
    by (cases rule: run_sql_cases [of w st]) (use assms(2) that in auto)
  moreover have "db_step\<^sup>*\<^sup>* (db w) (db (snd (run_sql st w)))"
    using run_sql_steps [OF assms(1), of w] by (simp add: steps_def)
  ultimately show ?thesis by (simp add: isolated_def)
qed

lemma isolated_stores:
  "(\<And>d. P d \<Longrightarrow> p_tenant p = T) \<Longrightarrow> ok (isolated T) P (ProjectStore_Create p)"
  "(\<And>d. P d \<Longrightarrow> own T d (e_project e)) \<Longrightarrow> ok (isolated T) P (EnvironmentStore_Create e)"
  "(\<And>d. P d \<Longrightarrow> own_env T d i) \<Longrightarrow> ok (isolated T) P (EnvironmentStore_DeleteByID i)"
  "(\<And>d. P d \<Longrightarrow> own_env T d (k_env k)) \<Longrightarrow> ok (isolated T) P (APIKeyStore_Create k)"
  "(\<And>d. P d \<Longrightarrow> own T d (f_project f)) \<Longrightarrow> ok (isolated T) P (FlagStore_Create f)"
  "(\<And>d. P d \<Longrightarrow> \<exists>f0\<in>set (flags d). f_id f0 = i \<and> own T d (f_project f0)) \<Longrightarrow>
    ok (isolated T) P (FlagStore_Archive i t)"
  "(\<And>d. P d \<Longrightarrow> own_env T d (fe_env c)) \<Longrightarrow> ok (isolated T) P (Upsert c)"
  "(\<And>d. P d \<Longrightarrow> own T d (g_project g)) \<Longrightarrow> ok (isolated T) P (SegmentStore_Create g)"
  "(\<And>d. P d \<Longrightarrow> \<exists>g0\<in>set (segment_rows d). g_id g0 = i \<and> own T d (g_project g0)) \<Longrightarrow>
    ok (isolated T) P (SegmentStore_Archive i t)"
  by (rule okI, simp only: store_defs Let_def snd_wrappers, intro isolated_sql effects,
      auto intro: foreign_insert_project foreign_insert_environment foreign_delete_environment
        foreign_insert_rows foreign_archive_flag foreign_upsert_flag_env foreign_archive_segment)+

lemma isolated_updates:
  "(\<And>d. P d \<Longrightarrow> own T d (p_id p)) \<Longrightarrow> ok (isolated T) P (ProjectStore_Update p)"
  "(\<And>d. P d \<Longrightarrow> \<exists>f0\<in>set (flags d). f_id f0 = f_id f \<and> own T d (f_project f0)) \<Longrightarrow>
    ok (isolated T) P (FlagStore_Update f)"
  "(\<And>d. P d \<Longrightarrow> \<exists>g0\<in>set (segment_rows d). g_id g0 = g_id g \<and> own T d (g_project g0)) \<Longrightarrow>
    ok (isolated T) P (SegmentStore_Update g)"
  "(\<And>d. P d \<Longrightarrow> own_env T d j) \<Longrightarrow> ok (isolated T) P (SetEnabled i j b)"
  unfolding ProjectStore_Update_def [abs_def] FlagStore_Update_def [abs_def]
    SegmentStore_Update_def [abs_def] SetEnabled_def [abs_def] Let_def
  by (rule isolation.ok_result, rule okI, simp only: snd_wrappers, intro isolated_sql effects,
      fastforce intro: foreign_update_project foreign_update_flag foreign_update_segment foreign_set_enabled)+

lemma isolated_UpdateWithVersion:
  assumes "\<And>d. P d \<Longrightarrow> own_env T d (fe_env c)"
  shows "ok (isolated T) P (UpdateWithVersion c v)"
proof (rule okI)
  fix w :: world assume "P (db w)"
  then have own: "own_env T (db w) (fe_env c)" by (rule assms)
  have "isolated T (db w) (db (snd (run_sql (update_flag_env c v) w)))"
    by (intro isolated_sql effects) (auto intro: foreign_update_flag_env own)
  moreover have "db (snd (UpdateWithVersion c v w)) = db (snd (run_sql (update_flag_env c v) w))"
    by (simp add: UpdateWithVersion_def found_def wrapped_def split: prod.split sum.split option.split)
  ultimately show "isolated T (db w) (db (snd (UpdateWithVersion c v w)))" by simp
qed

lemma isolated_audit: "ok (isolated T) P (AuditStore_Insert a)"
  by (rule okI, simp only: store_defs Let_def snd_wrappers, intro isolated_sql effects)
     (auto simp: insert_audit_def Let_def foreign_def own_def own_env_def)

lemma isolated_lists:
  "ok (isolated T) P (EnvironmentStore_ListByProject i)"
  by (rule isolation.ok_reads) (rule reads_project_environments)

lemma isolated_shared:
  "ok (isolated T) (\<lambda>_. True) k \<Longrightarrow> ok (isolated T) P (writeAudit sv r ten usr act rt io k)"
  "ok (isolated T) (\<lambda>_. True) k \<Longrightarrow> ok (isolated T) P (publishFlagChange i key act k)"
  "ok (isolated T) (\<lambda>_. True) k \<Longrightarrow> ok (isolated T) P (publishSegmentChange i key act k)"
  unfolding writeAudit_def publishFlagChange_def publishSegmentChange_def
  by (intro isolation.ok_logged isolation.ok_attempt isolation.ok_foldr isolation.ok_publish
      isolated_audit isolated_lists | assumption)+

text \<open>A project, environment, flag or segment of the path is the tenant's own.\<close>

lemma found_project:
  "reads (ProjectStore_GetBySlug T slug) (\<lambda>p d. p \<in> set (projects d) \<and> p_tenant p = T)"
  by (rule reads_weaken [OF reads_project]) simp

lemma found_environment:
  "reads (EnvironmentStore_GetBySlug proj slug) (\<lambda>e d. e \<in> set (environments d) \<and> e_project e = proj)"
  by (rule reads_weaken [OF reads_environment]) simp

lemma found_flag:
  "reads (FlagStore_GetByKey proj key) (\<lambda>f d. f \<in> set (flags d) \<and> f_project f = proj)"
  by (rule reads_weaken [OF reads_flag]) simp

lemma found_segment:
  "reads (SegmentStore_GetByKey proj key) (\<lambda>g d. g \<in> set (segment_rows d) \<and> g_project g = proj)"
  by (rule reads_weaken [OF reads_segment]) simp

lemma isolated_project_of:
  "(\<And>p. ok (isolated T) (\<lambda>d. P d \<and> p \<in> set (projects d) \<and> p_tenant p = T) (k p)) \<Longrightarrow>
   ok (isolated T) P (project_of T r k)"
  unfolding project_of_def
  by (rule isolation.ok_read [OF found_project]) (rule isolation.ok_error_replies, assumption)

lemma isolated_environment_of:
  "(\<And>e. ok (isolated T) (\<lambda>d. P d \<and> e \<in> set (environments d) \<and> e_project e = p_id p) (k e)) \<Longrightarrow>
   ok (isolated T) P (environment_of p r k)"
  unfolding environment_of_def
  by (rule isolation.ok_read [OF found_environment]) (rule isolation.ok_error_replies, assumption)

lemma isolated_flag_of:
  "(\<And>f. ok (isolated T) (\<lambda>d. P d \<and> f \<in> set (flags d) \<and> f_project f = p_id p) (k f)) \<Longrightarrow>
   ok (isolated T) P (flag_of p r k)"
  unfolding flag_of_def
  by (rule isolation.ok_read [OF found_flag]) (rule isolation.ok_error_replies, assumption)

lemma isolated_segment_of:
  "(\<And>g. ok (isolated T) (\<lambda>d. P d \<and> g \<in> set (segment_rows d) \<and> g_project g = p_id p) (k g)) \<Longrightarrow>
   ok (isolated T) P (segment_of p r k)"
  unfolding segment_of_def
  by (rule isolation.ok_read [OF found_segment]) (rule isolation.ok_error_replies, assumption)

lemma isolated_tenant_of:
  "TenantUUID (sv_crypto sv) (cx_claims r) = Some T \<Longrightarrow> ok (isolated T) P (k T) \<Longrightarrow>
   ok (isolated T) P (tenant_of sv r k)"
  by (simp add: tenant_of_def)

section \<open>Transactions\<close>

lemma created_project:
  "ProjectStore_Create p w = (Inr x, w') \<Longrightarrow> own (p_tenant p) (db w') (p_id x)"
  by (cases rule: run_sql_cases [of w "insert_project (p\<lparr>p_id := id_or_new w (p_id p),
        p_slug := trim_space (p_slug p), p_name := trim_space (p_name p)\<rparr>)"])
     (auto simp: ProjectStore_Create_def Let_def wrapped_unique_def insert_project_def own_def split: if_splits)

lemma created_flag:
  "FlagStore_Create f w = (Inr x, w') \<Longrightarrow> projects (db w') = projects (db w) \<and>
     environments (db w') = environments (db w)"
  by (cases rule: run_sql_cases [of w "insert_flag (f\<lparr>f_id := id_or_new w (f_id f),
        f_key := trim_space (f_key f), f_name := trim_space (f_name f)\<rparr>)"])
     (auto simp: FlagStore_Create_def Let_def wrapped_unique_def insert_flag_def split: if_splits)

lemma Upsert_keeps:
  "projects (db (snd (Upsert c w))) = projects (db w)"
  "environments (db (snd (Upsert c w))) = environments (db w)"
  by (cases rule: run_sql_cases [of w "upsert_flag_env c"];
      auto simp: Upsert_def upsert_flag_env_def Let_def split: if_splits option.splits)+

lemma EnvironmentStore_Create_keeps: "projects (db (snd (EnvironmentStore_Create e w))) = projects (db w)"
  unfolding EnvironmentStore_Create_def Let_def snd_wrappers
  by (cases rule: run_sql_cases [of w "insert_environment (e\<lparr>e_id := id_or_new w (e_id e),
        e_slug := trim_space (e_slug e), e_name := trim_space (e_name e)\<rparr>)"])
     (auto simp: insert_environment_def Let_def)

lemma own_cong: "projects d' = projects d \<Longrightarrow> own T d' = own T d"
  by (simp add: own_def fun_eq_iff)

lemma own_env_cong:
  "projects d' = projects d \<Longrightarrow> environments d' = environments d \<Longrightarrow> own_env T d' = own_env T d"
  by (simp add: own_env_def own_def fun_eq_iff)

lemma isolated_create_project_tx: "ok (isolated T) P (create_project_tx sv r T user req)"
  unfolding create_project_tx_def
proof (rule ok_anywhere, rule isolation.ok_with_new_uuid, rule isolation.ok_andThen_post)
  fix i
  let ?p = "\<lparr>p_id = i, p_tenant = T, p_slug = cn_slug req, p_name = cn_name req,
    p_created = zero_time, p_updated = zero_time\<rparr>"
  show "ok (isolated T) (\<lambda>_. True) (ProjectStore_Create ?p)" by (rule isolated_stores) simp
  show "own T (db w') (p_id p)" if "ProjectStore_Create ?p w = (Inr p, w')" for w p w'
    using created_project [OF that] by simp
  fix p
  show "ok (isolated T) (\<lambda>d. own T d (p_id p))
      (andThen (for_each (\<lambda>(slug, name). EnvironmentStore_Create (new_environment (p_id p) slug name))
          default_environments) (\<lambda>_.
       andThen (AuditStore_Insert (user_audit sv r T user ''project.created'' ''project'' (Some (p_id p)))) (\<lambda>_.
       return_op (project_response_of p))))"
    by (intro isolation.ok_andThen isolation.ok_for_each isolated_audit isolation.ok_return_op)
       (auto simp: new_environment_def EnvironmentStore_Create_keeps intro: isolated_stores
        cong: own_cong split: prod.split)
qed

lemma isolated_create_environment_tx:
  assumes "\<And>d. P d \<Longrightarrow> own T d (p_id p)"
  shows "ok (isolated T) P (create_environment_tx sv r T user p req)"
  unfolding create_environment_tx_def
  by (intro isolation.ok_andThen isolated_audit isolation.ok_return_op isolated_stores)
     (simp add: new_environment_def assms)

lemma isolated_create_flag_tx:
  assumes "\<And>d. P d \<Longrightarrow> own T d (p_id p)"
  shows "ok (isolated T) P (create_flag_tx sv r T user p req)"
  unfolding create_flag_tx_def
proof (rule isolation.ok_andThen_post)
  show "ok (isolated T) P (FlagStore_Create (new_flag (p_id p) user req))"
    by (rule isolated_stores) (simp add: new_flag_def assms)
  show "own T (db w') (p_id p)"
    if "P (db w)" "FlagStore_Create (new_flag (p_id p) user req) w = (Inr f, w')" for w f w'
    using assms [OF that(1)] own_cong [OF conjunct1 [OF created_flag [OF that(2)]]] by simp
  fix f
  have envs: "own_env T (db w') (e_id e)"
    if "own T (db w) (p_id p)" "EnvironmentStore_ListByProject (p_id p) w = (Inr es, w')" "e \<in> set es"
    for w es w' e
  proof -
    have "db w' = db w" using reads_db [OF reads_project_environments] that(2) by (metis snd_conv)
    moreover have "e \<in> set (environments (db w))" "e_project e = p_id p"
      using reads_project_environments that(2,3) by (auto simp: reads_def) (metis fst_conv)+
    ultimately show ?thesis using that(1) by (auto simp: own_env_def)
  qed
  show "ok (isolated T) (\<lambda>d. own T d (p_id p))
      (andThen (EnvironmentStore_ListByProject (p_id p)) (\<lambda>es.
       andThen (for_each (\<lambda>e. Upsert (off_in f e)) es) (\<lambda>_.
       andThen (AuditStore_Insert (user_audit sv r T user ''flag.created'' ''flag'' (Some (f_id f)))) (\<lambda>_.
       return_op f))))"
  proof (rule isolation.ok_andThen_post [where Q = "\<lambda>es d. \<forall>e\<in>set es. own_env T d (e_id e)"])
    fix es
    show "ok (isolated T) (\<lambda>d. \<forall>e\<in>set es. own_env T d (e_id e))
        (andThen (for_each (\<lambda>e. Upsert (off_in f e)) es) (\<lambda>_.
         andThen (AuditStore_Insert (user_audit sv r T user ''flag.created'' ''flag'' (Some (f_id f)))) (\<lambda>_.
         return_op f)))"
      by (intro isolation.ok_andThen isolation.ok_for_each isolated_audit isolation.ok_return_op isolated_stores)
         (auto simp: off_in_def own_env_cong [OF Upsert_keeps])
  qed (auto intro: isolated_lists envs)
qed

section \<open>Handlers\<close>

lemma apply_update_keeps:
  "apply_slug v p = Some p1 \<Longrightarrow> p_id p1 = p_id p" "apply_name v p = Some p2 \<Longrightarrow> p_id p2 = p_id p"
  "apply_update_flag freq f = Some f1 \<Longrightarrow> f_id f1 = f_id f"
  "apply_update_segment n greq g = Some g1 \<Longrightarrow> g_id g1 = g_id g"
  by (auto simp: apply_slug_def apply_name_def apply_update_flag_def apply_update_segment_def Let_def
      split: option.splits if_splits)

lemma isolated_option:
  "opt = None \<longrightarrow> ok R P n \<Longrightarrow> (\<And>x. opt = Some x \<Longrightarrow> ok R P (s x)) \<Longrightarrow> ok R P (case_option n s opt)"
  by (cases opt) auto

lemma isolated_drawing_key:
  "ok (isolated T) P h \<Longrightarrow> (\<And>x. ok (isolated T) P (k x)) \<Longrightarrow>
   ok (isolated T) P (drawing (GenerateAPIKey cr hint n) h k)"
  by (rule isolation.ok_drawing; simp)

text \<open>Following a handler: the lookups make the rows it writes the tenant's own.\<close>

lemmas isolated_steps =
  isolation.ok_decoding isolation.ok_branches(1,4,6) isolated_option isolation.ok_with_now isolated_tenant_of
  isolation.ok_caller(2) isolated_project_of isolated_environment_of isolated_flag_of
  isolated_segment_of isolation.ok_reply isolation.ok_error_replies isolated_drawing_key

lemma isolated_project_handlers:
  assumes "TenantUUID (sv_crypto sv) (cx_claims r) = Some T"
  shows "ok (isolated T) P (handleCreateProject sv r)" and "ok (isolated T) P (handleUpdateProject sv r)"
    and "ok (isolated T) P (handleCreateEnvironment sv r)" and "ok (isolated T) P (handleDeleteEnvironment sv r)"
  unfolding handleCreateProject_def handleUpdateProject_def handleCreateEnvironment_def handleDeleteEnvironment_def
  by (intro isolated_steps assms isolation.ok_attempt isolation.ok_runInTx isolated_create_project_tx
      isolated_create_environment_tx isolated_stores isolated_updates isolated_shared impI;
      force simp: own_def own_env_def dest: apply_update_keeps)+

lemma isolated_flag_handlers:
  assumes "TenantUUID (sv_crypto sv) (cx_claims r) = Some T"
  shows "ok (isolated T) P (handleCreateFlag sv r)" and "ok (isolated T) P (handleUpdateFlag sv r)"
    and "ok (isolated T) P (handleArchiveFlag sv r)" and "ok (isolated T) P (handleToggleFlagEnvironment sv r)"
    and "ok (isolated T) P (handleUpdateFlagEnvironment sv r)"
  unfolding handleCreateFlag_def handleUpdateFlag_def handleArchiveFlag_def handleToggleFlagEnvironment_def
    handleUpdateFlagEnvironment_def
  by (intro isolated_steps assms isolation.ok_attempt isolation.ok_runInTx isolation.ok_publish
      isolated_create_flag_tx isolated_stores isolated_updates isolated_UpdateWithVersion isolated_shared impI;
      force simp: own_def own_env_def updated_flag_env_def dest: apply_update_keeps)+

lemma isolated_segment_handlers:
  assumes "TenantUUID (sv_crypto sv) (cx_claims r) = Some T"
  shows "ok (isolated T) P (handleCreateSegment sv r)" and "ok (isolated T) P (handleUpdateSegment sv r)"
    and "ok (isolated T) P (handleArchiveSegment sv r)" and "ok (isolated T) P (handleCreateAPIKey sv r)"
  unfolding handleCreateSegment_def handleUpdateSegment_def handleArchiveSegment_def handleCreateAPIKey_def
  by (intro isolated_steps assms isolation.ok_attempt isolated_stores isolated_updates isolated_shared impI;
      force simp: own_def own_env_def new_segment_def new_api_key_def dest: apply_update_keeps)+

lemma isolated_reads:
  "ok (isolated T) P (ProjectStore_ListByTenant i)" "ok (isolated T) P (FlagStore_ListByProject i)"
  "ok (isolated T) P (FlagEnvironmentStore_Get i j)"
  "ok (isolated T) P (FlagEnvironmentStore_ListByEnvironment i)"
  "ok (isolated T) P (SegmentStore_ListByProject i)" "ok (isolated T) P (APIKeyStore_ListByEnvironment i)"
  unfolding ProjectStore_ListByTenant_def [abs_def] FlagStore_ListByProject_def [abs_def]
    FlagEnvironmentStore_Get_def [abs_def] FlagEnvironmentStore_ListByEnvironment_def [abs_def]
    SegmentStore_ListByProject_def [abs_def] APIKeyStore_ListByEnvironment_def [abs_def]
  by (rule isolation.ok_reads, rule reads_query)+

lemma isolated_audit_query: "ok (isolated T) P (AuditStore_Query f)"
  by (rule isolation.ok_same)
     (auto simp: AuditStore_Query_def run_sql_def wrapped_def count_audit_def list_audit_def Let_def
       split: prod.splits sum.splits if_splits)

lemma isolated_reading_handlers:
  assumes "TenantUUID (sv_crypto sv) (cx_claims r) = Some T"
  shows "ok (isolated T) P (handleListProjects sv r)" and "ok (isolated T) P (handleGetProject sv r)"
    and "ok (isolated T) P (handleListEnvironments sv r)" and "ok (isolated T) P (handleListFlagStates sv r)"
    and "ok (isolated T) P (handleListFlags sv r)" and "ok (isolated T) P (handleGetFlag sv r)"
    and "ok (isolated T) P (handleGetFlagEnvironment sv r)" and "ok (isolated T) P (handleListSegments sv r)"
    and "ok (isolated T) P (handleGetSegment sv r)" and "ok (isolated T) P (handleListAPIKeys sv r)"
    and "ok (isolated T) P (handleAuditLog sv r)"
  unfolding handleListProjects_def handleGetProject_def handleListEnvironments_def handleListFlagStates_def
    handleListFlags_def handleGetFlag_def handleGetFlagEnvironment_def handleListSegments_def
    handleGetSegment_def handleListAPIKeys_def handleAuditLog_def not_authenticated_def
  by (intro isolated_steps assms isolation.ok_attempt isolated_reads isolated_lists isolated_audit_query impI)+

section \<open>Requests\<close>

definition revokes_key :: "http_request \<Rightarrow> string list \<Rightarrow> bool" where
  "revokes_key r path \<longleftrightarrow> rq_method r = ''DELETE'' \<and>
     match_path (Lit ''api'' # Lit ''v1'' # an_environment @ [Lit ''apikeys'', Var ''id'']) path \<noteq> None"

lemma isolated_routes:
  assumes "rt \<in> set (project_routes sv @ flag_routes sv @ segment_routes sv)"
    and "rt_method rt = ''DELETE'' \<Longrightarrow>
      rt_path rt \<noteq> Lit ''api'' # Lit ''v1'' # an_environment @ [Lit ''apikeys'', Var ''id'']"
    and "TenantUUID (sv_crypto sv) (cx_claims r) = Some T"
  shows "ok (isolated T) (\<lambda>_. True) (rt_handler rt r)"
  using assms(1,2) unfolding project_routes_def flag_routes_def segment_routes_def route_def
  by (simp only: set_append Un_iff list.set insert_iff empty_iff simp_thms)
     (elim disjE; simp add: isolated_project_handlers [OF assms(3)] isolated_flag_handlers [OF assms(3)]
        isolated_segment_handlers [OF assms(3)] isolated_reading_handlers [OF assms(3)])

lemma management_route_tables:
  assumes "rt \<in> set (routes sv)" and "match_path (rt_path rt) path \<noteq> None" and "management_path path"
  shows "rt \<in> set (project_routes sv @ flag_routes sv @ segment_routes sv)"
  using assms unfolding routes_def account_routes_def sdk_routes_def management_path_def route_def
  by auto

text \<open>C1. Tenant isolation: a management request with a token of the tenant \<open>T\<close> leaves everything of the
  other tenants as it was - their projects, environments, flags, settings, segments and API keys -
  whatever identifiers, slugs and bodies it sends.  The one exception is the revocation of an API
  key.\<close>

theorem tenant_isolation:
  assumes "management_path path" and "\<not> revokes_key r path" and "sound (db w)"
    and "caller sv r w = Some c" and "TenantUUID (sv_crypto sv) (Some c) = Some T"
  shows "foreign T (db (snd (serve sv path r w))) = foreign T (db w)"
proof (cases "find_route (routes sv) (rq_method r) path")
  case None
  then show ?thesis by (simp add: serve_def reply_def)
next
  case (Some found)
  obtain rt b where f: "found = (rt, b)" by (cases found)
  let ?r = "r\<lparr>rq_path := b\<rparr>"
  have rt: "rt \<in> set (routes sv)" and match: "match_path (rt_path rt) path = Some b"
    using Some f by (auto dest: find_route_in find_route_matches)
  have "method_matches (rt_method rt) (rq_method r)"
    using Some f by (auto simp: find_route_def split: option.splits dest: find_Some_in)
  then have "rt_path rt \<noteq> Lit ''api'' # Lit ''v1'' # an_environment @ [Lit ''apikeys'', Var ''id'']"
    if "rt_method rt = ''DELETE''"
    using that assms(2) match by (auto simp: revokes_key_def method_matches_def)
  then have handler: "ok (isolated T) (\<lambda>_. True) (rt_handler rt (r'\<lparr>cx_claims := Some c\<rparr>))" for r'
    using management_route_tables [OF rt _ assms(1)] match assms(5) by (auto intro: isolated_routes)
  obtain pre ro where guards: "rt_guards rt = pre @ GJWT # [GRole ro]" "pre = [] \<or> pre = json_body"
    using management_routes [OF rt _ assms(1)] match by auto
  have "snd (run_route sv rt ?r w) = w \<or>
      snd (run_route sv rt ?r w) = snd (rt_handler rt ((limited pre ?r)\<lparr>cx_claims := Some c\<rparr>) w)"
    unfolding run_login_route [OF guards] using assms(4) by (auto simp: RequireRole_caller)
  then have "isolated T (db w) (db (snd (run_route sv rt ?r w)))"
    using okD [OF handler, of w] isolation.refl by auto
  then show ?thesis using assms(3) Some f by (simp add: isolated_def serve_def)
qed

lemma tenant_isolation_witness:
  "foreign 1 (db (snd (serve sample_server [''api'', ''v1'', ''projects'', ''web'', ''flags'', ''f1'']
     (sample_request ''DELETE'' ''Bearer admin'' NoBody) (sample_world sample_db)))) = foreign 1 sample_db"
proof -
  let ?r = "sample_request ''DELETE'' (''Bearer '' @ ''admin'') NoBody"
  have "caller sample_server ?r (sample_world sample_db) = Some (sample_claims ''admin'')"
    using sample_role [of "''admin''"] by simp
  moreover have "TenantUUID (sv_crypto sample_server) (Some (sample_claims ''admin'')) = Some 1"
    by code_simp
  ultimately show ?thesis
    using tenant_isolation [of "[''api'', ''v1'', ''projects'', ''web'', ''flags'', ''f1'']" ?r
        "sample_world sample_db" sample_server "sample_claims ''admin''" 1] sound_sample
    by (simp add: management_path_def revokes_key_def)
qed

section \<open>The exception\<close>

lemma slug_text: "slugRegex s \<Longrightarrow> utf8_length s \<noteq> None \<and> s \<noteq> []"
proof -
  have "list_all (\<lambda>c. lower_alnum c \<or> c = CHR ''-'') s \<Longrightarrow> utf8_length s \<noteq> None"
    by (induction s) (auto simp: between_def lower_alnum_def Let_def)
  then show "slugRegex s \<Longrightarrow> ?thesis" by (simp add: slugRegex_def)
qed

lemma project_found:
  assumes "sound (db w)" and "p \<in> set (projects (db w))" and "p_tenant p = T"
    and "trim_space (path_value r ''slug'') = p_slug p" and "\<not> fault w (tick w)"
  shows "project_of T r k w = k p (w\<lparr>tick := Suc (tick w)\<rparr>)"
proof -
  have "find (\<lambda>p. p_tenant p = T \<and> p_slug p = trim_space (path_value r ''slug'')) (projects (db w)) = Some p"
    by (rule find_unique) (use assms in \<open>auto simp: sound_def keys_unique_def unique_def distinct_map inj_on_def\<close>)
  moreover have "slugRegex (p_slug p)" using assms(1,2) by (auto simp: sound_def values_ok_def)
  then have "utf8_length (p_slug p) \<noteq> None" by (simp add: slug_text)
  ultimately show ?thesis
    using assms(4,5)
    by (auto simp: project_of_def attempt_def ProjectStore_GetBySlug_def run_query found_def wrapped_def Let_def)
qed

lemma environment_found:
  assumes "sound (db w)" and "e \<in> set (environments (db w))" and "e_project e = p_id p"
    and "trim_space (path_value r ''envSlug'') = e_slug e" and "\<not> fault w (tick w)"
  shows "environment_of p r k w = k e (w\<lparr>tick := Suc (tick w)\<rparr>)"
proof -
  have "find (\<lambda>e. e_project e = p_id p \<and> e_slug e = trim_space (path_value r ''envSlug'')) (environments (db w)) = Some e"
    by (rule find_unique) (use assms in \<open>auto simp: sound_def keys_unique_def unique_def distinct_map inj_on_def\<close>)
  moreover have "slugRegex (e_slug e)" using assms(1,2) by (auto simp: sound_def values_ok_def)
  then have "utf8_length (e_slug e) \<noteq> None" by (simp add: slug_text)
  ultimately show ?thesis
    using assms(4,5)
    by (auto simp: environment_of_def attempt_def EnvironmentStore_GetBySlug_def run_query found_def wrapped_def Let_def)
qed

definition revoke_at :: "time \<Rightarrow> uuid \<Rightarrow> database \<Rightarrow> database" where
  "revoke_at t i d = d\<lparr>api_keys := update_where (\<lambda>k. k_id k = i) (\<lambda>k. k\<lparr>k_revoked := Some t\<rparr>) (api_keys d)\<rparr>"

lemma Revoke_found:
  assumes "k \<in> set (api_keys (db w))" and "\<not> fault w (tick w)"
  shows "Revoke (k_id k) t w = (Inr (), w\<lparr>tick := Suc (tick w), db := revoke_at t (k_id k) (db w)\<rparr>)"
proof -
  have "filter (\<lambda>x. k_id x = k_id k) (api_keys (db w)) \<noteq> []" using assms(1) by (auto simp: filter_empty_conv)
  then show ?thesis
    using assms(2) by (simp add: Revoke_def run_sql_def update_api_key_def affected_def wrapped_def revoke_at_def Let_def)
qed

text \<open>What the caller's tenant must leave alone shows the revocation of a key of another tenant.\<close>

lemma filter_updated: "(\<And>x. P (f x) = P x) \<Longrightarrow> filter P (update_where q f xs) = update_where q f (filter P xs)"
  by (induction xs) (simp_all add: update_where_def)

lemma foreign_revoke_at:
  assumes "k \<in> set (api_keys d)" and "\<not> own_env T d (k_env k)" and "k_revoked k \<noteq> Some t"
  shows "foreign T ((revoke_at t (k_id k) d)\<lparr>audit_log := entries\<rparr>) \<noteq> foreign T d"
proof
  let ?d = "(revoke_at t (k_id k) d)\<lparr>audit_log := entries\<rparr>"
  let ?h = "\<lambda>x. if k_id x = k_id k then x\<lparr>k_revoked := Some t\<rparr> else x"
  assume eq: "foreign T ?d = foreign T d"
  have same: "own_env T ?d = own_env T d" by (rule own_env_cong) (simp_all add: revoke_at_def)
  have "map (\<lambda>k. k\<lparr>k_last_used := None\<rparr>) (filter (\<lambda>k. \<not> own_env T d (k_env k)) (api_keys ?d)) =
      map (\<lambda>k. k\<lparr>k_last_used := None\<rparr>) (filter (\<lambda>k. \<not> own_env T d (k_env k)) (api_keys d))"
    using eq by (simp add: foreign_def same)
  moreover have "filter (\<lambda>k. \<not> own_env T d (k_env k)) (api_keys ?d) =
      map ?h (filter (\<lambda>k. \<not> own_env T d (k_env k)) (api_keys d))"
    by (simp add: revoke_at_def filter_updated) (simp add: update_where_def)
  ultimately have "map (\<lambda>k. k\<lparr>k_last_used := None\<rparr>) (map ?h (filter (\<lambda>k. \<not> own_env T d (k_env k)) (api_keys d))) =
      map (\<lambda>k. k\<lparr>k_last_used := None\<rparr>) (filter (\<lambda>k. \<not> own_env T d (k_env k)) (api_keys d))"
    by (simp only:)
  then have "(?h k)\<lparr>k_last_used := None\<rparr> = k\<lparr>k_last_used := None\<rparr>"
    using assms(1,2) unfolding map_map map_eq_conv comp_apply by (elim ballE [of _ _ k]) simp_all
  then have "k_revoked ((?h k)\<lparr>k_last_used := None\<rparr>) = k_revoked (k\<lparr>k_last_used := None\<rparr>)" by (rule arg_cong)
  with assms(3) show False by simp
qed

lemma handleRevokeAPIKey_runs:
  assumes "sound (db w)" and "\<forall>n. \<not> fault w n"
    and "TenantUUID (sv_crypto sv) (cx_claims r) = Some T" and "UserID (sv_crypto sv) (cx_claims r) = Some u"
    and "p \<in> set (projects (db w))" and "p_tenant p = T" and "trim_space (path_value r ''slug'') = p_slug p"
    and "e \<in> set (environments (db w))" and "e_project e = p_id p" and "trim_space (path_value r ''envSlug'') = e_slug e"
    and "uuid_parse (sv_crypto sv) (path_value r ''id'') = Some (k_id k)" and "k \<in> set (api_keys (db w))"
  obtains n entries where "handleRevokeAPIKey sv r w =
    (NoContent, w\<lparr>tick := n, db := (revoke_at (clock w (tick w + 2)) (k_id k) (db w))\<lparr>audit_log := entries\<rparr>\<rparr>)"
proof -
  let ?t = "clock w (tick w + 2)"
  let ?w = "w\<lparr>tick := Suc (Suc (Suc (tick w))), db := revoke_at ?t (k_id k) (db w)\<rparr>"
  have run: "handleRevokeAPIKey sv r w =
      writeAudit sv r T u ''apikey.revoked'' ''api_key'' (Some (k_id k)) (reply NoContent) ?w"
    using assms
    by (simp add: handleRevokeAPIKey_def tenant_of_def user_of_def project_found [OF _ _ _ assms(7)]
        environment_found [OF _ _ _ assms(10)] with_now_def attempt_def Revoke_found)
  show thesis
  proof (cases rule: writeAudit_cases [of sv r T u "''apikey.revoked''" "''api_key''" "Some (k_id k)" "reply NoContent" ?w])
    case (failed n)
    then show ?thesis
      using that [of "audit_log (db w)" n] run by (simp add: reply_def revoke_at_def)
  next
    case (done_ n row)
    then show ?thesis
      using that [of "audit_log (db w) @ [row]" n] run by (simp add: reply_def revoke_at_def)
  qed
qed

text \<open>C10. The exception: whoever is an administrator of one tenant can revoke the API key of any other.  The request
  names a project and an environment of the caller's own tenant and then the identifier of any key there is; it
  is answered with 204 and that key is revoked, without a question to which environment it belongs.  So what
  the other tenants have changes whenever the key is one of theirs.\<close>

theorem key_of_another_tenant_revoked:
  assumes "rq_method r = ''DELETE''" and "caller sv r w = Some c" and "AtLeast (ParseRole (c_role c)) RoleAdmin"
    and "TenantUUID (sv_crypto sv) (Some c) = Some T" and "UserID (sv_crypto sv) (Some c) = Some u"
    and "sound (db w)" and "\<forall>n. \<not> fault w n"
    and "p \<in> set (projects (db w))" and "p_tenant p = T" and "trim_space slug = p_slug p"
    and "e \<in> set (environments (db w))" and "e_project e = p_id p" and "trim_space envSlug = e_slug e"
    and "i \<noteq> ''''" and "uuid_parse (sv_crypto sv) i = Some (k_id k)" and "k \<in> set (api_keys (db w))"
    and "serve sv [''api'', ''v1'', ''projects'', slug, ''environments'', envSlug, ''apikeys'', i] r w = (resp, w')"
  shows "rs_status resp = 204 \<and>
    api_keys (db w') = map (\<lambda>x. if k_id x = k_id k then x\<lparr>k_revoked := Some (clock w (tick w + 2))\<rparr> else x) (api_keys (db w)) \<and>
    (\<not> own_env T (db w) (k_env k) \<and> k_revoked k \<noteq> Some (clock w (tick w + 2)) \<longrightarrow>
      foreign T (db w') \<noteq> foreign T (db w))"
proof -
  let ?b = "[(''slug'', slug), (''envSlug'', envSlug), (''id'', i)]"
  let ?r = "r\<lparr>rq_path := ?b, cx_claims := Some c\<rparr>"
  have blank: "trim_space '''' = ''''" by code_simp
  have "p_slug p \<noteq> ''''" "e_slug e \<noteq> ''''" using assms(6,8,11) slug_text by (auto simp: sound_def values_ok_def)
  then have path: "match_path (Lit ''api'' # Lit ''v1'' # an_environment @ [Lit ''apikeys'', Var ''id''])
      [''api'', ''v1'', ''projects'', slug, ''environments'', envSlug, ''apikeys'', i] = Some ?b"
    using assms(10,13,14) blank by auto
  have "(rq_method r, an_environment @ [Lit ''apikeys'', Var ''id''], RoleAdmin, handleRevokeAPIKey sv)
      \<in> set (permission_matrix sv)" by (simp add: permission_matrix_def assms(1))
  from matrix_serves [OF this path assms(2)] have "(resp, w') = handleRevokeAPIKey sv ?r w"
    using assms(1,3,17) by (simp add: body_guards_def media_ok_def limited_def)
  moreover obtain n entries where "handleRevokeAPIKey sv ?r w =
      (NoContent, w\<lparr>tick := n, db := (revoke_at (clock w (tick w + 2)) (k_id k) (db w))\<lparr>audit_log := entries\<rparr>\<rparr>)"
    by (rule handleRevokeAPIKey_runs [of w sv ?r T u p e k]) (use assms in \<open>simp_all add: path_value_def\<close>)
  ultimately have "resp = NoContent"
    and w': "db w' = (revoke_at (clock w (tick w + 2)) (k_id k) (db w))\<lparr>audit_log := entries\<rparr>" by simp_all
  then show ?thesis
    using foreign_revoke_at [OF assms(16)] by (auto simp: revoke_at_def update_where_def)
qed

text \<open>The administrator of tenant 1 revokes the second key, which belongs to tenant 2.\<close>

lemma key_of_another_tenant_revoked_witness:
  "foreign 1 (db (snd (serve sample_server
      [''api'', ''v1'', ''projects'', ''web'', ''environments'', ''prod'', ''apikeys'', unary 2]
      (sample_request ''DELETE'' ''Bearer admin'' NoBody) (sample_world sample_db)))) \<noteq> foreign 1 sample_db"
proof -
  let ?r = "sample_request ''DELETE'' (''Bearer '' @ ''admin'') NoBody"
  let ?path = "[''api'', ''v1'', ''projects'', ''web'', ''environments'', ''prod'', ''apikeys'', unary 2]"
  have c: "caller sample_server ?r (sample_world sample_db) = Some (sample_claims ''admin'')"
    using sample_role [of "''admin''"] by simp
  have facts: "AtLeast (ParseRole (c_role (sample_claims ''admin''))) RoleAdmin"
    "TenantUUID (sv_crypto sample_server) (Some (sample_claims ''admin'')) = Some 1"
    "UserID (sv_crypto sample_server) (Some (sample_claims ''admin'')) = Some 1"
    "trim_space ''web'' = p_slug (sample_project 1 ''web'')" "trim_space ''prod'' = e_slug (sample_environment 1 ''prod'')"
    "unary 2 \<noteq> ''''" "uuid_parse (sv_crypto sample_server) (unary 2) = Some (k_id (sample_key 2 ''h2''))"
    "\<not> own_env 1 sample_db (k_env (sample_key 2 ''h2''))" "k_revoked (sample_key 2 ''h2'') = None"
    by code_simp+
  obtain resp w' where s: "serve sample_server ?path ?r (sample_world sample_db) = (resp, w')" by fastforce
  have rows: "sample_project 1 ''web'' \<in> set (projects sample_db)" "sample_environment 1 ''prod'' \<in> set (environments sample_db)"
    "sample_key 2 ''h2'' \<in> set (api_keys sample_db)" "p_tenant (sample_project 1 ''web'') = 1"
    "e_project (sample_environment 1 ''prod'') = p_id (sample_project 1 ''web'')"
    by (simp_all add: sample_db_def sample_project_def sample_environment_def)
  have w: "rq_method ?r = ''DELETE''" "\<forall>n. \<not> fault (sample_world sample_db) n" "sound (db (sample_world sample_db))"
    "db (sample_world sample_db) = sample_db"
    by (simp_all add: sample_request_def sample_world_def sound_sample)
  have "foreign 1 (db w') \<noteq> foreign 1 (db (sample_world sample_db))"
    using key_of_another_tenant_revoked [OF w(1) c facts(1,2,3) w(3,2), of "sample_project 1 ''web''" "''web''"
        "sample_environment 1 ''prod''" "''prod''" "unary 2" "sample_key 2 ''h2''" resp w'] facts rows s
    unfolding w(4) by simp
  then show ?thesis using s by (simp add: w(4))
qed

end
