(* ===== verification/Wire.thy ===== *)
theory Wire
  imports Json
begin

text \<open>
  Text the program writes and reads itself, of the standard library: decimal integers
  (\<open>fmt\<close>'s \<open>%d\<close>, \<open>strconv.ParseInt\<close>) and the JSON text of strings and of the small objects that the event
  stream carries (\<open>json.Marshal\<close>).

  \<^item> \<open>marshal_string\<close> keeps bytes from 128 on as they are: for text that is valid UTF-8, as all text of
    the database is, \<open>json.Marshal\<close> changes only U+2028 and U+2029, which are written out.
  \<^item> \<open>marshal_text_map\<close>: a \<open>map[string]any\<close> whose members are strings, its keys already in order.
\<close>

section \<open>Decimal integers\<close>

definition digit_char :: "nat \<Rightarrow> char" where
  "digit_char d = char_of (48 + d)"

fun show_nat :: "nat \<Rightarrow> string" where
  "show_nat n = (if n < 10 then [digit_char n] else show_nat (n div 10) @ [digit_char (n mod 10)])"

declare show_nat.simps [simp del]

definition show_int :: "int \<Rightarrow> string" where
  "show_int i = (if i < 0 then CHR ''-'' # show_nat (nat (- i)) else show_nat (nat i))"

definition digit_value :: "char \<Rightarrow> nat option" where
  "digit_value c = (let n = of_char c :: nat in if 48 \<le> n \<and> n \<le> 57 then Some (n - 48) else None)"

fun parse_digits :: "nat \<Rightarrow> string \<Rightarrow> nat option" where
  "parse_digits n [] = Some n"
| "parse_digits n (c # cs) =
     (case digit_value c of None \<Rightarrow> None | Some d \<Rightarrow> parse_digits (n * 10 + d) cs)"

definition parse_nat :: "string \<Rightarrow> nat option" where
  "parse_nat s = (if s = [] then None else parse_digits 0 s)"

definition in_int64 :: "int \<Rightarrow> bool" where
  "in_int64 i \<longleftrightarrow> - (2 ^ 63) \<le> i \<and> i < 2 ^ 63"

text \<open>\<open>strconv.ParseInt(s, 10, 64)\<close>; \<open>None\<close> is its error.\<close>

definition ParseInt :: "string \<Rightarrow> int option" where
  "ParseInt s =
     (let (neg, t) = (case s of
          c # cs \<Rightarrow> if c = CHR ''-'' then (True, cs) else if c = CHR ''+'' then (False, cs) else (False, s)
        | [] \<Rightarrow> (False, []))
      in case parse_nat t of
           None \<Rightarrow> None
         | Some n \<Rightarrow>
             (let i = (if neg then - int n else int n) in if in_int64 i then Some i else None))"

lemma digit_value_char [simp]: "d < 10 \<Longrightarrow> digit_value (digit_char d) = Some d"
  by (simp add: digit_value_def digit_char_def)

lemma parse_digits_append:
  "parse_digits n (s @ t) = (case parse_digits n s of None \<Rightarrow> None | Some m \<Rightarrow> parse_digits m t)"
  by (induction s arbitrary: n) (auto split: option.splits)

lemma show_nat_nonempty [simp]: "show_nat n \<noteq> []"
  by (simp add: show_nat.simps [of n])

lemma parse_nat_show [simp]: "parse_nat (show_nat n) = Some n"
proof -
  have "parse_digits 0 (show_nat n) = Some n"
  proof (induction n rule: show_nat.induct)
    case (1 n)
    then show ?case
      by (subst show_nat.simps) (simp add: parse_digits_append)
  qed
  then show ?thesis by (simp add: parse_nat_def)
qed

lemma show_nat_digits: "c \<in> set (show_nat n) \<Longrightarrow> \<exists>d<10. c = digit_char d"
proof (induction n rule: show_nat.induct)
  case (1 n)
  show ?case
  proof (cases "n < 10")
    case True
    then show ?thesis using "1.prems" by (auto simp: show_nat.simps [of n])
  next
    case False
    then show ?thesis using 1 by (auto simp: show_nat.simps [of n] intro: exI [of _ "n mod 10"])
  qed
qed

lemma digit_char_code: "d < 10 \<Longrightarrow> of_char (digit_char d) = 48 + d"
  by (simp add: digit_char_def)

lemma digit_char_plain:
  assumes "d < 10" and "of_char c < (48::nat) \<or> 57 < (of_char c :: nat)"
  shows "digit_char d \<noteq> c"
  using assms digit_char_code [OF assms(1)] by auto

lemma digit_char_not [simp]:
  assumes "d < 10"
  shows "digit_char d \<noteq> CHR ''-''" "digit_char d \<noteq> CHR ''+''" "digit_char d \<noteq> CHR 0x0A"
    "digit_char d \<noteq> CHR 0x0D" "digit_char d \<noteq> CHR '' ''"
  by (rule digit_char_plain [OF assms], simp)+

lemma show_int_plain:
  assumes "c \<in> set (show_int i)"
  shows "c = CHR ''-'' \<or> (\<exists>d<10. c = digit_char d)"
  using assms by (auto simp: show_int_def split: if_splits dest: show_nat_digits)

lemma ParseInt_show: "in_int64 i \<Longrightarrow> ParseInt (show_int i) = Some i"
proof -
  assume i: "in_int64 i"
  obtain c cs where hd: "show_nat (nat i) = c # cs" by (cases "show_nat (nat i)") simp_all
  then obtain d where "d < 10" "c = digit_char d" using show_nat_digits [of c "nat i"] by auto
  then have "c \<noteq> CHR ''-''" "c \<noteq> CHR ''+''" by simp_all
  then have "0 \<le> i \<Longrightarrow> ?thesis" using i hd parse_nat_show [of "nat i"] by (simp add: ParseInt_def show_int_def)
  moreover have "i < 0 \<Longrightarrow> ?thesis" using i by (simp add: ParseInt_def show_int_def)
  ultimately show ?thesis by linarith
qed

section \<open>JSON text\<close>

definition hex_char :: "nat \<Rightarrow> char" where
  "hex_char d = (if d < 10 then char_of (48 + d) else char_of (87 + d))"

definition marshal_char :: "char \<Rightarrow> string" where
  "marshal_char c =
     (let n = of_char c :: nat in
      if n = 34 \<or> n = 92 then [CHR 0x5C, c]
      else if n = 8 then [CHR 0x5C, CHR ''b'']
      else if n = 12 then [CHR 0x5C, CHR ''f'']
      else if n = 10 then [CHR 0x5C, CHR ''n'']
      else if n = 13 then [CHR 0x5C, CHR ''r'']
      else if n = 9 then [CHR 0x5C, CHR ''t'']
      else if n < 32 \<or> n = 60 \<or> n = 62 \<or> n = 38
        then [CHR 0x5C, CHR ''u'', CHR ''0'', CHR ''0'', hex_char (n div 16), hex_char (n mod 16)]
      else [c])"

fun marshal_chars :: "string \<Rightarrow> string" where
  "marshal_chars (a # b # c # s) =
     (if a = CHR 0xE2 \<and> b = CHR 0x80 \<and> c = CHR 0xA8 then CHR 0x5C # ''u2028'' @ marshal_chars s
      else if a = CHR 0xE2 \<and> b = CHR 0x80 \<and> c = CHR 0xA9 then CHR 0x5C # ''u2029'' @ marshal_chars s
      else marshal_char a @ marshal_chars (b # c # s))"
| "marshal_chars s = concat (map marshal_char s)"

definition marshal_string :: "string \<Rightarrow> string" where
  "marshal_string s = CHR 0x22 # marshal_chars s @ [CHR 0x22]"

fun marshal_members :: "(string \<times> string) list \<Rightarrow> string" where
  "marshal_members [] = []"
| "marshal_members [(k, v)] = marshal_string k @ '':'' @ marshal_string v"
| "marshal_members ((k, v) # ms) = marshal_string k @ '':'' @ marshal_string v @ '','' @ marshal_members ms"

definition marshal_text_map :: "(string \<times> string) list \<Rightarrow> string" where
  "marshal_text_map ms = ''{'' @ marshal_members ms @ ''}''"

text \<open>JSON text has no line feed in it: what the framing of the stream rests on.\<close>

definition one_line :: "string \<Rightarrow> bool" where
  "one_line s \<longleftrightarrow> CHR 0x0A \<notin> set s \<and> CHR 0x0D \<notin> set s"

lemma one_line_simps [simp]:
  "one_line []" "one_line (s @ t) \<longleftrightarrow> one_line s \<and> one_line t"
  "one_line (c # s) \<longleftrightarrow> c \<noteq> CHR 0x0A \<and> c \<noteq> CHR 0x0D \<and> one_line s"
  by (auto simp: one_line_def)

lemma hex_char_plain: "d < 16 \<Longrightarrow> hex_char d \<noteq> CHR 0x0A \<and> hex_char d \<noteq> CHR 0x0D"
proof -
  assume "d < 16"
  then have "(of_char (hex_char d) :: nat) \<ge> 48" by (simp add: hex_char_def)
  then show ?thesis by auto
qed

lemma one_line_marshal_char: "one_line (marshal_char c)"
proof -
  have "c = CHR 0x0A \<longleftrightarrow> (of_char c :: nat) = 10" "c = CHR 0x0D \<longleftrightarrow> (of_char c :: nat) = 13"
    using of_char_eq_iff [where ?'a = nat, of c "CHR 0x0A"] of_char_eq_iff [where ?'a = nat, of c "CHR 0x0D"] by auto
  then show ?thesis by (auto simp: marshal_char_def Let_def hex_char_plain)
qed

lemma one_line_marshal_chars: "one_line (marshal_chars s)"
  by (induction s rule: marshal_chars.induct) (simp_all add: one_line_marshal_char)

lemma one_line_marshal_map: "one_line (marshal_text_map ms)"
proof -
  have "one_line (marshal_members ms)"
    by (induction ms rule: marshal_members.induct) (simp_all add: marshal_string_def one_line_marshal_chars)
  then show ?thesis by (simp add: marshal_text_map_def)
qed

lemma one_line_show_int: "one_line (show_int i)"
proof -
  have "CHR 0x0A \<notin> set (show_int i)" using show_int_plain [of "CHR 0x0A" i] digit_char_not(3) by fastforce
  moreover have "CHR 0x0D \<notin> set (show_int i)" using show_int_plain [of "CHR 0x0D" i] digit_char_not(4) by fastforce
  ultimately show ?thesis by (simp add: one_line_def)
qed

end
