(* ===== verification/Streaming.thy ===== *)
theory Streaming
  imports Routes Wire
begin

text \<open>
  \<open>internal/streaming\<close>: the hub of event streams and the handler of one stream.

  \<^item> A connection is a number (the pointer to its \<open>Client\<close>); the clients are in a heap that the hub
    and the handlers share.  A channel is its buffer and whether it is closed; closing a closed
    channel, or sending on one, is a panic (\<open>None\<close>), which the hub's goroutine does not recover.
  \<^item> \<open>hub_register\<close>, \<open>hub_unregister\<close>, \<open>hub_publish\<close>: the cases of \<open>Hub.Run\<close>.  \<open>stream_step\<close>: the steps of
    the hub and of all handlers, in any order.
  \<^item> \<open>accept_stream\<close>, \<open>opening_frames\<close>, \<open>writeSSE\<close>: the start and the output of \<open>ServeSSE\<close>.
\<close>

section \<open>Events and clients\<close>

record stream_event =
  se_id :: int
  se_type :: string
  se_env :: uuid
  se_payload :: "(string \<times> string) list"
  se_time :: time

text \<open>The events the API publishes: they are built without an identifier.\<close>

definition stream_event_of :: "event \<Rightarrow> time \<Rightarrow> stream_event" where
  "stream_event_of e now =
     \<lparr>se_id = 0, se_type = ev_type e, se_env = ev_env e,
      se_payload = [(''action'', ev_action e), (''key'', ev_key e)], se_time = now\<rparr>"

type_synonym conn = nat

record client =
  cl_env :: uuid
  cl_send :: "stream_event list"
  cl_closed :: bool
  cl_last :: int
  cl_key :: uuid

definition NewClient :: "uuid \<Rightarrow> uuid \<Rightarrow> int \<Rightarrow> client" where
  "NewClient envID apiKeyID lastEventID =
     \<lparr>cl_env = envID, cl_send = [], cl_closed = False, cl_last = lastEventID, cl_key = apiKeyID\<rparr>"

definition sendCapacity :: nat where "sendCapacity = 16"

definition close_send :: "client \<Rightarrow> client option" where
  "close_send c = (if cl_closed c then None else Some (c\<lparr>cl_closed := True\<rparr>))"

text \<open>A send that drops the event when the buffer is full.\<close>

definition offer :: "stream_event \<Rightarrow> client \<Rightarrow> client" where
  "offer ev c = (if length (cl_send c) < sendCapacity then c\<lparr>cl_send := cl_send c @ [ev]\<rparr> else c)"

lemma offer_keeps [simp]:
  "cl_env (offer ev c) = cl_env c" "cl_key (offer ev c) = cl_key c" "cl_closed (offer ev c) = cl_closed c"
  by (simp_all add: offer_def)

section \<open>The hub\<close>

record hub =
  hb_heap :: "conn \<Rightarrow> client option"
  hb_clients :: "uuid \<Rightarrow> conn set option"
  hb_perKey :: "uuid \<Rightarrow> int"
  hb_perKeyCap :: int
  hb_publish :: "stream_event list"
  hb_redis :: "uuid \<Rightarrow> stream_event list"
  hb_connections :: int

definition NewHub :: "int \<Rightarrow> hub" where
  "NewHub cap =
     \<lparr>hb_heap = (\<lambda>_. None), hb_clients = (\<lambda>_. None), hb_perKey = (\<lambda>_. 0),
      hb_perKeyCap = (if cap \<le> 0 then 10 else cap), hb_publish = [], hb_redis = (\<lambda>_. []),
      hb_connections = 0\<rparr>"

definition members_of :: "hub \<Rightarrow> uuid \<Rightarrow> conn set" where
  "members_of h env = (case hb_clients h env of None \<Rightarrow> {} | Some s \<Rightarrow> s)"

text \<open>The connection \<open>c\<close> with the client \<open>cl\<close>; at capacity its channel is closed and nothing else happens.\<close>

definition hub_register :: "conn \<Rightarrow> client \<Rightarrow> hub \<Rightarrow> hub option" where
  "hub_register c cl h =
     (if hb_perKeyCap h \<le> hb_perKey h (cl_key cl) then
        (case close_send cl of
           None \<Rightarrow> None
         | Some cl' \<Rightarrow> Some (h\<lparr>hb_heap := (hb_heap h)(c \<mapsto> cl')\<rparr>))
      else
        Some (h\<lparr>hb_heap := (hb_heap h)(c \<mapsto> cl),
               hb_clients := (hb_clients h)(cl_env cl \<mapsto> insert c (members_of h (cl_env cl))),
               hb_perKey := (hb_perKey h)(cl_key cl := hb_perKey h (cl_key cl) + 1),
               hb_connections := hb_connections h + 1\<rparr>))"

definition forget :: "conn \<Rightarrow> client \<Rightarrow> hub \<Rightarrow> hub" where
  "forget c cl h =
     (if c \<in> members_of h (cl_env cl) then
        (let rest = members_of h (cl_env cl) - {c} in
         h\<lparr>hb_clients := (hb_clients h)(cl_env cl := if rest = {} then None else Some rest),
           hb_perKey := (hb_perKey h)(cl_key cl := hb_perKey h (cl_key cl) - 1)\<rparr>)
      else h)"

definition hub_unregister :: "conn \<Rightarrow> client \<Rightarrow> hub \<Rightarrow> hub option" where
  "hub_unregister c cl h =
     (case close_send cl of
        None \<Rightarrow> None
      | Some cl' \<Rightarrow>
          (let h' = forget c cl h in
           Some (h'\<lparr>hb_heap := (hb_heap h')(c \<mapsto> cl'), hb_connections := hb_connections h' - 1\<rparr>)))"

text \<open>The order in which the clients of an environment are served does not matter: each has a channel
  of its own.\<close>

definition broadcast :: "stream_event \<Rightarrow> hub \<Rightarrow> hub option" where
  "broadcast ev h =
     (let targets = members_of h (se_env ev) in
      if \<exists>c\<in>targets. case hb_heap h c of None \<Rightarrow> True | Some cl \<Rightarrow> cl_closed cl then None
      else Some (h\<lparr>hb_heap := (\<lambda>c. if c \<in> targets then map_option (offer ev) (hb_heap h c) else hb_heap h c)\<rparr>))"

definition replayBufferSize :: nat where "replayBufferSize = 1000"

text \<open>\<open>LPUSH\<close> and \<open>LTRIM\<close>; the flag says whether the pipeline reached Redis.\<close>

definition persistToRedis :: "bool \<Rightarrow> stream_event \<Rightarrow> hub \<Rightarrow> hub" where
  "persistToRedis reached ev h =
     (if reached
      then h\<lparr>hb_redis := (hb_redis h)(se_env ev := take replayBufferSize (ev # hb_redis h (se_env ev)))\<rparr>
      else h)"

definition hub_publish :: "bool \<Rightarrow> stream_event \<Rightarrow> hub \<Rightarrow> hub option" where
  "hub_publish reached ev h = map_option (persistToRedis reached ev) (broadcast ev h)"

definition Replay :: "uuid \<Rightarrow> int \<Rightarrow> hub \<Rightarrow> stream_event list" where
  "Replay env sinceID h = filter (\<lambda>ev. sinceID < se_id ev) (take replayBufferSize (hb_redis h env))"

section \<open>Hub and handlers together\<close>

text \<open>
  \<open>ss_open\<close> are the connections whose handler is in its loop, \<open>ss_got\<close> what each has written to its peer.
  \<open>ss_log\<close> (the events broadcast so far) and \<open>ss_since\<close> (how many there were when a connection began)
  are only there to state the properties.
\<close>

record streams =
  ss_hub :: hub
  ss_open :: "conn set"
  ss_got :: "conn \<Rightarrow> stream_event list"
  ss_log :: "stream_event list"
  ss_since :: "conn \<Rightarrow> nat"

definition no_streams :: "int \<Rightarrow> streams" where
  "no_streams cap = \<lparr>ss_hub = NewHub cap, ss_open = {}, ss_got = (\<lambda>_. []), ss_log = [], ss_since = (\<lambda>_. 0)\<rparr>"

definition publishCapacity :: nat where "publishCapacity = 256"

definition connected :: "conn \<Rightarrow> hub \<Rightarrow> streams \<Rightarrow> streams" where
  "connected c h s =
     s\<lparr>ss_hub := h, ss_open := insert c (ss_open s), ss_since := (ss_since s)(c := length (ss_log s))\<rparr>"

definition take_event :: "conn \<Rightarrow> client \<Rightarrow> stream_event \<Rightarrow> stream_event list \<Rightarrow> streams \<Rightarrow> streams" where
  "take_event c cl ev evs s =
     s\<lparr>ss_hub := (ss_hub s)\<lparr>hb_heap := (hb_heap (ss_hub s))(c \<mapsto> cl\<lparr>cl_send := evs\<rparr>)\<rparr>,
       ss_got := (ss_got s)(c := ss_got s c @ [ev])\<rparr>"

text \<open>\<open>None\<close> is the crash of the process.  A handler leaves when its peer is gone or its channel is
  closed and empty; both ways lead to the deferred \<open>Unregister\<close>.\<close>

inductive stream_step :: "streams \<Rightarrow> streams option \<Rightarrow> bool" where
  connect: "hb_heap (ss_hub s) c = None \<Longrightarrow>
    stream_step s (map_option (\<lambda>h. connected c h s) (hub_register c (NewClient env key lastID) (ss_hub s)))"
| receive: "c \<in> ss_open s \<Longrightarrow> hb_heap (ss_hub s) c = Some cl \<Longrightarrow> cl_send cl = ev # evs \<Longrightarrow>
    stream_step s (Some (take_event c cl ev evs s))"
| leave: "c \<in> ss_open s \<Longrightarrow> hb_heap (ss_hub s) c = Some cl \<Longrightarrow>
    stream_step s (map_option (\<lambda>h. s\<lparr>ss_hub := h, ss_open := ss_open s - {c}\<rparr>)
      (hub_unregister c cl (ss_hub s)))"
| enqueue: "length (hb_publish (ss_hub s)) < publishCapacity \<Longrightarrow>
    stream_step s (Some (s\<lparr>ss_hub := (ss_hub s)\<lparr>hb_publish := hb_publish (ss_hub s) @ [stream_event_of e now]\<rparr>\<rparr>))"
| dispatch: "hb_publish (ss_hub s) = ev # evs \<Longrightarrow>
    stream_step s (map_option (\<lambda>h. s\<lparr>ss_hub := h, ss_log := ss_log s @ [ev]\<rparr>)
      (hub_publish reached ev ((ss_hub s)\<lparr>hb_publish := evs\<rparr>)))"

inductive reachable :: "int \<Rightarrow> streams \<Rightarrow> bool" for cap where
  start: "reachable cap (no_streams cap)"
| next_state: "reachable cap s \<Longrightarrow> stream_step s (Some s') \<Longrightarrow> reachable cap s'"

section \<open>The hub's invariant\<close>

definition registered :: "hub \<Rightarrow> conn set" where
  "registered h = (\<Union>env. members_of h env)"

definition with_key :: "hub \<Rightarrow> uuid \<Rightarrow> conn set" where
  "with_key h key = {c \<in> registered h. map_option cl_key (hb_heap h c) = Some key}"

text \<open>A registered client is open and filed under its environment; the counters count; at most the cap.\<close>

definition hub_ok :: "hub \<Rightarrow> bool" where
  "hub_ok h \<longleftrightarrow>
     finite (registered h) \<and>
     (\<forall>env. \<forall>c\<in>members_of h env. \<exists>cl. hb_heap h c = Some cl \<and> cl_env cl = env \<and> \<not> cl_closed cl) \<and>
     (\<forall>c cl. hb_heap h c = Some cl \<longrightarrow> length (cl_send cl) \<le> sendCapacity) \<and>
     (\<forall>key. hb_perKey h key = int (card (with_key h key)) \<and> hb_perKey h key \<le> hb_perKeyCap h) \<and>
     0 < hb_perKeyCap h"

definition streams_ok :: "streams \<Rightarrow> bool" where
  "streams_ok s \<longleftrightarrow>
     hub_ok (ss_hub s) \<and> registered (ss_hub s) \<subseteq> ss_open s \<and>
     (\<forall>c\<in>ss_open s. hb_heap (ss_hub s) c \<noteq> None) \<and>
     (\<forall>c cl. c \<in> ss_open s \<longrightarrow> hb_heap (ss_hub s) c = Some cl \<longrightarrow> \<not> cl_closed cl \<longrightarrow> c \<in> registered (ss_hub s)) \<and>
     (\<forall>c cl. hb_heap (ss_hub s) c = Some cl \<longrightarrow>
        subseq (ss_got s c @ cl_send cl)
          (filter (\<lambda>ev. se_env ev = cl_env cl) (drop (ss_since s c) (ss_log s)))) \<and>
     (\<forall>c. hb_heap (ss_hub s) c = None \<longrightarrow> ss_got s c = []) \<and>
     (\<forall>c. ss_since s c \<le> length (ss_log s))"

lemma members_of_update [simp]:
  "members_of (h\<lparr>hb_clients := (hb_clients h)(e \<mapsto> S)\<rparr>) = (members_of h)(e := S)"
  "members_of (h\<lparr>hb_clients := (hb_clients h)(e := None)\<rparr>) = (members_of h)(e := {})"
  by (simp_all add: members_of_def fun_eq_iff)

lemma members_of_frame [simp]:
  "members_of (h\<lparr>hb_heap := x1\<rparr>) = members_of h" "members_of (h\<lparr>hb_perKey := x2\<rparr>) = members_of h"
  "members_of (h\<lparr>hb_publish := x3\<rparr>) = members_of h" "members_of (h\<lparr>hb_redis := x4\<rparr>) = members_of h"
  "members_of (h\<lparr>hb_connections := x5\<rparr>) = members_of h"
  by (simp_all add: members_of_def fun_eq_iff)

lemma hub_okI:
  assumes "finite (registered h)"
    and "\<And>c env. c \<in> members_of h env \<Longrightarrow> \<exists>cl. hb_heap h c = Some cl \<and> cl_env cl = env \<and> \<not> cl_closed cl"
    and "\<And>c cl. hb_heap h c = Some cl \<Longrightarrow> length (cl_send cl) \<le> sendCapacity"
    and "\<And>key. hb_perKey h key = int (card (with_key h key))"
    and "\<And>key. hb_perKey h key \<le> hb_perKeyCap h" and "0 < hb_perKeyCap h"
  shows "hub_ok h"
  unfolding hub_ok_def using assms by blast

lemma hub_okD:
  assumes "hub_ok h"
  shows "finite (registered h)"
    and "c \<in> members_of h env \<Longrightarrow> \<exists>cl. hb_heap h c = Some cl \<and> cl_env cl = env \<and> \<not> cl_closed cl"
    and "hb_heap h c = Some cl \<Longrightarrow> length (cl_send cl) \<le> sendCapacity"
    and "hb_perKey h key = int (card (with_key h key))" and "hb_perKey h key \<le> hb_perKeyCap h"
    and "0 < hb_perKeyCap h"
  using assms unfolding hub_ok_def by blast+

lemma registered_member:
  assumes "hub_ok h" and "hb_heap h c = Some cl"
  shows "c \<in> registered h \<longleftrightarrow> c \<in> members_of h (cl_env cl)"
  using hub_okD(2) [OF assms(1)] assms(2) unfolding registered_def by fastforce

lemma finite_with_key: "hub_ok h \<Longrightarrow> finite (with_key h key)"
  using hub_okD(1) by (auto simp: with_key_def)

text \<open>A change of clients that keeps environment, key and openness.\<close>

lemma hub_ok_heap:
  assumes "hub_ok h" and "\<And>c. map_option (\<lambda>cl. (cl_env cl, cl_key cl, cl_closed cl)) (heap c) =
      map_option (\<lambda>cl. (cl_env cl, cl_key cl, cl_closed cl)) (hb_heap h c)"
    and "\<And>c cl. heap c = Some cl \<Longrightarrow> length (cl_send cl) \<le> sendCapacity"
  shows "hub_ok (h\<lparr>hb_heap := heap\<rparr>)"
proof -
  have reg: "registered (h\<lparr>hb_heap := heap\<rparr>) = registered h" by (simp add: registered_def)
  have keys: "map_option cl_key (heap c) = map_option cl_key (hb_heap h c)" for c
    using arg_cong [OF assms(2) [of c], of "map_option (fst \<circ> snd)"] by (simp add: option.map_comp comp_def)
  have "with_key (h\<lparr>hb_heap := heap\<rparr>) key = with_key h key" for key
    by (simp add: with_key_def reg keys)
  moreover have "\<exists>cl. heap c = Some cl \<and> cl_env cl = env \<and> \<not> cl_closed cl" if "c \<in> members_of h env" for c env
    using hub_okD(2) [OF assms(1) that] assms(2) [of c] by (auto simp: map_option_case split: option.splits)
  ultimately show ?thesis
    using hub_okD [OF assms(1)] assms(3) by (intro hub_okI) (simp_all add: reg)
qed

lemma hub_ok_frame:
  "hub_ok (h\<lparr>hb_publish := q\<rparr>) = hub_ok h" "hub_ok (h\<lparr>hb_redis := r\<rparr>) = hub_ok h"
  "hub_ok (h\<lparr>hb_connections := n\<rparr>) = hub_ok h"
  by (simp_all add: hub_ok_def registered_def with_key_def)

lemma registered_frame [simp]:
  "registered (h\<lparr>hb_heap := x1\<rparr>) = registered h" "registered (h\<lparr>hb_perKey := x2\<rparr>) = registered h"
  "registered (h\<lparr>hb_publish := x3\<rparr>) = registered h" "registered (h\<lparr>hb_redis := x4\<rparr>) = registered h"
  "registered (h\<lparr>hb_connections := x5\<rparr>) = registered h"
  by (simp_all add: registered_def)

lemma register_cases:
  assumes "hub_ok h" and "hb_heap h c = None" and "cl = NewClient env key lastID"
  obtains (full) "hub_register c cl h = Some (h\<lparr>hb_heap := (hb_heap h)(c \<mapsto> cl\<lparr>cl_closed := True\<rparr>)\<rparr>)"
      and "hub_ok (h\<lparr>hb_heap := (hb_heap h)(c \<mapsto> cl\<lparr>cl_closed := True\<rparr>)\<rparr>)"
      and "hb_perKeyCap h \<le> hb_perKey h key"
  | (added) h' where "hub_register c cl h = Some h'" and "hub_ok h'"
      and "registered h' = insert c (registered h)" and "hb_heap h' = (hb_heap h)(c \<mapsto> cl)"
      and "hb_perKey h key < hb_perKeyCap h"
proof -
  have fresh: "c \<notin> members_of h e" for e using hub_okD(2) [OF assms(1)] assms(2) by fastforce
  then have unreg: "c \<notin> registered h" by (simp add: registered_def)
  have cl: "cl_env cl = env" "cl_key cl = key" "\<not> cl_closed cl" "cl_send cl = []"
    by (simp_all add: assms(3) NewClient_def)
  show thesis
  proof (cases "hb_perKeyCap h \<le> hb_perKey h key")
    case True
    have "with_key (h\<lparr>hb_heap := (hb_heap h)(c \<mapsto> cl\<lparr>cl_closed := True\<rparr>)\<rparr>) k = with_key h k" for k
      using unreg by (auto simp: with_key_def)
    then have "hub_ok (h\<lparr>hb_heap := (hb_heap h)(c \<mapsto> cl\<lparr>cl_closed := True\<rparr>)\<rparr>)"
      using hub_okD [OF assms(1)] fresh cl by (intro hub_okI) (auto split: if_splits)
    with True cl show thesis by (intro full) (simp_all add: hub_register_def close_send_def)
  next
    case False
    define h' where "h' = h\<lparr>hb_heap := (hb_heap h)(c \<mapsto> cl),
      hb_clients := (hb_clients h)(env \<mapsto> insert c (members_of h env)),
      hb_perKey := (hb_perKey h)(key := hb_perKey h key + 1), hb_connections := hb_connections h + 1\<rparr>"
    have mem: "members_of h' = (members_of h)(env := insert c (members_of h env))"
      by (simp add: h'_def members_of_def fun_eq_iff)
    then have reg: "registered h' = insert c (registered h)"
      by (auto simp: registered_def split: if_splits)
    have fields: "hb_heap h' = (hb_heap h)(c \<mapsto> cl)" "hb_perKeyCap h' = hb_perKeyCap h"
      "hb_perKey h' = (hb_perKey h)(key := hb_perKey h key + 1)"
      by (simp_all add: h'_def)
    have wk: "with_key h' k = (if k = key then insert c (with_key h k) else with_key h k)" for k
      using unreg cl by (auto simp: with_key_def reg fields)
    have "c \<notin> with_key h key" using unreg by (simp add: with_key_def)
    then have "hub_ok h'"
      using False hub_okD [OF assms(1)] finite_with_key [OF assms(1), of key] fresh cl
      by (intro hub_okI) (auto simp: reg wk mem fields split: if_splits)
    moreover have "hub_register c cl h = Some h'" using False cl by (simp add: hub_register_def h'_def)
    ultimately show thesis using False reg by (intro added [of h']) (simp_all add: h'_def)
  qed
qed

lemma unregister_cases:
  assumes "hub_ok h" and "hb_heap h c = Some cl"
  obtains (crash) "hub_unregister c cl h = None" and "cl_closed cl"
  | (gone) h' where "hub_unregister c cl h = Some h'" and "hub_ok h'" and "\<not> cl_closed cl"
      and "registered h' = registered h - {c}" and "hb_heap h' = (hb_heap h)(c \<mapsto> cl\<lparr>cl_closed := True\<rparr>)"
proof (cases "cl_closed cl")
  case True
  then show thesis by (intro crash) (simp_all add: hub_unregister_def close_send_def)
next
  case False
  define h' where "h' = (forget c cl h)\<lparr>hb_heap := (hb_heap h)(c \<mapsto> cl\<lparr>cl_closed := True\<rparr>),
    hb_connections := hb_connections h - 1\<rparr>"
  have un: "hub_unregister c cl h = Some h'"
    using False by (simp add: hub_unregister_def close_send_def h'_def forget_def Let_def)
  have elsewhere: "c \<notin> members_of h e" if "e \<noteq> cl_env cl" for e
    using hub_okD(2) [OF assms(1)] assms(2) that by fastforce
  have mem: "members_of h' e = members_of h e - {c}" for e
    using elsewhere [of e] by (auto simp: h'_def forget_def Let_def members_of_def split: option.splits)
  then have reg: "registered h' = registered h - {c}" by (auto simp: registered_def)
  have fields: "hb_heap h' = (hb_heap h)(c \<mapsto> cl\<lparr>cl_closed := True\<rparr>)" "hb_perKeyCap h' = hb_perKeyCap h"
    by (simp_all add: h'_def forget_def Let_def)
  have wk: "with_key h' k = with_key h k - {c}" for k by (auto simp: with_key_def reg fields)
  have perKey: "hb_perKey h' k = (if c \<in> registered h \<and> k = cl_key cl then hb_perKey h k - 1 else hb_perKey h k)" for k
    using registered_member [OF assms] by (simp add: h'_def forget_def Let_def)
  have count: "hb_perKey h' k = int (card (with_key h' k))" for k
  proof (cases "c \<in> with_key h k")
    case True
    then have "k = cl_key cl" "c \<in> registered h" using assms(2) by (auto simp: with_key_def)
    moreover have "0 < card (with_key h k)" using True finite_with_key [OF assms(1)] by (auto simp: card_gt_0_iff)
    ultimately show ?thesis
      using True hub_okD(4) [OF assms(1), of k] finite_with_key [OF assms(1), of k]
      by (simp add: perKey wk of_nat_diff)
  next
    case out: False
    then have "\<not> (c \<in> registered h \<and> k = cl_key cl)" using assms(2) by (auto simp: with_key_def)
    then have "hb_perKey h' k = hb_perKey h k" by (simp add: perKey)
    then show ?thesis using out hub_okD(4) [OF assms(1), of k] by (simp add: wk)
  qed
  have "hub_ok h'"
  proof (rule hub_okI)
    show "hb_perKey h' k \<le> hb_perKeyCap h'" for k
      using hub_okD(5) [OF assms(1), of k] by (auto simp: perKey fields)
    show "\<exists>cl'. hb_heap h' c' = Some cl' \<and> cl_env cl' = env \<and> \<not> cl_closed cl'" if "c' \<in> members_of h' env" for c' env
      using that hub_okD(2) [OF assms(1), of c' env] by (simp add: mem fields)
    show "length (cl_send cl') \<le> sendCapacity" if "hb_heap h' c' = Some cl'" for c' cl'
      using that hub_okD(3) [OF assms(1)] assms(2) by (auto simp: fields split: if_splits)
  qed (use hub_okD [OF assms(1)] count in \<open>simp_all add: reg fields\<close>)
  with un False reg fields(1) show thesis by (intro gone)
qed

lemma publish_result:
  assumes "hub_ok h"
  obtains h' where "hub_publish reached ev h = Some h'" and "hub_ok h'" and "registered h' = registered h"
    and "hb_heap h' = (\<lambda>c. if c \<in> members_of h (se_env ev) then map_option (offer ev) (hb_heap h c) else hb_heap h c)"
    and "hb_publish h' = hb_publish h"
proof -
  let ?heap = "\<lambda>c. if c \<in> members_of h (se_env ev) then map_option (offer ev) (hb_heap h c) else hb_heap h c"
  have "\<not> (\<exists>c\<in>members_of h (se_env ev). case hb_heap h c of None \<Rightarrow> True | Some cl \<Rightarrow> cl_closed cl)"
    using hub_okD(2) [OF assms] by fastforce
  then have b: "broadcast ev h = Some (h\<lparr>hb_heap := ?heap\<rparr>)" by (simp add: broadcast_def Let_def)
  have "hub_ok (h\<lparr>hb_heap := ?heap\<rparr>)"
  proof (rule hub_ok_heap [OF assms])
    show "length (cl_send cl) \<le> sendCapacity" if "?heap c = Some cl" for c cl
      using that hub_okD(3) [OF assms, of c] by (auto simp: offer_def split: if_splits)
  qed (simp add: option.map_comp comp_def)
  then have "hub_ok (persistToRedis reached ev (h\<lparr>hb_heap := ?heap\<rparr>))"
    by (simp add: persistToRedis_def hub_ok_frame)
  with b show thesis
    by (intro that [of "persistToRedis reached ev (h\<lparr>hb_heap := ?heap\<rparr>)"])
       (simp_all add: hub_publish_def persistToRedis_def)
qed

section \<open>Every reachable state is well formed\<close>

text \<open>What a connection has written and what waits for it are events of its own environment, published
  since it began, in the order of their publication.\<close>

definition delivers :: "streams \<Rightarrow> conn \<Rightarrow> client \<Rightarrow> bool" where
  "delivers s c cl \<longleftrightarrow>
     subseq (ss_got s c @ cl_send cl)
       (filter (\<lambda>ev. se_env ev = cl_env cl) (drop (ss_since s c) (ss_log s)))"

lemma streams_okI:
  assumes "hub_ok (ss_hub s)" and "registered (ss_hub s) \<subseteq> ss_open s"
    and "\<And>c. c \<in> ss_open s \<Longrightarrow> hb_heap (ss_hub s) c \<noteq> None"
    and "\<And>c cl. c \<in> ss_open s \<Longrightarrow> hb_heap (ss_hub s) c = Some cl \<Longrightarrow> \<not> cl_closed cl \<Longrightarrow> c \<in> registered (ss_hub s)"
    and "\<And>c cl. hb_heap (ss_hub s) c = Some cl \<Longrightarrow> delivers s c cl"
    and "\<And>c. hb_heap (ss_hub s) c = None \<Longrightarrow> ss_got s c = []"
    and "\<And>c. ss_since s c \<le> length (ss_log s)"
  shows "streams_ok s"
  using assms unfolding streams_ok_def delivers_def by blast

lemma streams_okD:
  assumes "streams_ok s"
  shows "hub_ok (ss_hub s)" and "registered (ss_hub s) \<subseteq> ss_open s"
    and "c \<in> ss_open s \<Longrightarrow> hb_heap (ss_hub s) c \<noteq> None"
    and "c \<in> ss_open s \<Longrightarrow> hb_heap (ss_hub s) c = Some cl \<Longrightarrow> \<not> cl_closed cl \<Longrightarrow> c \<in> registered (ss_hub s)"
    and "hb_heap (ss_hub s) c = Some cl \<Longrightarrow> delivers s c cl"
    and "hb_heap (ss_hub s) c = None \<Longrightarrow> ss_got s c = []"
    and "ss_since s c \<le> length (ss_log s)"
  using assms unfolding streams_ok_def delivers_def by blast+

lemma start_ok: "streams_ok (no_streams cap)"
  by (intro streams_okI hub_okI)
     (auto simp: no_streams_def NewHub_def registered_def members_of_def with_key_def)

lemma connect_ok:
  assumes "streams_ok s" and "hb_heap (ss_hub s) c = None"
    and "hub_register c (NewClient env key lastID) (ss_hub s) = Some h"
  shows "streams_ok (connected c h s)"
proof -
  let ?cl = "NewClient env key lastID"
  have cl: "cl_send ?cl = []" by (simp add: NewClient_def)
  have fresh: "ss_got s c = []" using streams_okD(6) [OF assms(1,2)] .
  from streams_okD(1) [OF assms(1)] assms(2) refl show ?thesis
  proof (cases rule: register_cases [of _ _ _ env key lastID])
    case full
    with assms(3) have h: "h = (ss_hub s)\<lparr>hb_heap := (hb_heap (ss_hub s))(c \<mapsto> ?cl\<lparr>cl_closed := True\<rparr>)\<rparr>"
      by simp
    show ?thesis
      using full(2) streams_okD [OF assms(1)] fresh cl
      by (intro streams_okI) (auto simp: connected_def h delivers_def split: if_splits)
  next
    case (added h')
    with assms(3) have h: "h' = h" by simp
    show ?thesis
      using added streams_okD [OF assms(1)] fresh cl unfolding h
      by (intro streams_okI) (auto simp: connected_def delivers_def split: if_splits)
  qed
qed

lemma receive_ok:
  assumes "streams_ok s" and "hb_heap (ss_hub s) c = Some cl" and "cl_send cl = ev # evs"
  shows "streams_ok (take_event c cl ev evs s)"
proof -
  have "length evs \<le> sendCapacity" using hub_okD(3) [OF streams_okD(1) [OF assms(1)] assms(2)] assms(3) by simp
  then have "hub_ok ((ss_hub s)\<lparr>hb_heap := (hb_heap (ss_hub s))(c \<mapsto> cl\<lparr>cl_send := evs\<rparr>)\<rparr>)"
    using assms(2) hub_okD(3) [OF streams_okD(1) [OF assms(1)]]
    by (intro hub_ok_heap [OF streams_okD(1) [OF assms(1)]]) (auto split: if_splits)
  moreover have "delivers (take_event c cl ev evs s) c' cl'"
    if "hb_heap (ss_hub (take_event c cl ev evs s)) c' = Some cl'" for c' cl'
    using that streams_okD(5) [OF assms(1), of c'] assms(2,3)
    by (auto simp: take_event_def delivers_def split: if_splits)
  ultimately show ?thesis
    using streams_okD [OF assms(1)] assms(2)
    by (intro streams_okI) (auto simp: take_event_def split: if_splits)
qed

lemma leave_ok:
  assumes "streams_ok s" and "hb_heap (ss_hub s) c = Some cl" and "hub_unregister c cl (ss_hub s) = Some h"
  shows "streams_ok (s\<lparr>ss_hub := h, ss_open := ss_open s - {c}\<rparr>)"
proof -
  from streams_okD(1) [OF assms(1)] assms(2) show ?thesis
  proof (cases rule: unregister_cases)
    case crash
    with assms(3) show ?thesis by simp
  next
    case (gone h')
    with assms(3) have "h' = h" by simp
    with gone streams_okD [OF assms(1)] assms(2) show ?thesis
      by (intro streams_okI) (auto simp: delivers_def split: if_splits)
  qed
qed

lemma enqueue_ok: "streams_ok s \<Longrightarrow> streams_ok (s\<lparr>ss_hub := (ss_hub s)\<lparr>hb_publish := q\<rparr>\<rparr>)"
  by (simp add: streams_ok_def hub_ok_frame)

lemma subseq_snoc: "subseq (a @ b) xs \<Longrightarrow> subseq (a @ b @ [ev]) (xs @ [ev])"
  using list_emb_append_mono [of "(=)" "a @ b" xs "[ev]" "[ev]"] by simp

lemma delivers_log:
  assumes "delivers s c cl" and "ss_since s c \<le> length (ss_log s)"
  shows "delivers (s\<lparr>ss_hub := h, ss_log := ss_log s @ [ev]\<rparr>) c cl"
    and "cl_env cl = se_env ev \<Longrightarrow> delivers (s\<lparr>ss_hub := h, ss_log := ss_log s @ [ev]\<rparr>) c (offer ev cl)"
proof -
  show "delivers (s\<lparr>ss_hub := h, ss_log := ss_log s @ [ev]\<rparr>) c cl"
    using list_emb_prefix [OF assms(1) [unfolded delivers_def]] assms(2) by (simp add: delivers_def)
  then show "delivers (s\<lparr>ss_hub := h, ss_log := ss_log s @ [ev]\<rparr>) c (offer ev cl)" if "cl_env cl = se_env ev"
    using subseq_snoc [OF assms(1) [unfolded delivers_def], of ev] assms(2) that
    by (cases "length (cl_send cl) < sendCapacity") (simp_all only: offer_def if_True if_False, simp add: delivers_def)
qed

lemma dispatch_ok:
  assumes "streams_ok s" and "hub_publish reached ev ((ss_hub s)\<lparr>hb_publish := evs\<rparr>) = Some h"
  shows "streams_ok (s\<lparr>ss_hub := h, ss_log := ss_log s @ [ev]\<rparr>)"
proof -
  let ?h = "(ss_hub s)\<lparr>hb_publish := evs\<rparr>"
  have ok: "hub_ok ?h" using streams_okD(1) [OF assms(1)] by (simp add: hub_ok_frame)
  obtain h' where "hub_publish reached ev ?h = Some h'" "hub_ok h'" "registered h' = registered ?h"
    "hb_heap h' = (\<lambda>c. if c \<in> members_of ?h (se_env ev) then map_option (offer ev) (hb_heap ?h c) else hb_heap ?h c)"
    by (rule publish_result [OF ok])
  then have h: "hub_ok h" "registered h = registered (ss_hub s)"
    "hb_heap h = (\<lambda>c. if c \<in> members_of (ss_hub s) (se_env ev) then map_option (offer ev) (hb_heap (ss_hub s) c)
       else hb_heap (ss_hub s) c)"
    using assms(2) by (simp_all cong: if_cong)
  have "delivers (s\<lparr>ss_hub := h, ss_log := ss_log s @ [ev]\<rparr>) c cl" if "hb_heap h c = Some cl" for c cl
  proof (cases "c \<in> members_of (ss_hub s) (se_env ev)")
    case True
    then obtain cl' where "hb_heap (ss_hub s) c = Some cl'" "cl_env cl' = se_env ev"
      using hub_okD(2) [OF streams_okD(1) [OF assms(1)]] by blast
    moreover from this(1) that True h(3) have "cl = offer ev cl'" by simp
    ultimately show ?thesis using delivers_log(2) [OF streams_okD(5,7) [OF assms(1)]] by simp
  next
    case False
    with that h(3) show ?thesis using delivers_log(1) [OF streams_okD(5,7) [OF assms(1)]] by simp
  qed
  moreover have "hb_heap h c = None \<longleftrightarrow> hb_heap (ss_hub s) c = None" for c by (simp add: h(3))
  moreover have "c \<in> registered h" if "c \<in> ss_open s" "hb_heap h c = Some cl" "\<not> cl_closed cl" for c cl
    using streams_okD(4) [OF assms(1) that(1)] that(2,3) by (auto simp: h(2,3) split: if_splits)
  ultimately show ?thesis
    using streams_okD(2,3,6,7) [OF assms(1)] h(1,2) by (intro streams_okI) (simp_all add: le_SucI)
qed

lemma step_ok: "stream_step s t \<Longrightarrow> t = Some s' \<Longrightarrow> streams_ok s \<Longrightarrow> streams_ok s'"
  by (induction rule: stream_step.induct)
     (auto intro: connect_ok receive_ok leave_ok enqueue_ok dispatch_ok)

lemma reachable_ok: "reachable cap s \<Longrightarrow> streams_ok s"
  by (induction rule: reachable.induct) (auto intro: start_ok step_ok [OF _ refl])

section \<open>What holds of the streams\<close>

lemma hub_cap_step: "stream_step s t \<Longrightarrow> t = Some s' \<Longrightarrow> hb_perKeyCap (ss_hub s') = hb_perKeyCap (ss_hub s)"
  by (induction rule: stream_step.induct)
     (auto simp: hub_register_def hub_unregister_def hub_publish_def broadcast_def persistToRedis_def forget_def
        take_event_def connected_def Let_def split: option.splits if_splits)

lemma hub_cap: "reachable cap s \<Longrightarrow> hb_perKeyCap (ss_hub s) = (if cap \<le> 0 then 10 else cap)"
  by (induction rule: reachable.induct) (simp_all add: hub_cap_step no_streams_def NewHub_def)

section \<open>A run to apply the properties to\<close>

definition sample_event :: event where
  "sample_event = \<lparr>ev_env = 5, ev_type = ''flag_change'', ev_key = ''checkout'', ev_action = ''toggled''\<rparr>"

definition one_connected :: streams where
  "one_connected = connected 1 (the (hub_register 1 (NewClient 5 7 0) (NewHub 1))) (no_streams 1)"

definition one_waiting :: streams where
  "one_waiting = one_connected\<lparr>ss_hub := (ss_hub one_connected)\<lparr>hb_publish := [stream_event_of sample_event 0]\<rparr>\<rparr>"

lemma one_connected_simps [simp]:
  "hb_heap (ss_hub one_connected) c = (if c = 1 then Some (NewClient 5 7 0) else None)"
  "hb_perKey (ss_hub one_connected) 7 = 1" "hb_perKeyCap (ss_hub one_connected) = 1"
  "registered (ss_hub one_connected) = {1}" "hb_publish (ss_hub one_connected) = []" "ss_open one_connected = {1}"
  "ss_got one_connected c = []" "ss_log one_connected = []" "ss_since one_connected c = 0"
  by (auto simp: one_connected_def connected_def hub_register_def NewHub_def no_streams_def NewClient_def
        registered_def members_of_def split: if_splits option.splits)

lemma reachable_one_connected: "reachable 1 one_connected"
  using stream_step.connect [of "no_streams 1" 1 5 7 0]
  by (intro reachable.next_state [OF reachable.start])
     (simp add: one_connected_def no_streams_def NewHub_def hub_register_def NewClient_def)

lemma reachable_one_waiting: "reachable 1 one_waiting"
  using stream_step.enqueue [of one_connected sample_event 0]
  by (intro reachable.next_state [OF reachable_one_connected]) (simp add: one_waiting_def publishCapacity_def)

text \<open>C24. Event isolation and order: in every reachable state, what a connection has been sent and what waits
  in its channel is a selection, in the order of their dispatch, of the events that the hub dispatched for its
  own environment after it connected.  An event that was queued before and is dispatched after may be among them.\<close>

theorem stream_isolation:
  assumes "reachable cap s" and "hb_heap (ss_hub s) c = Some cl"
  shows "subseq (ss_got s c @ cl_send cl)
           (filter (\<lambda>ev. se_env ev = cl_env cl) (drop (ss_since s c) (ss_log s)))"
  using streams_okD(5) [OF reachable_ok [OF assms(1)] assms(2)] by (simp add: delivers_def)

lemma stream_isolation_witness:
  "subseq (ss_got one_connected 1 @ cl_send (NewClient 5 7 0))
     (filter (\<lambda>ev. se_env ev = cl_env (NewClient 5 7 0)) (drop (ss_since one_connected 1) (ss_log one_connected)))"
  by (rule stream_isolation [OF reachable_one_connected]) simp

text \<open>C26. The hub's bounds: in every reachable state the counter of a key is the number of its registered
  connections and at most the configured cap (10 when that is not positive), no channel holds more than
  16 events, and no registered connection has a closed channel.\<close>

theorem hub_bounds:
  assumes "reachable cap s"
  shows "hb_perKey (ss_hub s) key = int (card (with_key (ss_hub s) key)) \<and>
         card (with_key (ss_hub s) key) \<le> nat (if cap \<le> 0 then 10 else cap) \<and>
         (\<forall>c cl. hb_heap (ss_hub s) c = Some cl \<longrightarrow>
            length (cl_send cl) \<le> 16 \<and> (c \<in> registered (ss_hub s) \<longrightarrow> \<not> cl_closed cl))"
proof -
  have ok: "hub_ok (ss_hub s)" using streams_okD(1) [OF reachable_ok [OF assms]] .
  have "\<not> cl_closed cl" if "hb_heap (ss_hub s) c = Some cl" "c \<in> registered (ss_hub s)" for c cl
    using that hub_okD(2) [OF ok] registered_member [OF ok that(1)] by fastforce
  moreover have "length (cl_send cl) \<le> 16" if "hb_heap (ss_hub s) c = Some cl" for c cl
    using hub_okD(3) [OF ok that] by (simp add: sendCapacity_def)
  moreover have "card (with_key (ss_hub s) key) \<le> nat (if cap \<le> 0 then 10 else cap)"
    using hub_okD(4,5) [OF ok, of key] hub_cap [OF assms] by (simp split: if_splits)
  ultimately show ?thesis using hub_okD(4) [OF ok] by blast
qed

lemma hub_bounds_witness:
  "hb_perKey (ss_hub one_connected) 7 = 1 \<and> card (with_key (ss_hub one_connected) 7) = 1"
  using hub_bounds [OF reachable_one_connected, of 7] by simp

text \<open>When the hub's goroutine panics: exactly when a handler leaves whose connection was not admitted.\<close>

lemma register_returns:
  assumes "hub_ok h" and "hb_heap h c = None"
  shows "hub_register c (NewClient env key lastID) h \<noteq> None"
  by (rule register_cases [OF assms refl]) auto

lemma crash_step:
  "stream_step s t \<Longrightarrow> t = None \<Longrightarrow> streams_ok s \<Longrightarrow> \<exists>c\<in>ss_open s. c \<notin> registered (ss_hub s)"
proof (induction rule: stream_step.induct)
  case (connect s c env key lastID)
  then show ?case using register_returns [OF streams_okD(1), of s c env key lastID] by simp
next
  case (leave c s cl)
  from leave have closed: "cl_closed cl"
    by (auto simp: hub_unregister_def close_send_def Let_def split: if_splits)
  have "c \<notin> registered (ss_hub s)"
    using registered_member [OF streams_okD(1) [OF leave.prems(2)] leave(2)]
      hub_okD(2) [OF streams_okD(1) [OF leave.prems(2)], of c "cl_env cl"] leave(2) closed by fastforce
  with leave(1) show ?case by blast
next
  case (dispatch s ev evs reached)
  have "hub_ok ((ss_hub s)\<lparr>hb_publish := evs\<rparr>)"
    using streams_okD(1) [OF dispatch.prems(2)] by (simp add: hub_ok_frame)
  then obtain h where "hub_publish reached ev ((ss_hub s)\<lparr>hb_publish := evs\<rparr>) = Some h"
    by (rule publish_result)
  with dispatch.prems show ?case by simp
qed auto

lemma leaving_unadmitted_crashes:
  assumes "streams_ok s" and "c \<in> ss_open s" and "c \<notin> registered (ss_hub s)"
  shows "stream_step s None"
proof -
  obtain cl where cl: "hb_heap (ss_hub s) c = Some cl" using streams_okD(3) [OF assms(1,2)] by blast
  with assms have "cl_closed cl" using streams_okD(4) by blast
  then show ?thesis
    using stream_step.leave [OF assms(2) cl] by (simp add: hub_unregister_def close_send_def)
qed

text \<open>C22. The process can crash in a reachable state exactly when the handler of some connection that the hub
  did not admit is still running; its leaving closes the connection's channel a second time.\<close>

theorem crash_iff_unadmitted:
  assumes "reachable cap s"
  shows "stream_step s None \<longleftrightarrow> (\<exists>c\<in>ss_open s. c \<notin> registered (ss_hub s))"
  using crash_step [OF _ refl reachable_ok [OF assms]] leaving_unadmitted_crashes [OF reachable_ok [OF assms]] by blast

lemma crash_iff_unadmitted_witness: "\<not> stream_step one_connected None"
  by (simp add: crash_iff_unadmitted [OF reachable_one_connected])

text \<open>C23. A key at its cap brings the process down: whenever a key has as many connections as it may have, one
  more connection with that key and its end crash the hub.\<close>

theorem over_cap_connection_crashes:
  assumes "reachable cap s" and "hb_perKeyCap (ss_hub s) \<le> hb_perKey (ss_hub s) key"
    and "hb_heap (ss_hub s) c = None"
  shows "\<exists>s'. stream_step s (Some s') \<and> c \<in> ss_open s' \<and> stream_step s' None"
proof -
  let ?cl = "NewClient env key lastID"
  have ok: "streams_ok s" using reachable_ok [OF assms(1)] .
  from streams_okD(1) [OF ok] assms(3) refl show ?thesis
  proof (cases rule: register_cases [of _ _ ?cl env key lastID])
    case full
    let ?s = "connected c ((ss_hub s)\<lparr>hb_heap := (hb_heap (ss_hub s))(c \<mapsto> ?cl\<lparr>cl_closed := True\<rparr>)\<rparr>) s"
    have move: "stream_step s (Some ?s)" using stream_step.connect [OF assms(3), of env key lastID] full(1) by simp
    have "c \<notin> registered (ss_hub ?s)"
      using hub_okD(2) [OF streams_okD(1) [OF ok], of c] assms(3) by (auto simp: connected_def registered_def)
    with move step_ok [OF move refl ok] show ?thesis
      by (intro exI [of _ ?s] conjI leaving_unadmitted_crashes) (auto simp: connected_def)
  next
    case added
    with assms(2) show ?thesis by simp
  qed
qed

lemma over_cap_connection_crashes_witness:
  "\<exists>s'. stream_step one_connected (Some s') \<and> 2 \<in> ss_open s' \<and> stream_step s' None"
  by (rule over_cap_connection_crashes [OF reachable_one_connected, of 7]) simp_all

section \<open>Delivery\<close>

text \<open>The steps of the hub's publishing and of the handler of the connection \<open>c\<close>; every other handler stands still.\<close>

inductive own_step :: "conn \<Rightarrow> streams \<Rightarrow> streams \<Rightarrow> bool" for c where
  takes: "c \<in> ss_open s \<Longrightarrow> hb_heap (ss_hub s) c = Some cl \<Longrightarrow> cl_send cl = ev # evs \<Longrightarrow>
    own_step c s (take_event c cl ev evs s)"
| publishes: "hb_publish (ss_hub s) = ev # evs \<Longrightarrow>
    hub_publish reached ev ((ss_hub s)\<lparr>hb_publish := evs\<rparr>) = Some h \<Longrightarrow>
    own_step c s (s\<lparr>ss_hub := h, ss_log := ss_log s @ [ev]\<rparr>)"

lemma own_step_step: "own_step c s s' \<Longrightarrow> stream_step s (Some s')"
proof (induction rule: own_step.induct)
  case (takes s cl ev evs)
  then show ?case by (rule stream_step.receive)
next
  case (publishes s ev evs reached h)
  then show ?case using stream_step.dispatch [OF publishes(1), of reached] by simp
qed

lemma own_steps_ok: "(own_step c)\<^sup>*\<^sup>* s s' \<Longrightarrow> streams_ok s \<Longrightarrow> streams_ok s'"
  by (induction rule: rtranclp_induct) (auto intro: step_ok [OF own_step_step refl])

text \<open>No other stream takes anything meanwhile.\<close>

lemma own_steps_others: "(own_step c)\<^sup>*\<^sup>* s s' \<Longrightarrow> c' \<noteq> c \<Longrightarrow> ss_got s' c' = ss_got s c'"
  by (induction rule: rtranclp_induct) (auto simp: take_event_def elim!: own_step.cases)

lemma drain:
  assumes "c \<in> ss_open s" and "hb_heap (ss_hub s) c = Some cl"
  obtains s' where "(own_step c)\<^sup>*\<^sup>* s s'" and "hb_heap (ss_hub s') c = Some (cl\<lparr>cl_send := []\<rparr>)"
    and "ss_got s' c = ss_got s c @ cl_send cl" and "ss_open s' = ss_open s"
    and "hb_publish (ss_hub s') = hb_publish (ss_hub s)" and "registered (ss_hub s') = registered (ss_hub s)"
  using assms
proof (induction "cl_send cl" arbitrary: s cl thesis)
  case Nil
  then show ?case by (intro Nil.prems(1) [of s]) simp_all
next
  case (Cons ev evs)
  let ?s = "take_event c cl ev evs s"
  obtain s' where s': "(own_step c)\<^sup>*\<^sup>* ?s s'" "hb_heap (ss_hub s') c = Some (cl\<lparr>cl_send := []\<rparr>)"
    "ss_got s' c = ss_got ?s c @ evs" "ss_open s' = ss_open ?s"
    "hb_publish (ss_hub s') = hb_publish (ss_hub ?s)" "registered (ss_hub s') = registered (ss_hub ?s)"
    by (rule Cons.hyps(1) [of "cl\<lparr>cl_send := evs\<rparr>" ?s]) (use Cons.prems(2) in \<open>simp_all add: take_event_def\<close>)
  have "own_step c s ?s" by (rule own_step.takes [OF Cons.prems(2,3) Cons.hyps(2) [symmetric]])
  then have "(own_step c)\<^sup>*\<^sup>* s s'" using s'(1) by (rule converse_rtranclp_into_rtranclp)
  moreover have "ss_got s' c = ss_got s c @ cl_send cl"
    unfolding s'(3) Cons.hyps(2) [symmetric] by (simp add: take_event_def)
  ultimately show ?case
    using s'(2,4-6) by (intro Cons.prems(1) [of s']) (simp_all add: take_event_def)
qed

text \<open>What the hub's publishing does to the channel of a registered connection.\<close>

lemma publish_to_member:
  assumes "streams_ok s" and "c \<in> registered (ss_hub s)" and "hb_heap (ss_hub s) c = Some cl"
  obtains h where "hub_publish reached ev ((ss_hub s)\<lparr>hb_publish := evs\<rparr>) = Some h" and "hb_publish h = evs"
    and "registered h = registered (ss_hub s)"
    and "hb_heap h c = Some (if cl_env cl = se_env ev then offer ev cl else cl)"
proof -
  let ?h = "(ss_hub s)\<lparr>hb_publish := evs\<rparr>"
  have ok: "hub_ok ?h" using streams_okD(1) [OF assms(1)] by (simp add: hub_ok_frame)
  obtain h where h: "hub_publish reached ev ?h = Some h" "registered h = registered ?h" "hb_publish h = hb_publish ?h"
    "hb_heap h = (\<lambda>c. if c \<in> members_of ?h (se_env ev) then map_option (offer ev) (hb_heap ?h c) else hb_heap ?h c)"
    by (rule publish_result [OF ok])
  have member: "c \<in> members_of (ss_hub s) (cl_env cl)"
    using registered_member [OF streams_okD(1) [OF assms(1)] assms(3)] assms(2) by simp
  have elsewhere: "cl_env cl = se_env ev" if "c \<in> members_of (ss_hub s) (se_env ev)"
    using hub_okD(2) [OF streams_okD(1) [OF assms(1)] that] assms(3) by simp
  have "hb_heap h c = Some (if cl_env cl = se_env ev then offer ev cl else cl)"
    using member elsewhere assms(3) by (auto simp: h(4))
  with h that show thesis by simp
qed

lemma dispatch_one:
  assumes "streams_ok s" and "hb_publish (ss_hub s) = ev # evs" and "c \<in> registered (ss_hub s)"
    and "hb_heap (ss_hub s) c = Some (cl\<lparr>cl_send := []\<rparr>)"
  obtains s' where "own_step c s s'" and "hb_publish (ss_hub s') = evs" and "registered (ss_hub s') = registered (ss_hub s)"
    and "ss_open s' = ss_open s" and "ss_got s' = ss_got s"
    and "hb_heap (ss_hub s') c = Some (cl\<lparr>cl_send := (if cl_env cl = se_env ev then [ev] else [])\<rparr>)"
proof -
  obtain h where h: "hub_publish True ev ((ss_hub s)\<lparr>hb_publish := evs\<rparr>) = Some h" "hb_publish h = evs"
    "registered h = registered (ss_hub s)"
    "hb_heap h c = Some (if cl_env (cl\<lparr>cl_send := []\<rparr>) = se_env ev then offer ev (cl\<lparr>cl_send := []\<rparr>) else cl\<lparr>cl_send := []\<rparr>)"
    by (rule publish_to_member [OF assms(1,3,4)])
  from own_step.publishes [OF assms(2) h(1)] show thesis
    by (rule that) (use h in \<open>simp_all add: offer_def sendCapacity_def\<close>)
qed

lemma deliver:
  assumes "streams_ok s" and "hb_publish (ss_hub s) = pre @ ev # post" and "c \<in> registered (ss_hub s)"
    and "hb_heap (ss_hub s) c = Some cl" and "cl_env cl = se_env ev"
  shows "\<exists>s'. (own_step c)\<^sup>*\<^sup>* s s' \<and>
    ss_got s' c = ss_got s c @ cl_send cl @ filter (\<lambda>e. se_env e = cl_env cl) pre @ [ev]"
  using assms
proof (induction pre arbitrary: s cl)
  case (Nil s cl)
  then have opened: "c \<in> ss_open s" using streams_okD(2) by blast
  obtain s1 where s1: "(own_step c)\<^sup>*\<^sup>* s s1" "hb_heap (ss_hub s1) c = Some (cl\<lparr>cl_send := []\<rparr>)" "ss_open s1 = ss_open s"
    "ss_got s1 c = ss_got s c @ cl_send cl"
    "hb_publish (ss_hub s1) = hb_publish (ss_hub s)" "registered (ss_hub s1) = registered (ss_hub s)"
    by (rule drain [OF opened Nil(4)])
  have "hb_publish (ss_hub s1) = ev # post" "c \<in> registered (ss_hub s1)" using s1 Nil(2,3) by simp_all
  then obtain s2 where s2: "own_step c s1 s2" "ss_open s2 = ss_open s1" "ss_got s2 = ss_got s1"
    "hb_heap (ss_hub s2) c = Some (cl\<lparr>cl_send := (if cl_env cl = se_env ev then [ev] else [])\<rparr>)"
    by (rule dispatch_one [OF own_steps_ok [OF s1(1) Nil(1)] _ _ s1(2)])
  have "c \<in> ss_open s2" using opened s1(3) s2(2) by simp
  then obtain s3 where s3: "(own_step c)\<^sup>*\<^sup>* s2 s3" "ss_got s3 c = ss_got s2 c @ [ev]"
    by (rule drain [OF _ s2(4)]) (use Nil(5) in simp)
  have "(own_step c)\<^sup>*\<^sup>* s s3" using s1(1) s2(1) s3(1) by (meson converse_rtranclp_into_rtranclp rtranclp_trans)
  with s1(4) s2(3) s3(2) show ?case by (intro exI [of _ s3]) simp
next
  case (Cons a pre s cl)
  then have opened: "c \<in> ss_open s" using streams_okD(2) by blast
  obtain s1 where s1: "(own_step c)\<^sup>*\<^sup>* s s1" "hb_heap (ss_hub s1) c = Some (cl\<lparr>cl_send := []\<rparr>)" "ss_open s1 = ss_open s"
    "ss_got s1 c = ss_got s c @ cl_send cl"
    "hb_publish (ss_hub s1) = hb_publish (ss_hub s)" "registered (ss_hub s1) = registered (ss_hub s)"
    by (rule drain [OF opened Cons.prems(4)])
  have "hb_publish (ss_hub s1) = a # pre @ ev # post" "c \<in> registered (ss_hub s1)" using s1 Cons.prems(2,3) by simp_all
  then obtain s2 where s2: "own_step c s1 s2" "hb_publish (ss_hub s2) = pre @ ev # post"
    "registered (ss_hub s2) = registered (ss_hub s1)" "ss_got s2 = ss_got s1"
    "hb_heap (ss_hub s2) c = Some (cl\<lparr>cl_send := (if cl_env cl = se_env a then [a] else [])\<rparr>)"
    by (rule dispatch_one [OF own_steps_ok [OF s1(1) Cons.prems(1)] _ _ s1(2)])
  have to2: "(own_step c)\<^sup>*\<^sup>* s s2" using s1(1) s2(1) by (rule rtranclp.rtrancl_into_rtrancl)
  obtain s3 where "(own_step c)\<^sup>*\<^sup>* s2 s3" "ss_got s3 c = ss_got s2 c @
      (if cl_env cl = se_env a then [a] else []) @ filter (\<lambda>e. se_env e = cl_env cl) pre @ [ev]"
    using Cons.IH [OF own_steps_ok [OF to2 Cons.prems(1)] s2(2) _ s2(5)] Cons.prems(3,5) s1(6) s2(3) by auto
  with to2 s1(4) s2(4) show ?case by (intro exI [of _ s3]) (auto intro: rtranclp_trans)
qed

text \<open>C25. Delivery: an event in the hub's queue can reach every registered connection of its environment by steps of
  the hub's publishing and of that connection's own handler alone, after what waits in its channel and the earlier
  events of its environment; so no other connection, however slow, can hold it up.  When its turn comes, the hub
  puts it at the end of the connection's channel exactly if fewer than 16 events wait there, and drops it otherwise.\<close>

theorem published_event_arrives:
  assumes "reachable cap s" and "hb_publish (ss_hub s) = pre @ ev # post" and "c \<in> registered (ss_hub s)"
    and "hb_heap (ss_hub s) c = Some cl" and "cl_env cl = se_env ev"
  shows "(\<exists>s'. (own_step c)\<^sup>*\<^sup>* s s' \<and>
      ss_got s' c = ss_got s c @ cl_send cl @ filter (\<lambda>e. se_env e = cl_env cl) pre @ [ev]) \<and>
    (pre = [] \<longrightarrow> (\<exists>h. hub_publish reached ev ((ss_hub s)\<lparr>hb_publish := post\<rparr>) = Some h \<and>
      hb_heap h c = Some (if length (cl_send cl) < 16 then cl\<lparr>cl_send := cl_send cl @ [ev]\<rparr> else cl)))"
proof -
  have ok: "streams_ok s" using reachable_ok [OF assms(1)] .
  obtain h where "hub_publish reached ev ((ss_hub s)\<lparr>hb_publish := post\<rparr>) = Some h"
    "hb_heap h c = Some (if cl_env cl = se_env ev then offer ev cl else cl)"
    by (rule publish_to_member [OF ok assms(3,4)])
  with deliver [OF ok assms(2-5)] assms(5) show ?thesis by (simp add: offer_def sendCapacity_def)
qed

lemma published_event_arrives_witness:
  "\<exists>s'. (own_step 1)\<^sup>*\<^sup>* one_waiting s' \<and> ss_got s' 1 = [stream_event_of sample_event 0]"
  using published_event_arrives [OF reachable_one_waiting, of "[]" "stream_event_of sample_event 0" "[]" 1 "NewClient 5 7 0"]
  by (simp add: one_waiting_def NewClient_def stream_event_of_def sample_event_def)

section \<open>The handler of one stream\<close>

definition parseLastEventID :: "string \<Rightarrow> int" where
  "parseLastEventID s = (if s = [] then 0 else case ParseInt s of None \<Rightarrow> 0 | Some n \<Rightarrow> n)"

text \<open>
  \<open>accept_stream\<close> is \<open>ServeSSE\<close> up to \<open>Register\<close>: whether the writer can flush, the identifiers the API
  key middleware left in the context, the header \<open>Last-Event-ID\<close>, and whether the hub's goroutine was
  waiting for a registration at that moment (\<open>Register\<close> does not wait).
\<close>

definition accept_stream :: "bool \<Rightarrow> uuid \<Rightarrow> uuid \<Rightarrow> string \<Rightarrow> bool \<Rightarrow> (nat \<times> string) + client" where
  "accept_stream flusher envID apiKeyID lastEventID ready =
     (if \<not> flusher then Inl (500, ''streaming unsupported'')
      else if envID = uuid_nil then Inl (401, ''unauthorized'')
      else if apiKeyID = uuid_nil then Inl (401, ''unauthorized'')
      else if \<not> ready then Inl (429, ''too many connections'')
      else Inr (NewClient envID apiKeyID (parseLastEventID lastEventID)))"

definition newline :: string where "newline = [CHR 0x0A]"

definition writeSSE :: "stream_event \<Rightarrow> string" where
  "writeSSE ev =
     ''id: '' @ show_int (se_id ev) @ newline @ ''event: '' @ se_type ev @ newline @
     ''data: '' @ marshal_text_map (se_payload ev) @ newline @ newline"

definition resync_frame :: string where
  "resync_frame = ''event: resync'' @ newline @ ''data: {}'' @ newline @ newline"

text \<open>The heartbeat; \<open>ts\<close> is the time as \<open>time.RFC3339\<close> prints it, which needs no escapes.\<close>

definition heartbeat_frame :: "string \<Rightarrow> string" where
  "heartbeat_frame ts =
     ''event: heartbeat'' @ newline @ ''data: {'' @ marshal_string ''ts'' @ '':'' @ [CHR 0x22] @ ts @ [CHR 0x22] @ ''}'' @
     newline @ newline"

text \<open>What \<open>ServeSSE\<close> writes before its loop; \<open>reached\<close> says whether Redis answered.\<close>

definition opening_frames :: "bool \<Rightarrow> client \<Rightarrow> hub \<Rightarrow> string" where
  "opening_frames reached cl h =
     (if 0 < cl_last cl then
        (if reached then concat (map writeSSE (Replay (cl_env cl) (cl_last cl) h)) else resync_frame)
      else [])"

text \<open>Every event has the identifier 0: the publishers do not set one and the hub does not assign one.\<close>

definition without_ids :: "hub \<Rightarrow> bool" where
  "without_ids h \<longleftrightarrow> (\<forall>ev\<in>set (hb_publish h). se_id ev = 0) \<and> (\<forall>env. \<forall>ev\<in>set (hb_redis h env). se_id ev = 0)"

lemma without_ids_step: "stream_step s t \<Longrightarrow> t = Some s' \<Longrightarrow> without_ids (ss_hub s) \<Longrightarrow> without_ids (ss_hub s')"
proof (induction rule: stream_step.induct)
  case (dispatch s ev evs reached)
  then show ?case
    by (auto simp: hub_publish_def broadcast_def persistToRedis_def without_ids_def Let_def
          split: if_splits dest!: in_set_takeD)
qed (auto simp: hub_register_def hub_unregister_def forget_def take_event_def connected_def without_ids_def
       stream_event_of_def Let_def split: option.splits if_splits)

lemma reachable_without_ids: "reachable cap s \<Longrightarrow> without_ids (ss_hub s)"
  by (induction rule: reachable.induct) (simp_all add: without_ids_step [OF _ refl], simp add: without_ids_def no_streams_def NewHub_def)

lemma logged_without_ids:
  "stream_step s t \<Longrightarrow> t = Some s' \<Longrightarrow> without_ids (ss_hub s) \<Longrightarrow>
    \<forall>ev\<in>set (ss_log s). se_id ev = 0 \<Longrightarrow> \<forall>ev\<in>set (ss_log s'). se_id ev = 0"
  by (induction rule: stream_step.induct) (auto simp: take_event_def connected_def without_ids_def)

text \<open>So no connection is ever sent an event with another identifier.\<close>

lemma reachable_got_without_ids:
  assumes "reachable cap s" and "ev \<in> set (ss_got s c)"
  shows "se_id ev = 0"
proof -
  have "\<forall>ev\<in>set (ss_log s). se_id ev = 0"
    using assms(1)
    by (induction rule: reachable.induct)
       (simp add: no_streams_def, rule logged_without_ids [OF _ refl reachable_without_ids])
  moreover have "ev \<in> set (ss_log s)"
  proof (cases "hb_heap (ss_hub s) c")
    case None
    then show ?thesis using streams_okD(6) [OF reachable_ok [OF assms(1)]] assms(2) by simp
  next
    case (Some cl)
    have "set (ss_got s c @ cl_send cl) \<subseteq> set (filter (\<lambda>ev. se_env ev = cl_env cl) (drop (ss_since s c) (ss_log s)))"
      using streams_okD(5) [OF reachable_ok [OF assms(1)] Some]
      by (auto simp: delivers_def dest: list_emb_set)
    then show ?thesis using assms(2) by (auto dest: in_set_dropD)
  qed
  ultimately show ?thesis by blast
qed

lemma reachable_own_steps: "(own_step c)\<^sup>*\<^sup>* s s' \<Longrightarrow> reachable cap s \<Longrightarrow> reachable cap s'"
  by (induction rule: rtranclp_induct) (auto intro: reachable.next_state own_step_step)

text \<open>The replay buffer is written and never read to any effect: whatever \<open>Last-Event-ID\<close> a client comes
  back with, a stream that Redis can serve opens without a single event.\<close>

theorem reconnect_replays_nothing:
  assumes "reachable cap s" and "accept_stream True envID apiKeyID lastEventID True = Inr cl"
  shows "opening_frames True cl (ss_hub s) = []"
proof -
  have "filter (\<lambda>ev. cl_last cl < se_id ev) (take replayBufferSize (hb_redis (ss_hub s) (cl_env cl))) = []"
    if "0 < cl_last cl"
    using reachable_without_ids [OF assms(1)] that
    by (auto simp: without_ids_def filter_empty_conv dest: in_set_takeD)
  then show ?thesis by (simp add: opening_frames_def Replay_def)
qed

lemma reconnect_replays_nothing_witness:
  "opening_frames True (NewClient 5 7 42) (ss_hub one_waiting) = []"
  by (rule reconnect_replays_nothing [OF reachable_one_waiting, of 5 7 "''42''"]) code_simp

end
