(* ===== verification/Sessions.thy ===== *)
theory Sessions
  imports Outcomes Samples
begin

text \<open>
  What login, refresh and logout promise (\<open>internal/api/auth.go\<close>): a session is opened only for the right password
  of an account that is not locked, a refresh token is exchanged once, and presenting it again ends every session of
  its user.
\<close>

section \<open>Rules\<close>

lemma yields_read:
  assumes "reads m \<Phi>" and "\<And>e n. yields Q (h e) (w\<lparr>tick := n\<rparr>)"
    and "\<And>x n. \<Phi> x (db w) \<Longrightarrow> yields Q (k x) (w\<lparr>tick := n\<rparr>)"
  shows "yields Q (attempt m h k) w"
  by (rule attempt_read [OF assms(1), of h k w]) (simp_all add: yields_def assms(2,3) [unfolded yields_def])

lemma yields_drawing:
  assumes "\<And>n. yields Q h (w\<lparr>tick := n\<rparr>)" and "\<And>raw n. yields Q (k (raw, HashRefreshToken cr raw)) (w\<lparr>tick := n\<rparr>)"
  shows "yields Q (drawing (GenerateRefreshToken cr b) h k) w"
proof -
  have "generateOpaqueToken b w = (fst (generateOpaqueToken b w), w\<lparr>tick := tick w\<rparr>) \<or>
    generateOpaqueToken b w = (fst (generateOpaqueToken b w), w\<lparr>tick := Suc (tick w)\<rparr>)"
    by (simp add: generateOpaqueToken_def Let_def)
  then obtain x n where "generateOpaqueToken b w = (x, w\<lparr>tick := n\<rparr>)" by metis
  then show ?thesis
    using assms by (cases x) (simp_all add: yields_def drawing_def GenerateRefreshToken_def)
qed

lemma yields_with_access_token:
  assumes "Q (internal_error, w)" and "\<And>token. yields Q (k token) w"
  shows "yields Q (with_access_token sv user tenant role sid k) w"
  using assms by (auto simp: yields_def with_access_token_def with_now_def reply_def split: option.split)

lemma yields_attempt:
  assumes "\<And>e w'. m w = (Inl e, w') \<Longrightarrow> yields Q (h e) w'" and "\<And>x w'. m w = (Inr x, w') \<Longrightarrow> yields Q (k x) w'"
  shows "yields Q (attempt m h k) w"
  using assms by (cases "m w"; cases "fst (m w)") (auto simp: yields_def attempt_def)

lemma yields_logged: "yields Q k (snd (m w)) \<Longrightarrow> yields Q (logged m k) w"
  by (simp add: yields_def logged_def)

lemma reads_role:
  "reads (GetRole tenant user) (\<lambda>role d. \<exists>m\<in>set (members d). m_tenant m = tenant \<and> m_user m = user \<and> m_role m = role)"
  unfolding GetRole_def [abs_def] by (rule reads_weaken [OF reads_query(1)]) (auto dest: find_Some_in)

lemma reads_session:
  "reads (GetByRefreshHash h) (\<lambda>s d. s \<in> set (sessions d) \<and> s_refresh_hash s = h)"
  unfolding GetByRefreshHash_def [abs_def] by (rule reads_weaken [OF reads_query(1)]) (auto dest: find_Some_in)

lemma reads_user_by_id: "reads (UserStore_GetByID i) (\<lambda>u d. u \<in> set (users d) \<and> u_id u = i)"
  unfolding UserStore_GetByID_def [abs_def] by (rule reads_weaken [OF reads_query(1)]) (auto dest: find_Some_in)

lemma reads_user_by_email:
  "reads (UserStore_GetByEmail e) (\<lambda>u d. u \<in> set (users d) \<and> citext_eq (u_email u) (trim_space e))"
  unfolding UserStore_GetByEmail_def [abs_def] Let_def
  by (rule reads_weaken [OF reads_query(2)]) (auto dest: find_Some_in)

lemma lookup_cases:
  assumes "m w = found e (wrapped (run_sql (query f) w))"
  obtains (failed) "m w = (Inl ErrDatabase, w\<lparr>tick := Suc (tick w)\<rparr>)" and "fault w (tick w)"
  | (missing) "m w = (Inl e, w\<lparr>tick := Suc (tick w)\<rparr>)" and "f (db w) = None"
  | (found) x where "m w = (Inr x, w\<lparr>tick := Suc (tick w)\<rparr>)" and "f (db w) = Some x"
  using assms
  by (cases "fault w (tick w)"; cases "f (db w)") (auto simp: run_query found_def wrapped_def)

section \<open>Rotation\<close>

lemma runInTx_done:
  assumes "runInTx f w = (Inr x, w')"
  obtains w1 w2 n where "f w1 = (Inr x, w2)" and "db w1 = db w" and "db w' = db w2"
  using assms
  by (auto simp: runInTx_def in_tx_def Let_def split: if_splits prod.splits sum.splits tx_error.splits)

lemma andThen_done:
  assumes "andThen m k w = (Inr y, w')"
  obtains x w1 where "m w = (Inr x, w1)" and "k x w1 = (Inr y, w')"
  using assms by (auto simp: andThen_def split: prod.splits sum.splits)

lemma insert_revoked_done:
  assumes "RevokedTokenStore_Insert t w = (Inr x, w')"
  shows "sessions (db w') = sessions (db w) \<and> set (revoked_tokens (db w)) \<subseteq> set (revoked_tokens (db w')) \<and>
    (\<exists>t'\<in>set (revoked_tokens (db w')). rt_hash t' = rt_hash t \<and>
       (rt_hash t \<notin> rt_hash ` set (revoked_tokens (db w)) \<longrightarrow>
         rt_user t' = rt_user t \<and> rt_tenant t' = rt_tenant t \<and> rt_expires t' = rt_expires t))"
proof -
  let ?t = "t\<lparr>rt_id := id_or_new w (rt_id t),
    rt_revoked := if rt_revoked t = zero_time then clock w (tick w) else rt_revoked t\<rparr>"
  from assms obtain d where d: "insert_revoked ?t (db w) (sql_now w) = Inr ((), d)" "db w' = d"
    by (cases rule: run_sql_cases [of w "insert_revoked ?t"])
       (auto simp: RevokedTokenStore_Insert_def Let_def wrapped_def)
  show ?thesis
  proof (cases "rt_hash t \<in> rt_hash ` set (revoked_tokens (db w))")
    case True
    with d have "db w' = db w" by (simp add: insert_revoked_def split: if_splits)
    with True show ?thesis by force
  next
    case False
    with d have "db w' = (db w)\<lparr>revoked_tokens := revoked_tokens (db w) @ [?t]\<rparr>"
      by (auto simp: insert_revoked_def insertion_def split: if_splits)
    then show ?thesis by auto
  qed
qed

lemma delete_session_done:
  assumes "SessionStore_DeleteByID i w = (Inr x, w')"
  shows "sessions (db w') = filter (\<lambda>s. s_id s \<noteq> i) (sessions (db w)) \<and> revoked_tokens (db w') = revoked_tokens (db w)"
  using assms
  by (cases rule: run_sql_cases [of w "delete_sessions (\<lambda>s. s_id s = i)"])
     (auto simp: SessionStore_DeleteByID_def delete_sessions_def wrapped_def affected_def split: if_splits)

lemma create_session_done:
  assumes "SessionStore_Create s w = (Inr s', w')"
  shows "sessions (db w') = sessions (db w) @ [s'] \<and> revoked_tokens (db w') = revoked_tokens (db w) \<and>
    s_user s' = s_user s \<and> s_tenant s' = s_tenant s \<and> s_refresh_hash s' = s_refresh_hash s \<and> s_expires s' = s_expires s \<and>
    s_refresh_hash s' \<notin> s_refresh_hash ` set (sessions (db w)) \<and> members (db w') = members (db w)"
  using assms
  by (cases rule: run_sql_cases [of w "insert_session (s\<lparr>s_id := id_or_new w (s_id s)\<rparr>)"])
     (auto simp: SessionStore_Create_def insert_session_def insertion_def wrapped_unique_def Let_def split: if_splits)

lemma rotate_done:
  assumes "runInTx (rotate_tx h u s new) w = (Inr s', w')"
  shows "sessions (db w') = filter (\<lambda>x. s_id x \<noteq> s_id s) (sessions (db w)) @ [s'] \<and>
    set (revoked_tokens (db w)) \<subseteq> set (revoked_tokens (db w')) \<and>
    (\<exists>t\<in>set (revoked_tokens (db w')). rt_hash t = h \<and> (h \<notin> rt_hash ` set (revoked_tokens (db w)) \<longrightarrow> rt_user t = u_id u)) \<and>
    s_user s' = s_user new \<and> s_tenant s' = s_tenant new \<and> s_refresh_hash s' = s_refresh_hash new \<and>
    s_expires s' = s_expires new \<and> s_refresh_hash s' \<notin> s_refresh_hash ` {x \<in> set (sessions (db w)). s_id x \<noteq> s_id s}"
proof -
  obtain w1 w2 where f: "rotate_tx h u s new w1 = (Inr s', w2)" and w1: "db w1 = db w" and w': "db w' = db w2"
    using runInTx_done [OF assms] by metis
  obtain wa wb x y where a: "RevokedTokenStore_Insert (revoked h (u_id u) s) w1 = (Inr x, wa)"
    and b: "SessionStore_DeleteByID (s_id s) wa = (Inr y, wb)" and c: "SessionStore_Create new wb = (Inr s', w2)"
    using f unfolding rotate_tx_def by (auto elim!: andThen_done)
  show ?thesis
    using insert_revoked_done [OF a] delete_session_done [OF b] create_session_done [OF c]
    by (auto simp: w1 w' revoked_def)
qed

text \<open>What a refresh that succeeds does: the session of the token is replaced by one with the token of the cookie,
  for the same user and tenant, and the old token is on the list of revoked ones.\<close>

definition rotated :: "server \<Rightarrow> string \<Rightarrow> session \<Rightarrow> response \<Rightarrow> database \<Rightarrow> database \<Rightarrow> bool" where
  "rotated sv h s rs d d' \<longleftrightarrow>
     s \<in> set (sessions d) \<and> s_refresh_hash s = h \<and> h \<notin> rt_hash ` set (revoked_tokens d) \<and>
     set (revoked_tokens d) \<subseteq> set (revoked_tokens d') \<and>
     (\<exists>t\<in>set (revoked_tokens d'). rt_hash t = h \<and> rt_user t = s_user s) \<and>
     (\<exists>s' raw expires. sessions d' = filter (\<lambda>x. s_id x \<noteq> s_id s) (sessions d) @ [s'] \<and>
        rs_cookie rs = Some (raw, expires) \<and> s_refresh_hash s' = HashRefreshToken (sv_crypto sv) raw \<and>
        s_expires s' = expires \<and> s_user s' = s_user s \<and> s_tenant s' = s_tenant s)"

lemma token_response_simps [simp]:
  "rs_status (token_response sv a raw now) = 200" "rs_cookie (token_response sv a raw now) = Some (raw, now + sv_refresh_ttl sv)"
  by (simp_all add: token_response_def setRefreshCookie_def)

lemma rotate_session_yields:
  assumes "s \<in> set (sessions (db w))" and "s_refresh_hash s = h" and "h \<notin> rt_hash ` set (revoked_tokens (db w))"
    and "u_id u = s_user s" and "\<And>res. rs_status (fst res) \<noteq> 200 \<Longrightarrow> Q res"
    and "\<And>rs w'. rotated sv h s rs (db w) (db w') \<Longrightarrow> Q (rs, w')"
  shows "yields Q (rotate_session sv r h s u role now) w"
  unfolding rotate_session_def
proof (rule yields_drawing)
  show "yields Q (reply internal_error) (w\<lparr>tick := n\<rparr>)" for n by (rule yields_reply, rule assms(5)) simp
  fix raw n
  let ?new = "new_session sv r (u_id u) (s_tenant s) (HashRefreshToken (sv_crypto sv) raw) now"
  show "yields Q (case (raw, HashRefreshToken (sv_crypto sv) raw) of (newRaw, newHash) \<Rightarrow>
      attempt (runInTx (rotate_tx h u s (new_session sv r (u_id u) (s_tenant s) newHash now))) or_internal
        (\<lambda>s'. with_access_token sv (u_id u) (s_tenant s) role (s_id s')
           (\<lambda>accessToken. writeAudit sv r (s_tenant s) (u_id u) ''auth.refresh'' ''session'' (Some (s_id s'))
              (reply (token_response sv accessToken newRaw now))))) (w\<lparr>tick := n\<rparr>)"
    unfolding prod.case
  proof (rule yields_attempt)
    show "yields Q (or_internal e) w'" for e w'
      unfolding or_internal_def by (rule yields_reply, rule assms(5)) simp
    fix s' w'
    assume "runInTx (rotate_tx h u s ?new) (w\<lparr>tick := n\<rparr>) = (Inr s', w')"
    note rot = rotate_done [OF this]
    show "yields Q (with_access_token sv (u_id u) (s_tenant s) role (s_id s')
           (\<lambda>accessToken. writeAudit sv r (s_tenant s) (u_id u) ''auth.refresh'' ''session'' (Some (s_id s'))
              (reply (token_response sv accessToken raw now)))) w'"
    proof (rule yields_with_access_token)
      show "Q (internal_error, w')" by (rule assms(5)) simp
      show "yields Q (writeAudit sv r (s_tenant s) (u_id u) ''auth.refresh'' ''session'' (Some (s_id s'))
          (reply (token_response sv token raw now))) w'" for token
        by (rule yields_writeAudit, rule yields_reply, rule assms(6))
           (use rot assms(1-4) in \<open>auto simp: rotated_def new_session_def\<close>)
    qed
  qed
qed

lemma refresh_rotates:
  assumes "handleRefresh sv r w = (rs, w')" and "rs_status rs = 200"
  obtains raw s n where "refresh_cookie r = Some raw" and "rotated sv (HashRefreshToken (sv_crypto sv) raw) s rs (db w) (db w')"
    and "clock w n < s_expires s"
proof -
  let ?Q = "\<lambda>res. rs_status (fst res) = 200 \<longrightarrow> (\<exists>raw s n. refresh_cookie r = Some raw \<and>
    rotated sv (HashRefreshToken (sv_crypto sv) raw) s (fst res) (db w) (db (snd res)) \<and> clock w n < s_expires s)"
  have denied: "yields ?Q invalid_credentials v" "yields ?Q (reply internal_error) v" for v
    by (simp_all add: yields_def invalid_credentials_def reply_def)
  have "yields ?Q (handleRefresh sv r) w"
  proof (cases "refresh_cookie r")
    case None
    then show ?thesis using denied(1) by (simp add: handleRefresh_def yields_def)
  next
    case (Some raw)
    let ?h = "HashRefreshToken (sv_crypto sv) raw"
    let ?w = "w\<lparr>tick := Suc (tick w)\<rparr>"
    have found: "yields ?Q (attempt (GetByRefreshHash ?h) (\<lambda>_. invalid_credentials)
       (\<lambda>s. with_now (\<lambda>now.
          if \<not> now < s_expires s then logged (SessionStore_DeleteByID (s_id s)) invalid_credentials
          else attempt (UserStore_GetByID (s_user s)) (\<lambda>_. invalid_credentials)
            (\<lambda>u. attempt (GetRole (s_tenant s) (s_user s)) (\<lambda>_. invalid_credentials)
               (\<lambda>role. rotate_session sv r ?h s u role now))))) ?w"
      if fresh: "?h \<notin> rt_hash ` set (revoked_tokens (db w))"
      apply (rule yields_read [OF reads_session], rule denied)
      apply (rule yields_with_now)
      apply (rule yields_branches(1))
      apply (rule yields_logged, rule denied)
      apply (rule yields_read [OF reads_user_by_id], rule denied)
      apply (rule yields_read [OF reads_role], rule denied)
      apply (rule rotate_session_yields)
      using fresh Some by auto
    have lookup: "RevokedTokenStore_Lookup ?h w = found ErrNotFound
        (wrapped (run_sql (query (\<lambda>d. find (\<lambda>t. rt_hash t = ?h) (revoked_tokens d))) w))"
      by (simp add: RevokedTokenStore_Lookup_def)
    show ?thesis
    proof (rule lookup_cases [of "RevokedTokenStore_Lookup ?h", OF lookup])
      assume m: "RevokedTokenStore_Lookup ?h w = (Inl ErrDatabase, ?w)"
      show ?thesis using denied(2) [of ?w] by (simp add: handleRefresh_def Some Let_def yields_def attempt_def m)
    next
      assume m: "RevokedTokenStore_Lookup ?h w = (Inl ErrNotFound, ?w)"
        and "find (\<lambda>t. rt_hash t = ?h) (revoked_tokens (db w)) = None"
      then have "?h \<notin> rt_hash ` set (revoked_tokens (db w))" by (auto simp: find_None_iff)
      from found [OF this] show ?thesis
        by (simp add: handleRefresh_def Some Let_def yields_def attempt_def [of "RevokedTokenStore_Lookup ?h"] m)
    next
      fix t assume m: "RevokedTokenStore_Lookup ?h w = (Inr t, ?w)"
      have "yields ?Q (handleRefreshReuse sv r t) ?w"
        unfolding handleRefreshReuse_def
        by (rule yields_logged, rule yields_writeAudit, rule yields_reply) (simp add: clearRefreshCookie_def)
      then show ?thesis by (simp add: handleRefresh_def Some Let_def yields_def attempt_def m)
    qed
  qed
  from yieldsD [OF this assms(1)] assms(2) that show thesis by auto
qed

section \<open>Reuse\<close>

lemma AuditStore_Insert_frame: "sessions (db (snd (AuditStore_Insert a w))) = sessions (db w)"
  by (cases rule: AuditStore_Insert_cases [of a w]) simp_all

lemma writeAudit_reply:
  "fst (writeAudit sv r tenant user act rt res (reply x) w) = x \<and>
   sessions (db (snd (writeAudit sv r tenant user act rt res (reply x) w))) = sessions (db w)"
  by (cases rule: writeAudit_cases [of sv r tenant user act rt res "reply x" w]) (simp_all add: reply_def)

lemma delete_by_user:
  "sessions (db (snd (DeleteByUserID i w))) =
     (if fault w (tick w) then sessions (db w) else filter (\<lambda>s. s_user s \<noteq> i) (sessions (db w)))"
  by (cases rule: run_sql_cases [of w "delete_sessions (\<lambda>s. s_user s = i)"])
     (auto simp: DeleteByUserID_def delete_sessions_def wrapped_def)

lemma reuse_detected:
  assumes "refresh_cookie r = Some raw" and "t \<in> set (revoked_tokens (db w))"
    and "rt_hash t = HashRefreshToken (sv_crypto sv) raw" and "unique rt_hash (revoked_tokens (db w))"
    and "handleRefresh sv r w = (rs, w')"
  shows "rs_status rs \<in> {401, 500} \<and> rs_payload rs = PNone \<and>
    (if fault w (tick w) \<or> fault w (Suc (tick w)) then sessions (db w') = sessions (db w)
     else rs = clearRefreshCookie (Error 401 ''INVALID_CREDENTIALS'') \<and>
       sessions (db w') = filter (\<lambda>s. s_user s \<noteq> rt_user t) (sessions (db w)))"
proof -
  let ?h = "HashRefreshToken (sv_crypto sv) raw" and ?w = "w\<lparr>tick := Suc (tick w)\<rparr>"
  have "RevokedTokenStore_Lookup ?h w = found ErrNotFound
      (wrapped (run_sql (query (\<lambda>d. find (\<lambda>t. rt_hash t = ?h) (revoked_tokens d))) w))"
    by (simp add: RevokedTokenStore_Lookup_def)
  then show ?thesis
  proof (rule lookup_cases [of "RevokedTokenStore_Lookup ?h"])
    assume "RevokedTokenStore_Lookup ?h w = (Inl ErrDatabase, ?w)" and "fault w (tick w)"
    then show ?thesis using assms(1,5) by (auto simp: handleRefresh_def Let_def attempt_def reply_def)
  next
    assume "find (\<lambda>t. rt_hash t = ?h) (revoked_tokens (db w)) = None"
    then show ?thesis using assms(2,3) by (auto simp: find_None_iff)
  next
    fix t' assume m: "RevokedTokenStore_Lookup ?h w = (Inr t', ?w)"
      and f: "find (\<lambda>t. rt_hash t = ?h) (revoked_tokens (db w)) = Some t'"
    then have up: "\<not> fault w (tick w)"
      by (auto simp: RevokedTokenStore_Lookup_def run_query found_def wrapped_def)
    from find_Some_in [OF f] assms(2-4) have t': "t' = t" by (auto simp: unique_def distinct_map inj_on_def)
    have run: "handleRefreshReuse sv r t ?w = (rs, w')"
      using assms(1,5) m by (simp add: handleRefresh_def Let_def attempt_def t')
    have "rs = clearRefreshCookie (Error 401 ''INVALID_CREDENTIALS'')"
      and "sessions (db w') = sessions (db (snd (DeleteByUserID (rt_user t) ?w)))"
      using writeAudit_reply [of sv r "rt_tenant t" "rt_user t" "''auth.refresh_reuse''" "''user''" "Some (rt_user t)"
          "clearRefreshCookie (Error 401 ''INVALID_CREDENTIALS'')" "snd (DeleteByUserID (rt_user t) ?w)"]
      by (simp_all add: run [unfolded handleRefreshReuse_def logged_def])
    then show ?thesis using up by (simp add: clearRefreshCookie_def delete_by_user)
  qed
qed

text \<open>C27. A refresh token is exchanged at most once, and stealing one is noticed: a refresh that succeeds replaces the
  token's session by one for the same user and tenant whose token is the new cookie; whenever the old token is
  presented again while its revocation is on the list, the answer is an error without a payload, and unless the
  database fails, all sessions of that user are gone afterwards and the cookie is cleared.\<close>

theorem refresh_token_single_use:
  assumes "handleRefresh sv r1 w1 = (rs1, w1')" and "rs_status rs1 = 200"
    and "refresh_cookie r2 = refresh_cookie r1"
    and "set (revoked_tokens (db w1')) \<subseteq> set (revoked_tokens (db w2))" and "keys_unique (db w2)"
    and "handleRefresh sv r2 w2 = (rs2, w2')"
  shows "\<exists>s h. rotated sv h s rs1 (db w1) (db w1') \<and> rs_status rs2 \<in> {401, 500} \<and> rs_payload rs2 = PNone \<and>
    (if fault w2 (tick w2) \<or> fault w2 (Suc (tick w2)) then sessions (db w2') = sessions (db w2)
     else rs2 = clearRefreshCookie (Error 401 ''INVALID_CREDENTIALS'') \<and>
       sessions (db w2') = filter (\<lambda>x. s_user x \<noteq> s_user s) (sessions (db w2)))"
proof -
  obtain raw s n where raw: "refresh_cookie r1 = Some raw"
    and rot: "rotated sv (HashRefreshToken (sv_crypto sv) raw) s rs1 (db w1) (db w1')"
    by (rule refresh_rotates [OF assms(1,2)])
  then obtain t where t: "t \<in> set (revoked_tokens (db w2))" "rt_hash t = HashRefreshToken (sv_crypto sv) raw"
    "rt_user t = s_user s" using assms(4) by (auto simp: rotated_def)
  have "unique rt_hash (revoked_tokens (db w2))" using assms(5) by (simp add: keys_unique_def)
  from reuse_detected [OF _ t(1,2) this assms(6)] raw assms(3) rot show ?thesis by (auto simp: t(3))
qed

definition refresh_world :: world where
  "refresh_world = (sample_world (sample_db\<lparr>sessions :=
     [\<lparr>s_id = 7, s_user = 1, s_tenant = 1, s_refresh_hash = ''tok'', s_user_agent = None, s_ip = None, s_expires = 2000,
       s_created = 1\<rparr>]\<rparr>))\<lparr>random_bytes := \<lambda>n k. Some [0]\<rparr>"

definition refresh_request :: http_request where
  "refresh_request = (sample_request ''POST'' '''' NoBody)\<lparr>rq_refresh_cookie := Some ''tok''\<rparr>"

lemma refresh_token_single_use_witness:
  "rs_payload (fst (handleRefresh sample_server refresh_request
     (snd (handleRefresh sample_server refresh_request refresh_world)))) = PNone"
proof -
  let ?f = "handleRefresh sample_server refresh_request refresh_world"
  have "rs_status (fst ?f) = 200" by code_simp
  moreover have "keys_unique (db (snd ?f))" by code_simp
  moreover have "?f = (fst ?f, snd ?f)" "handleRefresh sample_server refresh_request (snd ?f) =
      (fst (handleRefresh sample_server refresh_request (snd ?f)), snd (handleRefresh sample_server refresh_request (snd ?f)))"
    by simp_all
  ultimately show ?thesis using refresh_token_single_use [OF _ _ refl subset_refl] by blast
qed

section \<open>Login\<close>

lemma tick_twice: "w\<lparr>tick := m, tick := n\<rparr> = w\<lparr>tick := n\<rparr>"
  by simp

definition recent_failures :: "database \<Rightarrow> uuid \<Rightarrow> time \<Rightarrow> nat" where
  "recent_failures d user now =
     length (filter (\<lambda>a. la_user a = user \<and> now - loginLockoutWindow \<le> la_at a) (login_attempts d))"

lemma reads_count:
  "reads (CountSince user (now - loginLockoutWindow)) (\<lambda>n d. n = recent_failures d user now)"
  unfolding CountSince_def [abs_def] by (rule reads_weaken [OF reads_query(3)]) (simp add: recent_failures_def)

lemma reads_members: "reads (MemberStore_ListByUser user) (\<lambda>ms d. set ms \<subseteq> {m \<in> set (members d). m_user m = user})"
  unfolding MemberStore_ListByUser_def [abs_def]
  by (rule reads_weaken [OF reads_query(3)]) (auto simp: order_by_def)

lemma reads_tenant: "reads (TenantStore_GetBySlug slug) (\<lambda>t d. t \<in> set (tenants d) \<and> t_slug t = trim_space slug)"
  unfolding TenantStore_GetBySlug_def [abs_def]
  by (rule reads_weaken [OF reads_query(2)]) (auto dest: find_Some_in)

lemma resolveUserTenant_result:
  assumes "resolveUserTenant user slug w = (res, w')"
  shows "\<exists>n. w' = w\<lparr>tick := n\<rparr>"
    and "res = Inr (tenant, role) \<Longrightarrow> \<exists>m\<in>set (members (db w)). m_user m = user \<and> m_tenant m = tenant \<and> m_role m = role"
proof -
  have "(\<exists>n. w' = w\<lparr>tick := n\<rparr>) \<and> (res = Inr (tenant, role) \<longrightarrow>
      (\<exists>m\<in>set (members (db w)). m_user m = user \<and> m_tenant m = tenant \<and> m_role m = role))"
  proof (cases "trim_space slug = []")
    case True
    let ?h = "\<lambda>e. reply (Inl (errStore e)) :: (tenant_error + uuid \<times> string) step"
    let ?k = "\<lambda>ms. case ms of [] \<Rightarrow> reply (Inl errNoTenantAccess)
       | [m] \<Rightarrow> reply (Inr (m_tenant m, m_role m)) | _ \<Rightarrow> reply (Inl errMultipleTenants)"
    have run: "attempt (MemberStore_ListByUser user) ?h ?k w = (res, w')"
      using assms True by (simp add: resolveUserTenant_def)
    show ?thesis
      by (rule attempt_read [OF reads_members [of user], of ?h ?k w])
         (use run in \<open>auto simp: reply_def split: list.splits\<close>)
  next
    case False
    let ?h = "\<lambda>e. reply (Inl (errStore e)) :: (tenant_error + uuid \<times> string) step"
    let ?h' = "\<lambda>e. reply (Inl (if e = ErrNotFound then errTenantMismatch else errStore e)) :: (tenant_error + uuid \<times> string) step"
    let ?k = "\<lambda>t. attempt (GetRole (t_id t) user) ?h' (\<lambda>role. reply (Inr (t_id t, role)))"
    have run: "attempt (TenantStore_GetBySlug (trim_space slug)) ?h ?k w = (res, w')"
      using assms False by (simp add: resolveUserTenant_def Let_def)
    show ?thesis
    proof (rule attempt_read [OF reads_tenant [of "trim_space slug"], of ?h ?k w])
      fix t n assume "attempt (TenantStore_GetBySlug (trim_space slug)) ?h ?k w = ?k t (w\<lparr>tick := n\<rparr>)"
      with run have "?k t (w\<lparr>tick := n\<rparr>) = (res, w')" by simp
      show ?thesis
      proof (rule attempt_read [OF reads_role [of "t_id t" user], of ?h' "\<lambda>role. reply (Inr (t_id t, role))" "w\<lparr>tick := n\<rparr>"])
        fix e n' assume "?k t (w\<lparr>tick := n\<rparr>) = ?h' e (w\<lparr>tick := n, tick := n'\<rparr>)"
        with \<open>?k t (w\<lparr>tick := n\<rparr>) = (res, w')\<close> show ?thesis by (auto simp: reply_def)
      next
        fix role' n' assume "?k t (w\<lparr>tick := n\<rparr>) = reply (Inr (t_id t, role')) (w\<lparr>tick := n, tick := n'\<rparr>)"
          and "\<exists>m\<in>set (members (db (w\<lparr>tick := n\<rparr>))). m_tenant m = t_id t \<and> m_user m = user \<and> m_role m = role'"
        with \<open>?k t (w\<lparr>tick := n\<rparr>) = (res, w')\<close> show ?thesis by (auto simp: reply_def)
      qed
    qed (use run in \<open>auto simp: reply_def\<close>)
  qed
  then show "\<exists>n. w' = w\<lparr>tick := n\<rparr>"
    and "res = Inr (tenant, role) \<Longrightarrow> \<exists>m\<in>set (members (db w)). m_user m = user \<and> m_tenant m = tenant \<and> m_role m = role"
    by auto
qed

lemma tenant_summaries_yields:
  assumes "\<And>acc n. yields Q (k acc) (w\<lparr>tick := n\<rparr>)"
  shows "yields Q (tenant_summaries ms acc k) (w\<lparr>tick := n\<rparr>)"
proof (induction ms arbitrary: acc n)
  case (Cons m ms)
  have r: "reads (TenantStore_GetByID (m_tenant m)) (\<lambda>t d. True)"
    unfolding TenantStore_GetByID_def [abs_def] by (rule reads_weaken [OF reads_query(1)]) simp
  show ?case
    unfolding tenant_summaries.simps
    using yields_read [OF r, of Q "\<lambda>_. tenant_summaries ms acc k" "w\<lparr>tick := n\<rparr>"] Cons.IH by simp
qed (simp add: assms)

lemma tenant_error_yields:
  assumes "\<And>res n. rs_status (fst res) \<noteq> 200 \<Longrightarrow> snd res = w\<lparr>tick := n\<rparr> \<Longrightarrow> Q res"
  shows "yields Q (tenant_error_reply user e) (w\<lparr>tick := n\<rparr>)"
proof -
  have err: "c \<noteq> 200 \<Longrightarrow> yields Q (reply (Error c x)) (w\<lparr>tick := n\<rparr>)" "yields Q (reply internal_error) (w\<lparr>tick := n\<rparr>)"
    for c x n by (auto intro!: yields_reply assms)
  show ?thesis
  proof (cases e)
    case errMultipleTenants
    have "yields Q (tenant_summaries ms [] (\<lambda>ts. reply ((JSON 409 (PTenants ts))\<lparr>rs_code := ''MULTIPLE_TENANTS''\<rparr>)))
        (w\<lparr>tick := n\<rparr>)" for ms n
      by (rule tenant_summaries_yields) (auto intro!: yields_reply assms simp: JSON_def)
    then show ?thesis
      using yields_read [OF reads_members [of user], where Q = Q and h = or_internal and w = "w\<lparr>tick := n\<rparr>"] err(2)
      by (simp add: errMultipleTenants tenant_error_reply_def writeMultipleTenants_def or_internal_def)
  qed (use err in \<open>auto simp: tenant_error_reply_def invalid_credentials_def\<close>)
qed

definition logged_in :: "server \<Rightarrow> http_request \<Rightarrow> login_request \<Rightarrow> response \<Rightarrow> world \<Rightarrow> database \<Rightarrow> bool" where
  "logged_in sv r req rs w d' \<longleftrightarrow>
     (\<exists>u\<in>set (users (db w)). \<exists>m\<in>set (members (db w)). \<exists>s raw n.
        citext_eq (u_email u) (trim_space (lr_email req)) \<and> password_matches sv u (lr_password req) \<and>
        recent_failures (db w) (u_id u) (clock w n) < maxFailedLoginAttempts \<and> m_user m = u_id u \<and>
        sessions d' = sessions (db w) @ [s] \<and> s_user s = u_id u \<and> s_tenant s = m_tenant m \<and>
        rs_cookie rs = Some (raw, s_expires s) \<and> s_refresh_hash s = HashRefreshToken (sv_crypto sv) raw)"

lemma logged_tables:
  "sessions (db (snd (ClearForUser i w))) = sessions (db w)" "sessions (db (snd (UpdateLastLogin i t w))) = sessions (db w)"
  "sessions (db (snd (LoginAttemptStore_Record a w))) = sessions (db w)"
proof -
  show "sessions (db (snd (ClearForUser i w))) = sessions (db w)"
    by (cases rule: run_sql_cases [of w "delete_attempts (\<lambda>a. la_user a = i)"])
       (auto simp: ClearForUser_def delete_attempts_def wrapped_def)
  show "sessions (db (snd (UpdateLastLogin i t w))) = sessions (db w)"
    by (cases rule: run_sql_cases [of w "update_user i (\<lambda>u. u\<lparr>u_last_login := Some t\<rparr>)"])
       (auto simp: UpdateLastLogin_def update_user_def)
  show "sessions (db (snd (LoginAttemptStore_Record a w))) = sessions (db w)"
    by (cases rule: run_sql_cases [of w "insert_login_attempt (a\<lparr>la_id := id_or_new w (la_id a),
          la_at := if la_at a = zero_time then clock w (tick w) else la_at a\<rparr>)"])
       (auto simp: LoginAttemptStore_Record_def insert_login_attempt_def insertion_def Let_def split: if_splits)
qed

lemma open_session_yields:
  assumes "\<And>res. rs_status (fst res) = 500 \<Longrightarrow> Q res"
    and "\<And>rs w' s raw. sessions (db w') = sessions (db w) @ [s] \<Longrightarrow> s_user s = u_id u \<Longrightarrow> s_tenant s = tenant \<Longrightarrow>
      rs_cookie rs = Some (raw, s_expires s) \<Longrightarrow> s_refresh_hash s = HashRefreshToken (sv_crypto sv) raw \<Longrightarrow>
      rs_status rs = 200 \<Longrightarrow> Q (rs, w')"
  shows "yields Q (open_session sv r u tenant role) w"
  unfolding open_session_def
proof (rule yields_logged, rule yields_drawing)
  show "yields Q (reply internal_error) v" for v by (rule yields_reply, rule assms(1)) simp
  fix raw n
  let ?v = "snd (ClearForUser (u_id u) w)\<lparr>tick := n\<rparr>"
  show "yields Q (case (raw, HashRefreshToken (sv_crypto sv) raw) of (refreshRaw, refreshHash) \<Rightarrow> with_now (\<lambda>now.
      attempt (SessionStore_Create (new_session sv r (u_id u) tenant refreshHash now)) or_internal
        (\<lambda>s. with_access_token sv (u_id u) tenant role (s_id s)
           (\<lambda>accessToken. logged (UpdateLastLogin (u_id u) now)
              (writeAudit sv r tenant (u_id u) ''auth.login'' ''user'' (Some (u_id u))
                (reply (token_response sv accessToken refreshRaw now))))))) ?v"
    unfolding prod.case
  proof (rule yields_with_now, rule yields_attempt)
    show "yields Q (or_internal e) w'" for e w'
      unfolding or_internal_def by (rule yields_reply, rule assms(1)) simp
    let ?now = "clock ?v (tick ?v)"
    fix s w'
    assume "SessionStore_Create (new_session sv r (u_id u) tenant (HashRefreshToken (sv_crypto sv) raw) ?now) ?v = (Inr s, w')"
    note new = create_session_done [OF this]
    show "yields Q (with_access_token sv (u_id u) tenant role (s_id s)
           (\<lambda>accessToken. logged (UpdateLastLogin (u_id u) ?now)
              (writeAudit sv r tenant (u_id u) ''auth.login'' ''user'' (Some (u_id u))
                (reply (token_response sv accessToken raw ?now))))) w'"
    proof (rule yields_with_access_token)
      show "Q (internal_error, w')" by (rule assms(1)) simp
      show "yields Q (logged (UpdateLastLogin (u_id u) ?now)
         (writeAudit sv r tenant (u_id u) ''auth.login'' ''user'' (Some (u_id u))
           (reply (token_response sv token raw ?now)))) w'" for token
        by (rule yields_logged, rule yields_writeAudit, rule yields_reply, rule assms(2) [where s = s and raw = raw])
           (use new in \<open>auto simp: new_session_def logged_tables\<close>)
    qed
  qed
qed

definition login_outcome :: "server \<Rightarrow> http_request \<Rightarrow> world \<Rightarrow> response \<times> world \<Rightarrow> bool" where
  "login_outcome sv r w = (\<lambda>(rs, w').
     (rs_status rs = 200 \<longrightarrow> (\<exists>req. DecodeJSON decode_login r = Inr req \<and> logged_in sv r req rs w (db w'))) \<and>
     (rs_status rs \<notin> {200, 500} \<longrightarrow> sessions (db w') = sessions (db w)))"

lemma login_accepted:
  assumes req: "DecodeJSON decode_login r = Inr req" and u: "u \<in> set (users (db w))"
    "citext_eq (u_email u) (trim_space (lr_email req))" "password_matches sv u (lr_password req)"
    "recent_failures (db w) (u_id u) (clock w n) < maxFailedLoginAttempts"
  shows "yields (login_outcome sv r w) (\<lambda>v. case resolveUserTenant (u_id u) (lr_tenant_slug req) v of
        (Inl e, w') \<Rightarrow> tenant_error_reply (u_id u) e w'
      | (Inr (tenant, role), w') \<Rightarrow> open_session sv r u tenant role w') (w\<lparr>tick := k\<rparr>)"
proof (cases "resolveUserTenant (u_id u) (lr_tenant_slug req) (w\<lparr>tick := k\<rparr>)")
  case (Pair res v)
  then obtain k' where v: "v = w\<lparr>tick := k'\<rparr>" using resolveUserTenant_result(1) [OF Pair] by auto
  show ?thesis
  proof (cases res)
    case (Inl e)
    have "yields (login_outcome sv r w) (tenant_error_reply (u_id u) e) (w\<lparr>tick := k'\<rparr>)"
      by (rule tenant_error_yields) (auto simp: login_outcome_def split_def)
    then show ?thesis using Pair Inl v by (simp add: yields_def)
  next
    case (Inr tr)
    obtain tenant role where tr: "tr = (tenant, role)" by (cases tr)
    obtain m where m: "m \<in> set (members (db w))" "m_user m = u_id u" "m_tenant m = tenant"
      using resolveUserTenant_result(2) [OF Pair, of tenant role] Inr tr by auto
    have "yields (login_outcome sv r w) (open_session sv r u tenant role) (w\<lparr>tick := k'\<rparr>)"
    proof (rule open_session_yields)
      fix rs :: response and w' :: world and s :: session and raw
      assume "sessions (db w') = sessions (db (w\<lparr>tick := k'\<rparr>)) @ [s]" "s_user s = u_id u" "s_tenant s = tenant"
        "rs_cookie rs = Some (raw, s_expires s)" "s_refresh_hash s = HashRefreshToken (sv_crypto sv) raw" "rs_status rs = 200"
      with u m have "logged_in sv r req rs w (db w')"
        unfolding logged_in_def by (intro bexI [of _ u] bexI [of _ m] exI [of _ s] exI [of _ raw] exI [of _ n]) simp_all
      with req \<open>rs_status rs = 200\<close> show "login_outcome sv r w (rs, w')" by (auto simp: login_outcome_def)
    qed (auto simp: login_outcome_def split_def)
    then show ?thesis using Pair Inr tr v by (simp add: yields_def)
  qed
qed

text \<open>C28. A login answers 200 only for the right password of an account that has a member of the tenant and had fewer
  than five failed logins in the last fifteen minutes; it then adds exactly one session, of that user and tenant,
  whose refresh token is the cookie's.  Every other answer but a server error leaves the sessions alone.\<close>

theorem login_opens_session:
  assumes "handleLogin sv r w = (rs, w')"
  shows "(rs_status rs = 200 \<longrightarrow> (\<exists>req. DecodeJSON decode_login r = Inr req \<and> logged_in sv r req rs w (db w'))) \<and>
    (rs_status rs \<notin> {200, 500} \<longrightarrow> sessions (db w') = sessions (db w))"
proof -
  let ?Q = "login_outcome sv r w"
  have refuse: "sessions (db v) = sessions (db w) \<Longrightarrow> c \<noteq> 200 \<Longrightarrow> yields ?Q (reply (Error c x)) v"
    "sessions (db v) = sessions (db w) \<Longrightarrow> yields ?Q invalid_credentials v" "yields ?Q (reply internal_error) v" "yields ?Q (or_internal e) v" for c x v e
    by (simp_all add: yields_def login_outcome_def invalid_credentials_def or_internal_def reply_def)
  have wrong: "yields ?Q (recordFailedLogin sv r i invalid_credentials) (w\<lparr>tick := k\<rparr>)" for i k
    unfolding recordFailedLogin_def by (rule yields_logged, rule refuse(2)) (simp add: logged_tables)
  have "yields ?Q (handleLogin sv r) w"
    unfolding handleLogin_def
    apply (rule yields_decoding, simp add: login_outcome_def refused_def split_def, fastforce)
    apply (rule yields_branches(1), rule yields_invalid, simp add: login_outcome_def refused_def split_def, fastforce)
    apply (rule yields_read [OF reads_user_by_email])
     apply (rule yields_branches(1); rule refuse; simp)
    apply (rule yields_with_now, rule yields_read [OF reads_count])
     apply (rule refuse)
    apply (rule yields_branches(1), rule refuse, simp, simp)
    apply (rule yields_branches(1))
     apply (unfold tick_twice, rule wrong)
    apply (rule login_accepted; simp)
    apply (erule not_le_imp_less)
    done
  from yieldsD [OF this assms] show ?thesis by (simp add: login_outcome_def)
qed

definition sample_login :: "string \<Rightarrow> http_request" where
  "sample_login password = sample_request ''POST'' '''' (BodyDoc (JObj [(''email'', JStr ''a@x''), (''password'', JStr password)]) False)"

lemma login_opens_session_witness:
  "(\<exists>req. DecodeJSON decode_login (sample_login ''secret'') = Inr req \<and>
      logged_in sample_server (sample_login ''secret'') req (fst (handleLogin sample_server (sample_login ''secret'') refresh_world))
        refresh_world (db (snd (handleLogin sample_server (sample_login ''secret'') refresh_world)))) \<and>
   sessions (db (snd (handleLogin sample_server (sample_login ''guess'') refresh_world))) = sessions (db refresh_world)"
proof -
  have "rs_status (fst (handleLogin sample_server (sample_login ''secret'') refresh_world)) = 200"
    and "rs_status (fst (handleLogin sample_server (sample_login ''guess'') refresh_world)) = 401" by code_simp+
  then show ?thesis
    using login_opens_session [OF prod.collapse [symmetric], of sample_server "sample_login ''secret''" refresh_world]
      login_opens_session [OF prod.collapse [symmetric], of sample_server "sample_login ''guess''" refresh_world] by simp
qed

end
