(* ===== verification/Atomicity.thy ===== *)
theory Atomicity
  imports Sessions
begin

text \<open>
  All or nothing: what \<open>runInTx\<close> (\<open>internal/api/transaction.go\<close>) promises to the handlers that write several rows.

  \<^item> \<open>project_made\<close>, \<open>environment_made\<close>, \<open>flag_made\<close>, \<open>instance_made\<close>: the whole effect of a creation on the
    tables, as the abstract specification of the handler.
  \<^item> A handler either has its whole effect or leaves the tables as they were, whichever statement fails and
    whether the transaction, its function or its commit fails.
\<close>

section \<open>Transactions\<close>




section \<open>What each statement of a creation does\<close>










section \<open>The loops\<close>



section \<open>The creations as a whole\<close>





section \<open>The transactions have the whole effect\<close>





section \<open>The handlers\<close>

















end
