(* ===== verification/SDK_Snapshot.thy ===== *)
theory SDK_Snapshot
  imports Handlers_Evaluate Wire
begin

text \<open>
  The snapshot between server and SDK: the JSON the server writes for it (the struct tags of
  \<open>internal/api/sdk_snapshot.go\<close> and \<open>pkg/engine/types.go\<close>) and the SDK's reading of it
  (\<open>pkg/sdk/types.go\<close>, \<open>pkg/sdk/cache.go\<close>).

  \<^item> \<open>encode_any\<close>, \<open>encode_node\<close>, \<open>encode_rule\<close>, \<open>encode_snapshot\<close>: \<open>json.Marshal\<close>.  A Go map is written
    with its keys sorted; as they are distinct, the order is left as it is here.  A \<open>float64\<close> is written
    so that it is read back as the same number.
  \<^item> \<open>decode_snapshot\<close>: \<open>json.Unmarshal\<close> into \<open>snapshotResponse\<close>; unknown members are ignored.
  \<^item> The main result: what the SDK holds after a fetch is what the server put into the snapshot.
\<close>

section \<open>Writing\<close>

fun encode_any :: "gval \<Rightarrow> json" where
  "encode_any GNil = JNull"
| "encode_any (GBool b) = JBool b"
| "encode_any (GStr s) = JStr s"
| "encode_any (GF64 x) = JDec x"
| "encode_any (GF32 x) = JDec x"
| "encode_any (GInt k i) = JInt i"
| "encode_any (GArr vs) = JArr (map encode_any vs)"
| "encode_any (GObj ms) = JObj (map (\<lambda>(k, v). (k, encode_any v)) ms)"
| "encode_any (GOther n) = JNull"

text \<open>\<open>omitempty\<close>: a member that is left out when it is nil or empty.\<close>

definition opt_member :: "string \<Rightarrow> json option \<Rightarrow> (string \<times> json) list" where
  "opt_member k v = (case v of None \<Rightarrow> [] | Some x \<Rightarrow> [(k, x)])"

definition any_member :: "string \<Rightarrow> gval \<Rightarrow> (string \<times> json) list" where
  "any_member k v = opt_member k (if v = GNil then None else Some (encode_any v))"

fun encode_node :: "condition_node \<Rightarrow> json" where
  "encode_node (Node a p x alls anys nt) =
     JObj (opt_member ''attribute'' (map_option JStr a) @ opt_member ''op'' (map_option JStr p) @
           any_member ''value'' x @
           opt_member ''all'' (if alls = [] then None else Some (JArr (map encode_node alls))) @
           opt_member ''any'' (if anys = [] then None else Some (JArr (map encode_node anys))) @
           opt_member ''not'' (map_option encode_node nt))"

definition encode_rollout :: "rollout_config \<Rightarrow> json" where
  "encode_rollout ro =
     JObj ((''percentage'', JInt (percentage ro)) #
           opt_member ''seed'' (if seed ro = [] then None else Some (JStr (seed ro))))"

definition encode_rule :: "rule \<Rightarrow> json" where
  "encode_rule r =
     JObj ((''conditions'', encode_node (r_conditions r)) #
           opt_member ''rollout'' (map_option encode_rollout (r_rollout r)) @ any_member ''value'' (r_value r))"

definition encode_flag :: "flag_config \<Rightarrow> json" where
  "encode_flag fc =
     JObj ([(''key'', JStr (fc_key fc)), (''enabled'', JBool (fc_enabled fc)), (''flag_type'', JStr (fc_type fc)),
            (''default_value'', encode_any (fc_default fc))] @
           any_member ''environment_default_value'' (fc_env_default fc) @
           [(''has_environment_default'', JBool (fc_has_env_default fc)), (''version'', JInt (fc_version fc)),
            (''rules'', JArr (map encode_rule (fc_rules fc)))])"

definition encode_segment :: "segment \<Rightarrow> json" where
  "encode_segment g = JObj [(''key'', JStr (sg_key g)), (''conditions'', encode_node (sg_conditions g))]"

definition encode_members :: "('a \<Rightarrow> json) \<Rightarrow> (string \<times> 'a) list \<Rightarrow> json" where
  "encode_members f m = JObj (map (\<lambda>(k, x). (k, f x)) m)"

text \<open>\<open>time_text\<close> is \<open>time.Time\<close>'s \<open>MarshalJSON\<close>; \<open>rid\<close> the identifier of the request, which the SDK ignores.\<close>

definition encode_snapshot :: "string \<Rightarrow> (time \<Rightarrow> string) \<Rightarrow> snapshot \<Rightarrow> json" where
  "encode_snapshot rid time_text sn =
     JObj ([(''environment'', JStr (sn_environment sn)), (''flags'', encode_members encode_flag (sn_flags sn)),
            (''segments'', encode_members encode_segment (sn_segments sn)),
            (''fetched_at'', JStr (time_text (sn_fetched_at sn)))] @
           opt_member ''request_id'' (if rid = [] then None else Some (JStr rid)))"

section \<open>Reading\<close>

record sdk_flag =
  sf_key :: string
  sf_enabled :: bool
  sf_type :: string
  sf_default :: gval
  sf_env_default :: gval
  sf_has_env_default :: bool
  sf_version :: int
  sf_rules :: "rule list"

record sdk_segment =
  ss_key :: string
  ss_conditions :: condition_node

record sdk_response =
  sr_environment :: string
  sr_flags :: "(string \<times> sdk_flag) list"
  sr_segments :: "(string \<times> sdk_segment) list"
  sr_fetched_at :: time

definition zero_flag :: sdk_flag where
  "zero_flag = \<lparr>sf_key = '''', sf_enabled = False, sf_type = '''', sf_default = GNil, sf_env_default = GNil,
     sf_has_env_default = False, sf_version = 0, sf_rules = []\<rparr>"

definition flag_members :: "(string \<times> (json \<Rightarrow> sdk_flag \<Rightarrow> sdk_flag option)) list" where
  "flag_members =
     [(''key'', \<lambda>v f. map_option (\<lambda>x. f\<lparr>sf_key := x\<rparr>) (decode_string v (sf_key f))),
      (''enabled'', \<lambda>v f. map_option (\<lambda>x. f\<lparr>sf_enabled := x\<rparr>) (decode_bool v (sf_enabled f))),
      (''flag_type'', \<lambda>v f. map_option (\<lambda>x. f\<lparr>sf_type := x\<rparr>) (decode_string v (sf_type f))),
      (''default_value'', \<lambda>v f. Some (f\<lparr>sf_default := to_any v\<rparr>)),
      (''environment_default_value'', \<lambda>v f. Some (f\<lparr>sf_env_default := to_any v\<rparr>)),
      (''has_environment_default'', \<lambda>v f. map_option (\<lambda>x. f\<lparr>sf_has_env_default := x\<rparr>)
         (decode_bool v (sf_has_env_default f))),
      (''version'', \<lambda>v f. map_option (\<lambda>x. f\<lparr>sf_version := x\<rparr>) (decode_int v (sf_version f))),
      (''rules'', \<lambda>v f. map_option (\<lambda>x. f\<lparr>sf_rules := x\<rparr>) (decode_rules v))]"

definition decode_flag :: "json \<Rightarrow> sdk_flag option" where
  "decode_flag v =
     (case v of
        JNull \<Rightarrow> Some zero_flag
      | JObj ms \<Rightarrow> decode_lenient flag_members ms zero_flag
      | _ \<Rightarrow> None)"

definition zero_segment :: sdk_segment where
  "zero_segment = \<lparr>ss_key = '''', ss_conditions = empty_node\<rparr>"

definition segment_members :: "(string \<times> (json \<Rightarrow> sdk_segment \<Rightarrow> sdk_segment option)) list" where
  "segment_members =
     [(''key'', \<lambda>v g. map_option (\<lambda>x. g\<lparr>ss_key := x\<rparr>) (decode_string v (ss_key g))),
      (''conditions'', \<lambda>v g. case v of
          JNull \<Rightarrow> Some g
        | JObj ms \<Rightarrow> map_option (\<lambda>n. g\<lparr>ss_conditions := n\<rparr>) (decode_members ms (ss_conditions g))
        | _ \<Rightarrow> None)]"

definition decode_segment :: "json \<Rightarrow> sdk_segment option" where
  "decode_segment v =
     (case v of
        JNull \<Rightarrow> Some zero_segment
      | JObj ms \<Rightarrow> decode_lenient segment_members ms zero_segment
      | _ \<Rightarrow> None)"

text \<open>A Go map: \<open>null\<close> makes it nil, an object adds its members, each decoded into a fresh value.\<close>

fun put_all :: "(json \<Rightarrow> 'a option) \<Rightarrow> (string \<times> json) list \<Rightarrow> (string \<times> 'a) list \<Rightarrow> (string \<times> 'a) list option" where
  "put_all f [] m = Some m"
| "put_all f ((k, v) # ms) m = (case f v of None \<Rightarrow> None | Some x \<Rightarrow> put_all f ms (put k x m))"

definition decode_map_of :: "(json \<Rightarrow> 'a option) \<Rightarrow> json \<Rightarrow> (string \<times> 'a) list \<Rightarrow> (string \<times> 'a) list option" where
  "decode_map_of f v old = (case v of JNull \<Rightarrow> Some [] | JObj ms \<Rightarrow> put_all f ms old | _ \<Rightarrow> None)"

definition zero_response :: sdk_response where
  "zero_response = \<lparr>sr_environment = '''', sr_flags = [], sr_segments = [], sr_fetched_at = zero_time\<rparr>"

text \<open>\<open>time_of\<close> is \<open>time.Time\<close>'s \<open>UnmarshalJSON\<close> on a string.\<close>

definition response_members ::
  "(string \<Rightarrow> time option) \<Rightarrow> (string \<times> (json \<Rightarrow> sdk_response \<Rightarrow> sdk_response option)) list" where
  "response_members time_of =
     [(''environment'', \<lambda>v r. map_option (\<lambda>x. r\<lparr>sr_environment := x\<rparr>) (decode_string v (sr_environment r))),
      (''flags'', \<lambda>v r. map_option (\<lambda>x. r\<lparr>sr_flags := x\<rparr>) (decode_map_of decode_flag v (sr_flags r))),
      (''segments'', \<lambda>v r. map_option (\<lambda>x. r\<lparr>sr_segments := x\<rparr>) (decode_map_of decode_segment v (sr_segments r))),
      (''fetched_at'', \<lambda>v r. map_option (\<lambda>x. r\<lparr>sr_fetched_at := x\<rparr>)
         (case v of JNull \<Rightarrow> Some (sr_fetched_at r) | JStr s \<Rightarrow> time_of s | _ \<Rightarrow> None))]"

definition decode_snapshot :: "(string \<Rightarrow> time option) \<Rightarrow> json \<Rightarrow> sdk_response option" where
  "decode_snapshot time_of v =
     (case v of
        JNull \<Rightarrow> Some zero_response
      | JObj ms \<Rightarrow> decode_lenient (response_members time_of) ms zero_response
      | _ \<Rightarrow> None)"

section \<open>The SDK's snapshot\<close>

text \<open>\<open>sp_fetched_at = None\<close> is the zero time: nothing was loaded yet.\<close>

record sdk_snapshot =
  sp_flags :: "(string \<times> flag_config) list"
  sp_segments :: segments
  sp_fetched_at :: "time option"

definition newSnapshot :: sdk_snapshot where
  "newSnapshot = \<lparr>sp_flags = [], sp_segments = [], sp_fetched_at = None\<rparr>"

definition config_of :: "sdk_flag \<Rightarrow> flag_config" where
  "config_of v =
     \<lparr>fc_key = sf_key v, fc_enabled = sf_enabled v, fc_type = sf_type v, fc_default = sf_default v,
      fc_env_default = sf_env_default v, fc_has_env_default = sf_has_env_default v,
      fc_version = sf_version v, fc_rules = sf_rules v\<rparr>"

definition toSnapshot :: "time \<Rightarrow> sdk_response \<Rightarrow> sdk_snapshot" where
  "toSnapshot now r =
     \<lparr>sp_flags = map (\<lambda>(k, v). (k, config_of v)) (sr_flags r),
      sp_segments = map (\<lambda>(k, v). (k, \<lparr>sg_key = ss_key v, sg_conditions = ss_conditions v\<rparr>)) (sr_segments r),
      sp_fetched_at = Some now\<rparr>"

section \<open>Round trips\<close>

text \<open>Values read from JSON, and rules whose values are.\<close>

fun json_any :: "gval \<Rightarrow> bool" where
  "json_any (GArr vs) \<longleftrightarrow> (\<forall>v\<in>set vs. json_any v)"
| "json_any (GObj ms) \<longleftrightarrow> distinct (map fst ms) \<and> (\<forall>m\<in>set ms. json_any (snd m))"
| "json_any (GF32 _) = False"
| "json_any (GInt _ _) = False"
| "json_any (GOther _) = False"
| "json_any _ = True"

fun json_node :: "condition_node \<Rightarrow> bool" where
  "json_node (Node a p x alls anys nt) \<longleftrightarrow>
     json_any x \<and> (\<forall>n\<in>set alls. json_node n) \<and> (\<forall>n\<in>set anys. json_node n) \<and> (\<forall>n\<in>set_option nt. json_node n)"

definition int64_rollout :: "rollout_config \<Rightarrow> bool" where
  "int64_rollout ro \<longleftrightarrow> - (2 ^ 63) \<le> percentage ro \<and> percentage ro < 2 ^ 63"

definition json_rule :: "rule \<Rightarrow> bool" where
  "json_rule r \<longleftrightarrow> json_node (r_conditions r) \<and> json_any (r_value r) \<and> (\<forall>ro\<in>set_option (r_rollout r). int64_rollout ro)"

definition json_config :: "flag_config \<Rightarrow> bool" where
  "json_config fc \<longleftrightarrow>
     json_any (fc_default fc) \<and> json_any (fc_env_default fc) \<and> (\<forall>r\<in>set (fc_rules fc). json_rule r) \<and>
     - (2 ^ 63) \<le> fc_version fc \<and> fc_version fc < 2 ^ 63"

lemma foldl_put_distinct:
  "distinct (map fst (m @ ms)) \<Longrightarrow> foldl (\<lambda>m (k, v). put k v m) m ms = m @ ms"
proof (induction ms arbitrary: m)
  case (Cons x ms)
  obtain k v where x: "x = (k, v)" by (cases x)
  have "put k v m = m @ [(k, v)]" if "k \<notin> fst ` set m" for m :: "('a \<times> 'b) list"
    using that by (induction m) (auto split: prod.splits)
  then show ?case using Cons x by auto
qed simp

lemma encode_any_null: "json_any v \<Longrightarrow> encode_any v = JNull \<longleftrightarrow> v = GNil"
  by (cases v) auto

lemma any_roundtrip: "json_any v \<Longrightarrow> to_any (encode_any v) = v"
proof (induction v rule: json_any.induct)
  case (2 ms)
  have "map (\<lambda>(k, v). (k, to_any v)) (map (\<lambda>(k, v). (k, encode_any v)) ms) = ms"
    using 2 by (auto intro!: map_idI)
  then show ?case using 2 foldl_put_distinct [of "[]" ms] by (simp add: comp_def)
qed (auto intro: map_idI)

lemma field_names:
  "fold_name ''attribute'' = ''attribute''" "fold_name ''op'' = ''op''" "fold_name ''value'' = ''value''"
  "fold_name ''all'' = ''all''" "fold_name ''any'' = ''any''" "fold_name ''not'' = ''not''"
  "fold_name ''percentage'' = ''percentage''" "fold_name ''seed'' = ''seed''" "fold_name ''conditions'' = ''conditions''"
  "fold_name ''rollout'' = ''rollout''" "fold_name ''key'' = ''key''" "fold_name ''enabled'' = ''enabled''"
  "fold_name ''flag_type'' = ''flag_type''" "fold_name ''default_value'' = ''default_value''"
  "fold_name ''environment_default_value'' = ''environment_default_value''"
  "fold_name ''has_environment_default'' = ''has_environment_default''" "fold_name ''version'' = ''version''"
  "fold_name ''rules'' = ''rules''" "fold_name ''environment'' = ''environment''" "fold_name ''flags'' = ''flags''"
  "fold_name ''segments'' = ''segments''" "fold_name ''fetched_at'' = ''fetched_at''" "fold_name ''request_id'' = ''request_id''"
  by code_simp+

declare fold_name.simps [simp del]

text \<open>One member at a time: what decoding an optional member does before the rest.\<close>

lemma decode_opt_member:
  "decode_members (opt_member ''attribute'' (map_option JStr a) @ ms) (Node None p x alls anys nt) =
     decode_members ms (Node a p x alls anys nt)"
  "decode_members (opt_member ''op'' (map_option JStr p) @ ms) (Node a None x alls anys nt) =
     decode_members ms (Node a p x alls anys nt)"
  "json_any x \<Longrightarrow> decode_members (any_member ''value'' x @ ms) (Node a p GNil alls anys nt) =
     decode_members ms (Node a p x alls anys nt)"
  by (auto simp: any_member_def opt_member_def field_is_def field_names decode_string_ptr_def any_roundtrip
        split: option.splits)

lemma decode_opt_groups:
  "decode_nodes (map encode_node alls) = Some alls \<Longrightarrow>
   decode_members (opt_member ''all'' (if alls = [] then None else Some (JArr (map encode_node alls))) @ ms)
     (Node a p x [] anys nt) = decode_members ms (Node a p x alls anys nt)"
  "decode_nodes (map encode_node anys) = Some anys \<Longrightarrow>
   decode_members (opt_member ''any'' (if anys = [] then None else Some (JArr (map encode_node anys))) @ ms)
     (Node a p x alls [] nt) = decode_members ms (Node a p x alls anys nt)"
  by (simp_all add: opt_member_def field_is_def field_names)

lemma decode_encoded_nodes:
  "(\<And>n. n \<in> set ns \<Longrightarrow> decode_node (encode_node n) = Some n) \<Longrightarrow> decode_nodes (map encode_node ns) = Some ns"
  by (induction ns) simp_all

lemma encode_node_object: "\<exists>ms. encode_node n = JObj ms"
  by (cases n) simp

text \<open>Condition trees survive the wire.\<close>

lemma node_roundtrip: "json_node n \<Longrightarrow> decode_node (encode_node n) = Some n"
proof (induction n)
  case (Node a p x alls anys nt)
  have alls: "decode_nodes (map encode_node alls) = Some alls" and anys: "decode_nodes (map encode_node anys) = Some anys"
    using Node by (auto intro!: decode_encoded_nodes)
  have nots: "decode_members (opt_member ''not'' (map_option encode_node nt)) (Node a p x alls anys None) =
      Some (Node a p x alls anys nt)"
  proof (cases nt)
    case (Some n)
    obtain ms where ms: "encode_node n = JObj ms" using encode_node_object by blast
    have "decode_node (encode_node n) = Some n" using Node.IH(3) Node.prems Some by simp
    then show ?thesis using Some ms by (simp add: opt_member_def field_is_def field_names)
  qed (simp add: opt_member_def)
  show ?case
    using Node.prems by (simp add: empty_node_def decode_opt_member decode_opt_groups alls anys nots)
qed

lemma rollout_roundtrip:
  "int64_rollout ro \<Longrightarrow> decode_rollout (encode_rollout ro) None = Some (Some ro)"
  by (cases "seed ro = []")
     (simp_all add: encode_rollout_def decode_rollout_def opt_member_def field_is_def field_names decode_int_def
        decode_string_def int64_rollout_def)

lemma rule_roundtrip:
  assumes "json_rule r"
  shows "decode_rule (encode_rule r) = Some r"
proof -
  obtain ms where ms: "encode_node (r_conditions r) = JObj ms" using encode_node_object by blast
  have n: "decode_members ms empty_node = Some (r_conditions r)"
    using node_roundtrip [of "r_conditions r"] assms ms by (simp add: json_rule_def)
  have v: "json_any (r_value r)" using assms by (simp add: json_rule_def)
  show ?thesis
  proof (cases "r_rollout r")
    case None
    with ms n v show ?thesis
      by (simp add: encode_rule_def decode_rule_def opt_member_def any_member_def field_is_def field_names
            empty_rule_def any_roundtrip)
  next
    case (Some ro)
    with ms n v assms rollout_roundtrip [of ro] show ?thesis
      by (simp add: encode_rule_def decode_rule_def opt_member_def any_member_def field_is_def field_names
            empty_rule_def any_roundtrip json_rule_def)
  qed
qed

lemma rules_roundtrip:
  "\<forall>r\<in>set rs. json_rule r \<Longrightarrow> decode_rules (JArr (map encode_rule rs)) = Some rs"
  by (simp add: decode_rules_def decode_list_iff list_all2_map1 list_all2_same rule_roundtrip)

definition sdk_flag_of :: "flag_config \<Rightarrow> sdk_flag" where
  "sdk_flag_of fc =
     \<lparr>sf_key = fc_key fc, sf_enabled = fc_enabled fc, sf_type = fc_type fc, sf_default = fc_default fc,
      sf_env_default = fc_env_default fc, sf_has_env_default = fc_has_env_default fc,
      sf_version = fc_version fc, sf_rules = fc_rules fc\<rparr>"

lemma config_of_flag [simp]: "config_of (sdk_flag_of fc) = fc"
  by (simp add: config_of_def sdk_flag_of_def)

lemma flag_roundtrip:
  assumes "json_config fc"
  shows "decode_flag (encode_flag fc) = Some (sdk_flag_of fc)"
  using assms
  by (simp add: encode_flag_def decode_flag_def flag_members_def any_member_def opt_member_def field_is_def
        field_names zero_flag_def sdk_flag_of_def json_config_def any_roundtrip rules_roundtrip
        decode_string_def decode_bool_def decode_int_def)

lemma segment_roundtrip:
  assumes "json_node (sg_conditions g)"
  shows "decode_segment (encode_segment g) = Some \<lparr>ss_key = sg_key g, ss_conditions = sg_conditions g\<rparr>"
proof -
  obtain ms where ms: "encode_node (sg_conditions g) = JObj ms" using encode_node_object by blast
  have "decode_members ms empty_node = Some (sg_conditions g)"
    using node_roundtrip [OF assms] ms by simp
  then show ?thesis
    by (simp add: encode_segment_def decode_segment_def segment_members_def field_is_def field_names ms
          zero_segment_def decode_string_def)
qed

lemma put_fresh: "k \<notin> fst ` set m \<Longrightarrow> put k v m = m @ [(k, v)]"
  by (induction m) (auto split: prod.splits)

lemma put_all_roundtrip:
  assumes "\<And>k x. (k, x) \<in> set m \<Longrightarrow> f (g x) = Some (h x)" and "distinct (map fst (old @ m))"
  shows "put_all f (map (\<lambda>(k, x). (k, g x)) m) (map (\<lambda>(k, x). (k, h x)) old) =
    Some (map (\<lambda>(k, x). (k, h x)) (old @ m))"
  using assms
proof (induction m arbitrary: old)
  case (Cons p m)
  obtain k x where p: "p = (k, x)" by (cases p)
  have "put k (h x) (map (\<lambda>(k, x). (k, h x)) old) = map (\<lambda>(k, x). (k, h x)) (old @ [p])"
    using Cons.prems(2) by (subst put_fresh) (force simp: p)+
  moreover have "put_all f (map (\<lambda>(k, x). (k, g x)) m) (map (\<lambda>(k, x). (k, h x)) (old @ [p])) =
      Some (map (\<lambda>(k, x). (k, h x)) ((old @ [p]) @ m))"
    using Cons.prems by (intro Cons.IH) auto
  moreover have "f (g x) = Some (h x)" using Cons.prems(1) [of k x] by (simp add: p)
  ultimately show ?case by (simp add: p)
qed simp

text \<open>The snapshot survives the wire: after a fetch the SDK holds exactly the flags and segments the server
  put into the response, values, rules, roll-outs and versions included, for all configurations that were
  read from JSON.\<close>

lemma snapshot_roundtrip:
  assumes "\<forall>(k, fc)\<in>set (sn_flags sn). json_config fc" and "\<forall>(k, g)\<in>set (sn_segments sn). json_node (sg_conditions g)"
    and "distinct (map fst (sn_flags sn))" and "distinct (map fst (sn_segments sn))"
    and "time_of (time_text (sn_fetched_at sn)) = Some t"
  shows "\<exists>r. decode_snapshot time_of (encode_snapshot rid time_text sn) = Some r \<and>
     sp_flags (toSnapshot now r) = sn_flags sn \<and> sp_segments (toSnapshot now r) = sn_segments sn"
proof -
  have flags: "put_all decode_flag (map (\<lambda>(k, x). (k, encode_flag x)) (sn_flags sn)) [] =
      Some (map (\<lambda>(k, x). (k, sdk_flag_of x)) (sn_flags sn))"
    using put_all_roundtrip [of "sn_flags sn" decode_flag encode_flag sdk_flag_of "[]"] assms(1,3) flag_roundtrip
    by fastforce
  have segs: "put_all decode_segment (map (\<lambda>(k, x). (k, encode_segment x)) (sn_segments sn)) [] =
      Some (map (\<lambda>(k, g). (k, \<lparr>ss_key = sg_key g, ss_conditions = sg_conditions g\<rparr>)) (sn_segments sn))"
    using put_all_roundtrip [of "sn_segments sn" decode_segment encode_segment
        "\<lambda>g. \<lparr>ss_key = sg_key g, ss_conditions = sg_conditions g\<rparr>" "[]"] assms(2,4) segment_roundtrip
    by fastforce
  have "decode_snapshot time_of (encode_snapshot rid time_text sn) = Some
      \<lparr>sr_environment = sn_environment sn, sr_flags = map (\<lambda>(k, x). (k, sdk_flag_of x)) (sn_flags sn),
       sr_segments = map (\<lambda>(k, g). (k, \<lparr>ss_key = sg_key g, ss_conditions = sg_conditions g\<rparr>)) (sn_segments sn),
       sr_fetched_at = t\<rparr>"
    by (simp add: encode_snapshot_def decode_snapshot_def response_members_def field_is_def field_names
          zero_response_def decode_string_def decode_map_of_def encode_members_def opt_member_def flags segs assms(5))
  moreover have "map (\<lambda>x. (fst x, \<lparr>sg_key = sg_key (snd x), sg_conditions = sg_conditions (snd x)\<rparr>)) m = m"
    for m :: segments by (rule map_idI) (simp add: prod_eq_iff)
  ultimately show ?thesis by (simp add: toSnapshot_def comp_def split_def)
qed

section \<open>What comes from the database was read from JSON\<close>

lemma json_put:
  "distinct (map fst m) \<Longrightarrow> (\<forall>x\<in>set m. json_any (snd x)) \<Longrightarrow> json_any v \<Longrightarrow>
   distinct (map fst (put k v m)) \<and> (\<forall>x\<in>set (put k v m). json_any (snd x))"
  by (induction k v m rule: put.induct) (auto simp: set_keys_put distinct_put split: if_splits)

lemma json_foldl_put:
  "distinct (map fst m) \<Longrightarrow> (\<forall>x\<in>set m. json_any (snd x)) \<Longrightarrow> (\<forall>x\<in>set ms. json_any (snd x)) \<Longrightarrow>
   json_any (GObj (foldl (\<lambda>m (k, v). put k v m) m ms))"
proof (induction ms arbitrary: m)
  case (Cons x ms)
  have p: "distinct (map fst (put (fst x) (snd x) m)) \<and> (\<forall>y\<in>set (put (fst x) (snd x) m). json_any (snd y))"
    using Cons.prems by (intro json_put) simp_all
  have "json_any (GObj (foldl (\<lambda>m (k, v). put k v m) (put (fst x) (snd x) m) ms))"
    using Cons.prems(3) by (intro Cons.IH p [THEN conjunct1] p [THEN conjunct2]) simp
  then show ?case by (simp add: split_def)
qed simp

lemma json_to_any: "json_any (to_any v)"
proof (induction v)
  case (JObj ms)
  have "\<forall>x\<in>set (map (\<lambda>(k, v). (k, to_any v)) ms). json_any (snd x)"
  proof
    fix x assume "x \<in> set (map (\<lambda>(k, v). (k, to_any v)) ms)"
    then obtain k v where "(k, v) \<in> set ms" "x = (k, to_any v)" by auto
    with JObj.IH [of "(k, v)" v] show "json_any (snd x)" by simp
  qed
  then have "json_any (GObj (foldl (\<lambda>m (k, v). put k v m) [] (map (\<lambda>(k, v). (k, to_any v)) ms)))"
    by (intro json_foldl_put) simp_all
  then show ?case by simp
qed simp_all

lemma json_decode_nodes:
  "decode_node v = Some n \<Longrightarrow> json_node n"
  "json_node n0 \<Longrightarrow> decode_members ms n0 = Some n \<Longrightarrow> json_node n"
  "decode_nodes vs = Some ns \<Longrightarrow> \<forall>n\<in>set ns. json_node n"
proof (induction v and ms n0 and vs arbitrary: n and n and ns rule: decode_node_decode_members_decode_nodes.induct)
  case (5 k v ms a p x alls anys nt)
  consider (attribute) "field_is ''attribute'' k"
    | (op) "\<not> field_is ''attribute'' k" "field_is ''op'' k"
    | (val) "\<not> field_is ''attribute'' k" "\<not> field_is ''op'' k" "field_is ''value'' k"
    | (all) "\<not> field_is ''attribute'' k" "\<not> field_is ''op'' k" "\<not> field_is ''value'' k" "field_is ''all'' k"
    | (any) "\<not> field_is ''attribute'' k" "\<not> field_is ''op'' k" "\<not> field_is ''value'' k" "\<not> field_is ''all'' k"
        "field_is ''any'' k"
    | (not) "\<not> field_is ''attribute'' k" "\<not> field_is ''op'' k" "\<not> field_is ''value'' k" "\<not> field_is ''all'' k"
        "\<not> field_is ''any'' k" "field_is ''not'' k"
    | (other) "\<not> field_is ''attribute'' k" "\<not> field_is ''op'' k" "\<not> field_is ''value'' k" "\<not> field_is ''all'' k"
        "\<not> field_is ''any'' k" "\<not> field_is ''not'' k"
    by blast
  then show ?case
  proof cases
    case attribute
    obtain a' where s: "decode_string_ptr v = Some a'"
      using attribute 5(15) by (cases "decode_string_ptr v") simp_all
    have "decode_members ms (Node a' p x alls anys nt) = Some n" using attribute s 5(15) by simp
    moreover have "json_node (Node a' p x alls anys nt)" using 5(14) by (simp add: json_to_any)
    ultimately show ?thesis using 5(1) attribute s by blast
  next
    case op
    obtain p' where s: "decode_string_ptr v = Some p'"
      using op 5(15) by (cases "decode_string_ptr v") simp_all
    have "decode_members ms (Node a p' x alls anys nt) = Some n" using op s 5(15) by simp
    moreover have "json_node (Node a p' x alls anys nt)" using 5(14) by (simp add: json_to_any)
    ultimately show ?thesis using 5(2) op s by blast
  next
    case val
    have "decode_members ms (Node a p (to_any v) alls anys nt) = Some n" using val 5(15) by simp
    moreover have "json_node (Node a p (to_any v) alls anys nt)" using 5(14) by (simp add: json_to_any)
    ultimately show ?thesis using 5(3) val by blast
  next
    case all
    show ?thesis
    proof (cases v)
      case JNull
      have "decode_members ms (Node a p x [] anys nt) = Some n" using all JNull 5(15) by simp
      moreover have "json_node (Node a p x [] anys nt)" using 5(14) by (simp add: json_to_any)
      ultimately show ?thesis using 5(4) all JNull by blast
    next
      case (JArr vs)
      then obtain ns where ns: "decode_nodes vs = Some ns"
        using all 5(15) by (cases "decode_nodes vs") simp_all
      have ok: "\<forall>n\<in>set ns. json_node n" using 5(5) all JArr ns by blast
      have "decode_members ms (Node a p x ns anys nt) = Some n" using all JArr ns 5(15) by simp
      moreover have "json_node (Node a p x ns anys nt)" using 5(14) ok by (simp add: json_to_any)
      ultimately show ?thesis using 5(6) all JArr ns by blast
    qed (use all 5(15) in simp_all)
  next
    case any
    show ?thesis
    proof (cases v)
      case JNull
      have "decode_members ms (Node a p x alls [] nt) = Some n" using any JNull 5(15) by simp
      moreover have "json_node (Node a p x alls [] nt)" using 5(14) by (simp add: json_to_any)
      ultimately show ?thesis using 5(7) any JNull by blast
    next
      case (JArr vs)
      then obtain ns where ns: "decode_nodes vs = Some ns"
        using any 5(15) by (cases "decode_nodes vs") simp_all
      have ok: "\<forall>n\<in>set ns. json_node n" using 5(8) any JArr ns by blast
      have "decode_members ms (Node a p x alls ns nt) = Some n" using any JArr ns 5(15) by simp
      moreover have "json_node (Node a p x alls ns nt)" using 5(14) ok by (simp add: json_to_any)
      ultimately show ?thesis using 5(9) any JArr ns by blast
    qed (use any 5(15) in simp_all)
  next
    case not
    show ?thesis
    proof (cases v)
      case JNull
      have "decode_members ms (Node a p x alls anys None) = Some n" using not JNull 5(15) by simp
      moreover have "json_node (Node a p x alls anys None)" using 5(14) by (simp add: json_to_any)
      ultimately show ?thesis using 5(10) not JNull by blast
    next
      case (JObj ms')
      have start: "json_node (case nt of None \<Rightarrow> empty_node | Some n \<Rightarrow> n)"
        using 5(14) by (simp add: empty_node_def split: option.split)
      obtain m where m: "decode_members ms' (case nt of None \<Rightarrow> empty_node | Some n \<Rightarrow> n) = Some m"
        using not JObj 5(15) by (cases "decode_members ms' (case nt of None \<Rightarrow> empty_node | Some n \<Rightarrow> n)") simp_all
      have ok: "json_node m" by (rule 5(11) [OF not JObj start m])
      have "decode_members ms (Node a p x alls anys (Some m)) = Some n" using not JObj m 5(15) by simp
      moreover have "json_node (Node a p x alls anys (Some m))" using 5(14) ok by (simp add: json_to_any)
      ultimately show ?thesis using 5(12) not JObj m by blast
    qed (use not 5(15) in simp_all)
  next
    case other
    have "decode_members ms (Node a p x alls anys nt) = Some n" using other 5(15) by simp
    moreover have "json_node (Node a p x alls anys nt)" using 5(14) by (simp add: json_to_any)
    ultimately show ?thesis using 5(13) other by blast
  qed
qed (auto simp: empty_node_def split: option.splits)

lemma json_decode_rollout:
  assumes "decode_rollout v old = Some ro" and "\<forall>r\<in>set_option old. int64_rollout r"
  shows "\<forall>r\<in>set_option ro. int64_rollout r"
proof (cases v)
  case (JObj ms)
  have keep: "decode_rollout_members ms0 r0 = Some r1 \<Longrightarrow> int64_rollout r0 \<Longrightarrow> int64_rollout r1" for ms0 r0 r1
    by (induction ms0 r0 rule: decode_rollout_members.induct)
       (auto simp: decode_int_def int64_rollout_def split: if_splits option.splits json.splits)
  have "int64_rollout (case old of None \<Rightarrow> \<lparr>percentage = 0, seed = ''''\<rparr> | Some r \<Rightarrow> r)"
    using assms(2) by (simp add: int64_rollout_def split: option.split)
  then show ?thesis using assms(1) JObj keep by (auto simp: decode_rollout_def split: option.splits)
qed (use assms(1) in \<open>auto simp: decode_rollout_def\<close>)

lemma json_decode_rule_members:
  "decode_rule_members ms r = Some r' \<Longrightarrow> json_rule r \<Longrightarrow> json_rule r'"
proof (induction ms arbitrary: r)
  case (Cons kv ms)
  obtain k v where kv: "kv = (k, v)" by (cases kv)
  consider (conditions) "field_is ''conditions'' k" | (rollout) "\<not> field_is ''conditions'' k" "field_is ''rollout'' k"
    | (val) "\<not> field_is ''conditions'' k" "\<not> field_is ''rollout'' k" "field_is ''value'' k"
    | (other) "\<not> field_is ''conditions'' k" "\<not> field_is ''rollout'' k" "\<not> field_is ''value'' k" by blast
  then obtain r1 where "decode_rule_members ms r1 = Some r'" "json_rule r1"
  proof cases
    case conditions
    show thesis
    proof (cases v)
      case JNull
      have "decode_rule_members ms (r) = Some r'" using Cons.prems(1) conditions JNull by (simp add: kv)
      moreover have "json_rule (r)" using Cons.prems(2) by (simp add: json_rule_def json_to_any)
      ultimately show thesis by (rule that)
    next
      case (JObj ms')
      obtain n where n: "decode_members ms' (r_conditions r) = Some n"
        using Cons.prems(1) conditions JObj by (cases "decode_members ms' (r_conditions r)") (simp_all add: kv)
      have ok: "json_node n" using json_decode_nodes(2) [OF _ n] Cons.prems(2) by (simp add: json_rule_def)
      have "decode_rule_members ms (r\<lparr>r_conditions := n\<rparr>) = Some r'" using Cons.prems(1) n conditions JObj by (simp add: kv)
      moreover have "json_rule (r\<lparr>r_conditions := n\<rparr>)" using Cons.prems(2) ok by (simp add: json_rule_def json_to_any)
      ultimately show thesis by (rule that)
    qed (use Cons.prems(1) conditions in \<open>simp_all add: kv\<close>)
  next
    case rollout
    obtain ro where ro: "decode_rollout v (r_rollout r) = Some ro"
      using Cons.prems(1) rollout by (cases "decode_rollout v (r_rollout r)") (simp_all add: kv)
    have ok: "\<forall>x\<in>set_option ro. int64_rollout x"
      by (rule json_decode_rollout [OF ro]) (use Cons.prems(2) in \<open>simp add: json_rule_def\<close>)
    have "decode_rule_members ms (r\<lparr>r_rollout := ro\<rparr>) = Some r'" using Cons.prems(1) ro rollout by (simp add: kv)
    moreover have "json_rule (r\<lparr>r_rollout := ro\<rparr>)" using Cons.prems(2) ok by (simp add: json_rule_def json_to_any)
    ultimately show thesis by (rule that)
  next
    case val
    have "decode_rule_members ms (r\<lparr>r_value := to_any v\<rparr>) = Some r'" using Cons.prems(1) val by (simp add: kv)
    moreover have "json_rule (r\<lparr>r_value := to_any v\<rparr>)" using Cons.prems(2) by (simp add: json_rule_def json_to_any)
    ultimately show thesis by (rule that)
  next
    case other
    have "decode_rule_members ms (r) = Some r'" using Cons.prems(1) other by (simp add: kv)
    moreover have "json_rule (r)" using Cons.prems(2) by (simp add: json_rule_def json_to_any)
    ultimately show thesis by (rule that)
  qed
  then show ?case by (rule Cons.IH)
qed simp

lemma json_empty_rule: "json_rule empty_rule"
  by (simp add: empty_rule_def json_rule_def empty_node_def)

lemma json_decode_rule: "decode_rule v = Some r \<Longrightarrow> json_rule r"
  using json_decode_rule_members [OF _ json_empty_rule] json_empty_rule
  by (auto simp: decode_rule_def split: json.splits)

lemma json_unmarshal_rules:
  assumes "unmarshal_rules raw = Some rs"
  shows "\<forall>r\<in>set rs. json_rule r"
proof -
  have "\<forall>r\<in>set rs. \<exists>v. decode_rule v = Some r" if "decode_list decode_rule vs = Some rs" for vs
    using that by (fastforce simp: decode_list_iff in_set_conv_nth list_all2_conv_all_nth)
  then show ?thesis
    using assms json_decode_rule
    by (fastforce simp: unmarshal_rules_def decode_rules_def split: option.splits json.splits)
qed

lemma json_parseDefaultValue: "parseDefaultValue typ raw = Some x \<Longrightarrow> json_any x"
  by (auto simp: parseDefaultValue_def json_to_any split: option.splits if_splits gval.splits)

lemma json_unmarshal_segment: "unmarshal_segment raw = Some n \<Longrightarrow> json_node n"
  using json_decode_nodes(1) by (auto simp: unmarshal_segment_def empty_node_def split: option.splits)

lemma json_env_default:
  assumes "with_env_default typ raw fc = Some fc'" and "json_config fc"
  shows "json_config fc'"
  using assms json_parseDefaultValue
  by (auto simp: with_env_default_def json_config_def split: option.splits json.splits)

lemma json_joined:
  assumes "buildFlagConfigFromJoined c = Some fc" and "in_int64 (fc_row_version c)"
  shows "json_config fc"
proof -
  obtain rules x where "unmarshal_rules (fc_raw_rules c) = Some rules"
    and "parseDefaultValue (fc_flag_type c) (fc_flag_default c) = Some x"
    and fc: "with_env_default (fc_flag_type c) (fc_env_default_raw c)
      \<lparr>fc_key = fc_flag_key c, fc_enabled = fc_is_enabled c, fc_type = fc_flag_type c, fc_default = x,
       fc_env_default = GNil, fc_has_env_default = False, fc_version = fc_row_version c, fc_rules = rules\<rparr> = Some fc"
    using assms(1) by (auto simp: buildFlagConfigFromJoined_def split: option.splits)
  then show ?thesis
    using assms(2) json_unmarshal_rules json_parseDefaultValue
    by (intro json_env_default [OF fc]) (simp add: json_config_def in_int64_def)
qed

end
