(* ===== verification/SDK_Stream.thy ===== *)
theory SDK_Stream
  imports Streaming
begin

text \<open>
  \<open>pkg/sdk/stream.go\<close>: the consumer of the event stream.

  \<^item> \<open>scan_lines\<close>: what \<open>bufio.Scanner\<close> with \<open>ScanLines\<close> and a buffer of 1 MiB returns for the bytes of a
    body, and whether it stopped at a line that does not fit.
  \<^item> \<open>process_line\<close>, \<open>handleEvent\<close>, \<open>dial\<close>: one connection.  The parsed \<open>data\<close> is not kept: nothing reads it.
  \<^item> \<open>after_dial\<close>: one turn of the loop \<open>run\<close>, with its back-off in seconds.
\<close>

section \<open>Lines\<close>

definition maxTokenSize :: nat where "maxTokenSize = 1024 * 1024"

definition drop_cr :: "string \<Rightarrow> string" where
  "drop_cr l = (if l \<noteq> [] \<and> last l = CHR 0x0D then butlast l else l)"

fun scan_from :: "string \<Rightarrow> string \<Rightarrow> string list \<times> bool" where
  "scan_from l [] =
     (if l = [] then ([], False) else if maxTokenSize \<le> length l then ([], True) else ([drop_cr l], False))"
| "scan_from l (c # s) =
     (if c = CHR 0x0A then
        (if maxTokenSize \<le> length l then ([], True)
         else (let (ls, tooLong) = scan_from [] s in (drop_cr l # ls, tooLong)))
      else scan_from (l @ [c]) s)"

definition scan_lines :: "string \<Rightarrow> string list \<times> bool" where
  "scan_lines s = scan_from [] s"

section \<open>One connection\<close>

datatype signal = FlagChange | SegmentChange

record stream_msg =
  sm_id :: string
  sm_event :: string

record stream_conn =
  sc_last_id :: string
  sc_signals :: "signal list"

record dial_state =
  ds_msg :: stream_msg
  ds_data :: string
  ds_conn :: stream_conn

definition signal_of :: "string \<Rightarrow> signal list" where
  "signal_of ev =
     (if ev = ''flag_change'' then [FlagChange]
      else if ev = ''segment_change'' \<or> ev = ''resync'' then [SegmentChange]
      else [])"

definition handleEvent :: "stream_msg \<Rightarrow> stream_conn \<Rightarrow> stream_conn" where
  "handleEvent ev c =
     (let c' = (if sm_id ev \<noteq> [] then c\<lparr>sc_last_id := sm_id ev\<rparr> else c) in
      c'\<lparr>sc_signals := sc_signals c' @ signal_of (sm_event ev)\<rparr>)"

definition empty_msg :: stream_msg where "empty_msg = \<lparr>sm_id = [], sm_event = []\<rparr>"

definition start_dial :: "stream_conn \<Rightarrow> dial_state" where
  "start_dial c = \<lparr>ds_msg = empty_msg, ds_data = [], ds_conn = c\<rparr>"

definition process_line :: "dial_state \<Rightarrow> string \<Rightarrow> dial_state" where
  "process_line d line =
     (if line = [] then start_dial (handleEvent (ds_msg d) (ds_conn d))
      else if has_prefix line '':'' then d
      else if has_prefix line ''id:'' then
        d\<lparr>ds_msg := (ds_msg d)\<lparr>sm_id := trim_space (trim_prefix line ''id:'')\<rparr>\<rparr>
      else if has_prefix line ''event:'' then
        d\<lparr>ds_msg := (ds_msg d)\<lparr>sm_event := trim_space (trim_prefix line ''event:'')\<rparr>\<rparr>
      else if has_prefix line ''data:'' then
        (let t = trim_prefix (trim_prefix line ''data:'') '' '' in
         d\<lparr>ds_data := (if ds_data d \<noteq> [] then ds_data d @ newline else []) @ t\<rparr>)
      else d)"

definition read_stream :: "string \<Rightarrow> stream_conn \<Rightarrow> stream_conn \<times> bool" where
  "read_stream body c =
     (let (ls, tooLong) = scan_lines body in (ds_conn (foldl process_line (start_dial c) ls), tooLong))"

text \<open>
  The response to the request, or that there was none.  \<open>Response\<close> has the status, the body up to its end
  or to the failure of the connection, and whether it failed.
\<close>

datatype dial_response = NoResponse | Response nat string bool

definition last_event_header :: "stream_conn \<Rightarrow> string option" where
  "last_event_header c = (if sc_last_id c \<noteq> [] then Some (sc_last_id c) else None)"

text \<open>The second result says whether \<open>dial\<close> returned nil.\<close>

definition dial :: "dial_response \<Rightarrow> stream_conn \<Rightarrow> stream_conn \<times> bool" where
  "dial resp c =
     (case resp of
        NoResponse \<Rightarrow> (c, False)
      | Response status body failed \<Rightarrow>
          (if status \<noteq> 200 then (c, False)
           else (let (c', tooLong) = read_stream body c in (c', \<not> failed \<and> \<not> tooLong))))"

section \<open>Reconnecting\<close>

definition sseBackoffStart :: nat where "sseBackoffStart = 1"
definition sseBackoffCeiling :: nat where "sseBackoffCeiling = 30"
definition sseResyncAfter :: nat where "sseResyncAfter = 3"

record reconnect =
  rc_backoff :: nat
  rc_fails :: nat

definition start_run :: reconnect where
  "start_run = \<lparr>rc_backoff = sseBackoffStart, rc_fails = 0\<rparr>"

text \<open>One turn: the state before the next dial, the seconds waited and whether a resync was forced.\<close>

definition after_dial :: "bool \<Rightarrow> reconnect \<Rightarrow> reconnect \<times> nat \<times> bool" where
  "after_dial ok r =
     (let r' = (if ok then \<lparr>rc_backoff = sseBackoffStart, rc_fails = 0\<rparr> else r\<lparr>rc_fails := rc_fails r + 1\<rparr>);
          doubled = rc_backoff r' * 2
      in (r'\<lparr>rc_backoff := if sseBackoffCeiling < doubled then sseBackoffCeiling else doubled\<rparr>,
          rc_backoff r', sseResyncAfter < rc_fails r'))"

text \<open>The waits and resyncs for a sequence of dials.\<close>

fun run_dials :: "bool list \<Rightarrow> reconnect \<Rightarrow> (nat \<times> bool) list" where
  "run_dials [] r = []"
| "run_dials (ok # oks) r = (let (r', out) = after_dial ok r in out # run_dials oks r')"

section \<open>The back-off\<close>

definition fails_after :: "bool list \<Rightarrow> nat" where
  "fails_after oks = length (takeWhile Not (rev oks))"

definition reconnect_after :: "bool list \<Rightarrow> reconnect" where
  "reconnect_after oks = foldl (\<lambda>r ok. fst (after_dial ok r)) start_run oks"

lemma run_dials_nth:
  "i < length oks \<Longrightarrow>
   run_dials oks r ! i = snd (after_dial (oks ! i) (foldl (\<lambda>r ok. fst (after_dial ok r)) r (take i oks)))"
  by (induction oks arbitrary: r i) (auto simp: nth_Cons split: nat.splits prod.splits)

lemma fails_after_snoc: "fails_after (oks @ [ok]) = (if ok then 0 else Suc (fails_after oks))"
  by (simp add: fails_after_def)

lemma fails_after_le: "fails_after oks \<le> length oks"
  using length_takeWhile_le [of Not "rev oks"] by (simp add: fails_after_def)

lemma reconnect_after_state:
  "rc_fails (reconnect_after oks) = fails_after oks \<and>
   rc_backoff (reconnect_after oks) =
     min 30 (2 ^ (if fails_after oks = length oks then fails_after oks else Suc (fails_after oks)))"
proof (induction oks rule: rev_induct)
  case Nil
  then show ?case by (simp add: reconnect_after_def start_run_def fails_after_def sseBackoffStart_def)
next
  case (snoc ok oks)
  have "reconnect_after (oks @ [ok]) = fst (after_dial ok (reconnect_after oks))" by (simp add: reconnect_after_def)
  with snoc show ?case
    by (auto simp: after_dial_def fails_after_snoc Let_def sseBackoffStart_def sseBackoffCeiling_def min_def)
qed

text \<open>C37. The back-off: after the dial number \<open>i\<close> the consumer waits 1 second if it ended well, and otherwise 2 to
  the power of the failures in a row (one less when there was no success before them), at most 30 seconds;
  it forces a full refresh exactly from the fourth failure in a row on.\<close>

theorem backoff_schedule:
  assumes "i < length oks"
  shows "run_dials oks start_run ! i =
    (let k = fails_after (take (Suc i) oks)
     in (min 30 (2 ^ (if k = Suc i then i else k)), 3 < k))"
proof -
  let ?r = "reconnect_after (take i oks)"
  have st: "rc_fails ?r = fails_after (take i oks)"
    "rc_backoff ?r = min 30 (2 ^ (if fails_after (take i oks) = i then fails_after (take i oks)
      else Suc (fails_after (take i oks))))"
    using reconnect_after_state [of "take i oks"] assms by simp_all
  have "run_dials oks start_run ! i = snd (after_dial (oks ! i) ?r)"
    using run_dials_nth [OF assms] by (simp add: reconnect_after_def)
  moreover have "take (Suc i) oks = take i oks @ [oks ! i]" using assms by (simp add: take_Suc_conv_app_nth)
  ultimately show ?thesis
    using st fails_after_le [of "take i oks"] assms
    by (auto simp: after_dial_def fails_after_snoc Let_def sseBackoffStart_def sseResyncAfter_def)
qed

lemma backoff_schedule_witness:
  "run_dials [True, False, False, False, False, False, False] start_run ! 6 = (30, True)"
  by (subst backoff_schedule) code_simp+

section \<open>Reading what the server writes\<close>

datatype frame = FEvent stream_event | FHeartbeat string | FResync

fun frame_text :: "frame \<Rightarrow> string" where
  "frame_text (FEvent ev) = writeSSE ev"
| "frame_text (FHeartbeat ts) = heartbeat_frame ts"
| "frame_text FResync = resync_frame"

fun frame_lines :: "frame \<Rightarrow> string list" where
  "frame_lines (FEvent ev) =
     [''id: '' @ show_int (se_id ev), ''event: '' @ se_type ev, ''data: '' @ marshal_text_map (se_payload ev)]"
| "frame_lines (FHeartbeat ts) =
     [''event: heartbeat'', ''data: {'' @ marshal_string ''ts'' @ '':'' @ [CHR 0x22] @ ts @ [CHR 0x22] @ ''}'']"
| "frame_lines FResync = [''event: resync'', ''data: {}'']"

fun frame_msg :: "frame \<Rightarrow> stream_msg" where
  "frame_msg (FEvent ev) = \<lparr>sm_id = show_int (se_id ev), sm_event = se_type ev\<rparr>"
| "frame_msg (FHeartbeat ts) = \<lparr>sm_id = [], sm_event = ''heartbeat''\<rparr>"
| "frame_msg FResync = \<lparr>sm_id = [], sm_event = ''resync''\<rparr>"

definition receive_frames :: "frame list \<Rightarrow> stream_conn \<Rightarrow> stream_conn" where
  "receive_frames fs c = foldl (\<lambda>c f. handleEvent (frame_msg f) c) c fs"

text \<open>The frames the server can write: an event type is a word without white space at its ends, and no line
  is longer than the scanner's buffer.\<close>

fun readable_frame :: "frame \<Rightarrow> bool" where
  "readable_frame (FEvent ev) \<longleftrightarrow>
     trim_space (se_type ev) = se_type ev \<and> one_line (se_type ev) \<and>
     (\<forall>l\<in>set (frame_lines (FEvent ev)). length l < maxTokenSize)"
| "readable_frame (FHeartbeat ts) \<longleftrightarrow>
     one_line ts \<and> (\<forall>l\<in>set (frame_lines (FHeartbeat ts)). length l < maxTokenSize)"
| "readable_frame FResync \<longleftrightarrow> True"

definition block :: "string list \<Rightarrow> string" where
  "block ls = concat (map (\<lambda>l. l @ newline) ls)"

lemma frame_text_block: "frame_text f = block (frame_lines f) @ newline"
  by (cases f) (simp_all add: block_def writeSSE_def heartbeat_frame_def resync_frame_def)

lemma one_line_marshal_string: "one_line (marshal_string s)"
  by (simp add: marshal_string_def one_line_marshal_chars)

lemma readable_lines:
  assumes "readable_frame f" and "l \<in> set (frame_lines f)"
  shows "one_line l" and "l \<noteq> []" and "length l < maxTokenSize"
proof -
  show "one_line l"
    using assms by (cases f) (auto simp: one_line_show_int one_line_marshal_map one_line_marshal_string)
  show "l \<noteq> []" using assms(2) by (cases f) auto
  have "l \<in> set (frame_lines FResync) \<Longrightarrow> length l < maxTokenSize" by (auto simp: maxTokenSize_def)
  with assms show "length l < maxTokenSize" by (cases f) (simp_all del: frame_lines.simps)
qed

subsection \<open>Scanning\<close>

lemma scan_from_plain:
  "CHR 0x0A \<notin> set s \<Longrightarrow>
   scan_from l s = (if l @ s = [] then ([], False) else if maxTokenSize \<le> length (l @ s) then ([], True)
                    else ([drop_cr (l @ s)], False))"
  by (induction s arbitrary: l) auto

lemma scan_from_line:
  "CHR 0x0A \<notin> set s \<Longrightarrow>
   scan_from l (s @ CHR 0x0A # t) =
     (if maxTokenSize \<le> length (l @ s) then ([], True)
      else (drop_cr (l @ s) # fst (scan_from [] t), snd (scan_from [] t)))"
  by (induction s arbitrary: l) (auto simp: Let_def split: prod.splits)

lemma drop_cr_one_line: "one_line l \<Longrightarrow> drop_cr l = l"
proof (cases "l = []")
  case False
  then have "last l \<in> set l" by simp
  then show "one_line l \<Longrightarrow> ?thesis" by (auto simp: drop_cr_def one_line_def)
qed (simp add: drop_cr_def)

lemma scan_one_line:
  "one_line l \<Longrightarrow> length l < maxTokenSize \<Longrightarrow>
   scan_lines (l @ newline @ s) = (l # fst (scan_lines s), snd (scan_lines s))"
  by (simp add: scan_lines_def newline_def scan_from_line drop_cr_one_line one_line_def)

lemma scan_last_line:
  "one_line l \<Longrightarrow> length l < maxTokenSize \<Longrightarrow> scan_lines l = (if l = [] then [] else [l], False)"
  by (simp add: scan_lines_def scan_from_plain drop_cr_one_line one_line_def)

lemma scan_block:
  "(\<And>l. l \<in> set ls \<Longrightarrow> one_line l \<and> length l < maxTokenSize) \<Longrightarrow>
   scan_lines (block ls @ s) = (ls @ fst (scan_lines s), snd (scan_lines s))"
  by (induction ls) (simp_all add: block_def scan_one_line)

lemma scan_frame:
  assumes "readable_frame f"
  shows "scan_lines (frame_text f @ s) = (frame_lines f @ [] # fst (scan_lines s), snd (scan_lines s))"
proof -
  have "scan_lines (newline @ s) = ([] # fst (scan_lines s), snd (scan_lines s))"
    using scan_one_line [of "[]" s] by (simp add: maxTokenSize_def)
  then show ?thesis
    using scan_block [of "frame_lines f" "newline @ s"] readable_lines [OF assms]
    by (simp add: frame_text_block)
qed

text \<open>A block that was cut anywhere gives only lines that are not empty.\<close>

lemma scan_cut_block:
  "(\<And>l. l \<in> set ls \<Longrightarrow> one_line l \<and> l \<noteq> [] \<and> length l < maxTokenSize) \<Longrightarrow>
   [] \<notin> set (fst (scan_lines (take n (block ls)))) \<and> \<not> snd (scan_lines (take n (block ls)))"
proof (induction ls arbitrary: n)
  case Nil
  then show ?case by (simp add: block_def scan_lines_def)
next
  case (Cons l ls)
  then have l: "one_line l" "l \<noteq> []" "length l < maxTokenSize" by simp_all
  show ?case
  proof (cases "n \<le> length l")
    case True
    have "one_line (take n l)" using l(1) by (auto simp: one_line_def dest: in_set_takeD)
    then show ?thesis using True l(3) by (simp add: block_def scan_last_line)
  next
    case False
    then obtain m where "n = length l + Suc m" by (metis add_Suc_right less_iff_Suc_add not_le)
    then have "take n (block (l # ls)) = l @ newline @ take m (block ls)" by (simp add: block_def newline_def)
    then show ?thesis using l l(2) [symmetric] Cons.IH [of m] Cons.prems by (simp add: scan_one_line)
  qed
qed

lemma process_nonempty: "line \<noteq> [] \<Longrightarrow> ds_conn (process_line d line) = ds_conn d"
  by (simp add: process_line_def Let_def)

lemma process_nonempty_lines: "[] \<notin> set ls \<Longrightarrow> ds_conn (foldl process_line d ls) = ds_conn d"
  by (induction ls arbitrary: d) (auto simp: process_nonempty)

subsection \<open>Words\<close>

lemma trim_space_blank: "trim_space (CHR '' '' # t) = trim_space t"
proof -
  have "leading_word white_space (CHR '' '' # t) = Some [CHR '' '']" by (simp add: white_space_def starts_with_def)
  then have "trim_left (CHR '' '' # t) = trim_left t" by (simp add: trim_left_def strip_words.simps [of _ "_ # t"])
  then show ?thesis by (simp add: trim_space_def)
qed

lemma leading_word_unspaced:
  assumes "s = [] \<or> (\<forall>w\<in>set ws. w \<noteq> [] \<longrightarrow> hd w \<noteq> hd s)"
  shows "leading_word ws s = None"
  using assms by (cases s) (auto simp: leading_word_None starts_with_def neq_Nil_conv split: if_splits)

lemma trim_space_show_int: "trim_space (show_int i) = show_int i"
proof -
  have plain: "c = CHR ''-'' \<or> (\<exists>d<10. c = digit_char d)" if "c \<in> set (show_int i)" for c
    using show_int_plain [OF that] .
  have heads: "hd ` set white_space = {CHR 0x20, CHR 0x09, CHR 0x0A, CHR 0x0B, CHR 0x0C, CHR 0x0D, CHR 0xC2, CHR 0xE1,
      CHR 0xE2, CHR 0xE3}" by (auto simp: white_space_def)
  have ne: "show_int i \<noteq> []" by (simp add: show_int_def)
  have ascii: "w \<noteq> [] \<longrightarrow> hd w \<noteq> c" if "w \<in> set white_space \<union> rev ` set white_space" "c \<in> set (show_int i)" for w c
  proof -
    from plain [OF that(2)] have "45 \<le> (of_char c :: nat) \<and> of_char c \<le> (57::nat)" by (auto simp: digit_char_def)
    moreover have "\<forall>w\<in>set white_space \<union> rev ` set white_space. (of_char (hd w) :: nat) < 45 \<or> 57 < (of_char (hd w) :: nat)"
      by code_simp
    then have "(of_char (hd w) :: nat) < 45 \<or> 57 < (of_char (hd w) :: nat)" using that(1) by blast
    ultimately show ?thesis by auto
  qed
  have "hd (show_int i) \<in> set (show_int i)" "hd (rev (show_int i)) \<in> set (show_int i)"
    using ne by (simp_all add: hd_rev)
  then have "leading_word white_space (show_int i) = None" "leading_word (map rev white_space) (rev (show_int i)) = None"
    using ascii by (auto intro!: leading_word_unspaced)
  then show ?thesis by (simp add: trim_space_def trim_left_def trim_right_def strip_words_fixed)
qed

lemma process_id: "process_line d (''id: '' @ show_int i) = d\<lparr>ds_msg := (ds_msg d)\<lparr>sm_id := show_int i\<rparr>\<rparr>"
  by (simp add: process_line_def has_prefix_def starts_with_def trim_prefix_def trim_space_blank trim_space_show_int)

lemma process_event:
  "trim_space t = t \<Longrightarrow> process_line d (''event: '' @ t) = d\<lparr>ds_msg := (ds_msg d)\<lparr>sm_event := t\<rparr>\<rparr>"
  by (simp add: process_line_def has_prefix_def starts_with_def trim_prefix_def trim_space_blank)

lemma process_data: "ds_msg (process_line d (''data: '' @ t)) = ds_msg d \<and> ds_conn (process_line d (''data: '' @ t)) = ds_conn d"
  by (simp add: process_line_def has_prefix_def starts_with_def Let_def)

lemma process_blank: "process_line d [] = start_dial (handleEvent (ds_msg d) (ds_conn d))"
  by (simp add: process_line_def)

lemma trim_literals: "trim_space ''heartbeat'' = ''heartbeat''" "trim_space ''resync'' = ''resync''"
  by code_simp+

lemma process_frame:
  assumes "readable_frame f"
  shows "foldl process_line (start_dial c) (frame_lines f @ [[]]) = start_dial (handleEvent (frame_msg f) c)"
proof (cases f)
  case (FEvent ev)
  then show ?thesis
    using assms process_id process_event process_data
    by (simp add: process_blank start_dial_def empty_msg_def del: append.simps)
next
  case (FHeartbeat ts)
  then show ?thesis
    using process_event [OF trim_literals(1)] process_data
    by (simp add: process_blank start_dial_def empty_msg_def)
next
  case FResync
  then show ?thesis
    using process_event [OF trim_literals(2)] process_data [of _ "''{}''"]
    by (simp add: process_blank start_dial_def empty_msg_def)
qed

section \<open>The consumer receives what the server sent\<close>

lemma read_frame:
  assumes "readable_frame f"
  shows "read_stream (frame_text f @ s) c = read_stream s (handleEvent (frame_msg f) c)"
proof -
  have "foldl process_line (start_dial c) (frame_lines f @ [] # ls) =
      foldl process_line (start_dial (handleEvent (frame_msg f) c)) ls" for ls
    using process_frame [OF assms, of c] by simp
  then show ?thesis by (simp add: read_stream_def scan_frame [OF assms] Let_def split: prod.splits)
qed

lemma read_cut_frame:
  assumes "readable_frame f" and "n < length (frame_text f)"
  shows "read_stream (take n (frame_text f)) c = (c, False)"
proof -
  have "take n (frame_text f) = take n (block (frame_lines f))"
    using assms(2) by (simp add: frame_text_block newline_def)
  moreover have "[] \<notin> set (fst (scan_lines (take n (block (frame_lines f))))) \<and>
      \<not> snd (scan_lines (take n (block (frame_lines f))))"
    by (rule scan_cut_block) (use readable_lines [OF assms(1)] in blast)
  ultimately show ?thesis
    by (auto simp: read_stream_def process_nonempty_lines start_dial_def Let_def split: prod.splits)
qed

lemma receive_Cons: "receive_frames (f # fs) c = receive_frames fs (handleEvent (frame_msg f) c)"
  by (simp add: receive_frames_def)

definition sent :: "frame list \<Rightarrow> string" where
  "sent fs = concat (map frame_text fs)"

text \<open>Framing: whatever the server has written and wherever the connection broke, the consumer handles
  exactly the frames that arrived completely, each once and in order, and reads no error from them.\<close>

theorem cut_stream_read:
  assumes "\<forall>f\<in>set fs. readable_frame f"
  shows "\<exists>k\<le>length fs.
    read_stream (take n (sent fs)) c = (receive_frames (take k fs) c, False) \<and>
    length (sent (take k fs)) \<le> n \<and> (k < length fs \<longrightarrow> n < length (sent (take (Suc k) fs)))"
  using assms
proof (induction fs arbitrary: n c)
  case Nil
  then show ?case
    by (simp add: sent_def receive_frames_def read_stream_def scan_lines_def start_dial_def)
next
  case (Cons f fs)
  show ?case
  proof (cases "n < length (frame_text f)")
    case True
    then have "read_stream (take n (sent (f # fs))) c = (c, False)"
      using read_cut_frame [of f n c] Cons.prems by (simp add: sent_def)
    then show ?thesis using True by (intro exI [of _ 0]) (simp add: sent_def receive_frames_def)
  next
    case False
    let ?m = "n - length (frame_text f)" and ?c = "handleEvent (frame_msg f) c"
    obtain k where k: "k \<le> length fs" "read_stream (take ?m (sent fs)) ?c = (receive_frames (take k fs) ?c, False)"
      "length (sent (take k fs)) \<le> ?m" "k < length fs \<longrightarrow> ?m < length (sent (take (Suc k) fs))"
      using Cons.IH [of ?m ?c] Cons.prems by auto
    have "take n (sent (f # fs)) = frame_text f @ take ?m (sent fs)" using False by (simp add: sent_def)
    then have "read_stream (take n (sent (f # fs))) c = (receive_frames (take (Suc k) (f # fs)) c, False)"
      using k(2) Cons.prems by (simp add: read_frame receive_Cons)
    then show ?thesis using k False by (intro exI [of _ "Suc k"]) (auto simp: sent_def)
  qed
qed

definition sample_frames :: "frame list" where
  "sample_frames = [FEvent (stream_event_of sample_event 0), FHeartbeat ''2026-01-01T00:00:00Z'', FResync]"

lemma readable_samples: "\<forall>f\<in>set sample_frames. readable_frame f"
proof -
  have "\<forall>f\<in>set sample_frames. \<forall>l\<in>set (frame_lines f). length l < 100" by code_simp
  then have short: "\<forall>f\<in>set sample_frames. \<forall>l\<in>set (frame_lines f). length l < maxTokenSize"
    by (fastforce simp: maxTokenSize_def)
  have plain: "trim_space ''flag_change'' = ''flag_change''" "one_line ''2026-01-01T00:00:00Z''" "one_line ''flag_change''"
    by code_simp+
  show ?thesis
    using short plain
    by (simp add: sample_frames_def stream_event_of_def sample_event_def del: frame_lines.simps)
qed

lemma cut_stream_read_witness:
  "\<exists>k\<le>length sample_frames. \<exists>c. read_stream (take 30 (sent sample_frames)) c = (receive_frames (take k sample_frames) c, False)"
  using cut_stream_read [OF readable_samples] by blast

lemma whole_stream_read:
  "\<forall>f\<in>set fs. readable_frame f \<Longrightarrow> read_stream (sent fs) c = (receive_frames fs c, False)"
proof (induction fs arbitrary: c)
  case (Cons f fs)
  then show ?case using read_frame [of f "sent fs" c] by (simp add: receive_Cons sent_def)
qed (simp add: sent_def receive_frames_def read_stream_def scan_lines_def start_dial_def)

lemma last_id_after:
  assumes "\<forall>f\<in>set fs. \<forall>ev. f = FEvent ev \<longrightarrow> se_id ev = 0"
  shows "sc_last_id (receive_frames fs c) \<in> {sc_last_id c, ''0''}"
  using assms
proof (induction fs arbitrary: c)
  case Nil
  then show ?case by (simp add: receive_frames_def)
next
  case (Cons f fs)
  have zero: "show_int 0 = ''0''" by code_simp
  have "sc_last_id (handleEvent (frame_msg f) c) \<in> {sc_last_id c, ''0''}"
    using Cons.prems by (cases f) (auto simp: handleEvent_def Let_def zero)
  then show ?case using Cons.IH [of "handleEvent (frame_msg f) c"] Cons.prems by (auto simp: receive_Cons)
qed

definition events_of :: "frame list \<Rightarrow> stream_event list" where
  "events_of fs = concat (map (\<lambda>f. case f of FEvent ev \<Rightarrow> [ev] | _ \<Rightarrow> []) fs)"

lemma in_events_of: "ev \<in> set (events_of fs) \<longleftrightarrow> FEvent ev \<in> set fs"
  by (auto simp: events_of_def split: frame.splits)

lemma one_event_delivered:
  obtains s where "reachable 1 s" and "ss_got s 1 = [stream_event_of sample_event 0]"
proof -
  have "\<exists>s'. (own_step 1)\<^sup>*\<^sup>* one_waiting s' \<and> ss_got s' 1 = ss_got one_waiting 1 @ cl_send (NewClient 5 7 0) @
      filter (\<lambda>e. se_env e = cl_env (NewClient 5 7 0)) [] @ [stream_event_of sample_event 0]"
    by (rule deliver [OF reachable_ok [OF reachable_one_waiting], of _ _ "[]"])
       (simp_all add: one_waiting_def NewClient_def stream_event_of_def sample_event_def)
  then show thesis
    using that reachable_own_steps [OF _ reachable_one_waiting] by (auto simp: one_waiting_def NewClient_def)
qed

text \<open>C38. Server and consumer together: however a hub has run, and whatever its stream has written of the events the
  hub gave it (with heartbeats and resyncs between them), a consumer whose stream breaks anywhere comes back
  with no \<open>Last-Event-ID\<close> or with 0, because no publisher and no part of the hub numbers an event; and
  the new stream opens with neither the missed events nor a resync, whether Redis answers or not.\<close>

theorem broken_stream_loses_events:
  assumes "reachable cap s" and "set (events_of fs) \<subseteq> set (ss_got s conn)" and "\<forall>f\<in>set fs. readable_frame f"
    and "dial (Response 200 (take n (sent fs)) failed) \<lparr>sc_last_id = [], sc_signals = []\<rparr> = (c, ok)"
    and "accept_stream True envID apiKeyID (case last_event_header c of None \<Rightarrow> [] | Some s \<Rightarrow> s) True = Inr cl"
  shows "sc_last_id c \<in> {[], ''0''} \<and> opening_frames reached cl h = []"
proof -
  let ?c = "\<lparr>sc_last_id = [], sc_signals = []\<rparr>"
  have ids: "\<forall>f\<in>set fs. \<forall>ev. f = FEvent ev \<longrightarrow> se_id ev = 0"
    using reachable_got_without_ids [OF assms(1)] assms(2) in_events_of by blast
  obtain k where "read_stream (take n (sent fs)) ?c = (receive_frames (take k fs) ?c, False)"
    using cut_stream_read [of fs n ?c] assms(3) by blast
  then have "c = receive_frames (take k fs) ?c" using assms(4) by (simp add: dial_def)
  moreover have "sc_last_id (receive_frames (take k fs) ?c) \<in> {[], ''0''}"
    using last_id_after [of "take k fs" ?c] ids by (auto dest: in_set_takeD)
  ultimately have last: "sc_last_id c \<in> {[], ''0''}" by simp
  moreover have "parseLastEventID ''0'' = 0" "parseLastEventID [] = 0" by code_simp+
  ultimately have "parseLastEventID (case last_event_header c of None \<Rightarrow> [] | Some s \<Rightarrow> s) = 0"
    by (auto simp: last_event_header_def)
  then have "cl_last cl = 0" using assms(5) by (auto simp: accept_stream_def NewClient_def split: if_splits)
  with last show ?thesis by (simp add: opening_frames_def)
qed

lemma broken_stream_loses_events_witness:
  "opening_frames False (NewClient 5 7 0) (ss_hub one_waiting) = []"
proof -
  have "receive_frames sample_frames \<lparr>sc_last_id = [], sc_signals = []\<rparr> =
      \<lparr>sc_last_id = ''0'', sc_signals = [FlagChange, SegmentChange]\<rparr>" by code_simp
  then have d: "dial (Response 200 (take (length (sent sample_frames)) (sent sample_frames)) True)
      \<lparr>sc_last_id = [], sc_signals = []\<rparr> = (\<lparr>sc_last_id = ''0'', sc_signals = [FlagChange, SegmentChange]\<rparr>, False)"
    by (simp add: dial_def whole_stream_read [OF readable_samples])
  have a: "accept_stream True 5 7 (case last_event_header \<lparr>sc_last_id = ''0'', sc_signals = [FlagChange, SegmentChange]\<rparr>
      of None \<Rightarrow> [] | Some s \<Rightarrow> s) True = Inr (NewClient 5 7 0)" by code_simp
  obtain s where s: "reachable 1 s" "ss_got s 1 = [stream_event_of sample_event 0]" by (rule one_event_delivered)
  have "set (events_of sample_frames) \<subseteq> set (ss_got s 1)" unfolding s(2) by (simp add: events_of_def sample_frames_def)
  from broken_stream_loses_events [OF s(1) this readable_samples d a] show ?thesis by simp
qed

end
