(* ===== verification/SDK_Store.thy ===== *)
theory SDK_Store
  imports Prelude
begin

text \<open>
  \<open>pkg/sdk/datastore*.go\<close> and \<open>pkg/sdk/bootstrap.go\<close>: where an SDK client keeps its last snapshot.

  \<^item> The locale \<open>data_store\<close> is the contract in the comments of the interface \<open>DataStore\<close>; both stores of
    the package are shown to keep it.
  \<^item> A file system is the contents of its paths; its calls may fail at any time (\<open>io\<close>, one answer per
    call), and a failed write may leave any part of the data behind (\<open>torn\<close>).
  \<^item> \<open>replace_file\<close> is the sequence that \<open>FileDataStore.Save\<close> and \<open>SaveBootstrapToFile\<close> share; it returns
    every state the disk goes through, so that what a crash leaves behind can be stated.
\<close>

datatype store_failure = ErrClosed | ErrIO

section \<open>The contract\<close>

text \<open>\<open>valid\<close> are the states of a store that was set up properly.\<close>

fun save_all :: "(string \<Rightarrow> 's \<Rightarrow> store_failure option \<times> 's) \<Rightarrow> string list \<Rightarrow> 's \<Rightarrow> 's" where
  "save_all save [] s = s"
| "save_all save (raw # raws) s = save_all save raws (snd (save raw s))"

fun all_fail :: "(string \<Rightarrow> 's \<Rightarrow> store_failure option \<times> 's) \<Rightarrow> string list \<Rightarrow> 's \<Rightarrow> bool" where
  "all_fail save [] s = True"
| "all_fail save (raw # raws) s = (fst (save raw s) \<noteq> None \<and> all_fail save raws (snd (save raw s)))"

locale data_store =
  fixes load :: "'s \<Rightarrow> store_failure + string option"
    and save :: "string \<Rightarrow> 's \<Rightarrow> store_failure option \<times> 's"
    and close :: "'s \<Rightarrow> 's"
    and closed :: "'s \<Rightarrow> bool"
    and valid :: "'s \<Rightarrow> bool"
  assumes load_after_save: "valid s \<Longrightarrow> save raw s = (None, s') \<Longrightarrow> load s' = Inr (Some raw)"
    and failed_save: "valid s \<Longrightarrow> save raw s = (Some e, s') \<Longrightarrow> load s' = load s"
    and valid_save: "valid s \<Longrightarrow> valid (snd (save raw s))"
    and load_closed: "closed s \<Longrightarrow> load s = Inl ErrClosed"
    and save_closed: "closed s \<Longrightarrow> save raw s = (Some ErrClosed, s)"
    and close_closes: "closed (close s)"
    and close_idem: "close (close s) = close s"
begin

text \<open>What was saved is loaded, however many later saves fail; nothing is loaded or stored after \<open>close\<close>.\<close>

lemma failing_saves_keep: "valid t \<Longrightarrow> all_fail save raws t \<Longrightarrow> load (save_all save raws t) = load t"
proof (induction raws arbitrary: t)
  case (Cons x raws)
  obtain e where "fst (save x t) = Some e" using Cons.prems(2) by auto
  then have u: "save x t = (Some e, snd (save x t))" by (simp add: prod_eq_iff)
  then show ?case using Cons failed_save [OF Cons.prems(1) u] valid_save [OF Cons.prems(1)] by simp
qed simp

lemma saved_is_loaded:
  assumes "valid s" and "save raw s = (None, s')" and "all_fail save raws s'"
  shows "load (save_all save raws s') = Inr (Some raw)"
proof -
  have "valid s'" using valid_save [OF assms(1), of raw] assms(2) by simp
  then show ?thesis using failing_saves_keep [OF _ assms(3)] load_after_save [OF assms(1,2)] by simp
qed

lemma nothing_after_close: "load (save_all save raws (close s)) = Inl ErrClosed"
proof -
  have "save_all save raws t = t" if "closed t" for t
    using that by (induction raws) (simp_all add: save_closed)
  then show ?thesis using close_closes by (simp add: load_closed)
qed

end

section \<open>In memory\<close>

record memory_store =
  md_data :: "string option"
  md_closed :: bool

definition NewInMemoryDataStore :: memory_store where
  "NewInMemoryDataStore = \<lparr>md_data = None, md_closed = False\<rparr>"

definition memory_Load :: "memory_store \<Rightarrow> store_failure + string option" where
  "memory_Load s = (if md_closed s then Inl ErrClosed else Inr (md_data s))"

definition memory_Save :: "string \<Rightarrow> memory_store \<Rightarrow> store_failure option \<times> memory_store" where
  "memory_Save raw s = (if md_closed s then (Some ErrClosed, s) else (None, s\<lparr>md_data := Some raw\<rparr>))"

definition memory_Close :: "memory_store \<Rightarrow> memory_store" where
  "memory_Close s = s\<lparr>md_closed := True\<rparr>"

interpretation memory: data_store memory_Load memory_Save memory_Close md_closed "\<lambda>_. True"
  by unfold_locales (auto simp: memory_Load_def memory_Save_def memory_Close_def split: if_splits)

section \<open>Replacing a file\<close>

type_synonym disk = "string \<Rightarrow> string option"

text \<open>The answers of the file system: to the creation of the temporary file, the write, the sync, the close
  and the rename; \<open>torn\<close> is what a failed write left in the file.\<close>

record file_io =
  io_create :: bool
  io_write :: bool
  io_sync :: bool
  io_close :: bool
  io_rename :: bool
  io_remove :: bool
  io_torn :: string

text \<open>The states of the disk in order, the last one at the end, and whether the file was replaced.  The
  deferred removal of the temporary file runs on every path once it was created.  The disk is what a process
  sees that starts when this one has died; that \<open>Sync\<close> makes the data survive a loss of power is not modelled, it
  only can fail.\<close>

definition replace_file :: "file_io \<Rightarrow> string \<Rightarrow> string \<Rightarrow> string \<Rightarrow> disk \<Rightarrow> bool \<times> disk list" where
  "replace_file io tmp path raw d =
     (if \<not> io_create io then (False, [d])
      else
        (let created = d(tmp \<mapsto> '''');
             removed = (\<lambda>x. if io_remove io then x(tmp := None) else x)
         in
         if \<not> io_write io then (False, [d, created, created(tmp \<mapsto> io_torn io), removed (created(tmp \<mapsto> io_torn io))])
         else
           (let written = created(tmp \<mapsto> raw) in
            if \<not> io_sync io \<or> \<not> io_close io \<or> \<not> io_rename io
            then (False, [d, created, written, removed written])
            else (True, [d, created, written, written(tmp := None, path \<mapsto> raw)]))))"

section \<open>In a file\<close>

record file_store =
  fd_path :: string
  fd_closed :: bool
  fd_disk :: disk
  fd_calls :: nat

text \<open>
  The file system answers the calls of the save number \<open>n\<close> of a store by \<open>ios n\<close>, and names the temporary
  file \<open>tmps n\<close>; \<open>works\<close> says whether a read that finds the file works.
\<close>

definition FileDataStore_Load :: "bool \<Rightarrow> file_store \<Rightarrow> store_failure + string option" where
  "FileDataStore_Load works s =
     (if fd_closed s then Inl ErrClosed
      else if fd_disk s (fd_path s) = None then Inr None
      else if \<not> works then Inl ErrIO
      else Inr (fd_disk s (fd_path s)))"

definition FileDataStore_Save ::
  "(nat \<Rightarrow> file_io) \<Rightarrow> (nat \<Rightarrow> string) \<Rightarrow> string \<Rightarrow> file_store \<Rightarrow> store_failure option \<times> file_store" where
  "FileDataStore_Save ios tmps raw s =
     (if fd_closed s then (Some ErrClosed, s)
      else (let n = fd_calls s; (ok, disks) = replace_file (ios n) (tmps n) (fd_path s) raw (fd_disk s) in
            (if ok then None else Some ErrIO, s\<lparr>fd_disk := last disks, fd_calls := Suc n\<rparr>)))"

definition FileDataStore_Close :: "file_store \<Rightarrow> file_store" where
  "FileDataStore_Close s = s\<lparr>fd_closed := True\<rparr>"

text \<open>A temporary file never has the name of the file it replaces.\<close>

definition proper_names :: "(nat \<Rightarrow> string) \<Rightarrow> file_store \<Rightarrow> bool" where
  "proper_names tmps s \<longleftrightarrow> (\<forall>n. tmps n \<noteq> fd_path s)"

lemma replace_file_last:
  assumes "tmp \<noteq> path"
  shows "last (snd (replace_file io tmp path raw d)) path = (if fst (replace_file io tmp path raw d) then Some raw else d path)"
  using assms by (auto simp: replace_file_def Let_def)

interpretation files: data_store "FileDataStore_Load True" "FileDataStore_Save ios tmps" FileDataStore_Close fd_closed
    "proper_names tmps" for ios tmps
  by unfold_locales
     (auto simp: FileDataStore_Load_def FileDataStore_Save_def FileDataStore_Close_def proper_names_def Let_def
        replace_file_last split_def split: if_splits)

section \<open>Bootstrap files\<close>

definition LoadBootstrapFromFile :: "bool \<Rightarrow> string \<Rightarrow> disk \<Rightarrow> store_failure + string" where
  "LoadBootstrapFromFile works path d =
     (case d path of None \<Rightarrow> Inl ErrIO | Some data \<Rightarrow> if works then Inr data else Inl ErrIO)"

definition SaveBootstrapToFile :: "file_io \<Rightarrow> string \<Rightarrow> string \<Rightarrow> string \<Rightarrow> disk \<Rightarrow> store_failure option \<times> disk list" where
  "SaveBootstrapToFile io tmp path snap d =
     (let (ok, disks) = replace_file io tmp path snap d in (if ok then None else Some ErrIO, disks))"

section \<open>What the stores keep\<close>

definition good_io :: file_io where
  "good_io = \<lparr>io_create = True, io_write = True, io_sync = True, io_close = True, io_rename = True, io_remove = True,
     io_torn = ''''\<rparr>"

definition full_disk :: file_io where
  "full_disk = good_io\<lparr>io_write := False, io_torn := ''{''\<rparr>"

text \<open>A snapshot saved to a file store is what every later load returns until another save succeeds, however
  many saves fail in between and however they fail.\<close>

theorem file_store_keeps_snapshot:
  assumes "\<forall>n. tmps n \<noteq> fd_path s" and "FileDataStore_Save ios tmps raw s = (None, s')"
    and "all_fail (FileDataStore_Save ios tmps) raws s'"
  shows "FileDataStore_Load True (save_all (FileDataStore_Save ios tmps) raws s') = Inr (Some raw)"
  by (rule files.saved_is_loaded [OF _ assms(2,3)]) (simp add: proper_names_def assms(1))

lemma file_store_keeps_snapshot_witness:
  "FileDataStore_Load True
     (save_all (FileDataStore_Save (\<lambda>n. if n = 0 then good_io else full_disk) (\<lambda>_. ''.t'')) [''{x}'']
        \<lparr>fd_path = ''s.json'', fd_closed = False, fd_disk = [''s.json'' \<mapsto> ''{}''], fd_calls = 1\<rparr>) = Inr (Some ''{}'')"
  by (rule file_store_keeps_snapshot
        [of "\<lambda>_. ''.t''" "\<lparr>fd_path = ''s.json'', fd_closed = False, fd_disk = (\<lambda>_. None), fd_calls = 0\<rparr>"])
     (simp_all add: FileDataStore_Save_def replace_file_def good_io_def full_disk_def fun_eq_iff)

text \<open>C33. No torn file: at every moment of a save, and so after a crash at any moment, the file holds the old
  content or the complete new one; a save that returned without error left no temporary file, nor did one
  that failed unless the removal failed too.\<close>

theorem replace_file_atomic:
  assumes "tmp \<noteq> path" and "replace_file io tmp path raw d = (ok, disks)" and "d tmp = None"
  shows "(\<forall>x\<in>set disks. x path = d path \<or> x path = Some raw) \<and>
    (ok \<longrightarrow> last disks = d(path \<mapsto> raw)) \<and> (\<not> ok \<longrightarrow> last disks path = d path) \<and>
    (\<not> ok \<longrightarrow> io_remove io \<longrightarrow> last disks = d)"
  using assms by (auto simp: replace_file_def Let_def fun_eq_iff split: if_splits)

lemma replace_file_atomic_witness:
  "list_all (\<lambda>x. x ''s.json'' \<in> {None, Some ''{}''}) (snd (replace_file full_disk ''.t'' ''s.json'' ''{}'' (\<lambda>_. None)))"
  using replace_file_atomic [of "''.t''" "''s.json''" full_disk "''{}''" "\<lambda>_. None", OF _ prod.collapse [symmetric]]
  by (simp add: list_all_iff)

end
