(* ===== verification/SDK_Client.thy ===== *)
theory SDK_Client
  imports SDK_Snapshot SDK_Stream SDK_Store Engine_Correct
begin

text \<open>
  \<open>pkg/sdk\<close>: the client.  Options (\<open>options.go\<close>), connection status (\<open>status.go\<close>), snapshot fetch, start, refresh
  and close (\<open>client.go\<close>), evaluation (\<open>detail.go\<close>) and usage counts (\<open>usage.go\<close>).

  \<^item> \<open>sdk_env\<close> is what the client calls: the JSON parser on bytes, the parser of times and the regular
    expressions of the engine.  Durations are nanoseconds.
  \<^item> The store a client was given is its operations and state; \<open>None\<close> when there is none.
  \<^item> The snapshot is replaced and read atomically in the code, so an evaluation sees one snapshot; only one goroutine at
    a time changes snapshot and status.  \<open>client_run\<close> in \<open>SDK_Client_Correct\<close>: all calls, in any order.
  \<^item> Results that are \<open>None\<close> are panics.
\<close>

section \<open>Status\<close>

datatype state = StateInitializing | StateConnected | StateStale | StateOffline | StateError

fun state_name :: "state \<Rightarrow> string" where
  "state_name StateInitializing = ''INITIALIZING''"
| "state_name StateConnected = ''CONNECTED''"
| "state_name StateStale = ''STALE''"
| "state_name StateOffline = ''OFFLINE''"
| "state_name StateError = ''ERROR''"

datatype sdk_error =
    ErrRequest
  | ErrStatus nat
  | ErrReadBody
  | ErrDecodeSnapshot
  | ErrBootstrapInvalid
  | ErrBootstrapRead
  | ErrEndpointRequired
  | ErrAPIKeyRequired
  | ErrNotLoaded
  | ErrFlagMissing string
  | ErrNotType string string

record client_status =
  cs_state :: state
  cs_last_err :: "sdk_error option"
  cs_last_upd :: "time option"
  cs_ready :: bool
  cs_callbacks :: nat
  cs_calls :: "(nat \<times> state) list"

definition newClientStatus :: client_status where
  "newClientStatus =
     \<lparr>cs_state = StateInitializing, cs_last_err = None, cs_last_upd = None, cs_ready = False, cs_callbacks = 0,
      cs_calls = []\<rparr>"

definition Initialized :: "client_status \<Rightarrow> bool" where
  "Initialized s \<longleftrightarrow> cs_state s \<noteq> StateInitializing"

definition transition :: "state \<Rightarrow> client_status \<Rightarrow> client_status" where
  "transition newState s =
     (if cs_state s = newState then s
      else s\<lparr>cs_state := newState, cs_ready := cs_ready s \<or> cs_state s = StateInitializing,
             cs_calls := cs_calls s @ map (\<lambda>i. (i, newState)) [0..<cs_callbacks s]\<rparr>)"

definition setLastError :: "sdk_error option \<Rightarrow> client_status \<Rightarrow> client_status" where
  "setLastError e s = s\<lparr>cs_last_err := e\<rparr>"

definition setLastUpdated :: "time \<Rightarrow> client_status \<Rightarrow> client_status" where
  "setLastUpdated t s = s\<lparr>cs_last_upd := Some t\<rparr>"

definition addCallback :: "client_status \<Rightarrow> client_status" where
  "addCallback s = s\<lparr>cs_callbacks := cs_callbacks s + 1\<rparr>"

text \<open>The outcomes open to a call of \<open>WaitForReady\<close>: \<open>None\<close> is nil, \<open>Some c\<close> the error of a context that is
  done; with neither it waits.\<close>

definition WaitForReady :: "bool \<Rightarrow> client_status \<Rightarrow> unit option list" where
  "WaitForReady cancelled s = (if cs_ready s then [None] else []) @ (if cancelled then [Some ()] else [])"

section \<open>Options\<close>

record client_options =
  co_endpoint :: string
  co_api_key :: string
  co_cache_ttl :: int
  co_timeout :: "int option"
  co_offline :: bool
  co_bootstrap :: string
  co_bootstrap_err :: "sdk_error option"
  co_on_status :: nat
  co_usage :: int

definition no_options :: client_options where
  "no_options =
     \<lparr>co_endpoint = '''', co_api_key = '''', co_cache_ttl = 0, co_timeout = None, co_offline = False,
      co_bootstrap = '''', co_bootstrap_err = None, co_on_status = 0, co_usage = 0\<rparr>"

datatype file_read = FileRead string | FileMissing | FileFailed

text \<open>The options with an effect that is modelled; \<open>WithHTTPClient\<close> brings the timeout of its client.\<close>

datatype option_fn =
    WithEndpoint string
  | WithAPIKey string
  | WithCacheTTL int
  | WithHTTPClient int
  | WithOffline bool
  | WithBootstrap string
  | WithBootstrapReader "string option"
  | WithBootstrapFile file_read
  | WithOnStatusChange
  | WithUsageReporting
  | WithUsageReportingInterval int

definition second :: int where "second = 1000000000"

fun apply_option :: "option_fn \<Rightarrow> client_options \<Rightarrow> client_options" where
  "apply_option (WithEndpoint v) p = p\<lparr>co_endpoint := v\<rparr>"
| "apply_option (WithAPIKey v) p = p\<lparr>co_api_key := v\<rparr>"
| "apply_option (WithCacheTTL d) p = p\<lparr>co_cache_ttl := d\<rparr>"
| "apply_option (WithHTTPClient t) p = p\<lparr>co_timeout := Some t\<rparr>"
| "apply_option (WithOffline v) p = p\<lparr>co_offline := v\<rparr>"
| "apply_option (WithBootstrap v) p = p\<lparr>co_bootstrap := v\<rparr>"
| "apply_option (WithBootstrapReader r) p =
     (case r of None \<Rightarrow> p\<lparr>co_bootstrap_err := Some ErrBootstrapRead\<rparr> | Some data \<Rightarrow> p\<lparr>co_bootstrap := data\<rparr>)"
| "apply_option (WithBootstrapFile r) p =
     (case r of
        FileRead data \<Rightarrow> p\<lparr>co_bootstrap := data\<rparr>
      | FileMissing \<Rightarrow> p
      | FileFailed \<Rightarrow> p\<lparr>co_bootstrap_err := Some ErrBootstrapRead\<rparr>)"
| "apply_option WithOnStatusChange p = p\<lparr>co_on_status := co_on_status p + 1\<rparr>"
| "apply_option WithUsageReporting p = (if co_usage p = 0 then p\<lparr>co_usage := 60 * second\<rparr> else p)"
| "apply_option (WithUsageReportingInterval d) p = (if 0 < d then p\<lparr>co_usage := d\<rparr> else p)"

definition defaultCacheTTL :: int where "defaultCacheTTL = 30 * second"
definition defaultTimeout :: int where "defaultTimeout = 10 * second"

definition option_defaults :: "client_options \<Rightarrow> client_options" where
  "option_defaults p =
     (let p1 = (if co_cache_ttl p = 0 then p\<lparr>co_cache_ttl := defaultCacheTTL\<rparr> else p) in
      if co_timeout p1 = None then p1\<lparr>co_timeout := Some defaultTimeout\<rparr> else p1)"

definition option_validate :: "client_options \<Rightarrow> sdk_error option" where
  "option_validate p =
     (if co_offline p then None
      else if co_endpoint p = '''' then Some ErrEndpointRequired
      else if co_api_key p = '''' then Some ErrAPIKeyRequired
      else None)"

section \<open>The client\<close>

record sdk_env =
  sv_parse :: "string \<Rightarrow> json option"
  sv_time_of :: "string \<Rightarrow> time option"
  sv_rx :: regex

record sdk_client =
  cc_opts :: client_options
  cc_cache :: sdk_snapshot
  cc_status :: client_status
  cc_refresh :: bool
  cc_started :: bool
  cc_start_err :: "sdk_error option"
  cc_done :: bool
  cc_usage :: "(string \<times> usage_entry) list option"

definition read_snapshot :: "sdk_env \<Rightarrow> string \<Rightarrow> sdk_response option" where
  "read_snapshot env raw = Option.bind (sv_parse env raw) (decode_snapshot (sv_time_of env))"

definition New :: "sdk_env \<Rightarrow> option_fn list \<Rightarrow> time \<Rightarrow> sdk_error + sdk_client" where
  "New env opts now =
     (let cfg = foldl (\<lambda>p f. apply_option f p) no_options opts in
      case co_bootstrap_err cfg of
        Some e \<Rightarrow> Inl e
      | None \<Rightarrow>
          (let cfg' = option_defaults cfg in
           case option_validate cfg' of
             Some e \<Rightarrow> Inl e
           | None \<Rightarrow>
               (let c = \<lparr>cc_opts = cfg', cc_cache = newSnapshot, cc_status = (addCallback ^^ co_on_status cfg') newClientStatus,
                         cc_refresh = False, cc_started = False, cc_start_err = None, cc_done = False,
                         cc_usage = (if 0 < co_usage cfg' then Some [] else None)\<rparr>;
                    offline = (\<lambda>c. if co_offline cfg' then c\<lparr>cc_status := transition StateOffline (cc_status c)\<rparr> else c)
                in if co_bootstrap cfg' = '''' then Inr (offline c)
                   else (case read_snapshot env (co_bootstrap cfg') of
                           None \<Rightarrow> Inl ErrBootstrapInvalid
                         | Some r \<Rightarrow> Inr (offline (c\<lparr>cc_cache := toSnapshot now r,
                                                     cc_status := transition StateConnected (cc_status c)\<rparr>))))))"

definition signalRefresh :: "sdk_client \<Rightarrow> sdk_client" where
  "signalRefresh c = c\<lparr>cc_refresh := True\<rparr>"

text \<open>The reply to the request for a snapshot: none, or a status and the body when it could be read.\<close>

datatype fetch = FetchFailed | Fetched nat "string option"

definition refetchRaw :: "sdk_env \<Rightarrow> fetch \<Rightarrow> time \<Rightarrow> sdk_error + (sdk_snapshot \<times> string)" where
  "refetchRaw env resp now =
     (case resp of
        FetchFailed \<Rightarrow> Inl ErrRequest
      | Fetched status body \<Rightarrow>
          (if 400 \<le> status then Inl (ErrStatus status)
           else (case body of
                   None \<Rightarrow> Inl ErrReadBody
                 | Some raw \<Rightarrow>
                     (case read_snapshot env raw of
                        None \<Rightarrow> Inl ErrDecodeSnapshot
                      | Some r \<Rightarrow> Inr (toSnapshot now r, raw)))))"

record 's store_ops =
  op_load :: "'s \<Rightarrow> store_failure + string option"
  op_save :: "string \<Rightarrow> 's \<Rightarrow> store_failure option \<times> 's"
  op_close :: "'s \<Rightarrow> 's"

type_synonym 's store = "('s store_ops \<times> 's) option"

definition store_save :: "string \<Rightarrow> 's store \<Rightarrow> 's store" where
  "store_save raw st = map_option (\<lambda>(ops, s). (ops, snd (op_save ops raw s))) st"

definition loaded :: "sdk_client \<Rightarrow> bool" where
  "loaded c \<longleftrightarrow> sp_fetched_at (cc_cache c) \<noteq> None"

text \<open>What \<open>Start\<close> and \<open>doRefresh\<close> do with the result of a fetch.\<close>

definition apply_fetch :: "sdk_error + (sdk_snapshot \<times> string) \<Rightarrow> time \<Rightarrow> sdk_client \<times> 's store \<Rightarrow> sdk_client \<times> 's store" where
  "apply_fetch r now = (\<lambda>(c, st).
     case r of
       Inl e \<Rightarrow>
         (c\<lparr>cc_status := transition (if loaded c then StateStale else StateError) (setLastError (Some e) (cc_status c))\<rparr>, st)
     | Inr (snap, raw) \<Rightarrow>
         (c\<lparr>cc_cache := snap,
            cc_status := transition StateConnected (setLastError None (setLastUpdated now (cc_status c)))\<rparr>,
          store_save raw st))"

definition doRefresh :: "sdk_env \<Rightarrow> fetch \<Rightarrow> time \<Rightarrow> sdk_client \<times> 's store \<Rightarrow> sdk_client \<times> 's store" where
  "doRefresh env resp now = apply_fetch (refetchRaw env resp now) now"

definition load_stored :: "sdk_env \<Rightarrow> time \<Rightarrow> 's store \<Rightarrow> sdk_client \<Rightarrow> sdk_client" where
  "load_stored env now st c =
     (case st of
        None \<Rightarrow> c
      | Some (ops, s) \<Rightarrow>
          (case op_load ops s of
             Inr (Some raw) \<Rightarrow>
               (case read_snapshot env raw of None \<Rightarrow> c | Some r \<Rightarrow> c\<lparr>cc_cache := toSnapshot now r\<rparr>)
           | _ \<Rightarrow> c))"

definition fetch_error :: "sdk_error + 'a \<Rightarrow> sdk_error option" where
  "fetch_error r = (case r of Inl e \<Rightarrow> Some e | Inr _ \<Rightarrow> None)"

definition Start :: "sdk_env \<Rightarrow> fetch \<Rightarrow> time \<Rightarrow> sdk_client \<times> 's store \<Rightarrow> sdk_client \<times> 's store" where
  "Start env resp now = (\<lambda>(c, st).
     if cc_started c then (c, st)
     else if co_offline (cc_opts c) then (c\<lparr>cc_started := True, cc_start_err := None\<rparr>, st)
     else
       (let r = refetchRaw env resp now; (c', st') = apply_fetch r now (load_stored env now st c, st) in
        (c'\<lparr>cc_started := True, cc_start_err := fetch_error r\<rparr>, st')))"

section \<open>Usage\<close>

definition usage_record :: "string \<Rightarrow> string \<Rightarrow> time \<Rightarrow> (string \<times> usage_entry) list \<Rightarrow> (string \<times> usage_entry) list" where
  "usage_record flagKey reason now entries =
     (case map_of entries flagKey of
        None \<Rightarrow> put flagKey \<lparr>uu_flag_key = flagKey, uu_count = 1, uu_last_reason = reason, uu_last_eval = now\<rparr> entries
      | Some e \<Rightarrow> put flagKey (e\<lparr>uu_count := uu_count e + 1, uu_last_reason := reason, uu_last_eval := now\<rparr>) entries)"

text \<open>The report a flush sends, if any, and the entries it leaves; the answer to the report is not looked at.\<close>

definition usage_flush :: "(string \<times> usage_entry) list \<Rightarrow> usage_entry list option \<times> (string \<times> usage_entry) list" where
  "usage_flush entries = (if entries = [] then None else Some (map snd entries), [])"

definition count_use :: "string \<Rightarrow> string \<Rightarrow> time \<Rightarrow> sdk_client \<Rightarrow> sdk_client" where
  "count_use key reason now c = c\<lparr>cc_usage := map_option (usage_record key reason now) (cc_usage c)\<rparr>"

definition flush_usage :: "sdk_client \<Rightarrow> usage_entry list option \<times> sdk_client" where
  "flush_usage c =
     (case cc_usage c of
        None \<Rightarrow> (None, c)
      | Some entries \<Rightarrow> (fst (usage_flush entries), c\<lparr>cc_usage := Some (snd (usage_flush entries))\<rparr>))"

text \<open>\<open>Close\<close> flushes the counts the first time and closes the store every time.\<close>

definition Close :: "sdk_client \<times> 's store \<Rightarrow> usage_entry list option \<times> sdk_client \<times> 's store" where
  "Close = (\<lambda>(c, st).
     (let (report, c') = (if cc_done c then (None, c) else (let (r, c') = flush_usage c in (r, c'\<lparr>cc_done := True\<rparr>))) in
      (report, c', map_option (\<lambda>(ops, s). (ops, op_close ops s)) st)))"

section \<open>Evaluation\<close>

datatype sdk_reason = EngineReason reason | ReasonError

fun sdk_reason_string :: "sdk_reason \<Rightarrow> string" where
  "sdk_reason_string (EngineReason r) = reason_string r"
| "sdk_reason_string ReasonError = ''ERROR''"

record detail =
  dt_value :: gval
  dt_reason :: sdk_reason
  dt_rule_index :: int
  dt_variant :: string
  dt_error :: "sdk_error option"

definition bare_detail :: "sdk_reason \<Rightarrow> sdk_error option \<Rightarrow> detail" where
  "bare_detail r e = \<lparr>dt_value = GNil, dt_reason = r, dt_rule_index = -1, dt_variant = '''', dt_error = e\<rparr>"

definition sdk_evaluate :: "sdk_env \<Rightarrow> sdk_snapshot \<Rightarrow> ctx \<Rightarrow> flag_config \<Rightarrow> evaluate_result option" where
  "sdk_evaluate env snap m fc =
     fst (Evaluate (sv_rx env) (\<lambda>_. True) \<lparr>rq_flag = fc, rq_segments = sp_segments snap, rq_context = m\<rparr>)"

definition evalDetail :: "sdk_env \<Rightarrow> string \<Rightarrow> ctx \<Rightarrow> time \<Rightarrow> sdk_client \<Rightarrow> (detail \<times> sdk_client) option" where
  "evalDetail env key m now c =
     (let snap = cc_cache c in
      if co_offline (cc_opts c) \<and> sp_fetched_at snap = None then
        Some (bare_detail (EngineReason Default) None, count_use key (reason_string Default) now c)
      else if sp_fetched_at snap = None then
        Some (bare_detail ReasonError (Some ErrNotLoaded), count_use key ''ERROR'' now (signalRefresh c))
      else
        (case map_of (sp_flags snap) key of
           None \<Rightarrow>
             Some (bare_detail (EngineReason FlagNotFound) (Some (ErrFlagMissing key)),
                   count_use key (reason_string FlagNotFound) now c)
         | Some fc \<Rightarrow>
             map_option (\<lambda>res.
               (\<lparr>dt_value = er_value res, dt_reason = EngineReason (er_reason res), dt_rule_index = er_rule_index res,
                 dt_variant = '''', dt_error = None\<rparr>,
                count_use key (reason_string (er_reason res)) now c)) (sdk_evaluate env snap m fc)))"

text \<open>The three typed details differ in the type assertion only.\<close>

definition typed_detail ::
  "(gval \<Rightarrow> bool) \<Rightarrow> string \<Rightarrow> sdk_env \<Rightarrow> string \<Rightarrow> gval \<Rightarrow> ctx \<Rightarrow> time \<Rightarrow> sdk_client \<Rightarrow> (detail \<times> sdk_client) option" where
  "typed_detail is_type name env key def m now c =
     map_option (\<lambda>(d, c').
       (if dt_error d \<noteq> None then d\<lparr>dt_value := def\<rparr>
        else if \<not> is_type (dt_value d) then
          \<lparr>dt_value = def, dt_reason = ReasonError, dt_rule_index = -1, dt_variant = '''',
           dt_error = Some (ErrNotType key name)\<rparr>
        else d, c')) (evalDetail env key m now c)"

fun is_bool :: "gval \<Rightarrow> bool" where
  "is_bool (GBool _) = True" | "is_bool _ = False"

fun is_string :: "gval \<Rightarrow> bool" where
  "is_string (GStr _) = True" | "is_string _ = False"

fun is_number :: "gval \<Rightarrow> bool" where
  "is_number (GF64 _) = True" | "is_number _ = False"

definition BoolDetail :: "sdk_env \<Rightarrow> string \<Rightarrow> bool \<Rightarrow> ctx \<Rightarrow> time \<Rightarrow> sdk_client \<Rightarrow> (detail \<times> sdk_client) option" where
  "BoolDetail env key def = typed_detail is_bool ''boolean'' env key (GBool def)"

definition StringDetail :: "sdk_env \<Rightarrow> string \<Rightarrow> string \<Rightarrow> ctx \<Rightarrow> time \<Rightarrow> sdk_client \<Rightarrow> (detail \<times> sdk_client) option" where
  "StringDetail env key def = typed_detail is_string ''string'' env key (GStr def)"

definition NumberDetail :: "sdk_env \<Rightarrow> string \<Rightarrow> f64 \<Rightarrow> ctx \<Rightarrow> time \<Rightarrow> sdk_client \<Rightarrow> (detail \<times> sdk_client) option" where
  "NumberDetail env key def = typed_detail is_number ''number'' env key (GF64 def)"

definition JSONDetail :: "sdk_env \<Rightarrow> string \<Rightarrow> gval \<Rightarrow> ctx \<Rightarrow> time \<Rightarrow> sdk_client \<Rightarrow> (detail \<times> sdk_client) option" where
  "JSONDetail env key def m now c =
     map_option (\<lambda>(d, c'). (if dt_error d \<noteq> None then d\<lparr>dt_value := def\<rparr> else d, c')) (evalDetail env key m now c)"

text \<open>The accessors assert the type of the value without a second result: the wrong type is a panic.\<close>

definition sdk_Bool :: "sdk_env \<Rightarrow> string \<Rightarrow> bool \<Rightarrow> ctx \<Rightarrow> time \<Rightarrow> sdk_client \<Rightarrow> (bool \<times> sdk_client) option" where
  "sdk_Bool env key def m now c =
     (case BoolDetail env key def m now c of
        Some (d, c') \<Rightarrow> (case dt_value d of GBool b \<Rightarrow> Some (b, c') | _ \<Rightarrow> None) | None \<Rightarrow> None)"

definition sdk_String :: "sdk_env \<Rightarrow> string \<Rightarrow> string \<Rightarrow> ctx \<Rightarrow> time \<Rightarrow> sdk_client \<Rightarrow> (string \<times> sdk_client) option" where
  "sdk_String env key def m now c =
     (case StringDetail env key def m now c of
        Some (d, c') \<Rightarrow> (case dt_value d of GStr s \<Rightarrow> Some (s, c') | _ \<Rightarrow> None) | None \<Rightarrow> None)"

definition sdk_Number :: "sdk_env \<Rightarrow> string \<Rightarrow> f64 \<Rightarrow> ctx \<Rightarrow> time \<Rightarrow> sdk_client \<Rightarrow> (f64 \<times> sdk_client) option" where
  "sdk_Number env key def m now c =
     (case NumberDetail env key def m now c of
        Some (d, c') \<Rightarrow> (case dt_value d of GF64 x \<Rightarrow> Some (x, c') | _ \<Rightarrow> None) | None \<Rightarrow> None)"

definition sdk_JSON :: "sdk_env \<Rightarrow> string \<Rightarrow> gval \<Rightarrow> ctx \<Rightarrow> time \<Rightarrow> sdk_client \<Rightarrow> (gval \<times> sdk_client) option" where
  "sdk_JSON env key def m now c = map_option (\<lambda>(d, c'). (dt_value d, c')) (JSONDetail env key def m now c)"

record sdk_value =
  vl_value :: gval
  vl_reason :: reason

definition sdk_value_of :: "evaluate_result \<Rightarrow> sdk_value" where
  "sdk_value_of res = \<lparr>vl_value = er_value res, vl_reason = er_reason res\<rparr>"

text \<open>\<open>All\<close> runs over a Go map; its results do not depend on the order, as each key has its own entry.\<close>

fun evaluate_each ::
  "sdk_env \<Rightarrow> sdk_snapshot \<Rightarrow> ctx \<Rightarrow> time \<Rightarrow> (string \<times> flag_config) list \<Rightarrow> sdk_client
   \<Rightarrow> ((string \<times> sdk_value) list \<times> sdk_client) option" where
  "evaluate_each env snap m now [] c = Some ([], c)"
| "evaluate_each env snap m now ((key, fc) # fcs) c =
     (case sdk_evaluate env snap m fc of
        None \<Rightarrow> None
      | Some res \<Rightarrow>
          map_option (\<lambda>(out, c'). ((key, sdk_value_of res) # out, c'))
            (evaluate_each env snap m now fcs (count_use key (reason_string (er_reason res)) now c)))"

definition sdk_All :: "sdk_env \<Rightarrow> ctx \<Rightarrow> time \<Rightarrow> sdk_client \<Rightarrow> ((string \<times> sdk_value) list \<times> sdk_client) option" where
  "sdk_All env m now c = evaluate_each env (cc_cache c) m now (sp_flags (cc_cache c)) c"

end
