(* ===== verification/SDK_Client_Correct.thy ===== *)
theory SDK_Client_Correct
  imports SDK_Client
begin

text \<open>
  What the SDK client promises: its typed accessors return a value of their type, the value is the engine's or
  the caller's default, the reported status is true, and a failed fetch never takes values away.
\<close>

section \<open>Frames\<close>

lemma count_use_frame [simp]:
  "cc_cache (count_use key r now c) = cc_cache c" "cc_status (count_use key r now c) = cc_status c"
  "cc_opts (count_use key r now c) = cc_opts c" "cc_started (count_use key r now c) = cc_started c"
  "cc_refresh (count_use key r now c) = cc_refresh c"
  by (simp_all add: count_use_def)

lemma signal_frame [simp]:
  "cc_cache (signalRefresh c) = cc_cache c" "cc_status (signalRefresh c) = cc_status c"
  "cc_opts (signalRefresh c) = cc_opts c" "cc_started (signalRefresh c) = cc_started c"
  by (simp_all add: signalRefresh_def)

lemma transition_simps [simp]:
  "cs_state (transition x s) = x" "cs_last_err (transition x s) = cs_last_err s"
  "cs_ready (transition x s) \<longleftrightarrow> cs_ready s \<or> cs_state s = StateInitializing \<and> x \<noteq> StateInitializing"
  by (auto simp: transition_def)

lemma status_setters [simp]:
  "cs_state (setLastError e s) = cs_state s" "cs_last_err (setLastError e s) = e" "cs_ready (setLastError e s) = cs_ready s"
  "cs_state (setLastUpdated t s) = cs_state s" "cs_last_err (setLastUpdated t s) = cs_last_err s"
  "cs_ready (setLastUpdated t s) = cs_ready s"
  "cs_state (addCallback s) = cs_state s" "cs_last_err (addCallback s) = cs_last_err s" "cs_ready (addCallback s) = cs_ready s"
  by (simp_all add: setLastError_def setLastUpdated_def addCallback_def)

section \<open>Evaluation\<close>

lemma sdk_evaluate_returns: "\<exists>res. sdk_evaluate env snap m fc = Some res"
  using Evaluate_total [of "\<lambda>_. True" "sv_rx env"] by (fastforce simp: sdk_evaluate_def)

lemma evalDetail_returns: "\<exists>d c'. evalDetail env key m now c = Some (d, c')"
proof (cases "map_of (sp_flags (cc_cache c)) key")
  case (Some fc)
  obtain res where "sdk_evaluate env (cc_cache c) m fc = Some res" using sdk_evaluate_returns by blast
  with Some show ?thesis by (simp add: evalDetail_def Let_def)
qed (simp add: evalDetail_def Let_def)

lemma evalDetail_frame:
  assumes "evalDetail env key m now c = Some (d, c')"
  shows "cc_cache c' = cc_cache c \<and> cc_status c' = cc_status c \<and> cc_opts c' = cc_opts c \<and> cc_started c' = cc_started c"
  using assms by (auto simp: evalDetail_def Let_def split: if_splits option.splits)

text \<open>C34. No typed accessor panics: whatever the snapshot, the flag's type, the context and the options are,
  \<open>Bool\<close>, \<open>String\<close> and \<open>Number\<close> find a value of their type in the detail they assert it of.\<close>

theorem typed_accessors_return:
  "sdk_Bool env key b m now c \<noteq> None \<and> sdk_String env key s m now c \<noteq> None \<and> sdk_Number env key x m now c \<noteq> None"
proof -
  obtain d c' where ev: "evalDetail env key m now c = Some (d, c')" using evalDetail_returns by blast
  have "is_bool v \<longleftrightarrow> (\<exists>b. v = GBool b)" "is_string v \<longleftrightarrow> (\<exists>s. v = GStr s)" "is_number v \<longleftrightarrow> (\<exists>x. v = GF64 x)" for v
    by (cases v; simp)+
  then show ?thesis
    by (auto simp: sdk_Bool_def sdk_String_def sdk_Number_def BoolDetail_def StringDetail_def NumberDetail_def
          typed_detail_def ev split: gval.splits)
qed

text \<open>C35. What \<open>BoolDetail\<close> answers: without an error exactly the engine's result for the flag of the current
  snapshot, value, reason and rule; with an error, and only then, the caller's default.\<close>

theorem BoolDetail_spec:
  assumes "BoolDetail env key def m now c = Some (d, c')"
  shows "(dt_error d = None \<longleftrightarrow>
           (loaded c \<and> (\<exists>fc res b. map_of (sp_flags (cc_cache c)) key = Some fc \<and>
              sdk_evaluate env (cc_cache c) m fc = Some res \<and> er_value res = GBool b \<and> dt_value d = GBool b \<and>
              dt_reason d = EngineReason (er_reason res) \<and> dt_rule_index d = er_rule_index res))) \<and>
         (dt_error d \<noteq> None \<longrightarrow> dt_value d = GBool def)"
proof -
  have bools: "is_bool v \<longleftrightarrow> (\<exists>b. v = GBool b)" for v by (cases v) auto
  show ?thesis
    using assms
    by (auto simp: BoolDetail_def typed_detail_def evalDetail_def bare_detail_def loaded_def bools Let_def
          split: if_splits option.splits)
qed

section \<open>The life of a client\<close>

text \<open>A client and its store, after any calls in any order.\<close>

inductive client_run :: "sdk_env \<Rightarrow> option_fn list \<Rightarrow> 's store \<Rightarrow> sdk_client \<times> 's store \<Rightarrow> bool"
  for env opts st0 where
  new: "New env opts now = Inr c \<Longrightarrow> client_run env opts st0 (c, st0)"
| start: "client_run env opts st0 x \<Longrightarrow> client_run env opts st0 (Start env resp now x)"
| refresh: "client_run env opts st0 (c, st) \<Longrightarrow> cc_started c \<Longrightarrow> \<not> co_offline (cc_opts c) \<Longrightarrow>
    client_run env opts st0 (doRefresh env resp now (c\<lparr>cc_refresh := False\<rparr>, st))"
| evaluate: "client_run env opts st0 (c, st) \<Longrightarrow> evalDetail env key m now c = Some (d, c') \<Longrightarrow>
    client_run env opts st0 (c', st)"
| evaluate_all: "client_run env opts st0 (c, st) \<Longrightarrow> sdk_All env m now c = Some (out, c') \<Longrightarrow>
    client_run env opts st0 (c', st)"
| signal: "client_run env opts st0 (c, st) \<Longrightarrow> client_run env opts st0 (signalRefresh c, st)"
| callback: "client_run env opts st0 (c, st) \<Longrightarrow>
    client_run env opts st0 (c\<lparr>cc_status := addCallback (cc_status c)\<rparr>, st)"
| flush: "client_run env opts st0 (c, st) \<Longrightarrow> flush_usage c = (report, c') \<Longrightarrow> client_run env opts st0 (c', st)"
| close: "client_run env opts st0 x \<Longrightarrow> Close x = (report, x') \<Longrightarrow> client_run env opts st0 x'"

definition status_true :: "sdk_client \<Rightarrow> bool" where
  "status_true c \<longleftrightarrow>
     (cs_ready (cc_status c) \<longleftrightarrow> cs_state (cc_status c) \<noteq> StateInitializing) \<and>
     (co_offline (cc_opts c) \<longleftrightarrow> cs_state (cc_status c) = StateOffline) \<and>
     (case cs_state (cc_status c) of
        StateInitializing \<Rightarrow> \<not> loaded c \<and> \<not> cc_started c
      | StateConnected \<Rightarrow> loaded c \<and> cs_last_err (cc_status c) = None
      | StateStale \<Rightarrow> loaded c \<and> cs_last_err (cc_status c) \<noteq> None
      | StateOffline \<Rightarrow> True
      | StateError \<Rightarrow> \<not> loaded c \<and> cs_last_err (cc_status c) \<noteq> None)"

lemma status_true_cong:
  "cc_status c' = cc_status c \<Longrightarrow> cc_opts c' = cc_opts c \<Longrightarrow> cc_cache c' = cc_cache c \<Longrightarrow> cc_started c' = cc_started c \<Longrightarrow>
   status_true c' \<longleftrightarrow> status_true c"
  by (simp add: status_true_def loaded_def split: state.split)

lemma many_callbacks [simp]:
  "cs_state ((addCallback ^^ n) s) = cs_state s" "cs_ready ((addCallback ^^ n) s) = cs_ready s"
  "cs_last_err ((addCallback ^^ n) s) = cs_last_err s"
  by (induction n) simp_all

lemma status_true_new: "New env opts now = Inr c \<Longrightarrow> status_true c"
  by (auto simp: New_def Let_def status_true_def loaded_def newSnapshot_def toSnapshot_def newClientStatus_def
        split: option.splits if_splits)

lemma refetchRaw_loaded: "refetchRaw env resp now = Inr (snap, raw) \<Longrightarrow> sp_fetched_at snap = Some now"
  by (auto simp: refetchRaw_def toSnapshot_def split: fetch.splits if_splits option.splits)

lemma apply_fetch_status:
  assumes "apply_fetch (refetchRaw env resp now) now (c, st) = (c', st')" and "\<not> co_offline (cc_opts c)"
    and "cs_ready (cc_status c) \<longleftrightarrow> cs_state (cc_status c) \<noteq> StateInitializing"
  shows "status_true (c'\<lparr>cc_started := b\<rparr>)" and "status_true c'"
proof -
  have "status_true (c'\<lparr>cc_started := b\<rparr>) \<and> status_true c'"
  proof (cases "refetchRaw env resp now")
    case (Inl e)
    then show ?thesis
      using assms by (cases "loaded c") (auto simp: apply_fetch_def status_true_def loaded_def)
  next
    case (Inr r)
    then show ?thesis
      using assms refetchRaw_loaded [of env resp now "fst r" "snd r"]
      by (auto simp: apply_fetch_def status_true_def loaded_def split_def)
  qed
  then show "status_true (c'\<lparr>cc_started := b\<rparr>)" and "status_true c'" by simp_all
qed

lemma load_stored_frame [simp]:
  "cc_status (load_stored env now st c) = cc_status c" "cc_opts (load_stored env now st c) = cc_opts c"
  by (auto simp: load_stored_def split: option.splits sum.splits)

lemma status_true_start:
  assumes "status_true c" and "Start env resp now (c, st) = (c', st')"
  shows "status_true c'"
proof (cases "cc_started c \<or> co_offline (cc_opts c)")
  case True
  then show ?thesis using assms by (auto simp: Start_def status_true_def loaded_def split: if_splits)
next
  case False
  obtain c1 st1 where f: "apply_fetch (refetchRaw env resp now) now (load_stored env now st c, st) = (c1, st1)"
    by (cases "apply_fetch (refetchRaw env resp now) now (load_stored env now st c, st)")
  then have "status_true (c1\<lparr>cc_started := True\<rparr>)"
    using False assms(1) by (intro apply_fetch_status(1) [OF f]) (simp_all add: status_true_def)
  moreover have "c' = c1\<lparr>cc_started := True, cc_start_err := fetch_error (refetchRaw env resp now)\<rparr>"
    using False assms(2) f by (simp add: Start_def Let_def)
  ultimately show ?thesis using status_true_cong [of c' "c1\<lparr>cc_started := True\<rparr>"] by simp
qed

lemma evaluate_each_frame:
  "evaluate_each env snap m now fcs c = Some (out, c') \<Longrightarrow>
   cc_cache c' = cc_cache c \<and> cc_status c' = cc_status c \<and> cc_opts c' = cc_opts c \<and> cc_started c' = cc_started c"
proof (induction env snap m now fcs c arbitrary: out rule: evaluate_each.induct)
  case (2 env snap m now key fc fcs c)
  obtain res where res: "sdk_evaluate env snap m fc = Some res" using sdk_evaluate_returns by blast
  let ?c = "count_use key (reason_string (er_reason res)) now c"
  obtain out' where "evaluate_each env snap m now fcs ?c = Some (out', c')" using 2(2) res by auto
  from 2(1) [OF res this] show ?case by simp
qed simp

lemma flush_usage_frame:
  "flush_usage c = (report, c') \<Longrightarrow>
   cc_cache c' = cc_cache c \<and> cc_status c' = cc_status c \<and> cc_opts c' = cc_opts c \<and> cc_started c' = cc_started c"
  by (auto simp: flush_usage_def split: option.splits)

lemma Close_frame:
  "Close (c, st) = (report, c', st') \<Longrightarrow>
   cc_cache c' = cc_cache c \<and> cc_status c' = cc_status c \<and> cc_opts c' = cc_opts c \<and> cc_started c' = cc_started c"
  by (auto simp: Close_def flush_usage_def Let_def split: option.splits if_splits)

text \<open>C30. The status is true: whatever happened to a client, it says \<open>CONNECTED\<close> only with a snapshot and no error
  pending, \<open>STALE\<close> only with a snapshot and the error of the last fetch, \<open>ERROR\<close> only without a snapshot, and
  \<open>OFFLINE\<close> exactly when it was asked to be; and waiters are released exactly when it has left
  \<open>INITIALIZING\<close>, after a failed first fetch too.\<close>

theorem client_status_true:
  assumes "client_run env opts st0 x"
  shows "status_true (fst x)"
  using assms
proof (induction rule: client_run.induct)
  case (start x resp now)
  then show ?case using status_true_start [of "fst x" env resp now "snd x"] by (metis prod.collapse)
next
  case (refresh c st resp now)
  let ?c = "c\<lparr>cc_refresh := False\<rparr>"
  obtain c1 st1 where f: "apply_fetch (refetchRaw env resp now) now (?c, st) = (c1, st1)"
    by (cases "apply_fetch (refetchRaw env resp now) now (?c, st)")
  show ?case
    using apply_fetch_status(2) [OF f] refresh by (simp add: doRefresh_def f status_true_def)
next
  case (evaluate c st key m now d c')
  then show ?case using evalDetail_frame [OF evaluate(2)] status_true_cong [of c' c] by simp
next
  case (evaluate_all c st m now out c')
  then show ?case
    using evaluate_each_frame [OF evaluate_all(2) [unfolded sdk_All_def]] status_true_cong [of c' c] by simp
next
  case (signal c st)
  then show ?case using status_true_cong [of "signalRefresh c" c] by simp
next
  case (callback c st)
  then show ?case by (simp add: status_true_def loaded_def split: state.splits)
next
  case (flush c st report c')
  then show ?case using flush_usage_frame [OF flush(2)] status_true_cong [of c' c] by simp
next
  case (close x report x')
  obtain c st c' st' where "x = (c, st)" "x' = (c', st')" by (metis surj_pair)
  then show ?case using close Close_frame [of c st report c' st'] status_true_cong [of c' c] by simp
qed (simp add: status_true_new)

definition sample_env :: sdk_env where
  "sample_env = \<lparr>sv_parse = (\<lambda>raw. if raw = ''{}'' then Some (JObj []) else None), sv_time_of = (\<lambda>_. None),
     sv_rx = (\<lambda>_ _. None)\<rparr>"

definition sample_options :: "option_fn list" where
  "sample_options = [WithEndpoint ''https://flags.example'', WithAPIKey ''fs_live_k'', WithUsageReporting]"

definition sample_client :: sdk_client where
  "sample_client = (case New sample_env sample_options 0 of Inr c \<Rightarrow> c)"

lemma sample_new: "New sample_env sample_options 0 = Inr sample_client"
  by (simp add: sample_client_def New_def sample_options_def no_options_def option_defaults_def option_validate_def
        second_def Let_def)

lemma client_status_true_witness:
  "status_true (fst (doRefresh sample_env FetchFailed 9 ((fst (Start sample_env (Fetched 200 (Some ''{}'')) 5
     (sample_client, None :: unit store)))\<lparr>cc_refresh := False\<rparr>, None :: unit store)))"
proof -
  let ?S = "Start sample_env (Fetched 200 (Some ''{}'')) 5 (sample_client, None :: unit store)"
  have r: "client_run sample_env sample_options None (fst ?S, snd ?S)"
    unfolding prod.collapse by (intro client_run.start client_run.new [OF sample_new])
  have s: "snd ?S = None" "cc_started (fst ?S)" "\<not> co_offline (cc_opts (fst ?S))"
    by code_simp+
  show ?thesis
    by (rule client_status_true [OF client_run.refresh [OF r [unfolded s(1)] s(2,3)]])
qed

lemma BoolDetail_spec_witness:
  "dt_value (fst (the (BoolDetail sample_env ''f'' True [] 1 sample_client))) = GBool True"
proof -
  let ?r = "BoolDetail sample_env ''f'' True [] 1 sample_client"
  have "dt_error (fst (the ?r)) = Some ErrNotLoaded" "?r \<noteq> None" by code_simp+
  moreover from this(2) have "?r = Some (fst (the ?r), snd (the ?r))" by auto
  from BoolDetail_spec [OF this] calculation(1) show ?thesis by simp
qed

text \<open>The answer depends on the options, the snapshot and the request only.\<close>

definition answer :: "sdk_env \<Rightarrow> bool \<Rightarrow> sdk_snapshot \<Rightarrow> string \<Rightarrow> ctx \<Rightarrow> detail" where
  "answer env offline snap key m =
     (if sp_fetched_at snap = None then
        (if offline then bare_detail (EngineReason Default) None else bare_detail ReasonError (Some ErrNotLoaded))
      else
        (case map_of (sp_flags snap) key of
           None \<Rightarrow> bare_detail (EngineReason FlagNotFound) (Some (ErrFlagMissing key))
         | Some fc \<Rightarrow>
             (let res = the (sdk_evaluate env snap m fc) in
              \<lparr>dt_value = er_value res, dt_reason = EngineReason (er_reason res), dt_rule_index = er_rule_index res,
               dt_variant = [], dt_error = None\<rparr>)))"

lemma evalDetail_answer:
  "map_option fst (evalDetail env key m now c) = Some (answer env (co_offline (cc_opts c)) (cc_cache c) key m)"
proof (cases "map_of (sp_flags (cc_cache c)) key")
  case (Some fc)
  obtain res where "sdk_evaluate env (cc_cache c) m fc = Some res" using sdk_evaluate_returns by blast
  with Some show ?thesis by (simp add: evalDetail_def answer_def Let_def)
qed (simp add: evalDetail_def answer_def Let_def)

section \<open>Failures keep the values\<close>

text \<open>C31. A failed refresh changes no answer and no stored snapshot: the client goes on with the values it has,
  and only its status and error change.\<close>

theorem failed_refresh_keeps_values:
  assumes "refetchRaw env resp now = Inl e" and "doRefresh env resp now (c, st) = (c', st')"
  shows "st' = st \<and> map_option fst (evalDetail env key m t c') = map_option fst (evalDetail env key m t c) \<and>
    cs_last_err (cc_status c') = Some e \<and> cs_state (cc_status c') = (if loaded c then StateStale else StateError)"
proof -
  have "cc_cache c' = cc_cache c" "cc_opts c' = cc_opts c"
    using assms by (auto simp: doRefresh_def apply_fetch_def)
  then have "map_option fst (evalDetail env key m t c') = map_option fst (evalDetail env key m t c)"
    by (simp add: evalDetail_answer)
  then show ?thesis using assms by (auto simp: doRefresh_def apply_fetch_def)
qed

lemma failed_refresh_keeps_values_witness:
  "snd (doRefresh sample_env (Fetched 503 None) 9 (sample_client, None :: unit store)) = None"
proof -
  have "refetchRaw sample_env (Fetched 503 None) 9 = Inl (ErrStatus 503)" by (simp add: refetchRaw_def)
  from failed_refresh_keeps_values [OF this prod.collapse [symmetric], where c = sample_client and st = "None :: unit store"]
  show ?thesis by blast
qed

section \<open>Restart\<close>

text \<open>The stores of the package as the client sees them.\<close>

definition file_ops :: "(nat \<Rightarrow> file_io) \<Rightarrow> (nat \<Rightarrow> string) \<Rightarrow> file_store store_ops" where
  "file_ops ios tmps =
     \<lparr>op_load = FileDataStore_Load True, op_save = FileDataStore_Save ios tmps, op_close = FileDataStore_Close\<rparr>"

definition memory_ops :: "memory_store store_ops" where
  "memory_ops = \<lparr>op_load = memory_Load, op_save = memory_Save, op_close = memory_Close\<rparr>"

lemma start_from_store:
  assumes "op_load ops s = Inr (Some raw)" and "read_snapshot env raw = Some r"
    and "\<not> cc_started c" and "\<not> co_offline (cc_opts c)" and "refetchRaw env resp now = Inl e"
  shows "cc_cache (fst (Start env resp now (c, Some (ops, s)))) = toSnapshot now r"
    and "cc_opts (fst (Start env resp now (c, Some (ops, s)))) = cc_opts c"
  using assms by (simp_all add: Start_def apply_fetch_def load_stored_def loaded_def toSnapshot_def Let_def)

text \<open>C32. Restart without a server: a client that starts with the file another client saved a snapshot to, and
  cannot reach the server, evaluates every flag as the first client did after that fetch, however many later
  saves to the file failed.\<close>

theorem restart_evaluates_stored:
  assumes "refetchRaw env resp now = Inr (snap, raw)" and "FileDataStore_Save ios tmps raw s = (None, s1)"
    and "\<forall>n. tmps n \<noteq> fd_path s" and "all_fail (FileDataStore_Save ios tmps) raws s1"
    and "refetchRaw env resp' now' = Inl e" and "\<not> cc_started c2" and "\<not> co_offline (cc_opts c2)"
  shows "map_option fst (evalDetail env key m t
           (fst (Start env resp' now' (c2, Some (file_ops ios tmps, save_all (FileDataStore_Save ios tmps) raws s1)))))
       = map_option fst (evalDetail env key m t (fst (doRefresh env resp now (c1, Some (file_ops ios tmps, s)))))"
proof -
  obtain r where r: "read_snapshot env raw = Some r" "snap = toSnapshot now r"
    using assms(1) by (auto simp: refetchRaw_def split: fetch.splits if_splits option.splits)
  have c1: "cc_cache (fst (doRefresh env resp now (c1, Some (file_ops ios tmps, s)))) = toSnapshot now r"
    using assms(1) r by (simp add: doRefresh_def apply_fetch_def)
  have "FileDataStore_Load True (save_all (FileDataStore_Save ios tmps) raws s1) = Inr (Some raw)"
    by (rule files.saved_is_loaded [OF _ assms(2,4)]) (simp add: proper_names_def assms(3))
  then have load: "op_load (file_ops ios tmps) (save_all (FileDataStore_Save ios tmps) raws s1) = Inr (Some raw)"
    by (simp add: file_ops_def)
  note c2 = start_from_store [OF load r(1) assms(6,7,5)]
  have same: "sdk_evaluate env (toSnapshot now' r) m = sdk_evaluate env (toSnapshot now r) m"
    by (simp add: sdk_evaluate_def toSnapshot_def fun_eq_iff)
  have "answer env b (toSnapshot now' r) key m = answer env b' (toSnapshot now r) key m" for b b'
    unfolding answer_def same by (simp add: toSnapshot_def)
  then show ?thesis unfolding evalDetail_answer c1 c2 by simp
qed

lemma restart_evaluates_stored_witness:
  "map_option fst (evalDetail sample_env ''f'' [] 9 (fst (Start sample_env FetchFailed 8
      (sample_client, Some (file_ops (\<lambda>_. good_io) (\<lambda>_. ''.t''),
         \<lparr>fd_path = ''s.json'', fd_closed = False, fd_disk = [''s.json'' \<mapsto> ''{}''], fd_calls = 1\<rparr>)))))
   = map_option fst (evalDetail sample_env ''f'' [] 9 (fst (doRefresh sample_env (Fetched 200 (Some ''{}'')) 5
      (sample_client, Some (file_ops (\<lambda>_. good_io) (\<lambda>_. ''.t''),
         \<lparr>fd_path = ''s.json'', fd_closed = False, fd_disk = (\<lambda>_. None), fd_calls = 0\<rparr>)))))"
proof -
  let ?s = "\<lparr>fd_path = ''s.json'', fd_closed = False, fd_disk = (\<lambda>_. None), fd_calls = 0\<rparr>"
  have snap: "refetchRaw sample_env (Fetched 200 (Some ''{}'')) 5 =
      Inr (\<lparr>sp_flags = [], sp_segments = [], sp_fetched_at = Some 5\<rparr>, ''{}'')" by code_simp
  have save: "FileDataStore_Save (\<lambda>_. good_io) (\<lambda>_. ''.t'') ''{}'' ?s =
      (None, \<lparr>fd_path = ''s.json'', fd_closed = False, fd_disk = [''s.json'' \<mapsto> ''{}''], fd_calls = 1\<rparr>)"
    by (simp add: FileDataStore_Save_def replace_file_def good_io_def fun_eq_iff)
  have fail: "refetchRaw sample_env FetchFailed 8 = Inl ErrRequest" by (simp add: refetchRaw_def)
  have c: "\<not> cc_started sample_client" "\<not> co_offline (cc_opts sample_client)" by code_simp+
  from restart_evaluates_stored [OF snap save _ _ fail c, of "[]"] show ?thesis by simp
qed

end
