(* ===== verification/SDK_Agreement.thy ===== *)
theory SDK_Agreement
  imports SDK_Client_Correct Samples
begin

text \<open>
  Server and SDK together: an SDK that fetched the snapshot evaluates as the server's bulk endpoint does.
\<close>

section \<open>The snapshot of the server\<close>

lemma find_snoc: "find P (xs @ [x]) = (case find P xs of Some y \<Rightarrow> Some y | None \<Rightarrow> if P x then Some x else None)"
  by (induction xs) auto

lemma map_of_puts:
  "map_of (foldl (\<lambda>m x. put (key x) x m) [] xs) k = find (\<lambda>x. key x = k) (rev xs)"
  by (induction xs rule: rev_induct) auto

lemma set_puts:
  "p \<in> set (foldl (\<lambda>m x. put (key x) x m) [] xs) \<Longrightarrow> snd p \<in> set xs \<and> fst p = key (snd p)"
proof (induction xs arbitrary: p rule: rev_induct)
  case (snoc x xs)
  have "p \<in> set (put k v m) \<Longrightarrow> p = (k, v) \<or> p \<in> set m" for k v and m :: "('a \<times> 'b) list"
    by (induction k v m rule: put.induct) (auto split: if_splits)
  from this [of "key x" x "foldl (\<lambda>m x. put (key x) x m) [] xs"] snoc.prems
  consider "p = (key x, x)" | "p \<in> set (foldl (\<lambda>m x. put (key x) x m) [] xs)" by auto
  then show ?case using snoc.IH by cases auto
qed simp

lemma distinct_puts: "distinct (map fst (foldl (\<lambda>m x. put (key x) x m) [] xs))"
  by (induction xs rule: rev_induct) (simp_all add: distinct_put)

lemma joined_version: "buildFlagConfigFromJoined c = Some fc \<Longrightarrow> fc_version fc = fc_row_version c"
  by (auto simp: buildFlagConfigFromJoined_def with_env_default_def split: option.splits)

lemma snapshot_flags_json:
  assumes "\<forall>(k, fc)\<in>set (snapshot_flags cs). in_int64 (fc_version fc)"
  shows "\<forall>(k, fc)\<in>set (snapshot_flags cs). json_config fc"
proof safe
  fix k fc assume kfc: "(k, fc) \<in> set (snapshot_flags cs)"
  then have "fc \<in> set (readable_configs cs)"
    using set_puts [of "(k, fc)" fc_key "readable_configs cs"] by (simp add: snapshot_flags_def)
  then obtain c where c: "buildFlagConfigFromJoined c = Some fc"
    by (auto simp: readable_configs_def List.map_filter_def)
  have "in_int64 (fc_row_version c)" using assms kfc joined_version [OF c] by auto
  with c show "json_config fc" by (rule json_joined)
qed

lemma engine_segments_json:
  "distinct (map fst (engine_segments gs)) \<and> (\<forall>(k, g)\<in>set (engine_segments gs). json_node (sg_conditions g))"
proof (induction gs rule: rev_induct)
  case (snoc g gs)
  have put: "\<forall>(k, g)\<in>set (put k0 g0 m). json_node (sg_conditions g)"
    if "\<forall>(k, g)\<in>set m. json_node (sg_conditions g)" "json_node (sg_conditions g0)" for k0 g0 and m :: segments
    using that by (induction k0 g0 m rule: put.induct) (auto split: if_splits)
  show ?case
  proof (cases "unmarshal_segment (g_rules g)")
    case (Some n)
    let ?g = "\<lparr>sg_key = g_key g, sg_conditions = n\<rparr>"
    have e: "engine_segments (gs @ [g]) = put (g_key g) ?g (engine_segments gs)"
      using Some by (simp add: engine_segments_def)
    have "\<forall>(k, g)\<in>set (put (g_key g) ?g (engine_segments gs)). json_node (sg_conditions g)"
      by (rule put) (use snoc json_unmarshal_segment [OF Some] in simp_all)
    then show ?thesis unfolding e using snoc by (simp add: distinct_put)
  qed (use snoc in \<open>simp add: engine_segments_def\<close>)
qed (simp add: engine_segments_def)

section \<open>All flags\<close>

lemma evaluate_each_spec:
  "\<exists>out c'. evaluate_each env snap m now fcs c = Some (out, c') \<and>
     (\<forall>k. map_of out k = map_option sdk_value_of (Option.bind (map_of fcs k) (sdk_evaluate env snap m)))"
proof (induction env snap m now fcs c rule: evaluate_each.induct)
  case (2 env snap m now key fc fcs c)
  obtain res where res: "sdk_evaluate env snap m fc = Some res" using sdk_evaluate_returns by blast
  from 2 [OF res] res show ?case by fastforce
qed simp

lemma server_results:
  assumes "EvaluateAll rx counting (readable_configs cs) segs m = Some results"
  shows "map_of results k = Option.bind (map_of (snapshot_flags cs) k)
    (\<lambda>fc. fst (Evaluate rx (\<lambda>_. True) \<lparr>rq_flag = fc, rq_segments = segs, rq_context = m\<rparr>))"
proof -
  have counting: "counting = (\<lambda>_. True)" by (simp add: counting_def fun_eq_iff)
  obtain rs where "evaluate_flags rx counting segs m (readable_configs cs) [] = Some rs"
    "\<forall>k. map_of rs k = (case find (\<lambda>fc. fc_key fc = k) (rev (readable_configs cs)) of
       Some fc \<Rightarrow> fst (Evaluate rx counting \<lparr>rq_flag = fc, rq_segments = segs, rq_context = m\<rparr>) | None \<Rightarrow> map_of [] k)"
    using evaluate_flags_spec [of counting "[]" rx segs m "readable_configs cs"] by (auto simp only: counting_def list.map distinct.simps)
  then show ?thesis
    using assms by (simp add: EvaluateAll_def snapshot_flags_def map_of_puts counting split: option.split)
qed

text \<open>The two handlers read the same rows.\<close>

lemma evaluate_and_snapshot:
  assumes "handleEvaluateFlags sv r w = (JSON 200 (PEvaluations results slug now1), w1)"
    and "handleSDKSnapshot sv r' w = (JSON 200 (PSnapshot sn), w2)" and "cx_env r' = cx_env r"
    and "DecodeJSON decode_evaluate r = Inr m"
  obtains cs gs where "EvaluateAll (sv_regex sv) counting (readable_configs cs) (engine_segments gs) (context_of m) = Some results"
    and "sn_flags sn = snapshot_flags cs" and "sn_segments sn = engine_segments gs"
  using assms
  by (auto simp: handleEvaluateFlags_def handleSDKSnapshot_def Let_def decoding_def env_by_id_def attempt_def with_now_def
        reply_def JSON_def loadEngineSegments_def Error_def or_not_found_def or_internal_def internal_error_def
        not_authenticated_def split: if_splits sum.splits prod.splits option.splits)

text \<open>C29. Server and SDK agree: when the bulk endpoint and the snapshot endpoint answer in the same state of the
  server, and the SDK's refresh got that snapshot (its text parsed back to the document the server wrote), then
  \<open>All\<close> in the SDK gives for every context and every key exactly the value and reason of the bulk endpoint;
  for all rules, segments, roll-outs, environment defaults and unreadable rows.\<close>

theorem sdk_agrees_with_server:
  assumes "handleEvaluateFlags sv r w = (JSON 200 (PEvaluations results slug now1), w1)"
    and "DecodeJSON decode_evaluate r = Inr m"
    and "handleSDKSnapshot sv r' w = (JSON 200 (PSnapshot sn), w2)" and "cx_env r' = cx_env r"
    and "\<forall>(k, fc)\<in>set (sn_flags sn). in_int64 (fc_version fc)"
    and "sv_parse env raw = Some (encode_snapshot rid time_text sn)"
    and "sv_time_of env (time_text (sn_fetched_at sn)) = Some t0" and "sv_rx env = sv_regex sv"
    and "doRefresh env (Fetched 200 (Some raw)) now (c, st) = (c', st')"
  shows "\<exists>out c''. sdk_All env (context_of m) t c' = Some (out, c'') \<and> map_of out = map_option sdk_value_of \<circ> map_of results"
proof -
  obtain cs gs where
    server: "EvaluateAll (sv_regex sv) counting (readable_configs cs) (engine_segments gs) (context_of m) = Some results"
    and flags: "sn_flags sn = snapshot_flags cs" and segs: "sn_segments sn = engine_segments gs"
    by (rule evaluate_and_snapshot [OF assms(1,3,4,2)])
  have "\<exists>r. decode_snapshot (sv_time_of env) (encode_snapshot rid time_text sn) = Some r \<and>
     sp_flags (toSnapshot now r) = sn_flags sn \<and> sp_segments (toSnapshot now r) = sn_segments sn"
    using snapshot_flags_json [of cs] engine_segments_json [of gs] distinct_puts [of fc_key "readable_configs cs"] assms(5)
    by (intro snapshot_roundtrip [where t = t0]) (simp_all add: flags segs snapshot_flags_def assms(7))
  then obtain sr where "read_snapshot env raw = Some sr" "sp_flags (toSnapshot now sr) = snapshot_flags cs"
    "sp_segments (toSnapshot now sr) = engine_segments gs"
    by (auto simp: read_snapshot_def assms(6) flags segs)
  then have cache: "sp_flags (cc_cache c') = snapshot_flags cs" "sp_segments (cc_cache c') = engine_segments gs"
    using assms(9) by (auto simp: doRefresh_def apply_fetch_def refetchRaw_def)
  obtain out c'' where out: "sdk_All env (context_of m) t c' = Some (out, c'')"
    "\<forall>k. map_of out k = map_option sdk_value_of (Option.bind (map_of (snapshot_flags cs) k) (sdk_evaluate env (cc_cache c') (context_of m)))"
    using evaluate_each_spec [of env "cc_cache c'" "context_of m" t "snapshot_flags cs" c'] by (auto simp: sdk_All_def cache)
  have "map_of out k = map_option sdk_value_of (map_of results k)" for k
    unfolding server_results [OF server]
    using out(2) by (simp add: sdk_evaluate_def cache assms(8) cong: Option.bind_cong)
  with out(1) show ?thesis by (auto simp: fun_eq_iff)
qed

definition sample_evaluation :: http_request where
  "sample_evaluation = (sample_request ''POST'' '''' (BodyDoc (JObj []) False))\<lparr>cx_env := 1\<rparr>"

definition sample_snapshot :: snapshot where
  "sample_snapshot =
     \<lparr>sn_environment = ''prod'',
      sn_flags = [(''f1'', \<lparr>fc_key = ''f1'', fc_enabled = True, fc_type = ''boolean'', fc_default = GBool False,
         fc_env_default = GNil, fc_has_env_default = False, fc_version = 3, fc_rules = []\<rparr>)],
      sn_segments = [], sn_fetched_at = 1000\<rparr>"

definition sample_reader :: sdk_env where
  "sample_reader =
     \<lparr>sv_parse = (\<lambda>raw. if raw = ''snapshot'' then Some (encode_snapshot ''r1'' (\<lambda>_. ''now'') sample_snapshot) else None),
      sv_time_of = (\<lambda>s. if s = ''now'' then Some 1000 else None), sv_rx = sv_regex sample_server\<rparr>"

lemma sdk_agrees_with_server_witness:
  "\<exists>out c''. sdk_All sample_reader [] 9
      (fst (doRefresh sample_reader (Fetched 200 (Some ''snapshot'')) 5 (sample_client, None :: unit store))) = Some (out, c'') \<and>
    map_of out = map_option sdk_value_of \<circ> map_of [(''f1'', \<lparr>er_value = GBool False, er_reason = Default, er_rule_index = -1\<rparr>)]"
proof -
  let ?w = "sample_world sample_db"
  have bulk: "fst (handleEvaluateFlags sample_server sample_evaluation ?w) =
      JSON 200 (PEvaluations [(''f1'', \<lparr>er_value = GBool False, er_reason = Default, er_rule_index = -1\<rparr>)] ''prod'' 1000)"
    by code_simp
  have snap: "fst (handleSDKSnapshot sample_server sample_evaluation ?w) = JSON 200 (PSnapshot sample_snapshot)"
    by code_simp
  have ctx: "DecodeJSON decode_evaluate sample_evaluation = Inr None" by code_simp
  have versions: "\<forall>(k, fc)\<in>set (sn_flags sample_snapshot). in_int64 (fc_version fc)"
    by (simp add: sample_snapshot_def in_int64_def)
  have reader: "sv_parse sample_reader ''snapshot'' = Some (encode_snapshot ''r1'' (\<lambda>_. ''now'') sample_snapshot)"
    "sv_time_of sample_reader ((\<lambda>_. ''now'') (sn_fetched_at sample_snapshot)) = Some 1000"
    "sv_rx sample_reader = sv_regex sample_server" by (simp_all add: sample_reader_def)
  have split: "fst p = x \<Longrightarrow> p = (x, snd p)" for p :: "'x \<times> 'y" and x by auto
  from sdk_agrees_with_server [OF split [OF bulk] ctx split [OF snap] refl versions reader(1) _ reader(3)
      prod.collapse [symmetric], of _ 9 5 sample_client "None :: unit store"] reader(2)
  have "\<exists>out c''. sdk_All sample_reader (context_of None) 9
      (fst (doRefresh sample_reader (Fetched 200 (Some ''snapshot'')) 5 (sample_client, None :: unit store))) = Some (out, c'') \<and>
    map_of out = map_option sdk_value_of \<circ> map_of [(''f1'', \<lparr>er_value = GBool False, er_reason = Default, er_rule_index = -1\<rparr>)]"
    by blast
  then show ?thesis by (simp add: context_of_def)
qed

end
