(* ===== verification/SDK_Usage.thy ===== *)
theory SDK_Usage
  imports SDK_Client_Correct Samples
begin

text \<open>
  \<open>pkg/sdk/usage.go\<close> end to end: the counts of a client between its evaluations and its reports, and the report
  between the client and the server's \<open>decode_usage\<close>.

  \<^item> \<open>encode_usage\<close>: \<open>json.Marshal\<close> of \<open>usageReport\<close>.
  \<^item> \<open>run_calls\<close>: calls on one client between two changes of its snapshot, with the reports they send.  The
    tracker's mutex makes each call one step; a flush takes the entries and sends them after it released it.
  \<^item> Counts are unbounded here; an \<open>int64\<close> would need 2^63 evaluations between two flushes to wrap.
\<close>

section \<open>The report\<close>

definition encode_usage_entry :: "(time \<Rightarrow> string) \<Rightarrow> usage_entry \<Rightarrow> json" where
  "encode_usage_entry time_text u =
     JObj [(''flag_key'', JStr (uu_flag_key u)), (''count'', JInt (uu_count u)), (''last_reason'', JStr (uu_last_reason u)),
           (''last_evaluated_at'', JStr (time_text (uu_last_eval u)))]"

definition encode_usage :: "(time \<Rightarrow> string) \<Rightarrow> usage_entry list \<Rightarrow> json" where
  "encode_usage time_text us = JObj [(''entries'', JArr (map (encode_usage_entry time_text) us))]"

lemma usage_names:
  "field_is ''flag_key'' ''flag_key''" "field_is ''count'' ''count''" "field_is ''last_reason'' ''last_reason''"
  "field_is ''last_evaluated_at'' ''last_evaluated_at''" "field_is ''entries'' ''entries''"
  "\<not> field_is ''flag_key'' ''count''" "\<not> field_is ''flag_key'' ''last_reason''" "\<not> field_is ''flag_key'' ''last_evaluated_at''"
  "\<not> field_is ''count'' ''last_reason''" "\<not> field_is ''count'' ''last_evaluated_at''"
  "\<not> field_is ''last_reason'' ''last_evaluated_at''"
  by code_simp+

lemma usage_entry_roundtrip:
  assumes "in_int64 (uu_count u)" and "sv_unmarshal_time sv (time_text (uu_last_eval u)) = Some (uu_last_eval u)"
  shows "decode_usage_entry sv (encode_usage_entry time_text u) = Some u"
  using assms
  by (simp add: decode_usage_entry_def encode_usage_entry_def usage_names decode_string_def decode_int_def decode_time_def in_int64_def Let_def)

lemma usage_roundtrip:
  assumes "\<forall>u\<in>set us. in_int64 (uu_count u) \<and> sv_unmarshal_time sv (time_text (uu_last_eval u)) = Some (uu_last_eval u)"
  shows "decode_usage sv (encode_usage time_text us) = Some us"
proof -
  have "decode_list (decode_usage_entry sv) (map (encode_usage_entry time_text) us) = Some us"
    using assms usage_entry_roundtrip by (auto simp: decode_list_iff list_all2_map1 list.rel_refl_strong)
  then show ?thesis by (simp add: decode_usage_def encode_usage_def usage_names)
qed

section \<open>Counting\<close>

text \<open>The uses of a key that a list of entries stands for.\<close>

definition uses :: "string \<Rightarrow> usage_entry list \<Rightarrow> int" where
  "uses key us = (\<Sum>u\<leftarrow>us. if uu_flag_key u = key then uu_count u else 0)"

lemma uses_simps [simp]:
  "uses key [] = 0" "uses key (u # us) = (if uu_flag_key u = key then uu_count u else 0) + uses key us"
  "uses key (us @ us') = uses key us + uses key us'"
  by (simp_all add: uses_def)

definition own_keys :: "(string \<times> usage_entry) list \<Rightarrow> bool" where
  "own_keys m \<longleftrightarrow> distinct (map fst m) \<and> (\<forall>(k, u)\<in>set m. uu_flag_key u = k \<and> 0 < uu_count u)"

lemma own_keys_Cons [simp]:
  "own_keys ((k, u) # m) \<longleftrightarrow> uu_flag_key u = k \<and> 0 < uu_count u \<and> k \<notin> fst ` set m \<and> own_keys m"
  by (auto simp: own_keys_def)

lemma own_keys_Nil [simp]: "own_keys []"
  by (simp add: own_keys_def)

lemma own_keys_put: "own_keys m \<Longrightarrow> uu_flag_key u = k \<Longrightarrow> 0 < uu_count u \<Longrightarrow> own_keys (put k u m)"
  by (induction k u m rule: put.induct) (auto simp: set_keys_put)

lemma uses_put:
  "own_keys m \<Longrightarrow> uu_flag_key u = k \<Longrightarrow>
   uses key (map snd (put k u m)) =
     uses key (map snd m) + (if key = k then uu_count u - (case map_of m k of None \<Rightarrow> 0 | Some u' \<Rightarrow> uu_count u') else 0)"
  by (induction k u m rule: put.induct) auto

lemma lookup_own: "own_keys m \<Longrightarrow> map_of m k = Some u \<Longrightarrow> uu_flag_key u = k \<and> 0 < uu_count u"
  by (induction m) (auto split: if_splits)

lemma record_uses:
  assumes "own_keys m"
  shows "own_keys (usage_record k r now m)"
    and "uses key (map snd (usage_record k r now m)) = uses key (map snd m) + (if key = k then 1 else 0)"
proof -
  have "own_keys (usage_record k r now m) \<and>
    uses key (map snd (usage_record k r now m)) = uses key (map snd m) + (if key = k then 1 else 0)"
  proof (cases "map_of m k")
    case None
    then show ?thesis using assms by (simp add: usage_record_def own_keys_put uses_put)
  next
    case (Some u)
    with lookup_own [OF assms Some] show ?thesis using assms by (simp add: usage_record_def own_keys_put uses_put)
  qed
  then show "own_keys (usage_record k r now m)"
    and "uses key (map snd (usage_record k r now m)) = uses key (map snd m) + (if key = k then 1 else 0)"
    by simp_all
qed

section \<open>A client and its reports\<close>

datatype call =
    CallDetail string ctx time
  | CallAll ctx time
  | CallFlush
  | CallClose

definition reported :: "usage_entry list option \<Rightarrow> usage_entry list list" where
  "reported r = (case r of None \<Rightarrow> [] | Some us \<Rightarrow> [us])"

fun call_step :: "sdk_env \<Rightarrow> call \<Rightarrow> sdk_client \<Rightarrow> usage_entry list list \<times> sdk_client" where
  "call_step env (CallDetail key m now) c = ([], snd (the (evalDetail env key m now c)))"
| "call_step env (CallAll m now) c = ([], snd (the (sdk_All env m now c)))"
| "call_step env CallFlush c = (case flush_usage c of (r, c') \<Rightarrow> (reported r, c'))"
| "call_step env CallClose c = (case Close (c, None :: unit store) of (r, c', st) \<Rightarrow> (reported r, c'))"

fun run_calls :: "sdk_env \<Rightarrow> call list \<Rightarrow> sdk_client \<Rightarrow> usage_entry list list \<times> sdk_client" where
  "run_calls env [] c = ([], c)"
| "run_calls env (x # xs) c =
     (case call_step env x c of (us, c') \<Rightarrow> (case run_calls env xs c' of (us', c'') \<Rightarrow> (us @ us', c'')))"

text \<open>How often a call evaluates a key.\<close>

fun evaluations :: "string list \<Rightarrow> string \<Rightarrow> call \<Rightarrow> nat" where
  "evaluations ks key (CallDetail k m now) = (if k = key then 1 else 0)"
| "evaluations ks key (CallAll m now) = count_list ks key"
| "evaluations ks key _ = 0"

definition pending :: "sdk_client \<Rightarrow> usage_entry list" where
  "pending c = (case cc_usage c of None \<Rightarrow> [] | Some m \<Rightarrow> map snd m)"

definition counting_client :: "sdk_client \<Rightarrow> bool" where
  "counting_client c \<longleftrightarrow> (\<exists>m. cc_usage c = Some m \<and> own_keys m)"

lemma count_use_counts:
  assumes "counting_client c"
  shows "counting_client (count_use k r now c) \<and>
    uses key (pending (count_use k r now c)) = uses key (pending c) + (if key = k then 1 else 0)"
  using assms record_uses by (auto simp: counting_client_def count_use_def pending_def)

lemma signal_counts [simp]:
  "counting_client (signalRefresh c) = counting_client c" "pending (signalRefresh c) = pending c"
  by (simp_all add: counting_client_def pending_def signalRefresh_def)

lemma evalDetail_counts:
  assumes "counting_client c" and "evalDetail env k m now c = Some (d, c')"
  shows "counting_client c' \<and> uses key (pending c') = uses key (pending c) + (if key = k then 1 else 0)"
proof -
  obtain r c0 where c': "c' = count_use k r now c0" and "c0 = c \<or> c0 = signalRefresh c"
    using assms(2) by (auto simp: evalDetail_def Let_def split: if_splits option.splits)
  then show ?thesis using count_use_counts [of c0 k r now key] assms(1) by auto
qed

lemma evaluate_each_returns: "\<exists>out c'. evaluate_each env snap m now fcs c = Some (out, c')"
proof (induction env snap m now fcs c rule: evaluate_each.induct)
  case (2 env snap m now k fc fcs c)
  obtain res where res: "sdk_evaluate env snap m fc = Some res" using sdk_evaluate_returns by blast
  from 2 [OF res] res show ?case by auto
qed simp

lemma All_counts:
  "counting_client c \<Longrightarrow> evaluate_each env snap m now fcs c = Some (out, c') \<Longrightarrow>
   counting_client c' \<and> uses key (pending c') = uses key (pending c) + int (count_list (map fst fcs) key)"
proof (induction env snap m now fcs c arbitrary: out rule: evaluate_each.induct)
  case (2 env snap m now k fc fcs c)
  obtain res where res: "sdk_evaluate env snap m fc = Some res" using sdk_evaluate_returns by blast
  let ?c = "count_use k (reason_string (er_reason res)) now c"
  obtain out' where "evaluate_each env snap m now fcs ?c = Some (out', c')" using 2(3) res by auto
  from 2(1) [OF res _ this] count_use_counts [OF 2(2), of k _ now key] show ?case by auto
qed simp

lemma flush_counts:
  assumes "counting_client c" and "flush_usage c = (r, c')"
  shows "counting_client c' \<and> uses key (concat (reported r)) + uses key (pending c') = uses key (pending c) \<and>
    list_all (\<lambda>u. 0 < uu_count u) (concat (reported r))"
  using assms
  by (auto simp: counting_client_def flush_usage_def usage_flush_def pending_def reported_def own_keys_def list_all_iff
    split: if_splits) fastforce

lemma call_step_counts:
  assumes "counting_client c" and "call_step env x c = (us, c')"
  shows "counting_client c' \<and> cc_cache c' = cc_cache c \<and>
    uses key (concat us) + uses key (pending c') = uses key (pending c) + int (evaluations (map fst (sp_flags (cc_cache c))) key x) \<and>
    list_all (\<lambda>u. 0 < uu_count u) (concat us)"
proof (cases x)
  case (CallDetail k m now)
  obtain d c1 where e: "evalDetail env k m now c = Some (d, c1)" using evalDetail_returns by blast
  then show ?thesis using assms CallDetail evalDetail_counts [OF assms(1) e, of key] evalDetail_frame [OF e] by auto
next
  case (CallAll m now)
  obtain out c1 where e: "sdk_All env m now c = Some (out, c1)"
    using evaluate_each_returns [of env "cc_cache c" m now "sp_flags (cc_cache c)" c] by (auto simp: sdk_All_def)
  with assms(2) CallAll have "us = []" "c' = c1" by simp_all
  then show ?thesis
    using CallAll All_counts [OF assms(1) e [unfolded sdk_All_def], of key]
      evaluate_each_frame [OF e [unfolded sdk_All_def]] by simp
next
  case CallFlush
  obtain r c1 where f: "flush_usage c = (r, c1)" by (cases "flush_usage c")
  with assms(2) CallFlush have "us = reported r" "c' = c1" by simp_all
  then show ?thesis
    using CallFlush flush_counts [OF assms(1) f, of key] flush_usage_frame [OF f] by simp
next
  case CallClose
  obtain r c1 where f: "flush_usage c = (r, c1)" by (cases "flush_usage c")
  show ?thesis
  proof (cases "cc_done c")
    case True
    with assms(2) CallClose have "us = []" "c' = c" by (simp_all add: Close_def reported_def)
    then show ?thesis using CallClose assms(1) by simp
  next
    case False
    with assms(2) CallClose f have "us = reported r" "c' = c1\<lparr>cc_done := True\<rparr>" by (simp_all add: Close_def)
    then show ?thesis
      using CallClose flush_counts [OF assms(1) f, of key] flush_usage_frame [OF f]
      by (simp add: counting_client_def pending_def)
  qed
qed

lemma run_calls_counts:
  assumes "counting_client c" and "run_calls env xs c = (us, c')"
  shows "uses key (concat us) + uses key (pending c') =
      uses key (pending c) + int (\<Sum>x\<leftarrow>xs. evaluations (map fst (sp_flags (cc_cache c))) key x) \<and>
    list_all (\<lambda>u. 0 < uu_count u) (concat us)"
  using assms
proof (induction env xs c arbitrary: us rule: run_calls.induct)
  case (2 env x xs c)
  obtain us1 c1 where s: "call_step env x c = (us1, c1)" by (cases "call_step env x c")
  obtain us2 where r: "run_calls env xs c1 = (us2, c')" and us: "us = us1 @ us2" using 2(3) s by (auto split: prod.splits)
  from call_step_counts [OF 2(2) s, of key] 2(1) [OF s [symmetric]] r us show ?case by simp
qed simp

lemma fresh_client_counts:
  assumes "cc_usage c = Some []" and "run_calls env xs c = (us, c')"
  shows "uses key (concat us) + uses key (pending c') =
      int (\<Sum>x\<leftarrow>xs. evaluations (map fst (sp_flags (cc_cache c))) key x) \<and>
    list_all (\<lambda>u. 0 < uu_count u) (concat us)"
  using run_calls_counts [OF _ assms(2), of key] assms(1) by (simp add: counting_client_def pending_def)

text \<open>No evaluation is lost or counted twice on the client's side: after any calls, for every key the counts in
  the reports sent and the counts still pending add up to the number of evaluations of that key, those of
  \<open>All\<close> included; and what the server reads from a report is exactly what the client put into it.\<close>

theorem usage_conserved:
  assumes "cc_usage c = Some []" and "run_calls env xs c = (us, c')"
    and "\<forall>u\<in>set (concat us). in_int64 (uu_count u) \<and> sv_unmarshal_time sv (time_text (uu_last_eval u)) = Some (uu_last_eval u)"
  shows "uses key (concat us) + uses key (pending c') =
      int (\<Sum>x\<leftarrow>xs. evaluations (map fst (sp_flags (cc_cache c))) key x) \<and>
    (\<forall>r\<in>set us. decode_usage sv (encode_usage time_text r) = Some r)"
proof
  show "uses key (concat us) + uses key (pending c') =
      int (\<Sum>x\<leftarrow>xs. evaluations (map fst (sp_flags (cc_cache c))) key x)"
    using fresh_client_counts [OF assms(1,2)] by simp
  show "\<forall>r\<in>set us. decode_usage sv (encode_usage time_text r) = Some r"
    using assms(3) by (auto intro!: usage_roundtrip)
qed

lemma usage_conserved_witness:
  "uses ''f'' [\<lparr>uu_flag_key = ''f'', uu_count = 2, uu_last_reason = ''ERROR'', uu_last_eval = 4\<rparr>] +
     uses ''f'' (pending (snd (run_calls sample_env
       [CallDetail ''f'' [] 1, CallDetail ''f'' [] 4, CallFlush, CallDetail ''g'' [] 5, CallDetail ''f'' [] 6] sample_client))) = 3"
proof -
  let ?xs = "[CallDetail ''f'' [] 1, CallDetail ''f'' [] 4, CallFlush, CallDetail ''g'' [] 5, CallDetail ''f'' [] 6]"
  let ?us = "[[\<lparr>uu_flag_key = ''f'', uu_count = 2, uu_last_reason = ''ERROR'', uu_last_eval = 4\<rparr>]]"
  let ?sv = "sample_server\<lparr>sv_unmarshal_time := \<lambda>s. Some (int (length s))\<rparr>"
  have "cc_usage sample_client = Some []" "fst (run_calls sample_env ?xs sample_client) = ?us" by code_simp+
  then have "run_calls sample_env ?xs sample_client = (?us, snd (run_calls sample_env ?xs sample_client))"
    by (metis prod.collapse)
  from usage_conserved [OF \<open>cc_usage sample_client = Some []\<close> this, of ?sv "\<lambda>t. replicate (nat t) CHR ''x''" "''f''"]
  show ?thesis by (simp add: in_int64_def)
qed

end
