(* ===== verification/SDK_Provider.thy ===== *)
theory SDK_Provider
  imports SDK_Client_Correct
begin

text \<open>
  \<open>pkg/sdk/context.go\<close>: the context of an evaluation and the client bound to one; \<open>pkg/sdk/openfeature/provider.go\<close>:
  the client as an OpenFeature provider.

  \<^item> An attribute map is a list of entries; \<open>put\<close> is the assignment to a map.
  \<^item> The types of the OpenFeature package are written out as far as the provider builds values of them; a
    resolution error carries the error whose text it gets.
  \<^item> \<open>outside\<close> is the conversion of a \<open>float64\<close> that has no \<open>int64\<close> value, which Go leaves to the
    implementation.
\<close>

section \<open>Contexts\<close>

record sdk_context =
  sx_targeting_key :: string
  sx_attributes :: ctx
  sx_private :: "string list"

definition NewContext :: "string \<Rightarrow> ctx \<Rightarrow> sdk_context" where
  "NewContext targetingKey attrs = \<lparr>sx_targeting_key = targetingKey, sx_attributes = attrs, sx_private = []\<rparr>"

definition With :: "string \<Rightarrow> gval \<Rightarrow> sdk_context \<Rightarrow> sdk_context" where
  "With attr v c = c\<lparr>sx_attributes := put attr v (sx_attributes c)\<rparr>"

definition WithPrivate :: "string list \<Rightarrow> sdk_context \<Rightarrow> sdk_context" where
  "WithPrivate attrs c = c\<lparr>sx_private := sx_private c @ attrs\<rparr>"

definition asMap :: "sdk_context \<Rightarrow> ctx" where
  "asMap c =
     (let m = sx_attributes c in
      if sx_targeting_key c = '''' then m
      else
        (let m' = put ''targeting_key'' (GStr (sx_targeting_key c)) m in
         if map_of m' ''user_id'' = None then put ''user_id'' (GStr (sx_targeting_key c)) m' else m'))"

definition Scoped_Bool :: "sdk_env \<Rightarrow> sdk_context \<Rightarrow> string \<Rightarrow> bool \<Rightarrow> time \<Rightarrow> sdk_client \<Rightarrow> (bool \<times> sdk_client) option" where
  "Scoped_Bool env x key def = sdk_Bool env key def (asMap x)"

definition Scoped_String :: "sdk_env \<Rightarrow> sdk_context \<Rightarrow> string \<Rightarrow> string \<Rightarrow> time \<Rightarrow> sdk_client \<Rightarrow> (string \<times> sdk_client) option" where
  "Scoped_String env x key def = sdk_String env key def (asMap x)"

definition Scoped_Number :: "sdk_env \<Rightarrow> sdk_context \<Rightarrow> string \<Rightarrow> f64 \<Rightarrow> time \<Rightarrow> sdk_client \<Rightarrow> (f64 \<times> sdk_client) option" where
  "Scoped_Number env x key def = sdk_Number env key def (asMap x)"

definition Scoped_JSON :: "sdk_env \<Rightarrow> sdk_context \<Rightarrow> string \<Rightarrow> gval \<Rightarrow> time \<Rightarrow> sdk_client \<Rightarrow> (gval \<times> sdk_client) option" where
  "Scoped_JSON env x key def = sdk_JSON env key def (asMap x)"

definition Scoped_BoolDetail ::
  "sdk_env \<Rightarrow> sdk_context \<Rightarrow> string \<Rightarrow> bool \<Rightarrow> time \<Rightarrow> sdk_client \<Rightarrow> (detail \<times> sdk_client) option" where
  "Scoped_BoolDetail env x key def = BoolDetail env key def (asMap x)"

definition Scoped_All ::
  "sdk_env \<Rightarrow> sdk_context \<Rightarrow> time \<Rightarrow> sdk_client \<Rightarrow> ((string \<times> sdk_value) list \<times> sdk_client) option" where
  "Scoped_All env x = sdk_All env (asMap x)"

lemma map_of_asMap:
  "map_of (asMap c) a =
     (if sx_targeting_key c = [] then map_of (sx_attributes c) a
      else if a = ''targeting_key'' then Some (GStr (sx_targeting_key c))
      else if a = ''user_id'' \<and> map_of (sx_attributes c) a = None then Some (GStr (sx_targeting_key c))
      else map_of (sx_attributes c) a)"
  by (auto simp: asMap_def Let_def)

section \<open>The provider\<close>

datatype of_reason = TargetingMatchReason | DefaultReason | DisabledReason | ErrorReason | UnknownReason

datatype of_error = FlagNotFoundResolution sdk_error | GeneralResolution sdk_error

fun toReason :: "sdk_reason \<Rightarrow> of_reason" where
  "toReason (EngineReason RuleMatch) = TargetingMatchReason"
| "toReason (EngineReason Default) = DefaultReason"
| "toReason (EngineReason Disabled) = DisabledReason"
| "toReason (EngineReason FlagNotFound) = ErrorReason"
| "toReason (EngineReason FlagArchived) = ErrorReason"
| "toReason ReasonError = ErrorReason"
| "toReason (EngineReason InternalErr) = UnknownReason"

fun toError :: "sdk_reason \<Rightarrow> sdk_error \<Rightarrow> of_error" where
  "toError (EngineReason FlagNotFound) e = FlagNotFoundResolution e"
| "toError (EngineReason FlagArchived) e = FlagNotFoundResolution e"
| "toError _ e = GeneralResolution e"

record 'v resolution =
  rv_value :: 'v
  rv_error :: "of_error option"
  rv_reason :: of_reason
  rv_variant :: string

definition toDetail :: "'v \<Rightarrow> detail \<Rightarrow> 'v resolution" where
  "toDetail v d =
     \<lparr>rv_value = v, rv_error = map_option (toError (dt_reason d)) (dt_error d), rv_reason = toReason (dt_reason d),
      rv_variant = dt_variant d\<rparr>"

definition BooleanEvaluation ::
  "sdk_env \<Rightarrow> string \<Rightarrow> bool \<Rightarrow> ctx \<Rightarrow> time \<Rightarrow> sdk_client \<Rightarrow> (bool resolution \<times> sdk_client) option" where
  "BooleanEvaluation env key def m now c =
     (case BoolDetail env key def m now c of
        Some (d, c') \<Rightarrow> (case dt_value d of GBool b \<Rightarrow> Some (toDetail b d, c') | _ \<Rightarrow> None) | None \<Rightarrow> None)"

definition StringEvaluation ::
  "sdk_env \<Rightarrow> string \<Rightarrow> string \<Rightarrow> ctx \<Rightarrow> time \<Rightarrow> sdk_client \<Rightarrow> (string resolution \<times> sdk_client) option" where
  "StringEvaluation env key def m now c =
     (case StringDetail env key def m now c of
        Some (d, c') \<Rightarrow> (case dt_value d of GStr s \<Rightarrow> Some (toDetail s d, c') | _ \<Rightarrow> None) | None \<Rightarrow> None)"

definition FloatEvaluation ::
  "sdk_env \<Rightarrow> string \<Rightarrow> f64 \<Rightarrow> ctx \<Rightarrow> time \<Rightarrow> sdk_client \<Rightarrow> (f64 resolution \<times> sdk_client) option" where
  "FloatEvaluation env key def m now c =
     (case NumberDetail env key def m now c of
        Some (d, c') \<Rightarrow> (case dt_value d of GF64 x \<Rightarrow> Some (toDetail x d, c') | _ \<Rightarrow> None) | None \<Rightarrow> None)"

definition truncate_rat :: "rat \<Rightarrow> int" where
  "truncate_rat q = (if q < 0 then - floor (- q) else floor q)"

definition int64_of_f64 :: "(f64 \<Rightarrow> int) \<Rightarrow> f64 \<Rightarrow> int" where
  "int64_of_f64 outside x =
     (case x of Fin q \<Rightarrow> (if in_int64 (truncate_rat q) then truncate_rat q else outside x) | _ \<Rightarrow> outside x)"

definition IntEvaluation ::
  "(f64 \<Rightarrow> int) \<Rightarrow> sdk_env \<Rightarrow> string \<Rightarrow> int \<Rightarrow> ctx \<Rightarrow> time \<Rightarrow> sdk_client \<Rightarrow> (int resolution \<times> sdk_client) option" where
  "IntEvaluation outside env key def m now c =
     (case NumberDetail env key (f64_of_int def) m now c of
        Some (d, c') \<Rightarrow> (case dt_value d of GF64 x \<Rightarrow> Some (toDetail (int64_of_f64 outside x) d, c') | _ \<Rightarrow> None) | None \<Rightarrow> None)"

definition ObjectEvaluation ::
  "sdk_env \<Rightarrow> string \<Rightarrow> gval \<Rightarrow> ctx \<Rightarrow> time \<Rightarrow> sdk_client \<Rightarrow> (gval resolution \<times> sdk_client) option" where
  "ObjectEvaluation env key def m now c =
     map_option (\<lambda>(d, c'). (toDetail (dt_value d) d, c')) (JSONDetail env key def m now c)"

section \<open>What the provider promises\<close>

lemma evaluate_reason_cases:
  assumes "sdk_evaluate env snap m fc = Some res"
  shows "er_reason res \<noteq> FlagNotFound \<and> er_reason res \<noteq> FlagArchived"
proof -
  have "er_reason res' = Default \<or> er_reason res' = RuleMatch"
    if "fst (rule_loop rx hook ctx segs fc i rs) = Some res'" for rx hook ctx segs fc i rs res'
    using that
    by (induction rx hook ctx segs fc i rs rule: rule_loop.induct)
       (auto simp: default_result_def split: if_splits prod.splits option.splits)
  from this [of "sv_rx env" "\<lambda>_. True" m "sp_segments snap" fc 0 "fc_rules fc"] show ?thesis
    using assms
    by (auto simp: sdk_evaluate_def Evaluate_def Let_def disabled_result_def internal_error_result_def
          split: if_splits prod.splits option.splits)
qed

text \<open>A resolution that carries an error exactly when its reason says so, and then the value that was asked for.\<close>

definition honest :: "'v \<Rightarrow> 'v resolution \<Rightarrow> bool" where
  "honest def r \<longleftrightarrow>
     (rv_error r \<noteq> None \<longleftrightarrow> rv_reason r = ErrorReason) \<and> (rv_error r \<noteq> None \<longrightarrow> rv_value r = def)"

lemma evalDetail_error:
  assumes "evalDetail env key m now c = Some (d, c')"
  shows "dt_error d \<noteq> None \<longleftrightarrow> toReason (dt_reason d) = ErrorReason"
  using assms evaluate_reason_cases [of env "cc_cache c" m]
  by (auto simp: evalDetail_def bare_detail_def Let_def elim!: toReason.elims split: if_splits option.splits)

lemma typed_detail_error:
  assumes "typed_detail is_type name env key def m now c = Some (d, c')"
  shows "(dt_error d \<noteq> None \<longleftrightarrow> toReason (dt_reason d) = ErrorReason) \<and> (dt_error d \<noteq> None \<longrightarrow> dt_value d = def) \<and>
    (dt_error d = None \<longrightarrow> is_type (dt_value d))"
proof -
  obtain d0 where ev: "evalDetail env key m now c = Some (d0, c')"
    and d: "d = (if dt_error d0 \<noteq> None then d0\<lparr>dt_value := def\<rparr>
        else if \<not> is_type (dt_value d0) then
          \<lparr>dt_value = def, dt_reason = ReasonError, dt_rule_index = -1, dt_variant = [], dt_error = Some (ErrNotType key name)\<rparr>
        else d0)"
    using assms by (auto simp: typed_detail_def)
  from evalDetail_error [OF ev] show ?thesis by (auto simp: d)
qed

lemma typed_detail_returns: "\<exists>d c'. typed_detail is_type name env key def m now c = Some (d, c')"
  using evalDetail_returns [of env key m now c] by (auto simp: typed_detail_def)

lemma typed_detail_resolution:
  assumes "\<And>v. is_type v \<longleftrightarrow> (\<exists>x. v = mk x)"
  obtains d c' x where "typed_detail is_type name env key (mk def) m now c = Some (d, c')" and "dt_value d = mk x"
    and "dt_error d \<noteq> None \<longleftrightarrow> toReason (dt_reason d) = ErrorReason" and "dt_error d \<noteq> None \<longrightarrow> mk x = mk def"
proof -
  obtain d c' where d: "typed_detail is_type name env key (mk def) m now c = Some (d, c')"
    using typed_detail_returns by blast
  from typed_detail_error [OF d] assms obtain x where "dt_value d = mk x" by metis
  with typed_detail_error [OF d] that [OF d] show thesis by auto
qed

text \<open>Every evaluation of the OpenFeature provider returns, and its resolution is honest: it carries a resolution
  error exactly when its reason is \<open>ERROR\<close>, and the value is then the caller's default (for integers, the default
  after its conversion to \<open>float64\<close> and back).\<close>

theorem provider_resolutions_honest:
  "(\<exists>r c'. BooleanEvaluation env key b m now c = Some (r, c') \<and> honest b r) \<and>
   (\<exists>r c'. StringEvaluation env key s m now c = Some (r, c') \<and> honest s r) \<and>
   (\<exists>r c'. FloatEvaluation env key x m now c = Some (r, c') \<and> honest x r) \<and>
   (\<exists>r c'. IntEvaluation outside env key i m now c = Some (r, c') \<and> honest (int64_of_f64 outside (f64_of_int i)) r) \<and>
   (\<exists>r c'. ObjectEvaluation env key v m now c = Some (r, c') \<and> honest v r)"
proof (intro conjI)
  have types: "is_bool v \<longleftrightarrow> (\<exists>b. v = GBool b)" "is_string v \<longleftrightarrow> (\<exists>s. v = GStr s)" "is_number v \<longleftrightarrow> (\<exists>x. v = GF64 x)" for v
    by (cases v; simp)+
  show "\<exists>r c'. BooleanEvaluation env key b m now c = Some (r, c') \<and> honest b r"
    by (rule typed_detail_resolution [OF types(1), of "''boolean''" env key b m now c])
       (auto simp: BooleanEvaluation_def BoolDetail_def honest_def toDetail_def)
  show "\<exists>r c'. StringEvaluation env key s m now c = Some (r, c') \<and> honest s r"
    by (rule typed_detail_resolution [OF types(2), of "''string''" env key s m now c])
       (auto simp: StringEvaluation_def StringDetail_def honest_def toDetail_def)
  show "\<exists>r c'. FloatEvaluation env key x m now c = Some (r, c') \<and> honest x r"
    by (rule typed_detail_resolution [OF types(3), of "''number''" env key x m now c])
       (auto simp: FloatEvaluation_def NumberDetail_def honest_def toDetail_def)
  show "\<exists>r c'. IntEvaluation outside env key i m now c = Some (r, c') \<and> honest (int64_of_f64 outside (f64_of_int i)) r"
    by (rule typed_detail_resolution [OF types(3), of "''number''" env key "f64_of_int i" m now c])
       (auto simp: IntEvaluation_def NumberDetail_def honest_def toDetail_def)
  obtain d c' where ev: "evalDetail env key m now c = Some (d, c')" using evalDetail_returns by blast
  then show "\<exists>r c'. ObjectEvaluation env key v m now c = Some (r, c') \<and> honest v r"
    using evalDetail_error [OF ev] by (auto simp: ObjectEvaluation_def JSONDetail_def honest_def toDetail_def)
qed

lemma int_default_exact: "\<bar>i\<bar> \<le> 2 ^ 53 \<Longrightarrow> int64_of_f64 outside (f64_of_int i) = i"
  by (auto simp: f64_of_int_exact int64_of_f64_def truncate_rat_def in_int64_def)

lemma int_default_rounded: "int64_of_f64 outside (f64_of_int (2 ^ 53 + 1)) = 2 ^ 53"
proof -
  have "num_bits 9007199254740993 = 54" by (simp add: num_bits.simps)
  then have "round53 9007199254740993 = 9007199254740992" by (simp add: round53_def round_even_def)
  then have "f64_of_int (2 ^ 53 + 1) = Fin (2 ^ 53)" by (simp add: f64_of_int_def)
  then show ?thesis by (simp add: int64_of_f64_def truncate_rat_def in_int64_def)
qed

section \<open>Targeting keys and roll-outs\<close>

lemma no_user_no_rollout:
  "fst (rule_loop rx hook ctx segs fc i rs) = Some res \<Longrightarrow> context_user ctx = [] \<Longrightarrow>
   \<forall>r\<in>set rs. r_rollout r \<noteq> None \<Longrightarrow> res = default_result fc"
  by (induction rx hook ctx segs fc i rs rule: rule_loop.induct)
     (auto simp: rollout_admits_def split: if_splits prod.splits option.splits)

lemma rule_match_needs_rule:
  assumes "sdk_evaluate env snap m fc = Some res" and "context_user m = []" and "\<forall>r\<in>set (fc_rules fc). r_rollout r \<noteq> None"
  shows "er_reason res \<noteq> RuleMatch"
  using assms no_user_no_rollout [of "sv_rx env" "\<lambda>_. True" m "sp_segments snap" fc 0 "fc_rules fc"]
  by (auto simp: sdk_evaluate_def Evaluate_def Let_def disabled_result_def internal_error_result_def default_result_def
        split: if_splits prod.splits option.splits)

text \<open>C39. The targeting key of an OpenFeature context (its member \<open>targetingKey\<close>) does not reach the roll-outs: without
  a \<open>user_id\<close> of its own no flag whose rules have roll-outs is ever served by a rule through the provider, not even
  at 100 percent, while the client's own \<open>Context\<close> with the same key is bucketed by it.\<close>

theorem openfeature_key_misses_rollouts:
  assumes "map_of m ''user_id'' = None" and "map_of (sp_flags (cc_cache c)) key = Some fc"
    and "\<forall>r\<in>set (fc_rules fc). r_rollout r \<noteq> None"
    and "BooleanEvaluation env key def (put ''targetingKey'' (GStr u) m) now c = Some (r, c')"
  shows "rv_reason r \<noteq> TargetingMatchReason \<and> context_user (asMap (NewContext u m)) = u"
proof
  have user: "context_user (put ''targetingKey'' (GStr u) m) = []" using assms(1) by (simp add: context_user_def)
  obtain d where d: "BoolDetail env key def (put ''targetingKey'' (GStr u) m) now c = Some (d, c')"
    "rv_reason r = toReason (dt_reason d)"
    using assms(4) by (auto simp: BooleanEvaluation_def toDetail_def split: option.splits gval.splits)
  have "toReason x = TargetingMatchReason \<Longrightarrow> x = EngineReason RuleMatch" for x by (elim toReason.elims) auto
  moreover have "dt_reason d \<noteq> EngineReason RuleMatch"
    using d(1) assms(2) rule_match_needs_rule [OF _ user assms(3), of env "cc_cache c"]
    by (auto simp: BoolDetail_def typed_detail_def evalDetail_def bare_detail_def Let_def split: if_splits option.splits)
  ultimately show "rv_reason r \<noteq> TargetingMatchReason" using d(2) by auto
  show "context_user (asMap (NewContext u m)) = u"
    using assms(1) by (simp add: context_user_def map_of_asMap NewContext_def)
qed

lemma BooleanEvaluation_returns: "\<exists>r c'. BooleanEvaluation env key b m now c = Some (r, c')"
proof -
  have "is_bool v \<longleftrightarrow> (\<exists>b. v = GBool b)" for v by (cases v) auto
  then show ?thesis
    by (rule typed_detail_resolution [of is_bool GBool "''boolean''" env key b m now c])
       (auto simp: BooleanEvaluation_def BoolDetail_def)
qed

definition full_rollout :: flag_config where
  "full_rollout =
     \<lparr>fc_key = ''f'', fc_enabled = True, fc_type = ''boolean'', fc_default = GBool False, fc_env_default = GNil,
      fc_has_env_default = False, fc_version = 1,
      fc_rules = [\<lparr>r_conditions = Node (Some ''plan'') (Some ''eq'') (GStr ''pro'') [] [] None,
        r_rollout = Some \<lparr>percentage = 100, seed = ''''\<rparr>, r_value = GBool True\<rparr>]\<rparr>"

definition rollout_client :: sdk_client where
  "rollout_client =
     sample_client\<lparr>cc_cache := \<lparr>sp_flags = [(''f'', full_rollout)], sp_segments = [], sp_fetched_at = Some 1\<rparr>\<rparr>"

lemma openfeature_key_misses_rollouts_witness:
  "map_option (\<lambda>(r, c'). rv_reason r) (BooleanEvaluation sample_env ''f'' False
      [(''plan'', GStr ''pro''), (''targetingKey'', GStr ''u1'')] 2 rollout_client) \<noteq> Some TargetingMatchReason \<and>
   map_option fst (Scoped_Bool sample_env (NewContext ''u1'' [(''plan'', GStr ''pro'')]) ''f'' False 2 rollout_client) = Some True"
proof
  show "map_option fst (Scoped_Bool sample_env (NewContext ''u1'' [(''plan'', GStr ''pro'')]) ''f'' False 2 rollout_client)
      = Some True" by code_simp
  let ?m = "[(''plan'', GStr ''pro'')]"
  obtain r c' where ev: "BooleanEvaluation sample_env ''f'' False (put ''targetingKey'' (GStr ''u1'') ?m) 2 rollout_client
      = Some (r, c')"
    using BooleanEvaluation_returns by blast
  have "map_of (sp_flags (cc_cache rollout_client)) ''f'' = Some full_rollout" "\<forall>r\<in>set (fc_rules full_rollout). r_rollout r \<noteq> None"
    by (simp_all add: rollout_client_def full_rollout_def)
  from openfeature_key_misses_rollouts [OF _ this ev] ev
  show "map_option (\<lambda>(r, c'). rv_reason r) (BooleanEvaluation sample_env ''f'' False
      [(''plan'', GStr ''pro''), (''targetingKey'', GStr ''u1'')] 2 rollout_client) \<noteq> Some TargetingMatchReason"
    by simp
qed

end
