(* ===== verification/Process.thy ===== *)
theory Process
  imports Streaming
begin

text \<open>
  The process around the API: \<open>internal/config/config.go\<close>, the pieces of \<open>cmd/flagstone/main.go\<close> that decide
  something, and \<open>NewServer\<close> of \<open>internal/api/server.go\<close>, which builds the server and the hub of the other theories.

  \<^item> \<open>getenv\<close> is \<open>os.Getenv\<close>: an unset variable is the empty text.  \<open>parse_duration\<close> is \<open>time.ParseDuration\<close>,
    in nanoseconds.
  \<^item> The server's times are microseconds, so its two lifetimes are cut to them.
  \<^item> The pings of PostgreSQL and Redis are their results; waiting is the number of seconds waited.
  \<^item> The start that calls these pieces, signals and the end of the process are in \<open>Main_Program\<close>.
\<close>

section \<open>Configuration\<close>

record config =
  cf_addr :: string
  cf_environment :: string
  cf_database_url :: string
  cf_redis_url :: string
  cf_jwt_secret :: string
  cf_access_ttl :: int
  cf_refresh_ttl :: int
  cf_bcrypt_cost :: int
  cf_api_key_bytes :: int
  cf_login_rate_limit :: int
  cf_evaluate_rate_limit :: int
  cf_flag_cache_ttl :: int

datatype config_error = ErrNoDatabaseURL | ErrNoJWTSecret | ErrShortJWTSecret

definition envOr :: "(string \<Rightarrow> string) \<Rightarrow> string \<Rightarrow> string \<Rightarrow> string" where
  "envOr getenv key fallback = (if getenv key \<noteq> '''' then getenv key else fallback)"

definition envInt :: "(string \<Rightarrow> string) \<Rightarrow> string \<Rightarrow> int \<Rightarrow> int" where
  "envInt getenv key fallback =
     (if getenv key = '''' then fallback
      else (case ParseInt (getenv key) of None \<Rightarrow> fallback | Some n \<Rightarrow> n))"

definition envDuration :: "(string \<Rightarrow> int option) \<Rightarrow> (string \<Rightarrow> string) \<Rightarrow> string \<Rightarrow> int \<Rightarrow> int" where
  "envDuration parse_duration getenv key fallback =
     (if getenv key = '''' then fallback
      else (case parse_duration (getenv key) of None \<Rightarrow> fallback | Some d \<Rightarrow> d))"

definition config_validate :: "config \<Rightarrow> config_error option" where
  "config_validate c =
     (if cf_database_url c = '''' then Some ErrNoDatabaseURL
      else if cf_jwt_secret c = '''' then Some ErrNoJWTSecret
      else if length (cf_jwt_secret c) < 32 then Some ErrShortJWTSecret
      else None)"

definition nanoseconds :: int where "nanoseconds = 1000000000"

definition Load :: "(string \<Rightarrow> int option) \<Rightarrow> (string \<Rightarrow> string) \<Rightarrow> config_error + config" where
  "Load parse_duration getenv =
     (let cfg =
        \<lparr>cf_addr = envOr getenv ''FLAGSTONE_ADDR'' '':8080'',
         cf_environment = envOr getenv ''FLAGSTONE_ENV'' ''development'',
         cf_database_url = getenv ''DATABASE_URL'',
         cf_redis_url = envOr getenv ''REDIS_URL'' ''redis://localhost:6379'',
         cf_jwt_secret = getenv ''JWT_SECRET'',
         cf_access_ttl = envDuration parse_duration getenv ''ACCESS_TOKEN_TTL'' (15 * 60 * nanoseconds),
         cf_refresh_ttl = envDuration parse_duration getenv ''REFRESH_TOKEN_TTL'' (7 * 24 * 3600 * nanoseconds),
         cf_bcrypt_cost = envInt getenv ''BCRYPT_COST'' 12,
         cf_api_key_bytes = envInt getenv ''API_KEY_RANDOM_BYTES'' 32,
         cf_login_rate_limit = envInt getenv ''LOGIN_RATE_LIMIT'' 5,
         cf_evaluate_rate_limit = envInt getenv ''EVALUATE_RATE_LIMIT'' 1000,
         cf_flag_cache_ttl = envDuration parse_duration getenv ''FLAG_CACHE_TTL'' (30 * nanoseconds)\<rparr>
      in case config_validate cfg of Some e \<Rightarrow> Inl e | None \<Rightarrow> Inr cfg)"

definition IsProd :: "config \<Rightarrow> bool" where
  "IsProd c \<longleftrightarrow> cf_environment c = ''production''"

section \<open>The server\<close>

text \<open>A cost below zero is as invalid as the cost 1.\<close>

definition bcrypt_cost :: "int \<Rightarrow> nat" where
  "bcrypt_cost n = (if n < 0 then 1 else nat n)"

text \<open>\<open>outside\<close> brings what the server takes from libraries.  The decoy hash is empty when it cannot be made.\<close>

definition NewServer :: "server \<Rightarrow> config \<Rightarrow> server" where
  "NewServer outside cfg =
     outside\<lparr>sv_jwt_secret := cf_jwt_secret cfg, sv_access_ttl := cf_access_ttl cfg div 1000,
       sv_refresh_ttl := cf_refresh_ttl cfg div 1000, sv_bcrypt_cost := bcrypt_cost (cf_bcrypt_cost cfg),
       sv_fake_hash :=
         (case HashPassword (sv_crypto outside) ''flagstone-timing-decoy'' (bcrypt_cost (cf_bcrypt_cost cfg)) of
            None \<Rightarrow> '''' | Some h \<Rightarrow> h)\<rparr>"

definition server_hub :: hub where "server_hub = NewHub 10"

section \<open>Start and health\<close>

definition redisAddrFromURL :: "string \<Rightarrow> string" where
  "redisAddrFromURL raw = (if has_prefix ''redis://'' raw then drop (length ''redis://'') raw else raw)"

datatype readiness_check = Up int | Down string

record readiness =
  rd_ready :: bool
  rd_postgres :: readiness_check
  rd_redis :: readiness_check

text \<open>A ping is its latency in milliseconds or its error.\<close>

fun check_of :: "string + int \<Rightarrow> readiness_check" where
  "check_of (Inl e) = Down e"
| "check_of (Inr ms) = Up ms"

definition checkReadiness :: "string + int \<Rightarrow> string + int \<Rightarrow> readiness \<times> nat" where
  "checkReadiness postgres redis =
     (\<lparr>rd_ready = is_ok postgres, rd_postgres = check_of postgres, rd_redis = check_of redis\<rparr>,
      case check_of postgres of Up _ \<Rightarrow> 200 | Down _ \<Rightarrow> 503)"

datatype connection = Connected nat | Cancelled | GaveUp

text \<open>The attempts still to be made, with the back-off before the next: \<open>up n\<close> says whether the attempt \<open>n\<close>
  connects and is answered, \<open>stopped n\<close> whether the wait after it ends by cancellation; the seconds waited.\<close>

fun attempts :: "(nat \<Rightarrow> bool) \<Rightarrow> (nat \<Rightarrow> bool) \<Rightarrow> nat \<Rightarrow> nat list \<Rightarrow> connection \<times> nat" where
  "attempts up stopped backoff [] = (GaveUp, 0)"
| "attempts up stopped backoff (n # ns) =
     (if up n then (Connected n, 0)
      else if stopped n then (Cancelled, 0)
      else (case attempts up stopped (2 * backoff) ns of (res, waited) \<Rightarrow> (res, backoff + waited)))"

definition connectPostgresWithRetry :: "bool \<Rightarrow> (nat \<Rightarrow> bool) \<Rightarrow> (nat \<Rightarrow> bool) \<Rightarrow> (connection \<times> nat) option" where
  "connectPostgresWithRetry parses up stopped =
     (if parses then Some (attempts up stopped 1 [1, 2, 3, 4, 5]) else None)"

section \<open>What they promise\<close>

lemma Load_iff:
  "is_ok (Load pd getenv) \<longleftrightarrow> getenv ''DATABASE_URL'' \<noteq> [] \<and> 32 \<le> length (getenv ''JWT_SECRET'')"
  by (auto simp: Load_def Let_def config_validate_def split: option.splits)

text \<open>A server that was started has a secret long enough to sign with.\<close>

lemma started_secret: "Load pd getenv = Inr cfg \<Longrightarrow> 32 \<le> length (sv_jwt_secret (NewServer outside cfg))"
  by (auto simp: Load_def Let_def config_validate_def NewServer_def split: option.splits if_splits)

text \<open>An access token fails at a started server only for a role that is none, a lifetime that is not positive or a
  failed signature.\<close>

lemma started_token:
  assumes "Load pd getenv = Inr cfg" and "GenerateAccessToken cr user tenant role (sv_jwt_secret (NewServer outside cfg)) ttl sid now = None"
  shows "\<not> Valid (ParseRole role) \<or> NewClaims cr user tenant role now ttl sid = None \<or>
    (\<exists>c. NewClaims cr user tenant role now ttl sid = Some c \<and> jwt_sign cr c (sv_jwt_secret (NewServer outside cfg)) = None)"
  using assms started_secret [OF assms(1), of outside]
  by (auto simp: GenerateAccessToken_def split: if_splits option.splits)

text \<open>The process is ready exactly when PostgreSQL answers, whatever Redis does.\<close>

lemma readiness_iff:
  "snd (checkReadiness postgres redis) = 200 \<longleftrightarrow> is_ok postgres"
  "rd_ready (fst (checkReadiness postgres redis)) \<longleftrightarrow> is_ok postgres"
  by (cases postgres; simp add: checkReadiness_def)+

text \<open>Connecting ends: after at most 31 seconds of waiting, the last 16 of them after the last attempt, with the
  first of the five attempts that works if nothing cancels it.\<close>

lemma attempts_bound: "snd (attempts up stopped b ns) + b \<le> b * 2 ^ length ns"
proof (induction ns arbitrary: b)
  case (Cons n ns)
  have "snd (attempts up stopped (2 * b) ns) + 2 * b \<le> 2 * b * 2 ^ length ns" by (rule Cons)
  moreover have "b \<le> b * 2 ^ length (n # ns)" by simp
  ultimately show ?case by (auto simp: algebra_simps split: prod.split)
qed simp

lemma attempts_first:
  "\<forall>n\<in>set ns. \<not> stopped n \<Longrightarrow>
   fst (attempts up stopped b ns) = (case find up ns of Some n \<Rightarrow> Connected n | None \<Rightarrow> GaveUp)"
proof (induction ns arbitrary: b)
  case (Cons n ns)
  then show ?case using Cons.IH [of "2 * b"] by (simp add: split_def)
qed simp

lemma connect_bounded:
  "connectPostgresWithRetry parses up stopped = Some (res, waited) \<Longrightarrow> waited \<le> 31"
  using attempts_bound [of up stopped 1 "[1, 2, 3, 4, 5]"] by (auto simp: connectPostgresWithRetry_def split: if_splits)

lemma connect_first:
  "connectPostgresWithRetry True up (\<lambda>_. False) = Some (Connected 3, waited) \<longleftrightarrow> \<not> up 1 \<and> \<not> up 2 \<and> up 3 \<and> waited = 3"
  by (auto simp: connectPostgresWithRetry_def)

end
