(* ===== verification/Request_Scope.thy ===== *)
theory Request_Scope
  imports Wire Middleware
begin

text \<open>
  What surrounds every handler: \<open>internal/api/middleware\<close>'s request context (\<open>context.go\<close>), \<open>request_id.go\<close>,
  \<open>logger.go\<close>, \<open>recover.go\<close> and the writing of answers (\<open>response.go\<close>), at the level of the calls on the
  \<open>http.ResponseWriter\<close>.

  \<^item> \<open>scope\<close> is the request's context: the values stored under the package's private keys.
  \<^item> \<open>outcome\<close>: the calls a handler made on its writer, and whether it panicked after them.
  \<^item> \<open>deliver\<close>: what \<open>net/http\<close> makes of the calls.  The first status sent counts, and a body that is written
    without one sends 200.
\<close>

section \<open>The context\<close>

datatype contextKey = keyRequestID | keyLogger | keyClaims | keyEnvironmentID | keyAPIKeyID

text \<open>A request-scoped logger is the fields it adds to each line; the one of an empty context adds none and writes
  nothing.\<close>

datatype logger = Nop | Logger_With "(string \<times> string) list"

datatype context_value =
    VString string
  | VLogger logger
  | VClaims claims
  | VId uuid

type_synonym scope = "contextKey \<Rightarrow> context_value option"

definition WithRequestID :: "scope \<Rightarrow> string \<Rightarrow> scope" where
  "WithRequestID cx requestID = cx(keyRequestID \<mapsto> VString requestID)"

definition RequestIDFromContext :: "scope \<Rightarrow> string" where
  "RequestIDFromContext cx = (case cx keyRequestID of Some (VString i) \<Rightarrow> i | _ \<Rightarrow> '''')"

definition WithLogger :: "scope \<Rightarrow> logger \<Rightarrow> scope" where
  "WithLogger cx lg = cx(keyLogger \<mapsto> VLogger lg)"

definition LoggerFromContext :: "scope \<Rightarrow> logger" where
  "LoggerFromContext cx = (case cx keyLogger of Some (VLogger lg) \<Rightarrow> lg | _ \<Rightarrow> Nop)"

definition WithClaims :: "scope \<Rightarrow> claims \<Rightarrow> scope" where
  "WithClaims cx c = cx(keyClaims \<mapsto> VClaims c)"

definition ClaimsFromContext :: "scope \<Rightarrow> claims option" where
  "ClaimsFromContext cx = (case cx keyClaims of Some (VClaims c) \<Rightarrow> Some c | _ \<Rightarrow> None)"

definition WithEnvironmentID :: "scope \<Rightarrow> uuid \<Rightarrow> scope" where
  "WithEnvironmentID cx i = cx(keyEnvironmentID \<mapsto> VId i)"

definition EnvironmentIDFromContext :: "scope \<Rightarrow> uuid" where
  "EnvironmentIDFromContext cx = (case cx keyEnvironmentID of Some (VId i) \<Rightarrow> i | _ \<Rightarrow> uuid_nil)"

definition WithAPIKeyID :: "scope \<Rightarrow> uuid \<Rightarrow> scope" where
  "WithAPIKeyID cx i = cx(keyAPIKeyID \<mapsto> VId i)"

definition APIKeyIDFromContext :: "scope \<Rightarrow> uuid" where
  "APIKeyIDFromContext cx = (case cx keyAPIKeyID of Some (VId i) \<Rightarrow> i | _ \<Rightarrow> uuid_nil)"

lemmas scope_defs =
  WithRequestID_def RequestIDFromContext_def WithLogger_def LoggerFromContext_def WithClaims_def ClaimsFromContext_def
  WithEnvironmentID_def EnvironmentIDFromContext_def WithAPIKeyID_def APIKeyIDFromContext_def

text \<open>One slot of the context: what is stored is found, and everything stored under other keys is left alone.\<close>

locale context_slot =
  fixes key :: contextKey
    and store :: "scope \<Rightarrow> 'a \<Rightarrow> scope"
    and look :: "scope \<Rightarrow> 'b"
    and seen :: "'a \<Rightarrow> 'b"
  assumes found: "look (store cx x) = seen x"
    and apart: "k \<noteq> key \<Longrightarrow> store cx x k = cx k"
    and local: "cx key = cx' key \<Longrightarrow> look cx = look cx'"
begin

lemma latest: "look (store (store cx x) y) = seen y"
  by (rule found)

lemma untouched:
  assumes "\<And>k. k \<noteq> other \<Longrightarrow> put_other k = cx k" and "other \<noteq> key"
  shows "look put_other = look cx"
  using assms by (intro local) simp

end

interpretation request_id: context_slot keyRequestID WithRequestID RequestIDFromContext id
  by unfold_locales (simp_all add: scope_defs)

interpretation request_logger: context_slot keyLogger WithLogger LoggerFromContext id
  by unfold_locales (simp_all add: scope_defs)

interpretation caller_claims: context_slot keyClaims WithClaims ClaimsFromContext Some
  by unfold_locales (simp_all add: scope_defs)

interpretation environment_id: context_slot keyEnvironmentID WithEnvironmentID EnvironmentIDFromContext id
  by unfold_locales (simp_all add: scope_defs)

interpretation api_key_id: context_slot keyAPIKeyID WithAPIKeyID APIKeyIDFromContext id
  by unfold_locales (simp_all add: scope_defs)

text \<open>The fields \<open>cx_claims\<close>, \<open>cx_env\<close> and \<open>cx_api_key\<close> of the model's requests are what the getters find.\<close>

definition carries :: "scope \<Rightarrow> http_request \<Rightarrow> bool" where
  "carries cx r \<longleftrightarrow> ClaimsFromContext cx = cx_claims r \<and> EnvironmentIDFromContext cx = cx_env r \<and>
     APIKeyIDFromContext cx = cx_api_key r"

lemma carries_empty:
  "cx_claims r = None \<Longrightarrow> cx_env r = uuid_nil \<Longrightarrow> cx_api_key r = uuid_nil \<Longrightarrow> carries (\<lambda>_. None) r"
  by (simp add: carries_def scope_defs)

lemma carries_stored:
  "carries cx r \<Longrightarrow> carries (WithClaims cx c) (r\<lparr>cx_claims := Some c\<rparr>)"
  "carries cx r \<Longrightarrow> carries (WithAPIKeyID (WithEnvironmentID cx e) i) (r\<lparr>cx_env := e, cx_api_key := i\<rparr>)"
  "carries cx r \<Longrightarrow> carries (WithRequestID cx rid) r"
  "carries cx r \<Longrightarrow> carries (WithLogger cx lg) r"
  by (simp_all add: carries_def scope_defs)

section \<open>Answers on the wire\<close>

datatype writer_call = SetHeader string string | WriteHeader nat | Write string

record received =
  rv_sent :: bool
  rv_status :: nat
  rv_headers :: "(string \<times> string) list"
  rv_body :: string

definition nothing_sent :: received where
  "nothing_sent = \<lparr>rv_sent = False, rv_status = 200, rv_headers = [], rv_body = ''''\<rparr>"

fun deliver_one :: "writer_call \<Rightarrow> received \<Rightarrow> received" where
  "deliver_one (SetHeader k v) d = (if rv_sent d then d else d\<lparr>rv_headers := put k v (rv_headers d)\<rparr>)"
| "deliver_one (WriteHeader n) d = (if rv_sent d then d else d\<lparr>rv_sent := True, rv_status := n\<rparr>)"
| "deliver_one (Write s) d = d\<lparr>rv_sent := True, rv_body := rv_body d @ s\<rparr>"

definition deliver :: "writer_call list \<Rightarrow> received" where
  "deliver ws = fold deliver_one ws nothing_sent"

record outcome =
  oc_writes :: "writer_call list"
  oc_panicked :: bool

type_synonym raw_handler = "scope \<Rightarrow> outcome"

text \<open>\<open>middleware.JSON\<close> and \<open>middleware.Error\<close>; \<open>encoded\<close> is the document with the line feed of the encoder.\<close>

definition JSON_writes :: "nat \<Rightarrow> string \<Rightarrow> writer_call list" where
  "JSON_writes status encoded = [SetHeader ''Content-Type'' ''application/json'', WriteHeader status, Write encoded]"

definition error_document :: "string \<Rightarrow> string \<Rightarrow> string \<Rightarrow> string" where
  "error_document code message requestID =
     ''{'' @ marshal_string ''error'' @ '':'' @
     marshal_text_map ([(''code'', code), (''message'', message)] @
       (if requestID = '''' then [] else [(''request_id'', requestID)])) @ ''}'' @ [CHR 0x0A]"

definition Error_writes :: "scope \<Rightarrow> nat \<Rightarrow> string \<Rightarrow> string \<Rightarrow> writer_call list" where
  "Error_writes cx status code message = JSON_writes status (error_document code message (RequestIDFromContext cx))"

definition internal_message :: string where "internal_message = ''An internal server error occurred.''"

definition ErrorFromDomain :: "scope \<Rightarrow> store_error option \<Rightarrow> writer_call list" where
  "ErrorFromDomain cx err =
     (case err of
        None \<Rightarrow> []
      | Some e \<Rightarrow>
          (if e = ErrAlreadyInitialized
           then Error_writes cx 409 ''ALREADY_INITIALIZED'' ''This instance is already set up.''
           else if e = ErrDuplicateKey
           then Error_writes cx 409 ''DUPLICATE_KEY'' ''A resource with the given value already exists.''
           else if e = ErrNotFound
           then Error_writes cx 404 ''NOT_FOUND'' ''The requested resource was not found.''
           else Error_writes cx 500 ''INTERNAL_ERROR'' internal_message))"

section \<open>Middleware\<close>

text \<open>\<open>generateID\<close>; \<open>None\<close> is the failure of \<open>rand.Read\<close>.\<close>

definition hex_encode :: "nat list \<Rightarrow> string" where
  "hex_encode bs = concat (map (\<lambda>b. [hex_char (b div 16), hex_char (b mod 16)]) bs)"

definition generateID :: "nat list option \<Rightarrow> string" where
  "generateID b = (case b of None \<Rightarrow> ''req_unknown'' | Some bs \<Rightarrow> ''req_'' @ hex_encode bs)"

definition RequestID :: "nat list option \<Rightarrow> raw_handler \<Rightarrow> raw_handler" where
  "RequestID b next cx =
     (let i = generateID b; oc = next (WithRequestID cx i) in
      oc\<lparr>oc_writes := SetHeader ''X-Request-ID'' i # oc_writes oc\<rparr>)"

text \<open>\<open>statusRecorder\<close>: every call of \<open>WriteHeader\<close> is recorded, also one that is too late to be sent.\<close>

record statusRecorder =
  sr_status :: nat
  sr_bytes :: nat

fun record_one :: "writer_call \<Rightarrow> statusRecorder \<Rightarrow> statusRecorder" where
  "record_one (SetHeader k v) rec = rec"
| "record_one (WriteHeader n) rec = rec\<lparr>sr_status := n\<rparr>"
| "record_one (Write s) rec = rec\<lparr>sr_bytes := sr_bytes rec + length s\<rparr>"

definition recorded :: "writer_call list \<Rightarrow> statusRecorder" where
  "recorded ws = fold record_one ws \<lparr>sr_status = 200, sr_bytes = 0\<rparr>"

record log_line =
  lg_request_id :: string
  lg_method :: string
  lg_path :: string
  lg_status :: nat
  lg_bytes :: nat

text \<open>\<open>Logger\<close>: the line is written after the handler returned; a panic passes it by.  The trace is left out.\<close>

definition Logger :: "string \<Rightarrow> string \<Rightarrow> raw_handler \<Rightarrow> scope \<Rightarrow> outcome \<times> log_line list" where
  "Logger method path next cx =
     (let reqID = RequestIDFromContext cx; oc = next (WithLogger cx (Logger_With [(''request_id'', reqID)])) in
      (oc, if oc_panicked oc then []
           else (let rec = recorded (oc_writes oc) in
                 [\<lparr>lg_request_id = reqID, lg_method = method, lg_path = path, lg_status = sr_status rec, lg_bytes = sr_bytes rec\<rparr>])))"

definition RecoverPanic :: "raw_handler \<Rightarrow> raw_handler" where
  "RecoverPanic next cx =
     (let oc = next cx in
      if oc_panicked oc
      then \<lparr>oc_writes = oc_writes oc @ Error_writes cx 500 ''INTERNAL_ERROR'' internal_message, oc_panicked = False\<rparr>
      else oc)"

text \<open>The middleware around every handler, in the order of the table of routes: \<open>RecoverPanic\<close> outermost, then the
  limiter of the two routes that have one (\<open>limited\<close>: the limit is reached), \<open>RequestID\<close>, \<open>Logger\<close>.\<close>

definition limited_writes :: "scope \<Rightarrow> writer_call list" where
  "limited_writes cx =
     SetHeader ''Retry-After'' ''60'' # Error_writes cx 429 ''RATE_LIMITED'' ''Too many requests. Please try again later.''"

definition surrounded ::
  "bool \<Rightarrow> nat list option \<Rightarrow> string \<Rightarrow> string \<Rightarrow> raw_handler \<Rightarrow> outcome \<times> log_line list" where
  "surrounded limited b method path h =
     (let inner = (\<lambda>cx. Logger method path h cx);
          answered = (\<lambda>cx. if limited then \<lparr>oc_writes = limited_writes cx, oc_panicked = False\<rparr>
                      else RequestID b (\<lambda>cx. fst (inner cx)) cx) in
      (RecoverPanic answered (\<lambda>_. None),
       if limited then [] else snd (inner (WithRequestID (\<lambda>_. None) (generateID b)))))"

section \<open>What they promise\<close>

lemma oc_RecoverPanic [simp]: "\<not> oc_panicked (RecoverPanic h cx)"
  by (simp add: RecoverPanic_def Let_def)

fun sends_status :: "writer_call \<Rightarrow> bool" where
  "sends_status (WriteHeader n) = True"
| "sends_status _ = False"

fun sends :: "writer_call \<Rightarrow> bool" where
  "sends (SetHeader k v) = False"
| "sends _ = True"

text \<open>The calls of a handler that sends its status once and before its body.\<close>

fun orderly :: "writer_call list \<Rightarrow> bool" where
  "orderly [] = True"
| "orderly (SetHeader k v # ws) = orderly ws"
| "orderly (_ # ws) = (\<not> list_ex sends_status ws)"

lemma delivered_after_sent:
  "rv_sent d \<Longrightarrow> rv_status (fold deliver_one ws d) = rv_status d \<and> rv_sent (fold deliver_one ws d) \<and>
   rv_headers (fold deliver_one ws d) = rv_headers d"
proof (induction ws arbitrary: d)
  case (Cons w ws)
  then show ?case by (cases w) simp_all
qed simp

lemma recorded_later:
  "\<not> list_ex sends_status ws \<Longrightarrow> sr_status (fold record_one ws rc) = sr_status rc"
proof (induction ws arbitrary: rc)
  case (Cons w ws)
  then show ?case by (cases w) simp_all
qed simp

lemma bytes_sent:
  "sr_bytes (fold record_one ws rc) + length (rv_body d) = sr_bytes rc + length (rv_body (fold deliver_one ws d))"
proof (induction ws arbitrary: rc d)
  case (Cons w ws)
  have "sr_bytes (record_one w rc) + length (rv_body d) = sr_bytes rc + length (rv_body (deliver_one w d))" by (cases w) simp_all
  with Cons.IH [of "record_one w rc" "deliver_one w d"] show ?case by simp
qed simp

text \<open>The log line tells what was sent.\<close>

lemma recorded_orderly:
  assumes "orderly ws"
  shows "sr_status (recorded ws) = rv_status (deliver ws)"
proof -
  have "sr_status (fold record_one ws rc) = rv_status (fold deliver_one ws d)"
    if "\<not> rv_sent d" "sr_status rc = 200" "rv_status d = 200" for d rc
    using assms that
  proof (induction ws arbitrary: d rule: orderly.induct)
    case (2 k v ws)
    from "2.IH" [of "deliver_one (SetHeader k v) d"] "2.prems" show ?case by simp
  qed (simp_all add: recorded_later delivered_after_sent)
  then show ?thesis by (simp add: recorded_def deliver_def nothing_sent_def)
qed

lemma recorded_bytes: "sr_bytes (recorded ws) = length (rv_body (deliver ws))"
  using bytes_sent [of ws _ nothing_sent] by (simp add: recorded_def deliver_def nothing_sent_def)

lemma orderly_JSON: "orderly (JSON_writes n s)" "orderly (Error_writes cx n code m)"
  by (simp_all add: JSON_writes_def Error_writes_def)

text \<open>A second status is logged though it was not sent.\<close>

lemma late_status_logged:
  "sr_status (recorded [WriteHeader 200, WriteHeader 500]) = 500 \<and> rv_status (deliver [WriteHeader 200, WriteHeader 500]) = 200"
  by (simp add: recorded_def deliver_def nothing_sent_def)

lemma logged_as_sent:
  assumes "\<not> oc_panicked (h cx)" and "orderly (oc_writes (h cx))"
    and "cx = WithLogger (WithRequestID (\<lambda>_. None) (generateID b)) (Logger_With [(''request_id'', generateID b)])"
  obtains line where "snd (surrounded False b m p h) = [line]" and "lg_request_id line = generateID b"
    and "lg_status line = rv_status (deliver (oc_writes (fst (surrounded False b m p h))))"
    and "lg_bytes line = length (rv_body (deliver (oc_writes (fst (surrounded False b m p h)))))"
proof -
  let ?ws = "oc_writes (h cx)"
  have s: "surrounded False b m p h =
      (\<lparr>oc_writes = SetHeader ''X-Request-ID'' (generateID b) # ?ws, oc_panicked = False\<rparr>,
       [\<lparr>lg_request_id = generateID b, lg_method = m, lg_path = p, lg_status = sr_status (recorded ?ws), lg_bytes = sr_bytes (recorded ?ws)\<rparr>])"
    using assms by (cases "h cx") (simp add: surrounded_def Logger_def RequestID_def RecoverPanic_def Let_def request_id.found)
  have "orderly (SetHeader ''X-Request-ID'' (generateID b) # ?ws)" using assms(2) by simp
  note sent = recorded_orderly [OF this] recorded_bytes [of "SetHeader ''X-Request-ID'' (generateID b) # ?ws"]
  show thesis
    by (rule that [of "hd (snd (surrounded False b m p h))"]) (use sent in \<open>simp_all add: s recorded_def\<close>)
qed

text \<open>A panic before anything was sent is answered with 500, but without the identifier of the request, which only the
  context of the inner request has, and without a log line; after something was sent the status stays.\<close>

lemma panic_before_sending:
  assumes "oc_panicked (h cx)" and "\<not> list_ex sends (oc_writes (h cx))"
    and "cx = WithLogger (WithRequestID (\<lambda>_. None) (generateID b)) (Logger_With [(''request_id'', generateID b)])"
  shows "rv_status (deliver (oc_writes (fst (surrounded False b m p h)))) = 500 \<and>
    rv_body (deliver (oc_writes (fst (surrounded False b m p h)))) = error_document ''INTERNAL_ERROR'' internal_message [] \<and>
    snd (surrounded False b m p h) = []"
proof -
  have unsent: "\<not> list_ex sends ws \<Longrightarrow> \<not> rv_sent d \<Longrightarrow>
      \<not> rv_sent (fold deliver_one ws d) \<and> rv_body (fold deliver_one ws d) = rv_body d" for ws d
  proof (induction ws arbitrary: d)
    case (Cons w ws)
    then show ?case by (cases w) simp_all
  qed simp
  have s: "surrounded False b m p h =
      (\<lparr>oc_writes = (SetHeader ''X-Request-ID'' (generateID b) # oc_writes (h cx)) @
          Error_writes (\<lambda>_. None) 500 ''INTERNAL_ERROR'' internal_message, oc_panicked = False\<rparr>, [])"
    using assms by (cases "h cx") (simp add: surrounded_def Logger_def RequestID_def RecoverPanic_def Let_def request_id.found)
  have "\<not> list_ex sends (SetHeader ''X-Request-ID'' (generateID b) # oc_writes (h cx))" using assms(2) by simp
  from unsent [OF this, of nothing_sent] show ?thesis
    unfolding s by (simp add: deliver_def Error_writes_def JSON_writes_def RequestIDFromContext_def nothing_sent_def)
qed

text \<open>The limiter stands before \<open>RequestID\<close>: the answer 429 has no identifier and leaves no log line.\<close>

lemma limited_unidentified:
  "rv_status (deliver (oc_writes (fst (surrounded True b m p h)))) = 429 \<and>
   map_of (rv_headers (deliver (oc_writes (fst (surrounded True b m p h))))) ''X-Request-ID'' = None \<and>
   snd (surrounded True b m p h) = []"
  by (simp add: surrounded_def RecoverPanic_def limited_writes_def Error_writes_def JSON_writes_def deliver_def nothing_sent_def Let_def)

lemma identifier_text:
  "generateID (Some bs) = ''req_'' @ hex_encode bs" "length (hex_encode bs) = 2 * length bs"
  by (simp add: generateID_def) (induction bs, simp_all add: hex_encode_def)

end
