(* ===== verification/Documents.thy ===== *)
theory Documents
  imports SDK_Snapshot
begin

text \<open>
  The JSON documents of the API's answers: the response structs of \<open>internal/api\<close> with their member names,
  and the reading of such documents by \<open>encoding/json\<close> into structs of strings and flags.

  \<^item> \<open>formats\<close>: \<open>uuid.UUID\<close>'s text and RFC 3339 with nanoseconds, in which every time is written.
  \<^item> \<open>document\<close>: the body of an answer that is not an error; \<open>None\<close> is an empty one.
\<close>

record formats =
  fm_uuid :: "uuid \<Rightarrow> string"
  fm_time :: "time \<Rightarrow> string"

definition raw_json :: "raw_message \<Rightarrow> json" where
  "raw_json v = (case v of None \<Rightarrow> JNull | Some d \<Rightarrow> d)"

definition opt_string :: "string \<Rightarrow> string option \<Rightarrow> (string \<times> json) list" where
  "opt_string k v = opt_member k (map_option JStr v)"

definition opt_uuid :: "formats \<Rightarrow> string \<Rightarrow> uuid option \<Rightarrow> (string \<times> json) list" where
  "opt_uuid fm k v = opt_member k (map_option (\<lambda>i. JStr (fm_uuid fm i)) v)"

definition opt_time :: "formats \<Rightarrow> string \<Rightarrow> time option \<Rightarrow> (string \<times> json) list" where
  "opt_time fm k v = opt_member k (map_option (\<lambda>t. JStr (fm_time fm t)) v)"

definition opt_text :: "string \<Rightarrow> string \<Rightarrow> (string \<times> json) list" where
  "opt_text k v = opt_member k (if v = '''' then None else Some (JStr v))"

section \<open>The response structs\<close>

definition project_document :: "formats \<Rightarrow> project_response \<Rightarrow> json" where
  "project_document fm p =
     JObj [(''id'', JStr (fm_uuid fm (pr_id p))), (''slug'', JStr (pr_slug p)), (''name'', JStr (pr_name p)),
           (''created_at'', JStr (fm_time fm (pr_created p))), (''updated_at'', JStr (fm_time fm (pr_updated p)))]"

definition environment_document :: "formats \<Rightarrow> environment \<Rightarrow> json" where
  "environment_document fm e =
     JObj [(''id'', JStr (fm_uuid fm (e_id e))), (''project_id'', JStr (fm_uuid fm (e_project e))), (''slug'', JStr (e_slug e)),
           (''name'', JStr (e_name e)), (''created_at'', JStr (fm_time fm (e_created e))),
           (''updated_at'', JStr (fm_time fm (e_updated e)))]"

definition flag_document :: "formats \<Rightarrow> flag \<Rightarrow> json" where
  "flag_document fm f =
     JObj ([(''id'', JStr (fm_uuid fm (f_id f))), (''project_id'', JStr (fm_uuid fm (f_project f))), (''key'', JStr (f_key f)),
            (''name'', JStr (f_name f))] @ opt_string ''description'' (f_description f) @
           [(''type'', JStr (f_type f)), (''default_value'', raw_json (f_default f))] @
           opt_time fm ''archived_at'' (f_archived f) @
           [(''created_at'', JStr (fm_time fm (f_created f))), (''updated_at'', JStr (fm_time fm (f_updated f)))] @
           opt_uuid fm ''created_by'' (f_created_by f))"

definition flag_environment_document :: "formats \<Rightarrow> flag_environment \<Rightarrow> json" where
  "flag_environment_document fm c =
     JObj ([(''flag_id'', JStr (fm_uuid fm (fe_flag c))), (''environment_id'', JStr (fm_uuid fm (fe_env c))),
            (''enabled'', JBool (fe_enabled c)), (''rules'', raw_json (fe_rules c))] @
           opt_member ''default_value'' (fe_default c) @
           [(''version'', JInt (fe_version c)), (''created_at'', JStr (fm_time fm (fe_created c))),
            (''updated_at'', JStr (fm_time fm (fe_updated c)))] @ opt_uuid fm ''updated_by'' (fe_updated_by c))"

definition segment_document :: "formats \<Rightarrow> db_segment \<Rightarrow> json" where
  "segment_document fm g =
     JObj ([(''id'', JStr (fm_uuid fm (g_id g))), (''project_id'', JStr (fm_uuid fm (g_project g))), (''key'', JStr (g_key g)),
            (''name'', JStr (g_name g))] @ opt_string ''description'' (g_description g) @
           [(''rules'', raw_json (g_rules g))] @ opt_time fm ''archived_at'' (g_archived g) @
           [(''created_at'', JStr (fm_time fm (g_created g))), (''updated_at'', JStr (fm_time fm (g_updated g)))] @
           opt_uuid fm ''created_by'' (g_created_by g))"

definition api_key_members :: "formats \<Rightarrow> api_key_response \<Rightarrow> (string \<times> json) list" where
  "api_key_members fm k =
     [(''id'', JStr (fm_uuid fm (kr_id k))), (''environment_id'', JStr (fm_uuid fm (kr_env k))), (''name'', JStr (kr_name k)),
      (''key_prefix'', JStr (kr_prefix k))] @ opt_time fm ''last_used_at'' (kr_last_used k) @
     opt_time fm ''expires_at'' (kr_expires k) @ opt_time fm ''revoked_at'' (kr_revoked k) @
     [(''created_at'', JStr (fm_time fm (kr_created k)))] @ opt_uuid fm ''created_by'' (kr_created_by k)"

text \<open>The struct with the raw key embeds the one without.\<close>

definition created_key_document :: "formats \<Rightarrow> api_key_response \<Rightarrow> string \<Rightarrow> json" where
  "created_key_document fm k rawKey = JObj (api_key_members fm k @ [(''key'', JStr rawKey)])"

definition audit_entry_document :: "formats \<Rightarrow> audit_entry_response \<Rightarrow> json" where
  "audit_entry_document fm a =
     JObj ([(''id'', JStr (fm_uuid fm (ar_id a)))] @ opt_uuid fm ''actor_id'' (ar_actor a) @
           [(''actor_type'', JStr (ar_actor_type a)), (''action'', JStr (ar_action a)),
            (''resource_type'', JStr (ar_resource_type a))] @ opt_uuid fm ''resource_id'' (ar_resource a) @
           opt_member ''changes'' (ar_changes a) @ opt_string ''ip_address'' (ar_ip a) @
           opt_string ''user_agent'' (ar_user_agent a) @ [(''created_at'', JStr (fm_time fm (ar_created a)))])"

definition me_document :: "formats \<Rightarrow> me_response \<Rightarrow> json" where
  "me_document fm m =
     JObj ([(''id'', JStr (fm_uuid fm (me_id m))), (''email'', JStr (me_email m)), (''role'', JStr (me_role m)),
            (''created_at'', JStr (fm_time fm (me_created m)))] @ opt_time fm ''last_login_at'' (me_last_login m))"

definition session_document :: "formats \<Rightarrow> session_response \<Rightarrow> json" where
  "session_document fm s =
     JObj ([(''id'', JStr (fm_uuid fm (sr_id s)))] @ opt_string ''ip_address'' (sr_ip s) @
           opt_string ''user_agent'' (sr_user_agent s) @
           [(''created_at'', JStr (fm_time fm (sr_created s))), (''expires_at'', JStr (fm_time fm (sr_expires s))),
            (''is_current'', JBool (sr_current s))])"

definition setup_document :: "formats \<Rightarrow> uuid \<Rightarrow> uuid \<Rightarrow> string \<Rightarrow> json" where
  "setup_document fm tenant user token =
     JObj [(''tenant_id'', JStr (fm_uuid fm tenant)), (''user_id'', JStr (fm_uuid fm user)), (''access_token'', JStr token)]"

definition setup_status_document :: "bool \<Rightarrow> json" where
  "setup_status_document initialized =
     JObj [(''initialized'', JBool initialized), (''message'', JStr ''System is ready. Please sign in.'')]"

definition token_document :: "string \<Rightarrow> int \<Rightarrow> json" where
  "token_document token expiresIn =
     JObj [(''access_token'', JStr token), (''token_type'', JStr ''Bearer''), (''expires_in'', JInt expiresIn)]"

definition tenants_document :: "formats \<Rightarrow> string \<Rightarrow> (uuid \<times> string \<times> string) list \<Rightarrow> json" where
  "tenants_document fm rid ts =
     JObj [(''error'', JObj ([(''code'', JStr ''MULTIPLE_TENANTS''),
       (''message'', JStr ''User belongs to multiple tenants. Retry with tenant_slug.'')] @ opt_text ''request_id'' rid @
       [(''available_tenants'', JArr (map (\<lambda>(i, slug, name).
          JObj [(''id'', JStr (fm_uuid fm i)), (''slug'', JStr slug), (''name'', JStr name)]) ts))]))]"

definition evaluation_document :: "string \<Rightarrow> string \<Rightarrow> evaluate_result \<Rightarrow> json" where
  "evaluation_document rid key res =
     JObj ([(''key'', JStr key), (''value'', encode_any (er_value res)), (''reason'', JStr (reason_string (er_reason res))),
            (''rule_index'', JInt (er_rule_index res))] @ opt_text ''request_id'' rid)"

text \<open>\<open>engine.EvaluateResult\<close> has no tags: its members have the names of the fields.\<close>

definition evaluations_document ::
  "formats \<Rightarrow> string \<Rightarrow> (string \<times> evaluate_result) list \<Rightarrow> string \<Rightarrow> time \<Rightarrow> json" where
  "evaluations_document fm rid results slug now =
     JObj ([(''flags'', encode_members (\<lambda>res. JObj [(''Value'', encode_any (er_value res)),
               (''Reason'', JStr (reason_string (er_reason res))), (''RuleIndex'', JInt (er_rule_index res))]) results),
            (''environment'', JStr slug), (''evaluated_at'', JStr (fm_time fm now))] @ opt_text ''request_id'' rid)"

definition error_json :: "string \<Rightarrow> string \<Rightarrow> string \<Rightarrow> json" where
  "error_json rid code message =
     JObj [(''error'', JObj ([(''code'', JStr code), (''message'', JStr message)] @ opt_text ''request_id'' rid))]"

section \<open>The body of an answer\<close>

definition document :: "formats \<Rightarrow> string \<Rightarrow> payload \<Rightarrow> json option" where
  "document fm rid p =
     (case p of
        PNone \<Rightarrow> None
      | PProject x \<Rightarrow> Some (project_document fm x)
      | PProjects xs \<Rightarrow> Some (JArr (map (project_document fm) xs))
      | PEnvironment e \<Rightarrow> Some (environment_document fm e)
      | PEnvironments es \<Rightarrow> Some (JArr (map (environment_document fm) es))
      | PFlagStates cs \<Rightarrow> Some (JArr (map (\<lambda>(k, b). JObj [(''flag_key'', JStr k), (''enabled'', JBool b)]) cs))
      | PFlag f \<Rightarrow> Some (flag_document fm f)
      | PFlags fs \<Rightarrow> Some (JArr (map (flag_document fm) fs))
      | PFlagEnvironment c \<Rightarrow> Some (flag_environment_document fm c)
      | PSegment g \<Rightarrow> Some (segment_document fm g)
      | PSegments gs \<Rightarrow> Some (JArr (map (segment_document fm) gs))
      | PApiKeyCreated k raw \<Rightarrow> Some (created_key_document fm k raw)
      | PApiKeys ks \<Rightarrow> Some (JArr (map (\<lambda>k. JObj (api_key_members fm k)) ks))
      | PAudit es n limit offset \<Rightarrow>
          Some (JObj [(''entries'', JArr (map (audit_entry_document fm) es)), (''total'', JInt (int n)),
                      (''limit'', JInt limit), (''offset'', JInt offset)])
      | PToken t expiresIn \<Rightarrow> Some (token_document t expiresIn)
      | PTenants ts \<Rightarrow> Some (tenants_document fm rid ts)
      | PMe m \<Rightarrow> Some (me_document fm m)
      | PSessions ss \<Rightarrow> Some (JArr (map (session_document fm) ss))
      | PSetup tenant user token \<Rightarrow> Some (setup_document fm tenant user token)
      | PSetupStatus b \<Rightarrow> Some (setup_status_document b)
      | PEvaluation key res \<Rightarrow> Some (evaluation_document rid key res)
      | PEvaluations results slug now \<Rightarrow> Some (evaluations_document fm rid results slug now)
      | PSnapshot sn \<Rightarrow> Some (encode_snapshot rid (fm_time fm) sn))"

lemmas member_defs = opt_string_def opt_uuid_def opt_time_def opt_text_def opt_member_def

section \<open>Reading a document\<close>

text \<open>The member of a struct that a reader of strings takes from an object: the last whose name is the field's, \<open>null\<close>
  and other fields apart; \<open>None\<close> when a value has another type.\<close>

definition read_struct :: "(string \<times> (json \<Rightarrow> 'a \<Rightarrow> 'a option)) list \<Rightarrow> 'a \<Rightarrow> json \<Rightarrow> 'a option" where
  "read_struct table zero v =
     (case v of JNull \<Rightarrow> Some zero | JObj ms \<Rightarrow> decode_lenient table ms zero | _ \<Rightarrow> None)"

end
