(* ===== verification/Telemetry.thy ===== *)
theory Telemetry
  imports SDK_Usage Sessions Streaming
begin

text \<open>
  \<open>internal/telemetry\<close> and the measurements of the handlers.

  \<^item> OpenTelemetry is outside: the model keeps the calls the code makes on its instruments, a list of
    \<open>measurement\<close>s.  Of a duration only the call is kept.
  \<^item> \<open>metrics\<close> is \<open>*Metrics\<close>: nil, or which of its instruments are not nil.
  \<^item> \<open>measured\<close>: a handler together with the measurements it makes.  \<open>erase\<close> forgets them; each measured handler
    of this theory erases to the handler of the other theories, which the rest of the development is about.
\<close>

section \<open>Instruments\<close>

datatype instrument =
    evaluationsTotal | evaluationDuration | engineErrorsTotal | engineWarningsTotal | snapshotFetchDuration
  | snapshotFetchTotal | sseConnectionsActive | sseEventsPublished | dbPoolConnectionsIdle | dbPoolAcquiredTotal
  | dbPoolAcquireWaitTotal | authLoginTotal | authRefreshTotal | authLogoutTotal | authAPIKeyValidationTotal
  | authRateLimitHitsTotal | sdkUsageReportedTotal

type_synonym attributes = "(string \<times> string) list"

datatype measurement =
    Added instrument int attributes
  | Timed instrument attributes
  | Observed instrument int

type_synonym metrics = "(instrument \<Rightarrow> bool) option"

definition has :: "metrics \<Rightarrow> instrument \<Rightarrow> bool" where
  "has m i = (case m of None \<Rightarrow> False | Some made \<Rightarrow> made i)"

text \<open>The instruments in the order \<open>NewMetrics\<close> makes them, with the names it asks for.\<close>

definition instrument_names :: "(instrument \<times> string) list" where
  "instrument_names =
     [(evaluationsTotal, ''flagstone.evaluations.total''),
      (snapshotFetchDuration, ''flagstone.snapshot.fetch.duration''),
      (snapshotFetchTotal, ''flagstone.snapshot.fetch.total''),
      (sseConnectionsActive, ''flagstone.sse.connections.active''),
      (sseEventsPublished, ''flagstone.sse.events.published.total''),
      (dbPoolConnectionsIdle, ''flagstone.db.pool.connections.idle''),
      (dbPoolAcquiredTotal, ''flagstone.db.pool.connections.acquired.total''),
      (dbPoolAcquireWaitTotal, ''flagstone.db.pool.acquire.wait.duration''),
      (evaluationDuration, ''flagstone.evaluation.duration''),
      (engineErrorsTotal, ''flagstone.engine.errors.total''),
      (engineWarningsTotal, ''flagstone.engine.warnings.total''),
      (authLoginTotal, ''flagstone.auth.login.total''),
      (authRefreshTotal, ''flagstone.auth.refresh.total''),
      (authLogoutTotal, ''flagstone.auth.logout.total''),
      (authAPIKeyValidationTotal, ''flagstone.auth.apikey.validation.total''),
      (authRateLimitHitsTotal, ''flagstone.auth.ratelimit.hits.total''),
      (sdkUsageReportedTotal, ''flagstone.sdk.usage.reported.total'')]"

text \<open>The meter says for each name whether it makes the instrument; the first failure is returned.\<close>

definition NewMetrics :: "(string \<Rightarrow> bool) \<Rightarrow> string + metrics" where
  "NewMetrics makes =
     (case find (\<lambda>(i, name). \<not> makes name) instrument_names of
        Some (i, name) \<Rightarrow> Inl name
      | None \<Rightarrow> Inr (Some (\<lambda>_. True)))"

section \<open>Recording\<close>

definition FeatureFlagKey :: string where "FeatureFlagKey = ''feature_flag.key''"
definition FeatureFlagResultReason :: string where "FeatureFlagResultReason = ''feature_flag.result.reason''"
definition FlagstoneEnvironment :: string where "FlagstoneEnvironment = ''flagstone.environment''"
definition FlagstoneEventType :: string where "FlagstoneEventType = ''flagstone.event.type''"
definition FlagstoneStatus :: string where "FlagstoneStatus = ''flagstone.status''"
definition FlagstoneEngineErrorType :: string where "FlagstoneEngineErrorType = ''flagstone.engine.error_type''"
definition FlagstoneEngineWarningType :: string where "FlagstoneEngineWarningType = ''flagstone.engine.warning_type''"
definition FlagstoneAuthErrorCode :: string where "FlagstoneAuthErrorCode = ''flagstone.auth.error_code''"
definition FlagstoneAuthEndpoint :: string where "FlagstoneAuthEndpoint = ''flagstone.auth.endpoint''"

lemmas attribute_keys =
  FeatureFlagKey_def FeatureFlagResultReason_def FlagstoneEnvironment_def FlagstoneEventType_def FlagstoneStatus_def
  FlagstoneEngineErrorType_def FlagstoneEngineWarningType_def FlagstoneAuthErrorCode_def FlagstoneAuthEndpoint_def

definition add :: "metrics \<Rightarrow> instrument \<Rightarrow> int \<Rightarrow> attributes \<Rightarrow> measurement list" where
  "add m i n attrs = (if has m i then [Added i n attrs] else [])"

definition RecordEvaluation :: "metrics \<Rightarrow> attributes \<Rightarrow> measurement list" where
  "RecordEvaluation m attrs = add m evaluationsTotal 1 attrs"

definition RecordEvaluationsBulk :: "metrics \<Rightarrow> int \<Rightarrow> attributes \<Rightarrow> measurement list" where
  "RecordEvaluationsBulk m n attrs = (if n \<le> 0 then [] else add m evaluationsTotal n attrs)"

definition RecordEvaluationDuration :: "metrics \<Rightarrow> attributes \<Rightarrow> measurement list" where
  "RecordEvaluationDuration m attrs = (if has m evaluationDuration then [Timed evaluationDuration attrs] else [])"

definition RecordEngineError :: "metrics \<Rightarrow> string \<Rightarrow> attributes \<Rightarrow> measurement list" where
  "RecordEngineError m errType attrs = add m engineErrorsTotal 1 (attrs @ [(FlagstoneEngineErrorType, errType)])"

definition RecordEngineWarning :: "metrics \<Rightarrow> string \<Rightarrow> attributes \<Rightarrow> measurement list" where
  "RecordEngineWarning m warnType attrs = add m engineWarningsTotal 1 (attrs @ [(FlagstoneEngineWarningType, warnType)])"

text \<open>Only the histogram is checked: a nil counter beside it would be a panic (\<open>None\<close>).\<close>

definition RecordSnapshotFetch :: "metrics \<Rightarrow> attributes \<Rightarrow> measurement list option" where
  "RecordSnapshotFetch m attrs =
     (if \<not> has m snapshotFetchDuration then Some []
      else if \<not> has m snapshotFetchTotal then None
      else Some [Timed snapshotFetchDuration attrs, Added snapshotFetchTotal 1 attrs])"

definition AddSSEConnectionDelta :: "metrics \<Rightarrow> int \<Rightarrow> measurement list" where
  "AddSSEConnectionDelta m delta = add m sseConnectionsActive delta []"

definition RecordSSEEvent :: "metrics \<Rightarrow> string \<Rightarrow> measurement list" where
  "RecordSSEEvent m eventType = add m sseEventsPublished 1 [(FlagstoneEventType, eventType)]"

definition RecordAuthLogin :: "metrics \<Rightarrow> string \<Rightarrow> string \<Rightarrow> measurement list" where
  "RecordAuthLogin m status errorCode =
     add m authLoginTotal 1
       ((FlagstoneStatus, status) # (if errorCode \<noteq> '''' then [(FlagstoneAuthErrorCode, errorCode)] else []))"

definition RecordAuthRefresh :: "metrics \<Rightarrow> string \<Rightarrow> measurement list" where
  "RecordAuthRefresh m status = add m authRefreshTotal 1 [(FlagstoneStatus, status)]"

definition RecordAuthLogout :: "metrics \<Rightarrow> measurement list" where
  "RecordAuthLogout m = add m authLogoutTotal 1 [(FlagstoneStatus, ''success'')]"

definition RecordAuthAPIKeyValidation :: "metrics \<Rightarrow> string \<Rightarrow> measurement list" where
  "RecordAuthAPIKeyValidation m status = add m authAPIKeyValidationTotal 1 [(FlagstoneStatus, status)]"

definition RecordAuthRateLimitHit :: "metrics \<Rightarrow> string \<Rightarrow> measurement list" where
  "RecordAuthRateLimitHit m endpoint = add m authRateLimitHitsTotal 1 [(FlagstoneAuthEndpoint, endpoint)]"

definition RecordSDKUsageReport :: "metrics \<Rightarrow> measurement list" where
  "RecordSDKUsageReport m = add m sdkUsageReportedTotal 1 []"

lemmas record_defs =
  RecordEvaluation_def RecordEvaluationsBulk_def RecordEvaluationDuration_def RecordEngineError_def
  RecordEngineWarning_def AddSSEConnectionDelta_def RecordSSEEvent_def RecordAuthLogin_def RecordAuthRefresh_def
  RecordAuthLogout_def RecordAuthAPIKeyValidation_def RecordAuthRateLimitHit_def RecordSDKUsageReport_def add_def

text \<open>The numbers of the connection pool at a collection: idle connections, acquisitions, seconds waited for them.
  \<open>Some\<close> is the registered callback and what it observes; \<open>registers\<close> is the meter's answer.\<close>

record pool_stats =
  ps_idle :: int
  ps_acquired :: int
  ps_wait_seconds :: int

definition RegisterDBPoolStats ::
  "metrics \<Rightarrow> bool \<Rightarrow> bool \<times> (pool_stats \<Rightarrow> measurement list) option" where
  "RegisterDBPoolStats m registers =
     (if \<not> has m dbPoolConnectionsIdle then (True, None)
      else if registers then
        (True, Some (\<lambda>s. [Observed dbPoolConnectionsIdle (ps_idle s), Observed dbPoolAcquiredTotal (ps_acquired s),
                          Observed dbPoolAcquireWaitTotal (ps_wait_seconds s)]))
      else (False, None))"

section \<open>Set-up\<close>

definition exporterEnabled :: "(string \<Rightarrow> string) \<Rightarrow> string \<Rightarrow> bool" where
  "exporterEnabled getenv envVar = (let v = trim_space (getenv envVar) in v \<noteq> '''' \<and> v \<noteq> ''none'')"

text \<open>\<open>strings.SplitSeq\<close> at commas.\<close>

fun split_commas :: "string \<Rightarrow> string list" where
  "split_commas [] = [[]]"
| "split_commas (c # cs) =
     (if c = CHR '','' then [] # split_commas cs
      else (case split_commas cs of [] \<Rightarrow> [[c]] | p # ps \<Rightarrow> (c # p) # ps))"

text \<open>The set of recognized exporters, in the order of their first mention.\<close>

definition metricExporterSet :: "(string \<Rightarrow> string) \<Rightarrow> string list" where
  "metricExporterSet getenv =
     (let raw = trim_space (getenv ''OTEL_METRICS_EXPORTER'') in
      if raw = '''' \<or> raw = ''none'' then []
      else remdups (filter (\<lambda>p. p \<in> {''otlp'', ''prometheus''}) (map trim_space (split_commas raw))))"

text \<open>\<open>sscanf_f\<close> is \<open>fmt.Sscanf(raw, "%f", _)\<close>; the ratio \<open>0.1\<close> is the double next to it.\<close>

definition sampleRatio :: "(string \<Rightarrow> f64 option) \<Rightarrow> f64 \<Rightarrow> (string \<Rightarrow> string) \<Rightarrow> f64" where
  "sampleRatio sscanf_f defaultRatio getenv =
     (let raw = getenv ''OTEL_TRACES_SAMPLER_ARG'' in
      if raw = '''' then defaultRatio
      else (case sscanf_f raw of
              None \<Rightarrow> defaultRatio
            | Some ratio \<Rightarrow>
                (if f64_le ratio (Fin 0) then defaultRatio
                 else if f64_less (Fin 1) ratio then Fin 1 else ratio)))"

text \<open>The constructors of OpenTelemetry and Prometheus either work or fail; what a set-up leaves behind are the
  global providers and the server of \<open>/metrics\<close>.\<close>

record otel_libraries =
  ol_resource :: bool
  ol_trace_exporter :: bool
  ol_metric_exporter :: bool
  ol_prometheus :: bool

record otel =
  ot_tracer :: "f64 option"
  ot_readers :: "string list option"
  ot_metrics_server :: "string option"

datatype closer = ShutdownTracer | ShutdownMetricsServer | ShutdownMeter

datatype otel_error = ErrResource | ErrTraceExporter | ErrMetricExporter | ErrPrometheus

definition startPrometheusServer :: "(string \<Rightarrow> string) \<Rightarrow> string" where
  "startPrometheusServer getenv =
     (let host = getenv ''OTEL_EXPORTER_PROMETHEUS_HOST''; port = getenv ''OTEL_EXPORTER_PROMETHEUS_PORT'' in
      host @ '':'' @ (if port = '''' then ''9464'' else port))"

definition setup_tracing ::
  "otel_libraries \<Rightarrow> f64 \<Rightarrow> bool \<Rightarrow> otel \<Rightarrow> (otel_error + closer list) \<times> otel" where
  "setup_tracing libs ratio tracesOn g =
     (if \<not> tracesOn then (Inr [], g)
      else if \<not> ol_trace_exporter libs then (Inl ErrTraceExporter, g)
      else (Inr [ShutdownTracer], g\<lparr>ot_tracer := Some ratio\<rparr>))"

definition setup_metrics ::
  "otel_libraries \<Rightarrow> string \<Rightarrow> string list \<Rightarrow> closer list \<Rightarrow> otel \<Rightarrow> (otel_error + closer list) \<times> otel" where
  "setup_metrics libs addr exporters fns g =
     (if exporters = [] then (Inr fns, g)
      else if ''otlp'' \<in> set exporters \<and> \<not> ol_metric_exporter libs then (Inl ErrMetricExporter, g)
      else if ''prometheus'' \<in> set exporters \<and> \<not> ol_prometheus libs then (Inl ErrPrometheus, g)
      else
        (let prom = ''prometheus'' \<in> set exporters in
         (Inr (fns @ (if prom then [ShutdownMetricsServer] else []) @ [ShutdownMeter]),
          g\<lparr>ot_readers := Some (filter (\<lambda>e. e \<in> set exporters) [''otlp'', ''prometheus'']),
            ot_metrics_server := (if prom then Some addr else ot_metrics_server g)\<rparr>)))"

definition SetupOTel ::
  "otel_libraries \<Rightarrow> (string \<Rightarrow> f64 option) \<Rightarrow> f64 \<Rightarrow> (string \<Rightarrow> string) \<Rightarrow> otel \<Rightarrow> (otel_error + closer list) \<times> otel" where
  "SetupOTel libs sscanf_f defaultRatio getenv g =
     (let tracesOn = exporterEnabled getenv ''OTEL_TRACES_EXPORTER''; metricExporters = metricExporterSet getenv in
      if \<not> tracesOn \<and> metricExporters = [] then (Inr [], g)
      else if \<not> ol_resource libs then (Inl ErrResource, g)
      else (case setup_tracing libs (sampleRatio sscanf_f defaultRatio getenv) tracesOn g of
              (Inl e, g') \<Rightarrow> (Inl e, g')
            | (Inr fns, g') \<Rightarrow> setup_metrics libs (startPrometheusServer getenv) metricExporters fns g'))"

text \<open>The returned \<open>shutdown\<close> calls every closer, also after one failed, and returns the errors.\<close>

definition shutdown :: "(closer \<Rightarrow> bool) \<Rightarrow> closer list \<Rightarrow> closer list" where
  "shutdown fails fns = filter fails fns"

text \<open>The filter of \<open>WrapWithTracing\<close>: the paths that get a span.\<close>

definition traced :: "string list \<Rightarrow> string \<Rightarrow> bool" where
  "traced skipPaths path = (path \<notin> set skipPaths)"

definition running :: "otel \<Rightarrow> closer set" where
  "running g =
     (if ot_tracer g \<noteq> None then {ShutdownTracer} else {}) \<union>
     (if ot_metrics_server g \<noteq> None then {ShutdownMetricsServer} else {}) \<union>
     (if ot_readers g \<noteq> None then {ShutdownMeter} else {})"

definition no_otel :: otel where
  "no_otel = \<lparr>ot_tracer = None, ot_readers = None, ot_metrics_server = None\<rparr>"

text \<open>After a set-up that succeeds the shutdown closes exactly what runs, each once.\<close>

lemma shutdown_complete:
  assumes "SetupOTel libs sc dr getenv no_otel = (Inr fns, g)"
  shows "set fns = running g \<and> distinct fns"
  using assms
  by (auto simp: SetupOTel_def setup_tracing_def setup_metrics_def running_def no_otel_def Let_def
    split: if_splits)

text \<open>A set-up that fails after the tracer leaves it installed and returns no shutdown; \<open>main\<close> then ends the process.\<close>

lemma failed_setup_leaves_tracer:
  assumes "exporterEnabled getenv ''OTEL_TRACES_EXPORTER''" and "ol_trace_exporter libs"
    and "SetupOTel libs sc dr getenv no_otel = (Inl e, g)" and "e \<noteq> ErrResource"
  shows "running g = {ShutdownTracer}"
  using assms
  by (auto simp: SetupOTel_def setup_tracing_def setup_metrics_def running_def no_otel_def Let_def
    split: if_splits)

lemma off_by_default:
  assumes "getenv ''OTEL_TRACES_EXPORTER'' \<in> {'''', ''none''}" and "getenv ''OTEL_METRICS_EXPORTER'' \<in> {'''', ''none''}"
  shows "SetupOTel libs sc dr getenv g = (Inr [], g)"
proof -
  have "trim_space '''' = ''''" "trim_space ''none'' = ''none''" by code_simp+
  with assms show ?thesis by (auto simp: SetupOTel_def exporterEnabled_def metricExporterSet_def)
qed

text \<open>The ratio is positive and at most one; only a ratio that is not a number passes both comparisons.\<close>

lemma sampleRatio_bounds:
  assumes "defaultRatio = Fin q" and "0 < q" and "q \<le> 1"
  obtains "sampleRatio sc defaultRatio getenv = NaN" | p where "sampleRatio sc defaultRatio getenv = Fin p" "0 < p" "p \<le> 1"
proof (cases "getenv ''OTEL_TRACES_SAMPLER_ARG'' = ''''")
  case False
  show thesis
  proof (cases "sc (getenv ''OTEL_TRACES_SAMPLER_ARG'')")
    case (Some ratio)
    with False assms that show thesis
      by (cases ratio; cases "ratio = Fin 0"; cases "f64_less ratio (Fin 0)"; cases "f64_less (Fin 1) ratio")
         (auto simp: sampleRatio_def Let_def f64_le_def not_less)
  qed (use False assms that in \<open>simp add: sampleRatio_def\<close>)
qed (use assms that in \<open>simp add: sampleRatio_def\<close>)

lemma metrics_all_or_none:
  "NewMetrics makes = Inr m \<Longrightarrow> has m i" "(\<And>name. name \<in> snd ` set instrument_names \<Longrightarrow> makes name) \<Longrightarrow> is_ok (NewMetrics makes)"
  by (auto simp: NewMetrics_def has_def find_None_iff split: option.splits prod.splits)
     (metis (mono_tags, lifting) case_prod_conv find_Some_iff image_eqI nth_mem snd_conv)

lemma instruments_named: "distinct (map snd instrument_names)" "set (map fst instrument_names) = UNIV"
proof -
  show "distinct (map snd instrument_names)" by code_simp
  have "i \<in> set (map fst instrument_names)" for i by (cases i) (simp_all add: instrument_names_def)
  then show "set (map fst instrument_names) = UNIV" by blast
qed

text \<open>With instruments of \<open>NewMetrics\<close>, or without any, no call on them panics.\<close>

lemma snapshot_measurement_safe:
  "m = None \<or> NewMetrics makes = Inr m \<Longrightarrow> RecordSnapshotFetch m attrs \<noteq> None"
  using metrics_all_or_none(1) [of makes m snapshotFetchTotal] by (auto simp: RecordSnapshotFetch_def has_def)

section \<open>Measured handlers\<close>

type_synonym 'r measured = "('r \<times> measurement list) step"

definition silent :: "'r step \<Rightarrow> 'r measured" where
  "silent s w = (case s w of (r, w') \<Rightarrow> ((r, []), w'))"

definition noting :: "measurement list \<Rightarrow> 'r measured \<Rightarrow> 'r measured" where
  "noting ms s w = (case s w of ((r, ms'), w') \<Rightarrow> ((r, ms @ ms'), w'))"

definition noted :: "measurement list \<Rightarrow> 'r \<Rightarrow> 'r measured" where
  "noted ms r = noting ms (silent (reply r))"

definition erase :: "('r \<times> 'm) step \<Rightarrow> 'r step" where
  "erase s w = (fst (fst (s w)), snd (s w))"

lemma erase_simps [simp]:
  "erase (silent s) = s" "erase (noting ms s') = erase s'" "erase (noted ms r) = reply r"
  "erase (reply (x, y)) = reply x"
  by (simp_all add: fun_eq_iff erase_def silent_def noting_def noted_def reply_def split: prod.split)

lemma erase_steps [simp]:
  "erase (attempt m h k) = attempt m (\<lambda>e. erase (h e)) (\<lambda>x. erase (k x))"
  "erase (logged m' s) = logged m' (erase s)"
  "erase (drawing d s k') = drawing d (erase s) (\<lambda>x. erase (k' x))"
  "erase (with_now f) = with_now (\<lambda>t. erase (f t))"
  "erase (writeAudit sv r tenant user act rt res s) = writeAudit sv r tenant user act rt res (erase s)"
  by (auto simp: fun_eq_iff erase_def attempt_def logged_def drawing_def with_now_def writeAudit_def
    split: prod.split sum.split option.split)

lemma erase_if [simp]: "erase (if c then s else s') = (if c then erase s else erase s')"
  by simp

text \<open>What holds of every answer of a step, with its measurements.\<close>

definition answers :: "('r \<Rightarrow> bool) \<Rightarrow> 'r step \<Rightarrow> bool" where
  "answers P s \<longleftrightarrow> (\<forall>w. P (fst (s w)))"

named_theorems answers_rules \<open>the answers of the shapes of a handler\<close>

lemma answersD: "answers P s \<Longrightarrow> s w = (x, w') \<Longrightarrow> P x"
  by (metis answers_def fst_conv)

lemma answers_weaken: "answers P s \<Longrightarrow> (\<And>x. P x \<Longrightarrow> Q x) \<Longrightarrow> answers Q s"
  by (simp add: answers_def)

lemma answers_steps [answers_rules]:
  "P x \<Longrightarrow> answers P (reply x)"
  "(\<And>e. answers P (h e)) \<Longrightarrow> (\<And>y. answers P (k y)) \<Longrightarrow> answers P (attempt m h k)"
  "answers P s \<Longrightarrow> answers P (logged m' s)"
  "answers P s \<Longrightarrow> (\<And>z. answers P (k' z)) \<Longrightarrow> answers P (drawing d s k')"
  "(\<And>t. answers P (f t)) \<Longrightarrow> answers P (with_now f)"
  "answers P s \<Longrightarrow> answers P (writeAudit sv r tenant user act rt res s)"
  by (auto simp: answers_def reply_def attempt_def logged_def drawing_def with_now_def writeAudit_def
    split: prod.split sum.split option.split)

lemma answers_branches [answers_rules]:
  "(c \<Longrightarrow> answers P a) \<Longrightarrow> (\<not> c \<Longrightarrow> answers P b) \<Longrightarrow> answers P (if c then a else b)"
  "(opt = None \<Longrightarrow> answers P n) \<Longrightarrow> (\<And>v. opt = Some v \<Longrightarrow> answers P (s v)) \<Longrightarrow> answers P (case_option n s opt)"
  "(\<And>u v. uv = (u, v) \<Longrightarrow> answers P (p u v)) \<Longrightarrow> answers P (case_prod p uv)"
  by (auto split: option.split prod.split)

lemma answers_measured [answers_rules]:
  "answers (\<lambda>x. P (x, [])) s \<Longrightarrow> answers P (silent s)"
  "answers (\<lambda>(x, ms'). P (x, ms @ ms')) s' \<Longrightarrow> answers P (noting ms s')"
  "P (r, ms) \<Longrightarrow> answers P (noted ms r)"
  by (auto simp: answers_def silent_def noting_def noted_def reply_def split: prod.split)
     (metis fst_conv, metis (mono_tags, lifting) case_prod_conv fst_conv)

section \<open>Usage reports\<close>

definition maxCountPerEntry :: int where "maxCountPerEntry = 100000"

fun usage_measurements :: "metrics \<Rightarrow> string \<Rightarrow> usage_entry list \<Rightarrow> measurement list" where
  "usage_measurements m slug [] = []"
| "usage_measurements m slug (u # us) =
     (let n = uu_count u in
      if uu_flag_key u = '''' \<or> n \<le> 0 then usage_measurements m slug us
      else RecordEvaluationsBulk m (if maxCountPerEntry < n then maxCountPerEntry else n)
             [(FeatureFlagKey, uu_flag_key u), (FeatureFlagResultReason, uu_last_reason u), (FlagstoneEnvironment, slug)]
           @ usage_measurements m slug us)"

definition handleSDKUsage_measured :: "metrics \<Rightarrow> server \<Rightarrow> http_request \<Rightarrow> response measured" where
  "handleSDKUsage_measured m sv r =
     (if cx_env r = uuid_nil then noted [] not_authenticated
      else
        (case (case rq_body r of BodyDoc doc _ \<Rightarrow> decode_usage sv doc | _ \<Rightarrow> None) of
           None \<Rightarrow> noted [] (Error 400 ''VALIDATION_ERROR'')
         | Some entries \<Rightarrow>
             (if entries = [] then noted (RecordSDKUsageReport m) NoContent
              else
                attempt (EnvironmentStore_GetByID (cx_env r)) (\<lambda>err. silent (or_not_found ErrEnvironmentNotFound err))
                  (\<lambda>e. noted (usage_measurements m (e_slug e) entries @ RecordSDKUsageReport m) NoContent))))"

lemma usage_erases: "erase (handleSDKUsage_measured m sv r) = handleSDKUsage sv r"
  by (simp add: handleSDKUsage_measured_def handleSDKUsage_def env_by_id_def split: option.split)

text \<open>What a list of measurements adds to the evaluations of a flag key, over all reasons and environments.\<close>

definition credited :: "string \<Rightarrow> measurement list \<Rightarrow> int" where
  "credited key ms =
     (\<Sum>x\<leftarrow>ms. case x of
        Added i n attrs \<Rightarrow> (if i = evaluationsTotal \<and> map_of attrs FeatureFlagKey = Some key then n else 0)
      | _ \<Rightarrow> 0)"

lemma credited_simps [simp]:
  "credited key [] = 0" "credited key (ms @ ms') = credited key ms + credited key ms'"
  "credited key (RecordSDKUsageReport m) = 0"
  by (simp_all add: credited_def record_defs)

lemma usage_credit:
  assumes "has m evaluationsTotal" and "key \<noteq> ''''"
  shows "credited key (usage_measurements m slug us) =
    (\<Sum>u\<leftarrow>us. if uu_flag_key u = key then max 0 (min (uu_count u) maxCountPerEntry) else 0)"
proof (induction us)
  case (Cons u us)
  have "credited key (RecordEvaluationsBulk m n [(FeatureFlagKey, k), (FeatureFlagResultReason, x), (FlagstoneEnvironment, y)]) =
    (if k = key \<and> 0 < n then n else 0)" for n k x y
    using assms(1) by (simp add: credited_def record_defs)
  with Cons.IH assms(2) show ?case by (auto simp: Let_def maxCountPerEntry_def)
qed simp

definition delivered ::
  "metrics \<Rightarrow> server \<Rightarrow> (time \<Rightarrow> string) \<Rightarrow> usage_entry list \<Rightarrow> measurement list \<Rightarrow> bool" where
  "delivered m sv time_text us ms \<longleftrightarrow>
     (\<exists>r w rest. rq_body r = BodyDoc (encode_usage time_text us) rest \<and>
        fst (handleSDKUsage_measured m sv r w) = (NoContent, ms))"

lemma delivered_credit:
  assumes "delivered m sv time_text us ms" and "has m evaluationsTotal" and "key \<noteq> ''''"
    and "\<forall>u\<in>set us. in_int64 (uu_count u) \<and> sv_unmarshal_time sv (time_text (uu_last_eval u)) = Some (uu_last_eval u)"
  shows "credited key ms = (\<Sum>u\<leftarrow>us. if uu_flag_key u = key then max 0 (min (uu_count u) maxCountPerEntry) else 0)"
proof -
  obtain r w rest where body: "rq_body r = BodyDoc (encode_usage time_text us) rest"
    and run: "fst (handleSDKUsage_measured m sv r w) = (NoContent, ms)"
    using assms(1) unfolding delivered_def by blast
  have "answers (\<lambda>(rs, ms). rs = NoContent \<longrightarrow> credited key ms =
      (\<Sum>u\<leftarrow>us. if uu_flag_key u = key then max 0 (min (uu_count u) maxCountPerEntry) else 0)) (handleSDKUsage_measured m sv r)"
    unfolding handleSDKUsage_measured_def body body.case usage_roundtrip [OF assms(4)] option.case or_not_found_def
    by (intro answers_rules) (simp_all add: usage_credit assms(2,3) not_authenticated_def Error_def NoContent_def internal_error_def)
  from this [unfolded answers_def, rule_format, of w] show ?thesis by (simp add: run)
qed

lemma capped_sum:
  assumes "list_all (\<lambda>u. 0 < uu_count u) us"
  shows "(\<Sum>u\<leftarrow>us. if uu_flag_key u = key then max 0 (min (uu_count u) b) else 0) \<le> uses key us"
    and "\<forall>u\<in>set us. uu_count u \<le> b \<Longrightarrow>
      (\<Sum>u\<leftarrow>us. if uu_flag_key u = key then max 0 (min (uu_count u) b) else 0) = uses key us"
  using assms by (induction us) auto

text \<open>C36. Usage end to end: when the server accepted every report a client sent, its evaluation counter was credited,
  over all reasons, at most as many evaluations of a flag as the client made and has not pending; exactly as
  many when no entry of a report is above the server's limit of 100000.\<close>

theorem usage_reaches_metrics:
  assumes "cc_usage c = Some []" and "run_calls env xs c = (us, c')" and "list_all2 (delivered m sv time_text) us mss"
    and "\<forall>u\<in>set (concat us). in_int64 (uu_count u) \<and> sv_unmarshal_time sv (time_text (uu_last_eval u)) = Some (uu_last_eval u)"
    and "has m evaluationsTotal" and "key \<noteq> ''''"
  shows "credited key (concat mss) + uses key (pending c') \<le>
      int (\<Sum>x\<leftarrow>xs. evaluations (map fst (sp_flags (cc_cache c))) key x) \<and>
    ((\<forall>u\<in>set (concat us). uu_count u \<le> maxCountPerEntry) \<longrightarrow>
      credited key (concat mss) + uses key (pending c') =
      int (\<Sum>x\<leftarrow>xs. evaluations (map fst (sp_flags (cc_cache c))) key x))"
proof -
  let ?cap = "\<lambda>us. \<Sum>u\<leftarrow>us. if uu_flag_key u = key then max 0 (min (uu_count u) maxCountPerEntry) else 0"
  note client = fresh_client_counts [OF assms(1,2), of key]
  have "credited key (concat mss) = ?cap (concat us)"
    using assms(3,4)
  proof (induction us mss rule: list_all2_induct)
    case (Cons u us ms mss)
    from delivered_credit [OF Cons.hyps(1) assms(5,6)] Cons show ?case by simp
  qed simp
  with client capped_sum [where us = "concat us" and key = key and b = maxCountPerEntry] show ?thesis by auto
qed

definition sample_metrics :: metrics where "sample_metrics = Some (\<lambda>_. True)"

lemma usage_reaches_metrics_witness:
  "credited ''f'' (snd (fst (handleSDKUsage_measured sample_metrics (sample_server\<lparr>sv_unmarshal_time := \<lambda>s. Some (int (length s))\<rparr>)
     ((sample_request ''POST'' '''' (BodyDoc (encode_usage (\<lambda>t. replicate (nat t) CHR ''x'')
        [\<lparr>uu_flag_key = ''f'', uu_count = 2, uu_last_reason = ''ERROR'', uu_last_eval = 4\<rparr>]) False))\<lparr>cx_env := 1\<rparr>)
     (sample_world sample_db)))) +
     uses ''f'' (pending (snd (run_calls sample_env
       [CallDetail ''f'' [] 1, CallDetail ''f'' [] 4, CallFlush, CallDetail ''f'' [] 6] sample_client))) = 3"
proof -
  let ?xs = "[CallDetail ''f'' [] 1, CallDetail ''f'' [] 4, CallFlush, CallDetail ''f'' [] 6]"
  let ?u = "[\<lparr>uu_flag_key = ''f'', uu_count = 2, uu_last_reason = ''ERROR'', uu_last_eval = 4\<rparr>]"
  let ?sv = "sample_server\<lparr>sv_unmarshal_time := \<lambda>s. Some (int (length s))\<rparr>"
  let ?tt = "\<lambda>t. replicate (nat t) CHR ''x''"
  let ?r = "(sample_request ''POST'' '''' (BodyDoc (encode_usage ?tt ?u) False))\<lparr>cx_env := 1\<rparr>"
  let ?answer = "fst (handleSDKUsage_measured sample_metrics ?sv ?r (sample_world sample_db))"
  have fresh: "cc_usage sample_client = Some []" and "fst (run_calls sample_env ?xs sample_client) = [?u]" by code_simp+
  then have run: "run_calls sample_env ?xs sample_client = ([?u], snd (run_calls sample_env ?xs sample_client))"
    by (metis prod.collapse)
  have "fst ?answer = NoContent" by code_simp
  then have "?answer = (NoContent, snd ?answer)" by (metis prod.collapse)
  then have "delivered sample_metrics ?sv ?tt ?u (snd ?answer)"
    unfolding delivered_def by (intro exI [of _ ?r] exI [of _ "sample_world sample_db"] exI [of _ False])
      (simp add: sample_request_def)
  then have d: "list_all2 (delivered sample_metrics ?sv ?tt) [?u] [snd ?answer]" by simp
  have "has sample_metrics evaluationsTotal" by (simp add: has_def sample_metrics_def)
  from usage_reaches_metrics [OF fresh run d _ this, of "''f''"]
  show ?thesis by (simp add: in_int64_def maxCountPerEntry_def)
qed

section \<open>Sessions\<close>

definition login_failed :: "metrics \<Rightarrow> string \<Rightarrow> response \<Rightarrow> response measured" where
  "login_failed m code rs = noted (RecordAuthLogin m ''failure'' code) rs"

abbreviation login_denied :: "metrics \<Rightarrow> response measured" where
  "login_denied m \<equiv> login_failed m ''INVALID_CREDENTIALS'' (Error 401 ''INVALID_CREDENTIALS'')"

abbreviation login_broken :: "metrics \<Rightarrow> response measured" where
  "login_broken m \<equiv> login_failed m ''INTERNAL_ERROR'' internal_error"

definition tenant_error_measured :: "metrics \<Rightarrow> uuid \<Rightarrow> tenant_error \<Rightarrow> response measured" where
  "tenant_error_measured m user e =
     (case e of
        errMultipleTenants \<Rightarrow> silent (writeMultipleTenants user)
      | errNoTenantAccess \<Rightarrow> login_denied m
      | errTenantMismatch \<Rightarrow> login_denied m
      | errStore s \<Rightarrow> (if s = ErrTenantNotFound \<or> s = ErrNotFound then login_denied m else login_broken m))"

text \<open>\<open>GenerateAccessToken\<close> with the measured answer to its error.\<close>

definition with_token_measured ::
  "server \<Rightarrow> uuid \<Rightarrow> uuid \<Rightarrow> string \<Rightarrow> uuid \<Rightarrow> response measured \<Rightarrow> (string \<Rightarrow> response measured) \<Rightarrow> response measured" where
  "with_token_measured sv user tenant role sid h k =
     with_now (\<lambda>now.
       (case GenerateAccessToken (sv_crypto sv) user tenant role (sv_jwt_secret sv) (sv_access_ttl sv) sid now of
          None \<Rightarrow> h | Some token \<Rightarrow> k token))"

lemma with_token_erases [simp]:
  "erase h = reply internal_error \<Longrightarrow>
   erase (with_token_measured sv user tenant role sid h k) = with_access_token sv user tenant role sid (\<lambda>t. erase (k t))"
  by (auto simp: with_token_measured_def with_access_token_def fun_eq_iff with_now_def erase_def split: option.split)

lemma answers_with_token [answers_rules]:
  "answers P h \<Longrightarrow> (\<And>t. answers P (k t)) \<Longrightarrow> answers P (with_token_measured sv user tenant role sid h k)"
  unfolding with_token_measured_def by (intro answers_rules)

definition open_session_measured ::
  "metrics \<Rightarrow> server \<Rightarrow> http_request \<Rightarrow> user \<Rightarrow> uuid \<Rightarrow> string \<Rightarrow> response measured" where
  "open_session_measured m sv r u tenant role =
     logged (ClearForUser (u_id u))
       (drawing (GenerateRefreshToken (sv_crypto sv) 32) (login_broken m)
         (\<lambda>(refreshRaw, refreshHash). with_now (\<lambda>now.
            attempt (SessionStore_Create (new_session sv r (u_id u) tenant refreshHash now)) (\<lambda>_. login_broken m)
              (\<lambda>s. with_token_measured sv (u_id u) tenant role (s_id s) (login_broken m)
                 (\<lambda>accessToken.
                    logged (UpdateLastLogin (u_id u) now)
                      (writeAudit sv r tenant (u_id u) ''auth.login'' ''user'' (Some (u_id u))
                        (noted (RecordAuthLogin m ''success'' '''') (token_response sv accessToken refreshRaw now))))))))"

definition handleLogin_measured :: "metrics \<Rightarrow> server \<Rightarrow> http_request \<Rightarrow> response measured" where
  "handleLogin_measured m sv r =
     (case DecodeJSON decode_login r of
        Inl e \<Rightarrow> noted [] (writeDecodeError e)
      | Inr req \<Rightarrow>
          (if \<not> validateLogin sv req then silent invalid
           else
             attempt (UserStore_GetByEmail (lr_email req))
               (\<lambda>e. if e = ErrUserNotFound then login_denied m else login_broken m)
               (\<lambda>u. with_now (\<lambda>now.
                  attempt (CountSince (u_id u) (now - loginLockoutWindow)) (\<lambda>_. login_broken m)
                    (\<lambda>count.
                       if maxFailedLoginAttempts \<le> count
                       then login_failed m ''ACCOUNT_LOCKED'' (Error 423 ''ACCOUNT_LOCKED'')
                       else if \<not> password_matches sv u (lr_password req)
                       then recordFailedLogin sv r (u_id u) (login_denied m)
                       else (\<lambda>w.
                         (case resolveUserTenant (u_id u) (lr_tenant_slug req) w of
                            (Inl e, w') \<Rightarrow> tenant_error_measured m (u_id u) e w'
                          | (Inr (tenant, role), w') \<Rightarrow> open_session_measured m sv r u tenant role w')))))))"

text \<open>Refresh: the answer to each failure is counted as one.\<close>

definition refresh_failed :: "metrics \<Rightarrow> response \<Rightarrow> response measured" where
  "refresh_failed m rs = noted (RecordAuthRefresh m ''failure'') rs"

abbreviation refresh_denied :: "metrics \<Rightarrow> response measured" where
  "refresh_denied m \<equiv> refresh_failed m (Error 401 ''INVALID_CREDENTIALS'')"

definition handleRefreshReuse_measured :: "metrics \<Rightarrow> server \<Rightarrow> http_request \<Rightarrow> revoked_token \<Rightarrow> response measured" where
  "handleRefreshReuse_measured m sv r t =
     logged (DeleteByUserID (rt_user t))
       (writeAudit sv r (rt_tenant t) (rt_user t) ''auth.refresh_reuse'' ''user'' (Some (rt_user t))
         (noted (RecordAuthRefresh m ''reuse'') (clearRefreshCookie (Error 401 ''INVALID_CREDENTIALS''))))"

definition rotate_session_measured ::
  "metrics \<Rightarrow> server \<Rightarrow> http_request \<Rightarrow> string \<Rightarrow> session \<Rightarrow> user \<Rightarrow> string \<Rightarrow> time \<Rightarrow> response measured" where
  "rotate_session_measured m sv r refreshHash s u role now =
     drawing (GenerateRefreshToken (sv_crypto sv) 32) (refresh_failed m internal_error)
       (\<lambda>(newRaw, newHash).
          attempt (runInTx (rotate_tx refreshHash u s (new_session sv r (u_id u) (s_tenant s) newHash now)))
            (\<lambda>_. refresh_failed m internal_error)
            (\<lambda>s'. with_token_measured sv (u_id u) (s_tenant s) role (s_id s') (refresh_failed m internal_error)
               (\<lambda>accessToken.
                  writeAudit sv r (s_tenant s) (u_id u) ''auth.refresh'' ''session'' (Some (s_id s'))
                    (noted (RecordAuthRefresh m ''success'') (token_response sv accessToken newRaw now)))))"

definition handleRefresh_measured :: "metrics \<Rightarrow> server \<Rightarrow> http_request \<Rightarrow> response measured" where
  "handleRefresh_measured m sv r =
     (case refresh_cookie r of
        None \<Rightarrow> refresh_denied m
      | Some raw \<Rightarrow>
          (let refreshHash = HashRefreshToken (sv_crypto sv) raw in
           attempt (RevokedTokenStore_Lookup refreshHash)
             (\<lambda>e. if e \<noteq> ErrNotFound then refresh_failed m internal_error
               else
                 attempt (GetByRefreshHash refreshHash) (\<lambda>_. refresh_denied m)
                   (\<lambda>s. with_now (\<lambda>now.
                      if \<not> now < s_expires s
                      then logged (SessionStore_DeleteByID (s_id s)) (refresh_denied m)
                      else
                        attempt (UserStore_GetByID (s_user s)) (\<lambda>_. refresh_denied m)
                          (\<lambda>u. attempt (GetRole (s_tenant s) (s_user s)) (\<lambda>_. refresh_denied m)
                             (\<lambda>role. rotate_session_measured m sv r refreshHash s u role now)))))
             (\<lambda>t. handleRefreshReuse_measured m sv r t)))"

definition handleLogout_measured :: "metrics \<Rightarrow> server \<Rightarrow> http_request \<Rightarrow> response measured" where
  "handleLogout_measured m sv r =
     (case UserID (sv_crypto sv) (cx_claims r) of
        None \<Rightarrow> noted [] (Error 401 ''INVALID_CREDENTIALS'')
      | Some user \<Rightarrow>
     (case TenantUUID (sv_crypto sv) (cx_claims r) of
        None \<Rightarrow> noted [] (Error 401 ''INVALID_CREDENTIALS'')
      | Some tenant \<Rightarrow>
     (let finish = writeAudit sv r tenant user ''auth.logout'' ''user'' (Some user)
                     (noted (RecordAuthLogout m) (clearRefreshCookie NoContent)) in
      case refresh_cookie r of
        None \<Rightarrow> finish
      | Some raw \<Rightarrow>
          (let refreshHash = HashRefreshToken (sv_crypto sv) raw in
           attempt (GetByRefreshHash refreshHash) (\<lambda>_. finish)
             (\<lambda>s. logged (runInTx (logout_tx refreshHash s)) finish)))))"

lemma erase_cases [simp]:
  "erase (case_prod p uv) = (case uv of (u, v) \<Rightarrow> erase (p u v))"
  "erase (case_option n s opt) = (case opt of None \<Rightarrow> erase n | Some v \<Rightarrow> erase (s v))"
  "erase (case_sum l r' z) = (case z of Inl e \<Rightarrow> erase (l e) | Inr v \<Rightarrow> erase (r' v))"
  by (simp_all split: prod.split option.split sum.split)

lemma tenant_error_erases [simp]: "erase (tenant_error_measured m user e) = tenant_error_reply user e"
  by (auto simp: tenant_error_measured_def tenant_error_reply_def login_failed_def invalid_credentials_def split: tenant_error.split)

lemma open_session_erases [simp]: "erase (open_session_measured m sv r u tenant role) = open_session sv r u tenant role"
  by (simp add: open_session_measured_def open_session_def login_failed_def or_internal_def [abs_def] case_prod_beta')

lemma resolved_erases:
  "erase (\<lambda>w. case resolveUserTenant user slug w of
       (Inl e, w') \<Rightarrow> tenant_error_measured m user e w'
     | (Inr (tenant, role), w') \<Rightarrow> open_session_measured m sv r u tenant role w') =
   (\<lambda>w. case resolveUserTenant user slug w of
       (Inl e, w') \<Rightarrow> tenant_error_reply user e w'
     | (Inr (tenant, role), w') \<Rightarrow> open_session sv r u tenant role w')"
  using tenant_error_erases [unfolded fun_eq_iff erase_def] open_session_erases [unfolded fun_eq_iff erase_def]
  by (auto simp: fun_eq_iff erase_def split: prod.split sum.split)

lemma login_erases: "erase (handleLogin_measured m sv r) = handleLogin sv r"
  by (simp add: handleLogin_measured_def handleLogin_def decoding_def login_failed_def or_internal_def [abs_def]
    invalid_credentials_def recordFailedLogin_def resolved_erases cong: sum.case_cong option.case_cong if_cong)

lemma refresh_erases: "erase (handleRefresh_measured m sv r) = handleRefresh sv r"
  by (simp add: handleRefresh_measured_def handleRefresh_def Let_def refresh_failed_def or_internal_def [abs_def]
    invalid_credentials_def handleRefreshReuse_measured_def handleRefreshReuse_def rotate_session_measured_def
    rotate_session_def case_prod_beta' cong: option.case_cong if_cong)

lemma logout_erases: "erase (handleLogout_measured m sv r) = handleLogout sv r"
  by (simp add: handleLogout_measured_def handleLogout_def user_of_def tenant_of_def Let_def cong: option.case_cong)

text \<open>What an answer must have added to the counters.\<close>

definition login_counted :: "metrics \<Rightarrow> response \<times> measurement list \<Rightarrow> bool" where
  "login_counted m = (\<lambda>(rs, ms).
     if rs_status rs = 200 then ms = RecordAuthLogin m ''success'' ''''
     else if rs_status rs \<in> {401, 423} then ms = RecordAuthLogin m ''failure'' (rs_code rs)
     else if rs_status rs = 500 then ms \<in> {[], RecordAuthLogin m ''failure'' ''INTERNAL_ERROR''}
     else ms = [])"

definition refresh_counted :: "metrics \<Rightarrow> response \<times> measurement list \<Rightarrow> bool" where
  "refresh_counted m = (\<lambda>(rs, ms).
     ms = RecordAuthRefresh m
       (if rs_status rs = 200 then ''success'' else if rs_cookie rs = None then ''failure'' else ''reuse''))"

definition logout_counted :: "metrics \<Rightarrow> response \<times> measurement list \<Rightarrow> bool" where
  "logout_counted m = (\<lambda>(rs, ms). ms = (if rs_status rs = 204 then RecordAuthLogout m else []))"

lemma decode_error_status: "rs_status (writeDecodeError e) \<in> {400, 413, 415}"
  by (cases e) (simp_all add: writeDecodeError_def)

lemma internal_error_simps [simp]: "rs_code internal_error = ''INTERNAL_ERROR''" "rs_cookie internal_error = None"
  by (simp_all add: internal_error_def)

lemma multiple_tenants_counted: "answers (login_counted m) (silent (writeMultipleTenants user))"
proof -
  have summaries: "answers P (tenant_summaries ms acc k)" if "\<And>acc. answers P (k acc)" for P ms acc and k :: "_ \<Rightarrow> response step"
    using that by (induction ms arbitrary: acc) (auto intro: answers_rules)
  have "answers (\<lambda>rs. rs_status rs \<in> {409, 500}) (writeMultipleTenants user)"
    unfolding writeMultipleTenants_def or_internal_def by (intro answers_rules summaries) simp_all
  then show ?thesis by (auto intro!: answers_measured elim!: answers_weaken simp: login_counted_def)
qed

lemma login_failed_counted:
  "answers (login_counted m) (login_denied m)" "answers (login_counted m) (login_broken m)"
  "answers (login_counted m) (login_failed m ''ACCOUNT_LOCKED'' (Error 423 ''ACCOUNT_LOCKED''))"
  unfolding login_failed_def by (intro answers_rules, simp add: login_counted_def)+

lemma tenant_error_counted: "answers (login_counted m) (tenant_error_measured m user e)"
  by (cases e) (simp_all add: tenant_error_measured_def multiple_tenants_counted login_failed_counted)

lemma open_session_counted: "answers (login_counted m) (open_session_measured m sv r u tenant role)"
  unfolding open_session_measured_def
  by (intro answers_rules login_failed_counted) (simp add: login_counted_def)

lemma login_answers: "answers (login_counted m) (handleLogin_measured m sv r)"
proof -
  have resolved: "answers (login_counted m) (\<lambda>w. case resolveUserTenant user slug w of
       (Inl e, w') \<Rightarrow> tenant_error_measured m user e w'
     | (Inr (tenant, role), w') \<Rightarrow> open_session_measured m sv r u tenant role w')" for user slug u
    using tenant_error_counted open_session_counted by (auto simp: answers_def split: prod.split sum.split)
  have "answers (login_counted m) (noted [] (writeDecodeError e))" for e
    using decode_error_status [of e] by (intro answers_rules) (auto simp: login_counted_def)
  moreover have "answers (login_counted m) (silent invalid)"
    unfolding invalid_def by (intro answers_rules) (simp add: login_counted_def)
  ultimately show ?thesis
    unfolding handleLogin_measured_def recordFailedLogin_def
    by (cases "DecodeJSON decode_login r") (auto intro!: answers_rules login_failed_counted resolved)
qed

lemma refresh_answers: "answers (refresh_counted m) (handleRefresh_measured m sv r)"
proof -
  have fails: "answers (refresh_counted m) (refresh_denied m)" "answers (refresh_counted m) (refresh_failed m internal_error)"
    unfolding refresh_failed_def by (intro answers_rules, simp add: refresh_counted_def)+
  show ?thesis
    unfolding handleRefresh_measured_def handleRefreshReuse_measured_def rotate_session_measured_def Let_def
    by (intro answers_rules fails) (simp_all add: refresh_counted_def clearRefreshCookie_def)
qed

lemma logout_answers: "answers (logout_counted m) (handleLogout_measured m sv r)"
  unfolding handleLogout_measured_def Let_def
  by (intro answers_rules) (simp_all add: logout_counted_def clearRefreshCookie_def)

text \<open>C18. The counters of logins, refreshes and logouts.  The measured handlers answer what the handlers answer, and
  count: a login answered 200 as one success, one answered 401 or 423 as one failure with the code of the
  answer, one answered 500 not at all or as one failure \<open>INTERNAL_ERROR\<close>, and no other login (requests that cannot be
  read, users asked for their tenant); every refresh exactly once and without a code, as a success when it is
  answered 200, as reuse when another answer clears the cookie, and as a failure otherwise, server errors
  included; a logout exactly when it is answered 204, and a refused one not at all.\<close>

theorem auth_counters_true:
  "login_counted m (fst (handleLogin_measured m sv r w)) \<and> erase (handleLogin_measured m sv r) = handleLogin sv r \<and>
   refresh_counted m (fst (handleRefresh_measured m sv r w)) \<and> erase (handleRefresh_measured m sv r) = handleRefresh sv r \<and>
   logout_counted m (fst (handleLogout_measured m sv r w)) \<and> erase (handleLogout_measured m sv r) = handleLogout sv r"
  using login_answers refresh_answers logout_answers login_erases refresh_erases logout_erases
  by (auto simp: answers_def)

section \<open>Evaluations\<close>

fun error_kind_text :: "error_kind \<Rightarrow> string" where
  "error_kind_text ErrorKindPanic = ''panic''"
| "error_kind_text ErrorKindInvalidRegex = ''invalid_regex''"

fun warning_kind_text :: "warning_kind \<Rightarrow> string" where
  "warning_kind_text WarnKindUnknownOp = ''unknown_op''"
| "warning_kind_text WarnKindMaxConditionDepth = ''max_condition_depth''"

text \<open>The callbacks \<open>NewServer\<close> gives the engine; without metrics there are none.\<close>

fun notice_measurement :: "metrics \<Rightarrow> notice \<Rightarrow> measurement list" where
  "notice_measurement m (OnError k) = RecordEngineError m (error_kind_text k) []"
| "notice_measurement m (OnWarn k) = RecordEngineWarning m (warning_kind_text k) []"

definition evaluation_attributes :: "string \<Rightarrow> evaluate_result \<Rightarrow> string \<Rightarrow> attributes" where
  "evaluation_attributes key res slug =
     [(FeatureFlagKey, key), (FeatureFlagResultReason, reason_string (er_reason res)), (FlagstoneEnvironment, slug)]"

text \<open>What both endpoints record of one result.\<close>

definition evaluation_measurements :: "metrics \<Rightarrow> string \<Rightarrow> evaluate_result \<Rightarrow> string \<Rightarrow> measurement list" where
  "evaluation_measurements m key res slug =
     (let attrs = evaluation_attributes key res slug in
      RecordEvaluation m attrs @ RecordEvaluationDuration m attrs @
      (if er_reason res = InternalErr then RecordEngineError m (error_kind_text ErrorKindPanic) [] else []))"

definition evaluate_stored_measured ::
  "metrics \<Rightarrow> server \<Rightarrow> string \<Rightarrow> environment \<Rightarrow> flag \<Rightarrow> flag_environment \<Rightarrow> segments \<Rightarrow> ctx \<Rightarrow> response measured" where
  "evaluate_stored_measured m sv flagKey e f c segs x =
     (case buildFlagConfig f c of
        None \<Rightarrow> noted [] internal_error
      | Some fc \<Rightarrow>
          (case Evaluate (sv_regex sv) counting \<lparr>rq_flag = fc, rq_segments = segs, rq_context = x\<rparr> of
             (None, ns) \<Rightarrow> noted (concat (map (notice_measurement m) ns)) internal_error
           | (Some res, ns) \<Rightarrow>
               noted (concat (map (notice_measurement m) ns) @ evaluation_measurements m flagKey res (e_slug e))
                 (JSON 200 (PEvaluation (f_key f) res))))"

definition handleEvaluateFlag_measured :: "metrics \<Rightarrow> server \<Rightarrow> http_request \<Rightarrow> response measured" where
  "handleEvaluateFlag_measured m sv r =
     (let envID = cx_env r; flagKey = path_value r ''key'' in
      if envID = uuid_nil then noted [] not_authenticated
      else if flagKey = '''' then noted [] (Error 400 ''VALIDATION_ERROR'')
      else
        (case DecodeJSON decode_evaluate r of
           Inl e \<Rightarrow> noted [] (writeDecodeError e)
         | Inr x \<Rightarrow>
        (if \<not> validateEvalContext x then noted [] (Error 400 ''VALIDATION_ERROR'')
         else
          attempt (EnvironmentStore_GetByID envID) (\<lambda>err. silent (or_not_found ErrEnvironmentNotFound err)) (\<lambda>e.
          attempt (FlagStore_GetByKey (e_project e) flagKey)
            (\<lambda>err. noted [] (if err = ErrFlagNotFound then JSON 200 (PEvaluation flagKey flag_not_found)
                              else internal_error))
            (\<lambda>f. attempt (FlagEnvironmentStore_Get (f_id f) envID)
               (\<lambda>err. noted [] (if err = ErrNotFound then JSON 200 (PEvaluation (f_key f) flag_not_found)
                                 else internal_error))
               (\<lambda>c. attempt (loadEngineSegments (e_project e)) (\<lambda>err. silent (or_internal err))
                  (\<lambda>segs. evaluate_stored_measured m sv flagKey e f c segs (context_of x))))))))"

text \<open>The notices of the flags of a bulk evaluation, in the order of the evaluations.\<close>

definition bulk_notices :: "server \<Rightarrow> flag_config list \<Rightarrow> segments \<Rightarrow> ctx \<Rightarrow> notice list" where
  "bulk_notices sv fcs segs x =
     concat (map (\<lambda>fc. snd (Evaluate (sv_regex sv) counting \<lparr>rq_flag = fc, rq_segments = segs, rq_context = x\<rparr>)) fcs)"

definition handleEvaluateFlags_measured :: "metrics \<Rightarrow> server \<Rightarrow> http_request \<Rightarrow> response measured" where
  "handleEvaluateFlags_measured m sv r =
     (let envID = cx_env r in
      if envID = uuid_nil then noted [] not_authenticated
      else
        (case DecodeJSON decode_evaluate r of
           Inl e \<Rightarrow> noted [] (writeDecodeError e)
         | Inr x \<Rightarrow>
        (if \<not> validateEvalContext x then noted [] (Error 400 ''VALIDATION_ERROR'')
         else
          attempt (EnvironmentStore_GetByID envID) (\<lambda>err. silent (or_not_found ErrEnvironmentNotFound err)) (\<lambda>e.
          attempt (FlagEnvironmentStore_ListByEnvironment envID) (\<lambda>err. silent (or_internal err))
            (\<lambda>cs. attempt (loadEngineSegments (e_project e)) (\<lambda>err. silent (or_internal err))
               (\<lambda>segs. with_now (\<lambda>now.
                  (let fcs = readable_configs cs;
                       ns = concat (map (notice_measurement m) (bulk_notices sv fcs segs (context_of x))) in
                   case EvaluateAll (sv_regex sv) counting fcs segs (context_of x) of
                     None \<Rightarrow> noted ns internal_error
                   | Some results \<Rightarrow>
                       noted (ns @ concat (map (\<lambda>(key, res). evaluation_measurements m key res (e_slug e)) results))
                         (JSON 200 (PEvaluations results (e_slug e) now))))))))))"

lemma env_by_id_measured: "erase (silent (or_not_found ErrEnvironmentNotFound err)) = or_not_found ErrEnvironmentNotFound err"
  by simp

lemma evaluate_stored_erases [simp]:
  "erase (evaluate_stored_measured m sv flagKey e f c segs x) = reply (evaluate_stored sv f c segs x)"
  by (auto simp: evaluate_stored_measured_def evaluate_stored_def split: option.split prod.split)

lemma evaluate_erases: "erase (handleEvaluateFlag_measured m sv r) = handleEvaluateFlag sv r"
  by (simp add: handleEvaluateFlag_measured_def handleEvaluateFlag_def decoding_def env_by_id_def Let_def or_internal_def [abs_def]
    cong: sum.case_cong if_cong)

lemma bulk_erases: "erase (handleEvaluateFlags_measured m sv r) = handleEvaluateFlags sv r"
  by (simp add: handleEvaluateFlags_measured_def handleEvaluateFlags_def decoding_def env_by_id_def Let_def or_internal_def [abs_def]
    cong: sum.case_cong if_cong option.case_cong)

text \<open>A panic of an evaluation is reported twice: by the callback of the engine and by the endpoint.\<close>

definition panics_counted :: "measurement list \<Rightarrow> int" where
  "panics_counted ms = (\<Sum>x\<leftarrow>ms. case x of
     Added i n attrs \<Rightarrow> (if i = engineErrorsTotal \<and> attrs = [(FlagstoneEngineErrorType, ''panic'')] then n else 0) | _ \<Rightarrow> 0)"

lemma panics_counted_append [simp]: "panics_counted (ms @ ms') = panics_counted ms + panics_counted ms'"
  by (simp add: panics_counted_def)

lemma panics_of_notices: "0 \<le> panics_counted (concat (map (notice_measurement m) ns))"
proof (induction ns)
  case (Cons x xs)
  have "0 \<le> panics_counted (notice_measurement m x)" by (cases x) (simp_all add: panics_counted_def record_defs)
  with Cons show ?case by simp
qed (simp add: panics_counted_def)

lemma rule_loop_reason: "rule_loop rx hook ctx segs fc i rs = (Some res, ns) \<Longrightarrow> er_reason res \<noteq> InternalErr"
  by (induction rs arbitrary: i res ns) (auto simp: default_result_def split: prod.splits option.splits if_splits)

lemma panic_counted_twice:
  assumes "Evaluate rx hook req = (Some res, ns)" and "er_reason res = InternalErr" and "has m engineErrorsTotal"
  shows "2 \<le> panics_counted (concat (map (notice_measurement m) ns) @ evaluation_measurements m key res slug)"
proof -
  have e: "panics_counted (RecordEngineError m ''panic'' []) = 1" using assms(3) by (simp add: panics_counted_def record_defs)
  from assms(1,2) have "\<exists>ns'. ns = ns' @ [OnError ErrorKindPanic]"
    by (auto simp: Evaluate_def Let_def disabled_result_def dest!: rule_loop_reason split: if_splits prod.splits option.splits)
  moreover have "panics_counted (evaluation_measurements m key res slug) = 1"
    using assms(2) e by (simp add: evaluation_measurements_def Let_def) (simp add: panics_counted_def record_defs)
  ultimately show ?thesis using panics_of_notices [of m] e by auto
qed

text \<open>Whoever gets a result of the engine is counted once under the result's reason; flags that are not found are not.\<close>

definition evaluations_added :: "measurement list \<Rightarrow> int" where
  "evaluations_added ms = (\<Sum>x\<leftarrow>ms. case x of Added i n attrs \<Rightarrow> (if i = evaluationsTotal then n else 0) | _ \<Rightarrow> 0)"

lemma evaluations_added_simps [simp]:
  "evaluations_added [] = 0" "evaluations_added (ms @ ms') = evaluations_added ms + evaluations_added ms'"
  by (simp_all add: evaluations_added_def)

lemma evaluation_added:
  "has m evaluationsTotal \<Longrightarrow> evaluations_added (evaluation_measurements m key res slug) = 1"
  by (simp add: evaluation_measurements_def Let_def evaluations_added_def record_defs)

lemma notices_add_no_evaluations [simp]: "evaluations_added (concat (map (notice_measurement m) ns)) = 0"
proof (induction ns)
  case (Cons x xs)
  have "evaluations_added (notice_measurement m x) = 0" by (cases x) (simp_all add: evaluations_added_def record_defs)
  with Cons show ?case by simp
qed simp

lemma bulk_added:
  "has m evaluationsTotal \<Longrightarrow>
   evaluations_added (concat (map (\<lambda>(key, res). evaluation_measurements m key res slug) results)) = int (length results)"
  by (induction results) (auto simp: evaluation_added)

lemma bulk_counts_each_flag:
  assumes "has m evaluationsTotal"
  shows "answers (\<lambda>(rs, ms). evaluations_added ms =
      (case rs_payload rs of PEvaluations results slug now \<Rightarrow> int (length results) | _ \<Rightarrow> 0)) (handleEvaluateFlags_measured m sv r)"
proof -
  have refused: "rs_payload (writeDecodeError e) = PNone" for e by (cases e) (simp_all add: writeDecodeError_def)
  show ?thesis
    unfolding handleEvaluateFlags_measured_def Let_def
    by (cases "DecodeJSON decode_evaluate r"; simp only: sum.case; intro answers_rules)
       (simp_all add: refused bulk_added assms not_authenticated_def or_not_found_def or_internal_def answers_def reply_def)
qed

section \<open>Snapshots\<close>

text \<open>The measurements of an answer; \<open>None\<close> is the panic of a nil counter.\<close>

definition snapshot_fetched :: "metrics \<Rightarrow> string \<Rightarrow> string \<Rightarrow> response \<Rightarrow> (response \<times> measurement list option) step" where
  "snapshot_fetched m slug status rs =
     reply (rs, RecordSnapshotFetch m [(FlagstoneEnvironment, slug), (FlagstoneStatus, status)])"

definition handleSDKSnapshot_measured ::
  "metrics \<Rightarrow> server \<Rightarrow> http_request \<Rightarrow> (response \<times> measurement list option) step" where
  "handleSDKSnapshot_measured m sv r =
     (let envID = cx_env r in
      if envID = uuid_nil then reply (not_authenticated, Some [])
      else
        attempt (EnvironmentStore_GetByID envID)
          (\<lambda>err. reply (if err = ErrEnvironmentNotFound then Error 404 ''NOT_FOUND'' else internal_error, Some [])) (\<lambda>e.
        attempt (FlagEnvironmentStore_ListByEnvironment envID) (\<lambda>_. snapshot_fetched m (e_slug e) ''error'' internal_error)
          (\<lambda>cs. attempt (SegmentStore_ListByProject (e_project e))
             (\<lambda>_. snapshot_fetched m (e_slug e) ''error'' internal_error)
             (\<lambda>gs. with_now (\<lambda>now.
                snapshot_fetched m (e_slug e) ''success'' (JSON 200 (PSnapshot
                  \<lparr>sn_environment = e_slug e, sn_flags = snapshot_flags cs,
                   sn_segments = engine_segments gs, sn_fetched_at = now\<rparr>)))))))"

lemma snapshot_erases: "erase (handleSDKSnapshot_measured m sv r) = handleSDKSnapshot sv r"
  by (simp add: handleSDKSnapshot_measured_def handleSDKSnapshot_def env_by_id_def Let_def snapshot_fetched_def
    or_internal_def [abs_def] or_not_found_def [abs_def])

lemma snapshot_never_panics:
  assumes "m = None \<or> NewMetrics makes = Inr m"
  shows "answers (\<lambda>(rs, ms). ms \<noteq> None) (handleSDKSnapshot_measured m sv r)"
  unfolding handleSDKSnapshot_measured_def Let_def snapshot_fetched_def
  using snapshot_measurement_safe [OF assms] by (intro answers_rules) simp_all

section \<open>Keys and limits\<close>

text \<open>The callbacks of the server's middleware.\<close>

definition AuthAPIKey_measured ::
  "metrics \<Rightarrow> server \<Rightarrow> (http_request \<Rightarrow> response measured) \<Rightarrow> http_request \<Rightarrow> response measured" where
  "AuthAPIKey_measured m sv next r =
     (case extractBearerToken r of
        None \<Rightarrow> noted (RecordAuthAPIKeyValidation m ''missing_token'') not_authenticated
      | Some rawKey \<Rightarrow>
          attempt (GetByHash (HashAPIKey (sv_crypto sv) rawKey))
            (\<lambda>e. noted (RecordAuthAPIKeyValidation m ''invalid'') not_authenticated)
            (\<lambda>key. with_now (\<lambda>now.
               (if (case k_expires key of None \<Rightarrow> False | Some t \<Rightarrow> \<not> now < t)
                then noted (RecordAuthAPIKeyValidation m ''expired'') not_authenticated
                else noting (RecordAuthAPIKeyValidation m ''success'')
                       (logged (UpdateLastUsed (k_id key) now)
                         (next (r\<lparr>cx_env := k_env key, cx_api_key := k_id key\<rparr>)))))))"

lemma api_key_erases: "erase (AuthAPIKey_measured m sv next r) = AuthAPIKey sv (\<lambda>r. erase (next r)) r"
  by (simp add: AuthAPIKey_measured_def AuthAPIKey_def cong: option.case_cong if_cong)

definition RateLimit_login_measured ::
  "metrics \<Rightarrow> (http_request \<Rightarrow> response measured) \<Rightarrow> http_request \<Rightarrow> response measured" where
  "RateLimit_login_measured m next r w =
     (case Allow 5 minute (remote_ip r) (clock w (tick w)) (login_windows w) of
        (True, l) \<Rightarrow> next r (w\<lparr>login_windows := l\<rparr>)
      | (False, l) \<Rightarrow> noted (RecordAuthRateLimitHit m ''login'') rate_limited (w\<lparr>login_windows := l\<rparr>))"

definition RateLimit_refresh_measured ::
  "metrics \<Rightarrow> (http_request \<Rightarrow> response measured) \<Rightarrow> http_request \<Rightarrow> response measured" where
  "RateLimit_refresh_measured m next r w =
     (case Allow 10 minute (remote_ip r) (clock w (tick w)) (refresh_windows w) of
        (True, l) \<Rightarrow> next r (w\<lparr>refresh_windows := l\<rparr>)
      | (False, l) \<Rightarrow> noted (RecordAuthRateLimitHit m ''refresh'') rate_limited (w\<lparr>refresh_windows := l\<rparr>))"

lemma rate_limits_erase:
  "erase (RateLimit_login_measured m next r) = RateLimit_login (\<lambda>r. erase (next r)) r"
  "erase (RateLimit_refresh_measured m next r) = RateLimit_refresh (\<lambda>r. erase (next r)) r"
  by (auto simp: fun_eq_iff erase_def RateLimit_login_measured_def RateLimit_login_def RateLimit_refresh_measured_def
    RateLimit_refresh_def noted_def noting_def silent_def reply_def split: prod.split bool.split)

text \<open>The measured login behind its limiter is the login of the routes.\<close>

lemma limited_login_erases:
  "erase (RateLimit_login_measured m (handleLogin_measured m sv) r) = RateLimit_login (handleLogin sv) r"
  by (simp add: rate_limits_erase login_erases)

section \<open>Streams\<close>

text \<open>What the cases of \<open>Hub.Run\<close> record.\<close>

definition register_measurements :: "metrics \<Rightarrow> client \<Rightarrow> hub \<Rightarrow> measurement list" where
  "register_measurements m cl h =
     (if hb_perKeyCap h \<le> hb_perKey h (cl_key cl) then [] else AddSSEConnectionDelta m 1)"

definition unregister_measurements :: "metrics \<Rightarrow> measurement list" where
  "unregister_measurements m = AddSSEConnectionDelta m (- 1)"

definition publish_measurements :: "metrics \<Rightarrow> stream_event \<Rightarrow> measurement list" where
  "publish_measurements m ev = RecordSSEEvent m (se_type ev)"

definition connections_added :: "measurement list \<Rightarrow> int" where
  "connections_added ms = (\<Sum>x\<leftarrow>ms. case x of Added i n attrs \<Rightarrow> (if i = sseConnectionsActive then n else 0) | _ \<Rightarrow> 0)"

text \<open>The gauge of active connections follows the count of the hub's model, which \<open>hub_bounds\<close> is about.\<close>

lemma gauge_follows:
  assumes "has m sseConnectionsActive"
  shows "hub_register c cl h = Some h' \<Longrightarrow>
      hb_connections h' = hb_connections h + connections_added (register_measurements m cl h)"
    and "hub_unregister c cl h = Some h' \<Longrightarrow>
      hb_connections h' = hb_connections h + connections_added (unregister_measurements m)"
    and "hub_publish reached ev h = Some h' \<Longrightarrow>
      hb_connections h' = hb_connections h + connections_added (publish_measurements m ev)"
  using assms
  by (auto simp: hub_register_def hub_unregister_def hub_publish_def broadcast_def persistToRedis_def forget_def Let_def
    register_measurements_def unregister_measurements_def publish_measurements_def connections_added_def record_defs
    split: if_splits option.splits)

end
