(* ===== verification/Seed.thy ===== *)
theory Seed
  imports Outcomes Samples Process Documents
begin

text \<open>
  \<open>cmd/seed/main.go\<close>: the program that fills a new instance with demo data, as a client of the API's model.

  \<^item> \<open>seed_client\<close>: the server it talks to, a request as the transport delivers it, and what the network does
    with the n-th request (\<open>Lost\<close> before or \<open>Unanswered\<close> after the server handled it).
  \<^item> A body is its document, an answer its payload; a payload of another shape leaves the members a
    \<open>json.Unmarshal\<close> does not find at their zero values.
  \<^item> Every operation returns its error or its result, with the world and the log of the requests sent.
\<close>

datatype delivery = Answered | Lost | Unanswered

record seed_client =
  sc_server :: server
  sc_base :: "json option \<Rightarrow> http_request"
  sc_net :: "nat \<Rightarrow> delivery"

datatype seed_error =
    HttpError nat
  | RequestFailed
  | DecodeFailed
  | Missing string

type_synonym exchange = "string \<times> string list \<times> nat option"
type_synonym seed_state = "world \<times> exchange list"
type_synonym 'a seed_op = "seed_state \<Rightarrow> (seed_error + 'a) \<times> seed_state"

definition isConflict :: "seed_error \<Rightarrow> bool" where
  "isConflict e = (e = HttpError 409)"

section \<open>Requests\<close>

definition seed_request :: "seed_client \<Rightarrow> string \<Rightarrow> json option \<Rightarrow> string \<Rightarrow> http_request" where
  "seed_request c m body token =
     (sc_base c body)\<lparr>rq_method := m,
       rq_body := (case body of None \<Rightarrow> NoBody | Some doc \<Rightarrow> BodyDoc doc False),
       rq_content_type := (if body = None then '''' else ''application/json''),
       rq_authorization := (if token = '''' then '''' else ''Bearer '' @ token)\<rparr>"

definition doJSON ::
  "seed_client \<Rightarrow> string \<Rightarrow> string list \<Rightarrow> json option \<Rightarrow> string \<Rightarrow> (payload \<Rightarrow> 'a option) \<Rightarrow> 'a seed_op" where
  "doJSON c m path body token out = (\<lambda>(w, log).
     case sc_net c (length log) of
       Lost \<Rightarrow> (Inl RequestFailed, w, log @ [(m, path, None)])
     | Unanswered \<Rightarrow>
         (Inl RequestFailed, snd (serve (sc_server c) path (seed_request c m body token) w), log @ [(m, path, None)])
     | Answered \<Rightarrow>
         (case serve (sc_server c) path (seed_request c m body token) w of (rs, w') \<Rightarrow>
            ((if rs_status rs < 200 \<or> 300 \<le> rs_status rs then Inl (HttpError (rs_status rs))
              else (case out (rs_payload rs) of None \<Rightarrow> Inl DecodeFailed | Some x \<Rightarrow> Inr x)),
             w', log @ [(m, path, Some (rs_status rs))])))"

definition api :: "string list \<Rightarrow> string list" where "api path = ''api'' # ''v1'' # path"

definition no_output :: "payload \<Rightarrow> unit option" where "no_output p = Some ()"

definition then_do :: "'a seed_op \<Rightarrow> ('a \<Rightarrow> 'b seed_op) \<Rightarrow> 'b seed_op" where
  "then_do m k s = (case m s of (Inl e, s') \<Rightarrow> (Inl e, s') | (Inr x, s') \<Rightarrow> k x s')"

definition return_seed :: "(seed_error + 'a) \<Rightarrow> 'a seed_op" where
  "return_seed x s = (x, s)"

text \<open>\<open>err != nil && !isConflict(err)\<close>.\<close>

definition unless_conflict :: "unit seed_op \<Rightarrow> unit seed_op" where
  "unless_conflict m s =
     (case m s of (Inl e, s') \<Rightarrow> ((if isConflict e then Inr () else Inl e), s') | (Inr x, s') \<Rightarrow> (Inr x, s'))"

section \<open>Endpoints\<close>

definition adminEmail :: string where "adminEmail = ''admin@acme.com''"
definition adminPassword :: string where "adminPassword = ''password123''"
definition tenantName :: string where "tenantName = ''Acme''"
definition projectSlug :: string where "projectSlug = ''my-app''"
definition projectName :: string where "projectName = ''My App''"

definition getSetupStatus :: "seed_client \<Rightarrow> bool seed_op" where
  "getSetupStatus c =
     doJSON c ''GET'' (api [''setup'', ''status'']) None ''''
       (\<lambda>p. Some (case p of PSetupStatus b \<Rightarrow> b | _ \<Rightarrow> False))"

definition postSetup :: "seed_client \<Rightarrow> string seed_op" where
  "postSetup c =
     then_do
       (doJSON c ''POST'' (api [''setup''])
          (Some (JObj [(''admin_email'', JStr adminEmail), (''admin_password'', JStr adminPassword),
                       (''tenant_name'', JStr tenantName)])) ''''
          (\<lambda>p. Some (case p of PSetup tenant user token \<Rightarrow> token | _ \<Rightarrow> '''')))
       (\<lambda>token. return_seed (if token = '''' then Inl (Missing ''access_token'') else Inr token))"

definition createProject :: "seed_client \<Rightarrow> string \<Rightarrow> unit seed_op" where
  "createProject c token =
     doJSON c ''POST'' (api [''projects'']) (Some (JObj [(''name'', JStr projectName), (''slug'', JStr projectSlug)])) token
       no_output"

text \<open>An answer that is not an array does not decode.\<close>

definition listEnvironments :: "seed_client \<Rightarrow> string \<Rightarrow> string list seed_op" where
  "listEnvironments c token =
     doJSON c ''GET'' (api [''projects'', projectSlug, ''environments'']) None token
       (\<lambda>p. case p of PEnvironments es \<Rightarrow> Some (map e_slug es) | _ \<Rightarrow> None)"

definition createAPIKey :: "seed_client \<Rightarrow> string \<Rightarrow> string \<Rightarrow> string \<Rightarrow> string seed_op" where
  "createAPIKey c token envSlug name =
     then_do
       (doJSON c ''POST'' (api [''projects'', projectSlug, ''environments'', envSlug, ''apikeys''])
          (Some (JObj [(''name'', JStr name)])) token
          (\<lambda>p. Some (case p of PApiKeyCreated k key \<Rightarrow> key | _ \<Rightarrow> '''')))
       (\<lambda>key. return_seed (if key = '''' then Inl (Missing ''key'') else Inr key))"

definition createFlag :: "seed_client \<Rightarrow> string \<Rightarrow> string \<times> string \<times> string \<times> json \<Rightarrow> unit seed_op" where
  "createFlag c token = (\<lambda>(key, name, typ, defaultValue).
     doJSON c ''POST'' (api [''projects'', projectSlug, ''flags''])
       (Some (JObj [(''default_value'', defaultValue), (''key'', JStr key), (''name'', JStr name), (''type'', JStr typ)])) token
       no_output)"

definition toggleFlagEnv :: "seed_client \<Rightarrow> string \<Rightarrow> string \<Rightarrow> string \<Rightarrow> unit seed_op" where
  "toggleFlagEnv c token flagKey envSlug =
     doJSON c ''PATCH'' (api [''projects'', projectSlug, ''flags'', flagKey, ''environments'', envSlug])
       (Some (JObj [(''enabled'', JBool True)])) token no_output"

definition createSegment :: "seed_client \<Rightarrow> string \<Rightarrow> string \<times> string \<times> json \<Rightarrow> unit seed_op" where
  "createSegment c token = (\<lambda>(key, name, rules).
     doJSON c ''POST'' (api [''projects'', projectSlug, ''segments''])
       (Some (JObj [(''key'', JStr key), (''name'', JStr name), (''rules'', rules)])) token no_output)"

section \<open>The run\<close>

fun for_all :: "('a \<Rightarrow> unit seed_op) \<Rightarrow> 'a list \<Rightarrow> unit seed_op" where
  "for_all f [] = return_seed (Inr ())"
| "for_all f (x # xs) = then_do (f x) (\<lambda>_. for_all f xs)"

fun create_keys :: "seed_client \<Rightarrow> string \<Rightarrow> string list \<Rightarrow> (string \<times> string) list \<Rightarrow> (string \<times> string) list seed_op" where
  "create_keys c token [] keys = return_seed (Inr keys)"
| "create_keys c token (e # es) keys =
     then_do (createAPIKey c token e (''Seed key for '' @ e)) (\<lambda>k. create_keys c token es (put e k keys))"

definition demo_flags :: "(string \<times> string \<times> string \<times> json) list" where
  "demo_flags =
     [(''new-checkout'', ''New Checkout Flow'', ''boolean'', JBool False),
      (''dark-mode'', ''Dark Mode'', ''boolean'', JBool False),
      (''max-items'', ''Max items per cart'', ''number'', JInt 10)]"

definition demo_condition :: "string \<Rightarrow> string \<Rightarrow> json \<Rightarrow> json" where
  "demo_condition attribute op v = JObj [(''attribute'', JStr attribute), (''op'', JStr op), (''value'', v)]"

definition demo_segments :: "(string \<times> string \<times> json) list" where
  "demo_segments =
     [(''beta-users'', ''Beta Users'', JObj [(''all'', JArr [demo_condition ''plan'' ''eq'' (JStr ''beta'')])]),
      (''premium-customers'', ''Premium Customers'',
         JObj [(''all'', JArr [demo_condition ''plan'' ''in'' (JArr [JStr ''premium'', JStr ''enterprise''])])]),
      (''power-shoppers'', ''Power Shoppers'',
         JObj [(''all'', JArr [demo_condition ''country'' ''in'' (JArr [JStr ''AR'', JStr ''BR'', JStr ''MX'']),
                               demo_condition ''lifetime_orders'' ''gte'' (JInt 5)])])]"

text \<open>A run that returns without an error: the instance was initialized already, or everything was made; then the keys.\<close>

datatype seeded = Skipped | Seeded "(string \<times> string) list"

definition seed_run :: "seed_client \<Rightarrow> seeded seed_op" where
  "seed_run c =
     then_do (getSetupStatus c) (\<lambda>initialized.
     if initialized then return_seed (Inr Skipped)
     else
       then_do (postSetup c) (\<lambda>token.
       then_do (unless_conflict (createProject c token)) (\<lambda>_.
       then_do (listEnvironments c token) (\<lambda>envs.
       if envs = [] then return_seed (Inl (Missing ''environments''))
       else
         then_do (create_keys c token envs []) (\<lambda>keys.
         then_do (for_all (\<lambda>f. unless_conflict (createFlag c token f)) demo_flags) (\<lambda>_.
         then_do (unless_conflict (toggleFlagEnv c token ''dark-mode'' ''production'')) (\<lambda>_.
         then_do (for_all (\<lambda>s. unless_conflict (createSegment c token s)) demo_segments) (\<lambda>_.
         return_seed (Inr (Seeded keys))))))))))"

text \<open>\<open>main\<close>: the exit status.\<close>

definition defaultBackend :: string where "defaultBackend = ''http://localhost:8080''"

definition seed_main :: "(string \<Rightarrow> string) \<Rightarrow> (string \<Rightarrow> seed_client) \<Rightarrow> world \<Rightarrow> nat \<times> seed_state" where
  "seed_main getenv client w =
     (let backend = (if getenv ''BACKEND_URL'' = '''' then defaultBackend else getenv ''BACKEND_URL'') in
      case seed_run (client backend) (w, []) of (Inl e, s) \<Rightarrow> (1, s) | (Inr done_with, s) \<Rightarrow> (0, s))"

text \<open>The keys the summary prints, in its order.\<close>

definition printed_keys :: "(string \<times> string) list \<Rightarrow> (string \<times> string) list" where
  "printed_keys keys =
     List.map_filter (\<lambda>env. map_option (Pair env) (map_of keys env)) [''production'', ''staging'', ''development'']"

definition truncate_text :: "string \<Rightarrow> nat \<Rightarrow> string" where
  "truncate_text s n = (if length s \<le> n then s else take n s @ ''...'')"

section \<open>The documents it reads\<close>

text \<open>The structs into which \<open>doJSON\<close> decodes; they take from the documents of the API what \<open>doJSON\<close> above
  takes from the payload.\<close>

record environment_entry =
  en_id :: string
  en_project :: string
  en_slug :: string
  en_name :: string

record key_entry =
  ke_id :: string
  ke_env :: string
  ke_name :: string
  ke_prefix :: string
  ke_key :: string

record setup_entry =
  st_tenant :: string
  st_user :: string
  st_token :: string

definition read_setup_status :: "json \<Rightarrow> bool option" where
  "read_setup_status = read_struct [(''initialized'', decode_bool)] False"

definition read_environment :: "json \<Rightarrow> environment_entry option" where
  "read_environment =
     read_struct
       [(''id'', \<lambda>v x. map_option (\<lambda>s. x\<lparr>en_id := s\<rparr>) (decode_string v (en_id x))),
        (''project_id'', \<lambda>v x. map_option (\<lambda>s. x\<lparr>en_project := s\<rparr>) (decode_string v (en_project x))),
        (''slug'', \<lambda>v x. map_option (\<lambda>s. x\<lparr>en_slug := s\<rparr>) (decode_string v (en_slug x))),
        (''name'', \<lambda>v x. map_option (\<lambda>s. x\<lparr>en_name := s\<rparr>) (decode_string v (en_name x)))]
       \<lparr>en_id = '''', en_project = '''', en_slug = '''', en_name = ''''\<rparr>"

definition read_environments :: "json \<Rightarrow> environment_entry list option" where
  "read_environments v =
     (case v of JNull \<Rightarrow> Some [] | JArr vs \<Rightarrow> decode_list read_environment vs | _ \<Rightarrow> None)"

definition read_key :: "json \<Rightarrow> key_entry option" where
  "read_key =
     read_struct
       [(''id'', \<lambda>v x. map_option (\<lambda>s. x\<lparr>ke_id := s\<rparr>) (decode_string v (ke_id x))),
        (''environment_id'', \<lambda>v x. map_option (\<lambda>s. x\<lparr>ke_env := s\<rparr>) (decode_string v (ke_env x))),
        (''name'', \<lambda>v x. map_option (\<lambda>s. x\<lparr>ke_name := s\<rparr>) (decode_string v (ke_name x))),
        (''key_prefix'', \<lambda>v x. map_option (\<lambda>s. x\<lparr>ke_prefix := s\<rparr>) (decode_string v (ke_prefix x))),
        (''key'', \<lambda>v x. map_option (\<lambda>s. x\<lparr>ke_key := s\<rparr>) (decode_string v (ke_key x)))]
       \<lparr>ke_id = '''', ke_env = '''', ke_name = '''', ke_prefix = '''', ke_key = ''''\<rparr>"

definition read_setup :: "json \<Rightarrow> setup_entry option" where
  "read_setup =
     read_struct
       [(''tenant_id'', \<lambda>v x. map_option (\<lambda>s. x\<lparr>st_tenant := s\<rparr>) (decode_string v (st_tenant x))),
        (''user_id'', \<lambda>v x. map_option (\<lambda>s. x\<lparr>st_user := s\<rparr>) (decode_string v (st_user x))),
        (''access_token'', \<lambda>v x. map_option (\<lambda>s. x\<lparr>st_token := s\<rparr>) (decode_string v (st_token x)))]
       \<lparr>st_tenant = '''', st_user = '''', st_token = ''''\<rparr>"

lemma folded_names:
  "fold_name ''initialized'' = ''initialized''" "fold_name ''message'' = ''message''" "fold_name ''id'' = ''id''"
  "fold_name ''project_id'' = ''project_id''" "fold_name ''slug'' = ''slug''" "fold_name ''name'' = ''name''"
  "fold_name ''created_at'' = ''created_at''" "fold_name ''updated_at'' = ''updated_at''"
  "fold_name ''environment_id'' = ''environment_id''" "fold_name ''key_prefix'' = ''key_prefix''"
  "fold_name ''last_used_at'' = ''last_used_at''" "fold_name ''expires_at'' = ''expires_at''"
  "fold_name ''revoked_at'' = ''revoked_at''" "fold_name ''created_by'' = ''created_by''" "fold_name ''key'' = ''key''"
  "fold_name ''tenant_id'' = ''tenant_id''" "fold_name ''user_id'' = ''user_id''"
  "fold_name ''access_token'' = ''access_token''"
  by code_simp+

declare fold_name.simps [simp del]

lemma status_read: "read_setup_status (setup_status_document b) = Some b"
  by (simp add: read_setup_status_def setup_status_document_def read_struct_def field_is_def folded_names decode_bool_def)

lemma setup_read:
  "map_option st_token (read_setup (setup_document fm tenant user token)) = Some token"
  by (simp add: read_setup_def setup_document_def read_struct_def field_is_def folded_names decode_string_def)

lemma environment_read: "\<exists>x. read_environment (environment_document fm e) = Some x \<and> en_slug x = e_slug e"
  by (simp add: read_environment_def environment_document_def read_struct_def field_is_def folded_names decode_string_def)

lemma environments_read:
  "map_option (map en_slug) (read_environments (JArr (map (environment_document fm) es))) = Some (map e_slug es)"
proof (induction es)
  case (Cons e es)
  obtain x where "read_environment (environment_document fm e) = Some x" "en_slug x = e_slug e"
    using environment_read by blast
  with Cons show ?case by (auto simp: read_environments_def split: option.splits)
qed (simp add: read_environments_def)

lemma key_read: "map_option ke_key (read_key (created_key_document fm k rawKey)) = Some rawKey"
  by (cases "kr_last_used k"; cases "kr_expires k"; cases "kr_revoked k"; cases "kr_created_by k")
     (simp_all add: read_key_def created_key_document_def api_key_members_def read_struct_def field_is_def folded_names
       decode_string_def member_defs)

section \<open>What a run promises\<close>

lemma then_do_done:
  assumes "then_do m k s = (Inr y, s')"
  obtains x s1 where "m s = (Inr x, s1)" and "k x s1 = (Inr y, s')"
  using assms by (auto simp: then_do_def split: prod.splits sum.splits)

lemma then_do_failed:
  assumes "then_do m k s = (Inl e, s')"
  obtains "m s = (Inl e, s')" | x s1 where "m s = (Inr x, s1)" and "k x s1 = (Inl e, s')"
  using assms by (auto simp: then_do_def split: prod.splits sum.splits)

definition success :: "nat \<Rightarrow> bool" where
  "success n \<longleftrightarrow> 200 \<le> n \<and> n < 300"

text \<open>An exchange a run goes on after: it was answered, with success or with a conflict.\<close>

definition went_well :: "exchange \<Rightarrow> bool" where
  "went_well x = (case snd (snd x) of None \<Rightarrow> False | Some n \<Rightarrow> success n \<or> n = 409)"

text \<open>An operation that, when it succeeds, has sent requests that all went well, and at least one.\<close>

definition careful :: "'a seed_op \<Rightarrow> bool" where
  "careful m \<longleftrightarrow> (\<forall>s x s'. m s = (Inr x, s') \<longrightarrow> (\<exists>sent. snd s' = snd s @ sent \<and> list_all went_well sent))"

named_theorems careful \<open>operations that report their failures\<close>

lemma carefulD:
  assumes "careful m" and "m s = (Inr x, s')"
  obtains sent where "snd s' = snd s @ sent" and "list_all went_well sent"
  using assms unfolding careful_def by blast

lemma careful_steps [careful]:
  "careful (return_seed z)"
  "careful m \<Longrightarrow> (\<And>x. careful (k x)) \<Longrightarrow> careful (then_do m k)"
  "(b \<Longrightarrow> careful p) \<Longrightarrow> (\<not> b \<Longrightarrow> careful q) \<Longrightarrow> careful (if b then p else q)"
proof -
  show "careful (return_seed z)" by (auto simp: careful_def return_seed_def)
  show "careful (then_do m k)" if cm: "careful m" and ck: "\<And>x. careful (k x)"
    unfolding careful_def
  proof (intro allI impI)
    fix s y s' assume "then_do m k s = (Inr y, s')"
    then obtain x s1 where m: "m s = (Inr x, s1)" and k: "k x s1 = (Inr y, s')" by (rule then_do_done)
    obtain sent where "snd s1 = snd s @ sent" "list_all went_well sent" using carefulD [OF cm m] .
    moreover obtain sent' where "snd s' = snd s1 @ sent'" "list_all went_well sent'" using carefulD [OF ck k] .
    ultimately show "\<exists>sent. snd s' = snd s @ sent \<and> list_all went_well sent" by (intro exI [of _ "sent @ sent'"]) simp
  qed
qed simp

text \<open>The cases of a request.\<close>

lemma doJSON_cases:
  assumes "doJSON c m path body token out (w, lg) = (res, w', lg')"
  obtains (unanswered) "res = Inl RequestFailed" and "lg' = lg @ [(m, path, None)]"
  | (refused) n where "res = Inl (HttpError n)" and "\<not> success n" and "lg' = lg @ [(m, path, Some n)]"
  | (answered) rs where "serve (sc_server c) path (seed_request c m body token) w = (rs, w')"
      and "success (rs_status rs)" and "lg' = lg @ [(m, path, Some (rs_status rs))]"
      and "res = (case out (rs_payload rs) of None \<Rightarrow> Inl DecodeFailed | Some x \<Rightarrow> Inr x)"
  using assms
  by (cases "sc_net c (length lg)"; cases "serve (sc_server c) path (seed_request c m body token) w")
     (auto simp: doJSON_def success_def split: if_splits)

lemma careful_doJSON [careful]: "careful (doJSON c m path body token out)"
  unfolding careful_def
proof (intro allI impI, goal_cases)
  case (1 s x s')
  obtain w lg w' lg' where s: "s = (w, lg)" "s' = (w', lg')" by (metis prod.collapse)
  from doJSON_cases [OF 1 [unfolded s]] show ?case
    by cases (simp_all add: s went_well_def)
qed

lemma careful_conflict [careful]: "careful (unless_conflict (doJSON c m path body token out))"
  unfolding careful_def
proof (intro allI impI, goal_cases)
  case (1 s x s')
  obtain w lg w' lg' res where s: "s = (w, lg)" "s' = (w', lg')" and r: "doJSON c m path body token out (w, lg) = (res, w', lg')"
    and res: "case res of Inl e \<Rightarrow> isConflict e | Inr _ \<Rightarrow> True"
    using 1 by (cases s; cases s') (auto simp: unless_conflict_def split: prod.splits sum.splits if_splits)
  from doJSON_cases [OF r] res show ?case by cases (auto simp: s went_well_def isConflict_def)
qed

lemma careful_endpoints [careful]:
  "careful (getSetupStatus c)" "careful (postSetup c)" "careful (listEnvironments c token)"
  "careful (createAPIKey c token e name)" "careful (unless_conflict (createProject c token))"
  "careful (unless_conflict (createFlag c token f))" "careful (unless_conflict (toggleFlagEnv c token k e))"
  "careful (unless_conflict (createSegment c token g))"
  unfolding getSetupStatus_def postSetup_def listEnvironments_def createAPIKey_def createProject_def createFlag_def
    toggleFlagEnv_def createSegment_def
  by (cases f; cases g; auto intro!: careful)+

lemma careful_loops [careful]:
  "(\<And>x. careful (f x)) \<Longrightarrow> careful (for_all f xs)" "careful (create_keys c token es keys)"
  by (induction xs; auto intro!: careful) (induction es arbitrary: keys; auto intro!: careful)

text \<open>A run reports every failure: when it returns without an error, each request it sent was answered with success
  or, where that is meant, with a conflict.\<close>

lemma seed_reports_failures: "careful (seed_run c)"
  unfolding seed_run_def by (intro careful)

lemma seed_exit_zero:
  assumes "seed_main getenv client w = (0, w', lg)"
  shows "list_all went_well lg"
proof -
  let ?c = "client (if getenv ''BACKEND_URL'' = '''' then defaultBackend else getenv ''BACKEND_URL'')"
  obtain x where "seed_run ?c (w, []) = (Inr x, w', lg)"
    using assms by (auto simp: seed_main_def Let_def split: prod.splits sum.splits)
  from carefulD [OF seed_reports_failures this] show ?thesis by auto
qed

lemma create_keys_keys:
  "create_keys c token es keys s = (Inr keys', s') \<Longrightarrow> fst ` set keys' = fst ` set keys \<union> set es"
proof (induction es arbitrary: keys s)
  case (Cons e es)
  then obtain k s1 where "create_keys c token es (put e k keys) s1 = (Inr keys', s')" by (auto elim!: then_do_done)
  from Cons.IH [OF this] show ?case by (auto simp: set_keys_put)
qed (simp add: return_seed_def)

lemma seeded_has_keys:
  assumes "seed_run c s = (Inr (Seeded keys), s')"
  shows "keys \<noteq> []"
  using assms unfolding seed_run_def
  by (auto simp: return_seed_def dest!: create_keys_keys elim!: then_do_done split: if_splits)

section \<open>A run that was interrupted\<close>

text \<open>No statement removes a tenant.\<close>

interpretation initialized: db_relation "\<lambda>d d'. set (tenants d) \<subseteq> set (tenants d')"
  by unfold_locales (auto elim!: db_step.cases simp: statement_defs Let_def split: if_splits option.splits)

lemma serve_setup_status:
  assumes "rq_method r = ''GET''"
  shows "serve sv (api [''setup'', ''status'']) r w = handleSetupStatus sv (r\<lparr>rq_path := []\<rparr>) w"
  using assms
  by (simp add: serve_def find_route_def routes_def account_routes_def route_def api_def method_matches_def run_route_def
    withMiddleware_def)

lemma serve_setup:
  assumes "rq_method r = ''POST''"
  shows "serve sv (api [''setup'']) r w =
    BodyLimit 1048576 (RequireJSONContentType (handleSetup sv)) (r\<lparr>rq_path := []\<rparr>) w"
  using assms
  by (simp add: serve_def find_route_def routes_def account_routes_def route_def api_def method_matches_def run_route_def
    withMiddleware_def json_body_def)

lemma setup_status_answer:
  assumes "serve sv (api [''setup'', ''status'']) r w = (rs, w')" and "rq_method r = ''GET''"
  shows "db w' = db w \<and> (rs = internal_error \<or> rs = JSON 200 (PSetupStatus (tenants (db w) \<noteq> [])))"
  using assms unfolding serve_setup_status [OF assms(2)]
  by (auto simp: handleSetupStatus_def attempt_def ExistsAny_def run_query wrapped_def or_internal_def reply_def
    split: if_splits)

lemma status_of_instance:
  assumes "getSetupStatus c (w, lg) = (res, w', lg')"
  shows "db w' = db w \<and> length lg' = Suc (length lg) \<and> ((\<exists>e. res = Inl e) \<or> res = Inr (tenants (db w) \<noteq> []))"
proof -
  have m: "rq_method (seed_request c ''GET'' None '''') = ''GET''" by (simp add: seed_request_def)
  have "db w' = db w"
  proof (cases "sc_net c (length lg)")
    case Lost
    then show ?thesis using assms by (simp add: getSetupStatus_def doJSON_def)
  next
    case Answered
    then show ?thesis
      using assms setup_status_answer [OF _ m] by (auto simp: getSetupStatus_def doJSON_def split: prod.splits)
  next
    case Unanswered
    then show ?thesis
      using assms setup_status_answer [OF prod.collapse [symmetric] m] by (auto simp: getSetupStatus_def doJSON_def)
  qed
  moreover from assms [unfolded getSetupStatus_def]
  have "length lg' = Suc (length lg) \<and> ((\<exists>e. res = Inl e) \<or> res = Inr (tenants (db w) \<noteq> []))"
  proof (cases rule: doJSON_cases)
    case (answered rs)
    then show ?thesis using setup_status_answer [OF answered(1) m] by (auto simp: success_def)
  qed auto
  ultimately show ?thesis by blast
qed

lemma initialized_run_skips:
  assumes "tenants (db w) \<noteq> []" and "seed_run c (w, lg) = (res, w', lg')"
  shows "db w' = db w \<and> length lg' = Suc (length lg) \<and> ((\<exists>e. res = Inl e) \<or> res = Inr Skipped)"
proof -
  obtain b w1 l1 where g: "getSetupStatus c (w, lg) = (b, w1, l1)" by (metis prod.collapse)
  from status_of_instance [OF g] assms show ?thesis
    by (cases b) (auto simp: seed_run_def then_do_def g return_seed_def)
qed

text \<open>C40. A seed that was interrupted is never taken up again, contrary to the claim that it is idempotent: once the instance
  has a tenant, as it has after the second request of a first run however that run ended, every later run sends
  one request, changes nothing and, unless that request fails, reports that there is nothing to do; whatever was
  missing (project, keys, flags, segments) stays missing.\<close>

theorem interrupted_seed_not_resumed:
  assumes "seed_run c (w, []) = (res, w1, lg)" and "tenants (db w1) \<noteq> []"
    and "seed_run c' (run (sc_server c) acts w1, []) = (res', w2, lg')"
  shows "db w2 = db (run (sc_server c) acts w1) \<and> length lg' = 1 \<and> ((\<exists>e. res' = Inl e) \<or> res' = Inr Skipped)"
proof -
  have "tenants (db (run (sc_server c) acts w1)) \<noteq> []"
    using initialized.run_related [of w1 "sc_server c" acts] assms(2) by auto
  from initialized_run_skips [OF this assms(3)] show ?thesis by simp
qed

definition seed_sample :: "(nat \<Rightarrow> delivery) \<Rightarrow> seed_client" where
  "seed_sample net = \<lparr>sc_server = sample_server, sc_base = (\<lambda>_. sample_request '''' '''' NoBody), sc_net = net\<rparr>"

definition seed_world :: world where
  "seed_world = (sample_world empty_db)\<lparr>random_bytes := \<lambda>n k. Some [0]\<rparr>"

text \<open>The first run is cut off after the setup; the second finds nothing to do.\<close>

lemma sample_status:
  assumes "net 0 = Answered"
  shows "getSetupStatus (seed_sample net) (seed_world, []) =
     (Inr False, seed_world\<lparr>tick := Suc 0\<rparr>, [(''GET'', api [''setup'', ''status''], Some 200)])"
  using assms
  by (simp add: getSetupStatus_def doJSON_def seed_sample_def serve_setup_status seed_request_def handleSetupStatus_def
    attempt_def ExistsAny_def run_query wrapped_def reply_def seed_world_def sample_world_def empty_db_def)

definition setup_response :: "response \<times> world" where
  "setup_response = handleSetup sample_server
     ((seed_request (seed_sample (\<lambda>_. Answered)) ''POST''
        (Some (JObj [(''admin_email'', JStr adminEmail), (''admin_password'', JStr adminPassword),
                     (''tenant_name'', JStr tenantName)])) '''')\<lparr>rq_path := []\<rparr>) (seed_world\<lparr>tick := Suc 0\<rparr>)"

lemma setup_response_facts:
  "rs_status (fst setup_response) = 201"
  "(case rs_payload (fst setup_response) of PSetup t u token \<Rightarrow> token | _ \<Rightarrow> []) = ''owner''"
  "tenants (db (snd setup_response)) \<noteq> []" "projects (db (snd setup_response)) = []"
  by code_simp+

lemma sample_setup_served:
  "serve sample_server (api [''setup'']) (seed_request (seed_sample net) ''POST''
     (Some (JObj [(''admin_email'', JStr adminEmail), (''admin_password'', JStr adminPassword),
                  (''tenant_name'', JStr tenantName)])) '''') (seed_world\<lparr>tick := Suc 0\<rparr>) = setup_response"
proof -
  let ?r = "\<lambda>net. seed_request (seed_sample net) ''POST''
     (Some (JObj [(''admin_email'', JStr adminEmail), (''admin_password'', JStr adminPassword),
                  (''tenant_name'', JStr tenantName)])) ''''"
  have any_net: "?r net = ?r (\<lambda>_. Answered)" by (simp add: seed_request_def seed_sample_def)
  have r: "rq_method (?r net) = ''POST''" "rq_content_type (?r net) = ''application/json''" "rq_body_size (?r net) = 100" for net
    by (simp_all add: seed_request_def seed_sample_def sample_request_def)
  have "hasJSONContentType ''application/json''" by code_simp
  then show ?thesis
    unfolding any_net serve_setup [OF r(1)] BodyLimit_def RequireJSONContentType_def setup_response_def
    by (simp add: r)
qed

lemma sample_setup:
  assumes "net (Suc 0) = Answered"
  shows "postSetup (seed_sample net) (seed_world\<lparr>tick := Suc 0\<rparr>, [x]) =
     (Inr ''owner'', snd setup_response, [x, (''POST'', api [''setup''], Some 201)])"
proof -
  have "sc_server (seed_sample net) = sample_server" "sc_net (seed_sample net) (Suc 0) = Answered"
    using assms by (simp_all add: seed_sample_def)
  then show ?thesis
    using setup_response_facts
    by (simp add: postSetup_def then_do_def doJSON_def sample_setup_served [simplified] return_seed_def split_beta)
qed

lemma interrupted_seed_not_resumed_witness:
  "(let first = seed_run (seed_sample (\<lambda>n. if n < 2 then Answered else Lost)) (seed_world, []);
        again = seed_run (seed_sample (\<lambda>_. Answered)) (fst (snd first), []) in
    fst first = Inl RequestFailed \<and> length (snd (snd again)) = 1 \<and> projects (db (fst (snd again))) = [])"
proof -
  let ?c = "seed_sample (\<lambda>n. if n < 2 then Answered else Lost)" and ?c' = "seed_sample (\<lambda>_. Answered)"
  let ?first = "seed_run ?c (seed_world, [])"
  let ?w1 = "fst (snd ?first)"
  let ?again = "seed_run ?c' (run (sc_server ?c) [] ?w1, [])"
  let ?sent = "[(''GET'', api [''setup'', ''status''], Some 200), (''POST'', api [''setup''], Some 201)]"
  have "createProject ?c ''owner'' (snd setup_response, ?sent) =
      (Inl RequestFailed, snd setup_response, ?sent @ [(''POST'', api [''projects''], None)])"
    by (simp add: createProject_def doJSON_def seed_sample_def)
  then have "unless_conflict (createProject ?c ''owner'') (snd setup_response, ?sent) =
      (Inl RequestFailed, snd setup_response, ?sent @ [(''POST'', api [''projects''], None)])"
    by (simp add: unless_conflict_def isConflict_def)
  then have first: "?first = (Inl RequestFailed, snd setup_response, ?sent @ [(''POST'', api [''projects''], None)])"
    by (simp add: seed_run_def then_do_def sample_status sample_setup)
  have split: "p = (fst p, fst (snd p), snd (snd p))" for p :: "'a \<times> 'b \<times> 'c" by simp
  from setup_response_facts(3) have "tenants (db (fst (snd ?first))) \<noteq> []" by (simp add: first)
  from interrupted_seed_not_resumed [OF split this split, of ?c' "[]"]
  have "db (fst (snd ?again)) = db (snd setup_response)" and "length (snd (snd ?again)) = 1"
    by (simp_all add: first run_def)
  then show ?thesis using first setup_response_facts(4) by (simp add: Let_def run_def)
qed

end
