(* ===== verification/Main_Program.thy ===== *)
theory Main_Program
  imports Process Telemetry
begin

text \<open>
  \<open>cmd/flagstone/main.go\<close>: the start of the process, the mux around the API, and the end of the process; and
  \<open>internal/storage/store.go\<close>, which it builds the stores with.

  \<^item> \<open>start\<close>: the steps of \<open>main\<close> up to the listener, with what \<open>defer\<close> has noted, the latest first.  A failure
    is a \<open>logger.Fatal\<close>: the process ends with status 1 and what was deferred is not run.
  \<^item> \<open>main_mux\<close>: the routes outside \<open>/api/v1/\<close>; paths are clean.
  \<^item> \<open>proc_step\<close>: the two goroutines \<open>main\<close> and the listener, the requests being served and the deferred calls,
    from the first request to the exit.
\<close>

section \<open>The stores\<close>

text \<open>
  \<open>storage.Stores\<close>: all stores share one querier, the pool or a transaction; only the former can begin a transaction.
  The store operations of the other theories are those of the querier they run in.
\<close>

datatype querier = FromPool nat | InTx nat

record stores =
  sx_pool :: "nat option"
  sx_querier :: querier

datatype begin_error = ErrNoPool | ErrBegin

definition newStoresFrom :: "nat option \<Rightarrow> querier \<Rightarrow> stores" where
  "newStoresFrom pool q = \<lparr>sx_pool = pool, sx_querier = q\<rparr>"

definition NewStores :: "nat \<Rightarrow> stores" where
  "NewStores pool = newStoresFrom (Some pool) (FromPool pool)"

definition WithTx :: "stores \<Rightarrow> nat \<Rightarrow> stores" where
  "WithTx s tx = newStoresFrom None (InTx tx)"

text \<open>\<open>pool_begin\<close> is the pool's own \<open>BeginTx\<close>.\<close>

definition BeginTx :: "(nat \<Rightarrow> nat option) \<Rightarrow> stores \<Rightarrow> begin_error + nat" where
  "BeginTx pool_begin s =
     (case sx_pool s of
        None \<Rightarrow> Inl ErrNoPool
      | Some p \<Rightarrow> (case pool_begin p of None \<Rightarrow> Inl ErrBegin | Some tx \<Rightarrow> Inr tx))"

text \<open>A transaction is begun at the pool and never inside another.\<close>

lemma no_nested_tx:
  "BeginTx pool_begin (WithTx s tx) = Inl ErrNoPool"
  "BeginTx pool_begin (NewStores pool) \<noteq> Inl ErrNoPool"
  by (simp_all add: BeginTx_def WithTx_def NewStores_def newStoresFrom_def split: option.splits)

section \<open>Start\<close>

datatype fatal =
    FatalConfig config_error
  | FatalTelemetry otel_error
  | FatalPostgres "connection option"
  | FatalMetrics string

datatype deferred =
    SyncLogger
  | StopSignals
  | ShutdownTelemetry "closer list"
  | ClosePool
  | CloseRedis
  | CancelShutdown

text \<open>What the process finds outside: its environment, the libraries of telemetry, PostgreSQL at each attempt and
  whether a signal came in the wait after it, and whether the meter makes the instruments.\<close>

record boot =
  bt_getenv :: "string \<Rightarrow> string"
  bt_parse_duration :: "string \<Rightarrow> int option"
  bt_otel :: otel_libraries
  bt_sscanf_f :: "string \<Rightarrow> f64 option"
  bt_default_ratio :: f64
  bt_dsn_parses :: bool
  bt_up :: "nat \<Rightarrow> bool"
  bt_stopped :: "nat \<Rightarrow> bool"
  bt_makes :: "string \<Rightarrow> bool"
  bt_registers :: bool
  bt_outside :: server

record started =
  sd_config :: config
  sd_server :: server
  sd_hub :: hub
  sd_metrics :: metrics
  sd_pool_stats :: "(pool_stats \<Rightarrow> measurement list) option"
  sd_redis_addr :: string

definition start :: "boot \<Rightarrow> otel \<Rightarrow> (fatal + started) \<times> deferred list \<times> otel" where
  "start b g =
     (let defers = [SyncLogger] in
      case Load (bt_parse_duration b) (bt_getenv b) of
        Inl e \<Rightarrow> (Inl (FatalConfig e), defers, g)
      | Inr cfg \<Rightarrow>
          let defers = StopSignals # defers in
          case SetupOTel (bt_otel b) (bt_sscanf_f b) (bt_default_ratio b) (bt_getenv b) g of
            (Inl e, g') \<Rightarrow> (Inl (FatalTelemetry e), defers, g')
          | (Inr fns, g') \<Rightarrow>
              let defers = ShutdownTelemetry fns # defers in
              case connectPostgresWithRetry (bt_dsn_parses b) (bt_up b) (bt_stopped b) of
                Some (Connected n, waited) \<Rightarrow>
                  let defers = CloseRedis # ClosePool # defers in
                  (case NewMetrics (bt_makes b) of
                     Inl name \<Rightarrow> (Inl (FatalMetrics name), defers, g')
                   | Inr m \<Rightarrow>
                       (Inr \<lparr>sd_config = cfg, sd_server = NewServer (bt_outside b) cfg, sd_hub = server_hub,
                             sd_metrics = m,
                             sd_pool_stats = (if m = None then None else snd (RegisterDBPoolStats m (bt_registers b))),
                             sd_redis_addr = redisAddrFromURL (cf_redis_url cfg)\<rparr>, defers, g'))
              | failed \<Rightarrow> (Inl (FatalPostgres (map_option fst failed)), defers, g'))"

text \<open>A started process has a valid configuration, a pool that answered a ping and every instrument, and will close
  what it opened, the telemetry of the set-up included.\<close>

lemma started_sound:
  assumes "start b no_otel = (Inr s, defers, g)"
  shows "is_ok (Load (bt_parse_duration b) (bt_getenv b)) \<and> 32 \<le> length (sv_jwt_secret (sd_server s)) \<and>
    (\<exists>n. 1 \<le> n \<and> n \<le> 5 \<and> bt_up b n) \<and> (\<forall>i. has (sd_metrics s) i) \<and>
    (\<exists>fns. defers = [CloseRedis, ClosePool, ShutdownTelemetry fns, StopSignals, SyncLogger] \<and> set fns = running g)"
proof -
  obtain cfg where cfg: "Load (bt_parse_duration b) (bt_getenv b) = Inr cfg"
    using assms by (cases "Load (bt_parse_duration b) (bt_getenv b)") (auto simp: start_def)
  obtain fns g' where otel: "SetupOTel (bt_otel b) (bt_sscanf_f b) (bt_default_ratio b) (bt_getenv b) no_otel = (Inr fns, g')"
    using assms cfg
    by (cases "SetupOTel (bt_otel b) (bt_sscanf_f b) (bt_default_ratio b) (bt_getenv b) no_otel"; cases "fst (SetupOTel (bt_otel b) (bt_sscanf_f b) (bt_default_ratio b) (bt_getenv b) no_otel)")
       (auto simp: start_def Let_def)
  obtain n waited where con: "connectPostgresWithRetry (bt_dsn_parses b) (bt_up b) (bt_stopped b) = Some (Connected n, waited)"
    using assms cfg otel by (auto simp: start_def Let_def split: option.splits prod.splits connection.splits)
  obtain m where m: "NewMetrics (bt_makes b) = Inr m"
    using assms cfg otel con by (auto simp: start_def Let_def split: sum.splits)
  have s: "sd_server s = NewServer (bt_outside b) cfg" "sd_metrics s = m" "g = g'"
    "defers = [CloseRedis, ClosePool, ShutdownTelemetry fns, StopSignals, SyncLogger]"
    using assms cfg otel con m by (auto simp: start_def Let_def)
  have "1 \<le> n \<and> n \<le> 5 \<and> bt_up b n"
    using con by (auto simp: connectPostgresWithRetry_def split: if_splits prod.splits)
  moreover have "\<forall>i. has m i" using m by (auto simp: NewMetrics_def has_def split: option.splits)
  ultimately show ?thesis
    using started_secret [OF cfg] shutdown_complete [OF otel] cfg s by auto
qed

text \<open>A signal while the process waits for PostgreSQL ends it with status 1, and the telemetry is not shut down.\<close>

lemma stopped_start:
  assumes "start b no_otel = (Inl (FatalPostgres c), defers, g)"
  shows "\<exists>fns. defers = [ShutdownTelemetry fns, StopSignals, SyncLogger] \<and> set fns = running g"
proof -
  obtain cfg where cfg: "Load (bt_parse_duration b) (bt_getenv b) = Inr cfg"
    using assms by (cases "Load (bt_parse_duration b) (bt_getenv b)") (auto simp: start_def)
  obtain fns g' where otel: "SetupOTel (bt_otel b) (bt_sscanf_f b) (bt_default_ratio b) (bt_getenv b) no_otel = (Inr fns, g')"
    using assms cfg
    by (cases "SetupOTel (bt_otel b) (bt_sscanf_f b) (bt_default_ratio b) (bt_getenv b) no_otel"; cases "fst (SetupOTel (bt_otel b) (bt_sscanf_f b) (bt_default_ratio b) (bt_getenv b) no_otel)")
       (auto simp: start_def Let_def)
  have "g = g' \<and> defers = [ShutdownTelemetry fns, StopSignals, SyncLogger]"
    using assms cfg otel by (auto simp: start_def Let_def split: option.splits prod.splits connection.splits sum.splits)
  with shutdown_complete [OF otel] show ?thesis by auto
qed

section \<open>The cleanup goroutine\<close>

text \<open>\<open>StartCleanup\<close>: one cleanup at once and one after each tick until the context ends.\<close>

primrec StartCleanup :: "nat \<Rightarrow> world \<Rightarrow> world" where
  "StartCleanup 0 w = snd (runOnce w)"
| "StartCleanup (Suc ticks) w = snd (runOnce (StartCleanup ticks w))"

lemma cleanups_are_actions: "StartCleanup ticks w = run sv (replicate (Suc ticks) Cleanup) w"
proof (induction ticks)
  case (Suc n)
  have "replicate (Suc (Suc n)) Cleanup = replicate (Suc n) Cleanup @ [Cleanup]" by (simp add: replicate_append_same)
  with Suc show ?case by (simp add: run_def del: replicate.simps)
qed (simp add: run_def)

section \<open>The mux\<close>

datatype main_answer =
    Healthy string int
  | Readiness readiness nat
  | FromApi response
  | Redirected
  | Plain nat

text \<open>A pattern with \<open>GET\<close> also matches \<open>HEAD\<close>; \<open>/api/v1\<close> is redirected to \<open>/api/v1/\<close>.\<close>

definition main_mux ::
  "server \<Rightarrow> string \<Rightarrow> int \<Rightarrow> string + int \<Rightarrow> string + int \<Rightarrow> string list \<Rightarrow> http_request \<Rightarrow> world \<Rightarrow> main_answer \<times> world" where
  "main_mux sv version uptime postgres redis path r w =
     (let get = rq_method r \<in> {''GET'', ''HEAD''} in
      if path = [''healthz''] then (if get then Healthy version uptime else Plain 405, w)
      else if path = [''readyz''] then
        (if get then (case checkReadiness postgres redis of (rd, code) \<Rightarrow> Readiness rd code) else Plain 405, w)
      else if path = [''api'', ''v1''] then (Redirected, w)
      else if take 2 path = [''api'', ''v1''] then (case serve sv path r w of (rs, w') \<Rightarrow> (FromApi rs, w'))
      else (Plain 404, w))"

definition answer_status :: "main_answer \<Rightarrow> nat option" where
  "answer_status a =
     (case a of Healthy v u \<Rightarrow> Some 200 | Readiness rd code \<Rightarrow> Some code | FromApi rs \<Rightarrow> Some (rs_status rs)
      | Redirected \<Rightarrow> None | Plain n \<Rightarrow> Some n)"

text \<open>Only the API changes the world.\<close>

lemma outside_api_unchanged:
  "take 2 path \<noteq> [''api'', ''v1''] \<Longrightarrow> snd (main_mux sv version uptime pg rd path r w) = w"
  by (auto simp: main_mux_def Let_def)

text \<open>\<open>/healthz\<close> says that the process runs, \<open>/readyz\<close> that PostgreSQL answers; Redis does not matter.\<close>

lemma probes:
  assumes "rq_method r = ''GET''"
  shows "answer_status (fst (main_mux sv version uptime pg rd [''healthz''] r w)) = Some 200"
    and "answer_status (fst (main_mux sv version uptime pg rd [''readyz''] r w)) = Some (if is_ok pg then 200 else 503)"
  using assms by (cases pg; auto simp: main_mux_def Let_def answer_status_def checkReadiness_def)+

lemma probes_untraced:
  "\<not> traced [''/healthz'', ''/readyz''] ''/healthz''" "\<not> traced [''/healthz'', ''/readyz''] ''/readyz''"
  "traced [''/healthz'', ''/readyz''] (''/api/v1/'' @ rest)"
  by (simp_all add: traced_def)

section \<open>The end of the process\<close>

datatype main_at = Serving | Draining | Returning
datatype listener = Listening | ListenFailed | ServerClosed

record proc =
  pc_signalled :: bool
  pc_main :: main_at
  pc_listener :: listener
  pc_inflight :: "nat list"
  pc_deferred :: "deferred list"
  pc_closed :: "deferred list"
  pc_exit :: "nat option"

datatype proc_event =
    Accept nat
  | Finish nat
  | Signal
  | ListenError
  | BeginShutdown
  | Drained
  | DrainTimeout
  | RunDeferred
  | MainReturns
  | ListenerExits

text \<open>
  \<open>Shutdown\<close> closes the listeners first; \<open>ListenAndServe\<close> then returns \<open>http.ErrServerClosed\<close> at once and its
  goroutine goes on to \<open>os.Exit(1)\<close>, as it does after an error of its own.  \<open>Shutdown\<close> itself returns when no
  request is served any more, or after ten seconds with an error, which is fatal.
\<close>

inductive proc_step :: "proc \<Rightarrow> proc_event \<Rightarrow> proc \<Rightarrow> bool" where
  Accept: "pc_exit p = None \<Longrightarrow> pc_listener p = Listening \<Longrightarrow>
    proc_step p (Accept n) (p\<lparr>pc_inflight := n # pc_inflight p\<rparr>)"
| Finish: "pc_exit p = None \<Longrightarrow> n \<in> set (pc_inflight p) \<Longrightarrow>
    proc_step p (Finish n) (p\<lparr>pc_inflight := remove1 n (pc_inflight p)\<rparr>)"
| Signal: "pc_exit p = None \<Longrightarrow> proc_step p Signal (p\<lparr>pc_signalled := True\<rparr>)"
| ListenError: "pc_exit p = None \<Longrightarrow> pc_listener p = Listening \<Longrightarrow>
    proc_step p ListenError (p\<lparr>pc_listener := ListenFailed\<rparr>)"
| BeginShutdown: "pc_exit p = None \<Longrightarrow> pc_signalled p \<Longrightarrow> pc_main p = Serving \<Longrightarrow>
    proc_step p BeginShutdown
      (p\<lparr>pc_main := Draining, pc_deferred := CancelShutdown # pc_deferred p,
         pc_listener := (if pc_listener p = Listening then ServerClosed else pc_listener p)\<rparr>)"
| Drained: "pc_exit p = None \<Longrightarrow> pc_main p = Draining \<Longrightarrow> pc_inflight p = [] \<Longrightarrow>
    proc_step p Drained (p\<lparr>pc_main := Returning\<rparr>)"
| DrainTimeout: "pc_exit p = None \<Longrightarrow> pc_main p = Draining \<Longrightarrow> pc_inflight p \<noteq> [] \<Longrightarrow>
    proc_step p DrainTimeout (p\<lparr>pc_exit := Some 1\<rparr>)"
| RunDeferred: "pc_exit p = None \<Longrightarrow> pc_main p = Returning \<Longrightarrow> pc_deferred p = d # ds \<Longrightarrow>
    proc_step p RunDeferred (p\<lparr>pc_deferred := ds, pc_closed := pc_closed p @ [d]\<rparr>)"
| MainReturns: "pc_exit p = None \<Longrightarrow> pc_main p = Returning \<Longrightarrow> pc_deferred p = [] \<Longrightarrow>
    proc_step p MainReturns (p\<lparr>pc_exit := Some 0\<rparr>)"
| ListenerExits: "pc_exit p = None \<Longrightarrow> pc_listener p \<noteq> Listening \<Longrightarrow>
    proc_step p ListenerExits (p\<lparr>pc_exit := Some 1\<rparr>)"

inductive_cases proc_stepE: "proc_step p e p'"
inductive_simps listener_exits: "proc_step p ListenerExits p'"

definition serving :: "deferred list \<Rightarrow> proc" where
  "serving defers = \<lparr>pc_signalled = False, pc_main = Serving, pc_listener = Listening, pc_inflight = [],
     pc_deferred = defers, pc_closed = [], pc_exit = None\<rparr>"

inductive proc_run :: "deferred list \<Rightarrow> proc_event list \<Rightarrow> proc \<Rightarrow> bool" for defers where
  Start: "proc_run defers [] (serving defers)"
| Step: "proc_run defers es p \<Longrightarrow> proc_step p e p' \<Longrightarrow> proc_run defers (es @ [e]) p'"

text \<open>What holds at every moment of a process.\<close>

definition proc_sound :: "deferred list \<Rightarrow> proc \<Rightarrow> bool" where
  "proc_sound defers p \<longleftrightarrow>
     (pc_main p = Serving \<longrightarrow> pc_deferred p = defers \<and> pc_closed p = []) \<and>
     (pc_main p \<noteq> Serving \<longrightarrow> pc_signalled p \<and> pc_listener p \<noteq> Listening \<and>
        pc_closed p @ pc_deferred p = CancelShutdown # defers) \<and>
     (pc_main p = Draining \<longrightarrow> pc_closed p = []) \<and>
     (pc_main p = Returning \<longrightarrow> pc_inflight p = []) \<and>
     (pc_exit p = Some 0 \<longrightarrow> pc_main p = Returning \<and> pc_deferred p = []) \<and>
     (pc_exit p \<in> {None, Some 0} \<or> pc_exit p = Some 1 \<and> pc_listener p \<noteq> Listening)"

lemma proc_step_sound: "proc_step p e p' \<Longrightarrow> proc_sound defers p \<Longrightarrow> proc_sound defers p'"
  by (cases "pc_main p"; auto simp: proc_sound_def elim!: proc_stepE split: if_splits)

lemma proc_run_sound: "proc_run defers es p \<Longrightarrow> proc_sound defers p"
proof (induction rule: proc_run.induct)
  case Start
  then show ?case by (simp add: proc_sound_def serving_def)
next
  case (Step es p e p')
  then show ?case using proc_step_sound by blast
qed

text \<open>Without a signal the process only ends when the listener fails, with status 1.\<close>

lemma no_exit_unasked:
  assumes "proc_run defers es p" and "Signal \<notin> set es" and "ListenError \<notin> set es"
  shows "pc_exit p = None \<and> pc_main p = Serving \<and> pc_listener p = Listening"
proof -
  have "pc_exit p = None \<and> pc_main p = Serving \<and> pc_listener p = Listening \<and> \<not> pc_signalled p"
    using assms
  proof (induction rule: proc_run.induct)
    case (Step es p e p')
    then show ?case by (auto elim: proc_stepE)
  qed (simp add: serving_def)
  then show ?thesis by simp
qed

lemma removed_one: "n \<in> set xs \<Longrightarrow> n \<notin> set (remove1 k xs) \<Longrightarrow> k = n"
  by (metis in_set_remove1)

text \<open>A request that does not end, as an event stream whose client stays, keeps the process from ending with 0.\<close>

lemma open_stream_no_clean_exit:
  assumes "proc_run defers es p" and "Accept n \<in> set es" and "Finish n \<notin> set es"
  shows "n \<in> set (pc_inflight p) \<and> pc_exit p \<noteq> Some 0"
proof -
  have "n \<in> set (pc_inflight p)"
    using assms
  proof (induction rule: proc_run.induct)
    case (Step es p e p')
    show ?case
    proof (cases "e = Accept n")
      case True
      with Step.hyps(2) show ?thesis by (auto elim: proc_stepE)
    next
      case False
      with Step have "n \<in> set (pc_inflight p)" "e \<noteq> Finish n" by auto
      with Step.hyps(2) show ?thesis by (auto elim!: proc_stepE dest: removed_one)
    qed
  qed simp
  moreover have "pc_inflight p = []" if "pc_exit p = Some 0"
    using proc_run_sound [OF assms(1)] that by (auto simp: proc_sound_def)
  ultimately show ?thesis by auto
qed

text \<open>A shutdown that is not cut short ends: finishing the requests and running what is deferred leads to the status 0.\<close>

inductive_simps accept_iff: "proc_step p (Accept n) p'"

lemma deferred_run:
  assumes "proc_run defers es p" and "pc_exit p = None" and "pc_main p = Returning"
  shows "\<exists>es' p'. proc_run defers es' p' \<and> pc_exit p' = Some 0 \<and> ListenerExits \<notin> set es' - set es"
  using assms
proof (induction "pc_deferred p" arbitrary: es p)
  case Nil
  from proc_run.Step [OF Nil(2) proc_step.MainReturns [OF Nil(3,4) Nil(1) [symmetric]]]
  show ?case by fastforce
next
  case (Cons d ds)
  let ?p = "p\<lparr>pc_deferred := ds, pc_closed := pc_closed p @ [d]\<rparr>"
  have run: "proc_run defers (es @ [RunDeferred]) ?p"
    by (rule proc_run.Step [OF Cons(3) proc_step.RunDeferred [OF Cons(4,5) Cons(2) [symmetric]]])
  from Cons(1) [OF _ run] Cons(4,5)
  obtain es' p' where "proc_run defers es' p'" "pc_exit p' = Some 0" "ListenerExits \<notin> set es' - set (es @ [RunDeferred])"
    by auto
  then show ?case by auto
qed

text \<open>C19. What a graceful shutdown is worth.  If the process ends with status 0 it was asked to, every request it had
  accepted was finished, and every deferred call was run, in the order of \<open>defer\<close>.  But nothing makes it end so: from
  the moment \<open>Shutdown\<close> begins, at every point up to the end, the listener's goroutine can end it with status 1,
  leaving the requests being served unanswered and the deferred calls not run.\<close>

theorem graceful_shutdown_races:
  assumes "proc_run defers es p"
  shows "(pc_exit p = Some 0 \<longrightarrow> pc_signalled p \<and> pc_inflight p = [] \<and> pc_closed p = CancelShutdown # defers) \<and>
    (pc_main p \<noteq> Serving \<and> pc_exit p = None \<longrightarrow> (\<exists>p'. proc_step p ListenerExits p' \<and> pc_exit p' = Some 1 \<and>
       pc_inflight p' = pc_inflight p \<and> pc_deferred p' = pc_deferred p \<and> pc_closed p' = pc_closed p))"
  using proc_run_sound [OF assms] by (auto simp: proc_sound_def listener_exits)

text \<open>A request is being served when the signal comes; it is never answered.\<close>

definition cut_short :: proc where
  "cut_short = \<lparr>pc_signalled = True, pc_main = Draining, pc_listener = ServerClosed, pc_inflight = [7],
     pc_deferred = [CancelShutdown, ClosePool, SyncLogger], pc_closed = [], pc_exit = None\<rparr>"

lemma cut_short_reached: "proc_run [ClosePool, SyncLogger] [Accept 7, Signal, BeginShutdown] cut_short"
proof -
  let ?p1 = "(serving [ClosePool, SyncLogger])\<lparr>pc_inflight := [7]\<rparr>"
  have "proc_run [ClosePool, SyncLogger] ([] @ [Accept 7]) ?p1"
    using proc_run.Step [OF proc_run.Start proc_step.Accept [of "serving [ClosePool, SyncLogger]" 7]]
    by (simp add: serving_def)
  from proc_run.Step [OF this proc_step.Signal]
  have "proc_run [ClosePool, SyncLogger] [Accept 7, Signal] (?p1\<lparr>pc_signalled := True\<rparr>)" by (simp add: serving_def)
  from proc_run.Step [OF this proc_step.BeginShutdown]
  show ?thesis by (simp add: serving_def cut_short_def)
qed

theorem graceful_shutdown_races_witness:
  "\<exists>p'. proc_step cut_short ListenerExits p' \<and> pc_exit p' = Some 1 \<and> pc_inflight p' = [7] \<and> pc_closed p' = []"
  using graceful_shutdown_races [OF cut_short_reached] by (auto simp: cut_short_def)

end
