(* ===== verification/Spec2Isabelle.thy ===== *)
theory Spec2Isabelle
  imports Rules_Validator Versions Isolation Streaming Atomicity SDK_Agreement SDK_Usage SDK_Provider Process
    Request_Scope Documents Telemetry Seed Main_Program
begin

text \<open>
  A verification development for Flagstone, a feature-flag service in Go with many tenants.

  \<^bold>\<open>The program.\<close>  A server keeps projects, environments, flags and segments of its tenants in PostgreSQL and offers
  them through an HTTP API: people manage them with access tokens and roles, applications evaluate flags with API
  keys.  Changes are published on an event stream.  The SDK fetches a snapshot of an environment, evaluates with the
  same engine in memory, listens to the event stream, refreshes, keeps the snapshot in a store and reports usage
  counts.  Engine, validator, stores, middleware, handlers, hub and SDK are modelled below in this order; the
  handlers call the stores and the engine, publish to the hub, and the SDK reads what handlers and hub write.

  \<^bold>\<open>Which theory models which part.\<close>

  \<^item> \<open>Prelude\<close>: byte strings and package \<open>strings\<close>, tables and maps as lists, the collections of rules.
  \<^item> \<open>Values\<close>, \<open>Engine\<close>: \<open>pkg/engine\<close>; \<open>Engine_Correct\<close>: its properties.
  \<^item> \<open>Json\<close>: documents and what \<open>encoding/json\<close> makes of them; \<open>Wire\<close>: text the program writes and reads itself.
  \<^item> \<open>Rules_Validator\<close>: \<open>internal/api/rules_validator.go\<close>, with the property that ties it to the engine.
  \<^item> \<open>Auth\<close>, \<open>Auth_Correct\<close>: \<open>internal/auth\<close>.
  \<^item> \<open>Database\<close>: the rows of \<open>internal/storage/models.go\<close>, the constraints of \<open>migrations/\<close>, the running of
    statements; \<open>Stores_Identity\<close>, \<open>Stores_Config\<close>: the methods of \<open>internal/storage\<close>.
  \<^item> \<open>Http\<close>: requests, responses, transactions, the shared helpers of the handlers; \<open>Middleware\<close>:
    \<open>internal/api/middleware\<close>.
  \<^item> \<open>Handlers_Projects\<close>, \<open>Handlers_Flags\<close>, \<open>Handlers_Segments\<close>, \<open>Handlers_Auth\<close>, \<open>Handlers_Setup\<close>,
    \<open>Handlers_Evaluate\<close>: the handlers of \<open>internal/api\<close>, each with its guards in the order of the code; \<open>Routes\<close>: the table
    of routes, dispatch and cleanup of \<open>internal/api/server.go\<close>.
  \<^item> \<open>Request_Scope\<close>: \<open>context.go\<close>, \<open>request_id.go\<close>, \<open>logger.go\<close>, \<open>recover.go\<close> and \<open>response.go\<close> of
    \<open>internal/api/middleware\<close>: what a request carries, and replies as calls of a \<open>ResponseWriter\<close>.
  \<^item> \<open>Documents\<close>: the response structs of \<open>internal/api\<close> as JSON documents.
  \<^item> \<open>Process\<close>: \<open>internal/config\<close>, \<open>NewServer\<close>, readiness and the waiting for PostgreSQL; \<open>Main_Program\<close>: the start of
    \<open>cmd/flagstone/main.go\<close>, its mux and its end; \<open>internal/storage/store.go\<close>.
  \<^item> \<open>Telemetry\<close>: \<open>internal/telemetry\<close>, and the handlers again with what they measure; \<open>erase\<close> forgets the measurements
    and gives back the handler of the other theories.
  \<^item> \<open>Seed\<close>: \<open>cmd/seed/main.go\<close>, a client of the API's model.
  \<^item> \<open>Streaming\<close>: \<open>internal/streaming\<close>, hub and stream handlers as a transition system.
  \<^item> \<open>SDK_Stream\<close>, \<open>SDK_Snapshot\<close>, \<open>SDK_Store\<close>, \<open>SDK_Client\<close>, \<open>SDK_Provider\<close>: \<open>pkg/sdk\<close> with its OpenFeature provider;
    \<open>SDK_Usage\<close>: its usage reports, up to the server's reading of them.

  \<^bold>\<open>State.\<close>  The \<open>world\<close> of the server is the database, the published events, the windows of the rate limiters and what
  the program cannot determine (time, fresh identifiers, random bytes, faults), one value per step.  A handler is a
  function of the request and the world, so that every error path and every place where a statement may fail is a
  branch.  The hub's state is the record \<open>hub\<close>, shared by the steps of \<open>stream_step\<close>.  The client's state is
  \<open>sdk_client\<close> with the state of its store.

  \<^bold>\<open>What the lemmas show.\<close>

  \<^item> Engine: when it returns, panics of the callbacks included; it computes a reference semantics given as an inductive
    relation; first match; rollouts are exact (the bucket is the hash modulo 100) and monotone; results depend only on the attributes that rules mention; validated rules never make it warn.
  \<^item> \<open>Steps\<close>, \<open>Invariants\<close>: every request is a sequence of the stores' statements (\<open>db_step\<close>), and what each
    statement keeps (locale \<open>db_invariant\<close>) holds in every reachable state; \<open>db_relation\<close> is the same for two states.
  \<^item> \<open>Frames\<close> (locales \<open>db_frame\<close>, \<open>config_frame\<close>), \<open>Access\<close>, \<open>Isolation\<close>: who may do what, and what a request of one
    tenant cannot touch.  \<open>Versions\<close> (locale \<open>config_writes\<close>): no lost update.  \<open>Outcomes\<close>: the calculus \<open>yields\<close> that
    follows a handler reply by reply; \<open>Sessions\<close> uses it for login and the rotation of refresh tokens,
    \<open>Atomicity\<close> for the creations of projects, environments, flags and instances, which refine one atomic step each
    (\<open>project_made\<close>, \<open>environment_made\<close>, \<open>flag_made\<close>, \<open>instance_made\<close>): all of it is stored, or nothing.
  \<^item> \<open>Auth_Correct\<close>: base62 is invertible; an access token is accepted from the second of its issue to the last whole
    second of its lifetime, given what the JWT library documents.
  \<^item> \<open>Streaming\<close>: isolation, order, bounds, delivery by the steps of one stream (\<open>own_step\<close>), exactly when the process
    crashes, and that no event ever has an identifier.
  \<^item> \<open>SDK_Client_Correct\<close>, \<open>SDK_Agreement\<close>, \<open>SDK_Store\<close> (locale \<open>data_store\<close>, interpreted by both stores): the status is
    true, failures keep values, a restart evaluates the stored snapshot, no torn file, and the SDK evaluates as the
    server does.
  \<^item> \<open>Telemetry\<close>: the counters are true (\<open>auth_counters_true\<close>), and what an SDK counted is what the server adds
    (\<open>usage_reaches_metrics\<close>).  \<open>Seed\<close>: every failure is reported, and an interrupted run is not taken up again.
    \<open>Main_Program\<close>: a started process is configured and connected; what its exit status means.  \<open>Request_Scope\<close> (locale
    \<open>context_slot\<close>, interpreted for the five keys): the log line says what was sent.
  \<^item> \<open>Samples\<close>: a concrete server and database on which the theorems are tried.

  Findings are proved where the code differs from its documents: \<open>key_of_another_tenant_revoked\<close>,
  \<open>validator_bypass\<close>, \<open>over_cap_connection_crashes\<close>, \<open>broken_stream_loses_events\<close>, \<open>reconnect_replays_nothing\<close>,
  \<open>openfeature_key_misses_rollouts\<close>, \<open>interrupted_seed_not_resumed\<close>, \<open>graceful_shutdown_races\<close>, \<open>panic_counted_twice\<close>.

  \<^bold>\<open>Bounds.\<close>  No definition runs on fuel.  The engine recurses on the unvisited segments and the size of a condition, a measure
  its \<open>termination\<close> proof states; its depth limit of 10 is the code's.  The stream's readers recurse on the text.
  Go's \<open>int64\<close> is \<open>int\<close> with \<open>in_int64\<close> where a value is decoded; the rollout hash is computed on 32-bit words; a \<open>float64\<close> is
  its exact value, with the rounding of integers written out.  A number of a document has no bound (Go refuses one beyond
  the range of \<open>float64\<close>), and neither has the version of a row (a \<open>BIGINT\<close>).

  \<^bold>\<open>Parameters.\<close>  SHA-256, bcrypt, JWT, UUID texts, regular expressions, \<open>net.ParseIP\<close>, \<open>mail.ParseAddress\<close>, the parsers of
  times, and JSON text to documents are arguments (records \<open>crypto\<close>, \<open>server\<close>, \<open>sdk_env\<close>); a theorem that needs their
  behaviour says so in a hypothesis.

  \<^bold>\<open>Not modelled.\<close>  OpenTelemetry and Prometheus themselves, spans, and the values of duration histograms.  The texts
  of logs and messages, and headers other than the refresh cookie, the request identifier and what \<open>Request_Scope\<close>
  names.  The redirect with which the mux answers a path that is not clean.  The database driver and its pool; what
  \<open>JSONB\<close> does to the order of members and the form of numbers, and what \<open>CITEXT\<close> folds beyond ASCII; isolation of concurrent transactions is taken as serial, with serialization
  failures as faults.  Redis, of which only the replay buffer is seen.  Timeouts of \<open>http.Server\<close>.  Heartbeats of a stream
  and their timers.  The loss of power: a saved file is what the next process finds, \<open>Sync\<close> is only a call that can
  fail.  The SDK's example, test support, and the dashboard in \<open>web/\<close>, which is TypeScript and only
  calls the API.
\<close>

end
